(* ===== verification/WPI_Prelude.thy ===== *)
theory WPI_Prelude
  imports Main "HOL-Library.AList" "HOL-Library.Word" "HOL-Library.Sublist"
begin

text \<open>
  Shared vocabulary of the development: the part of Python that the sources use.

  \<^item> exceptions as values (\<open>exn\<close>) and a state and exception monad (\<open>pyM\<close>) in which
    a raised exception keeps the mutations made before it, as in Python;
  \<^item> byte strings and strings: both are lists of 8-bit characters, a \<open>str\<close> being held as its
    UTF-8 encoding, so that \<open>encode\<close> is the identity and \<open>decode\<close> a validity check;
  \<^item> \<open>str.split\<close>, \<open>str.strip\<close>, \<open>str(int)\<close>, \<open>int(str)\<close>, \<open>os.path.join\<close>;
  \<^item> dictionaries as association lists with distinct keys in insertion order;
  \<^item> the receiving end of a stream socket as the list of the chunks still to arrive.

  Only ASCII white space and ASCII digits are recognised by \<open>strip\<close> and \<open>int\<close>, and the
  interpreter's limit of 4300 digits for a conversion is not modelled: every number the sources
  convert is a rank, a count, a device number or a 64-bit size.
\<close>

named_theorems py_simps \<open>unfolding rules of the exception and state monad\<close>
named_theorems dict_simps \<open>lookup laws of dictionaries\<close>

section \<open>Exceptions and the state monad\<close>

datatype exn =
    Exception string
  | ValueError string
  | KeyError string
  | IndexError string
  | ZeroDivisionError string
  | AttributeError string
  | NameError string
  | OSError string
  | UnicodeDecodeError
  | AssertionError string
  | TimeoutError string
  | RuntimeError string
  | RpcError string string   \<comment> \<open>status code name and details, raised by a gRPC stub\<close>
  | TypeError string
  | NotImplementedError string

text \<open>\<open>str(e)\<close>.\<close>

fun exn_str :: "exn \<Rightarrow> string" where
  "exn_str (Exception m) = m"
| "exn_str (ValueError m) = m"
| "exn_str (KeyError k) = CHR 0x27 # k @ [CHR 0x27]"
| "exn_str (IndexError m) = m"
| "exn_str (ZeroDivisionError m) = m"
| "exn_str (AttributeError m) = m"
| "exn_str (NameError m) = m"
| "exn_str (OSError m) = m"
| "exn_str UnicodeDecodeError = ''invalid utf-8''"
| "exn_str (AssertionError m) = m"
| "exn_str (TimeoutError m) = m"
| "exn_str (RuntimeError m) = m"
| "exn_str (RpcError c d) = d"
| "exn_str (TypeError m) = m"
| "exn_str (NotImplementedError m) = m"

text \<open>
  A computation takes the state and returns the exception or the value, and the state after it.
  \<open>try_except m h\<close> runs the handler on any exception: the sources only use
  \<open>except Exception\<close> around code whose exceptions are all subclasses of it.
\<close>

type_synonym ('s, 'a) pyM = "'s \<Rightarrow> (exn + 'a) \<times> 's"

definition ret :: "'a \<Rightarrow> ('s, 'a) pyM" where
  "ret x = (\<lambda>s. (Inr x, s))"

definition raise_exn :: "exn \<Rightarrow> ('s, 'a) pyM" where
  "raise_exn e = (\<lambda>s. (Inl e, s))"

definition bindE :: "('s, 'a) pyM \<Rightarrow> ('a \<Rightarrow> ('s, 'b) pyM) \<Rightarrow> ('s, 'b) pyM" where
  "bindE m f = (\<lambda>s. case m s of (Inl e, s') \<Rightarrow> (Inl e, s') | (Inr x, s') \<Rightarrow> f x s')"

definition seqE :: "('s, 'a) pyM \<Rightarrow> ('s, 'b) pyM \<Rightarrow> ('s, 'b) pyM" where
  "seqE m k = bindE m (\<lambda>_. k)"

definition try_except :: "('s, 'a) pyM \<Rightarrow> (exn \<Rightarrow> ('s, 'a) pyM) \<Rightarrow> ('s, 'a) pyM" where
  "try_except m h = (\<lambda>s. case m s of (Inl e, s') \<Rightarrow> h e s' | (Inr x, s') \<Rightarrow> (Inr x, s'))"

definition getM :: "('s \<Rightarrow> 'a) \<Rightarrow> ('s, 'a) pyM" where
  "getM f = (\<lambda>s. (Inr (f s), s))"

definition modifyM :: "('s \<Rightarrow> 's) \<Rightarrow> ('s, unit) pyM" where
  "modifyM f = (\<lambda>s. (Inr (), f s))"

text \<open>A call whose outcome the environment decides: \<open>Some e\<close> is the exception it raises.\<close>

definition may_raise :: "exn option \<Rightarrow> ('s, unit) pyM" where
  "may_raise r = (case r of None \<Rightarrow> ret () | Some e \<Rightarrow> raise_exn e)"

definition lift_sum :: "exn + 'a \<Rightarrow> ('s, 'a) pyM" where
  "lift_sum r = (\<lambda>s. (r, s))"

text \<open>Expressions that raise but touch no state.\<close>

definition bindS :: "exn + 'a \<Rightarrow> ('a \<Rightarrow> exn + 'b) \<Rightarrow> exn + 'b" where
  "bindS r f = (case r of Inl e \<Rightarrow> Inl e | Inr x \<Rightarrow> f x)"

lemma bindS_simps [simp]: "bindS (Inl e) f = Inl e" "bindS (Inr x) f = f x"
  by (simp_all add: bindS_def)

text \<open>\<open>xs[i]\<close> for a non-negative index.\<close>

definition index :: "'a list \<Rightarrow> nat \<Rightarrow> exn + 'a" where
  "index xs i = (if i < length xs then Inr (xs ! i) else Inl (IndexError ''list index out of range''))"

lemmas monad_defs [py_simps] =
  ret_def raise_exn_def bindE_def seqE_def try_except_def getM_def modifyM_def may_raise_def
  lift_sum_def

lemma bindE_ret [simp]: "bindE (ret x) f = f x"
  by (simp add: bindE_def ret_def)

lemma bindE_raise [simp]: "bindE (raise_exn e) f = raise_exn e"
  by (simp add: bindE_def raise_exn_def)

lemma bindE_assoc: "bindE (bindE m f) g = bindE m (\<lambda>x. bindE (f x) g)"
  by (auto simp: bindE_def fun_eq_iff split: prod.splits sum.splits)

lemma bindE_Inr [intro]: "m s = (Inr x, s') \<Longrightarrow> bindE m f s = f x s'"
  by (simp add: bindE_def)

lemma bindE_Inl [intro]: "m s = (Inl e, s') \<Longrightarrow> bindE m f s = (Inl e, s')"
  by (simp add: bindE_def)

lemma seqE_Inr: "m s = (Inr x, s') \<Longrightarrow> seqE m k s = k s'"
  by (simp add: seqE_def bindE_def)

lemma seqE_Inl: "m s = (Inl e, s') \<Longrightarrow> seqE m k s = (Inl e, s')"
  by (simp add: seqE_def bindE_def)

text \<open>Elimination rules that walk backwards through a computation that returned.\<close>

lemma bindE_returns:
  assumes "bindE m f s = (Inr y, t)"
  obtains x s' where "m s = (Inr x, s')" "f x s' = (Inr y, t)"
  using assms by (auto simp: bindE_def split: prod.splits sum.splits)

lemma seqE_returns:
  assumes "seqE m k s = (Inr y, t)"
  obtains x s' where "m s = (Inr x, s')" "k s' = (Inr y, t)"
  using assms by (auto simp: seqE_def elim: bindE_returns)

lemma ret_returns [simp]: "ret x s = (Inr y, t) \<longleftrightarrow> y = x \<and> t = s"
  by (auto simp: ret_def)

lemma raise_returns [simp]: "raise_exn e s \<noteq> (Inr y, t)"
  by (simp add: raise_exn_def)

lemma getM_returns [simp]: "getM f s = (r, t) \<longleftrightarrow> r = Inr (f s) \<and> t = s"
  by (auto simp: getM_def)

lemma modifyM_returns [simp]: "modifyM f s = (r, t) \<longleftrightarrow> r = Inr () \<and> t = f s"
  by (auto simp: modifyM_def)

lemma bindE_ret_returns:
  "bindE m (\<lambda>x. ret (f x)) s = (Inr y, t) \<longleftrightarrow> (\<exists>x. m s = (Inr x, t) \<and> y = f x)"
  by (auto simp: bindE_def split: prod.splits sum.splits)

lemma seqE_returns_iff:
  "seqE m k s = (Inr y, t) \<longleftrightarrow> (\<exists>x u. m s = (Inr x, u) \<and> k u = (Inr y, t))"
  by (auto simp: seqE_def bindE_def split: prod.splits sum.splits)

lemma bindE_returns_iff:
  "bindE m f s = (Inr y, t) \<longleftrightarrow> (\<exists>x u. m s = (Inr x, u) \<and> f x u = (Inr y, t))"
  by (auto simp: bindE_def split: prod.splits sum.splits)

text \<open>Rules that run a computation step by step.\<close>

lemma run_simps:
  "bindE (getM h) k s = k (h s) s" "bindE (lift_sum (Inr y)) k s = k y s" "seqE (ret u) j s = j s"
  "seqE (modifyM m) j s = j (m s)" "bindE (lift_sum (Inl e)) k s = (Inl e, s)"
  "bindE (raise_exn e) k s = (Inl e, s)" "ret x s = (Inr x, s)" "modifyM m s = (Inr (), m s)"
  by (simp_all add: bindE_def getM_def lift_sum_def seqE_def ret_def modifyM_def raise_exn_def)

lemmas returns_elims = bindE_returns seqE_returns

text \<open>
  An invariant-style rule for the monad: a predicate on states that every primitive step keeps is
  kept by the composed computation, whether it returns or raises.
\<close>

definition keeps :: "('s \<Rightarrow> bool) \<Rightarrow> ('s, 'a) pyM \<Rightarrow> bool" where
  "keeps P m \<longleftrightarrow> (\<forall>s. P s \<longrightarrow> P (snd (m s)))"

named_theorems keeps_intro \<open>rules for invariants kept by computations\<close>

lemma keepsI: "(\<And>s. P s \<Longrightarrow> P (snd (m s))) \<Longrightarrow> keeps P m"
  by (simp add: keeps_def)

lemma keepsD: "keeps P m \<Longrightarrow> P s \<Longrightarrow> P (snd (m s))"
  by (simp add: keeps_def)

lemma keeps_ret [keeps_intro]: "keeps P (ret x)"
  by (simp add: keeps_def ret_def)

lemma keeps_raise [keeps_intro]: "keeps P (raise_exn e)"
  by (simp add: keeps_def raise_exn_def)

lemma keeps_getM [keeps_intro]: "keeps P (getM f)"
  by (simp add: keeps_def getM_def)

lemma keeps_may_raise [keeps_intro]: "keeps P (may_raise r)"
  by (cases r) (simp_all add: may_raise_def keeps_ret keeps_raise)

lemma keeps_lift_sum [keeps_intro]: "keeps P (lift_sum r)"
  by (simp add: keeps_def lift_sum_def)

lemma keeps_bindE [keeps_intro]: "keeps P m \<Longrightarrow> (\<And>x. keeps P (f x)) \<Longrightarrow> keeps P (bindE m f)"
proof (rule keepsI)
  fix s assume m: "keeps P m" and f: "\<And>x. keeps P (f x)" and s: "P s"
  obtain r s' where ms: "m s = (r, s')" by (cases "m s")
  with keepsD [OF m s] have "P s'" by simp
  with ms f show "P (snd (bindE m f s))"
    by (cases r) (auto simp: bindE_def dest: keepsD)
qed

lemma keeps_seqE [keeps_intro]: "keeps P m \<Longrightarrow> keeps P k \<Longrightarrow> keeps P (seqE m k)"
  unfolding seqE_def by (rule keeps_bindE)

lemma keeps_try [keeps_intro]: "keeps P m \<Longrightarrow> (\<And>e. keeps P (h e)) \<Longrightarrow> keeps P (try_except m h)"
proof (rule keepsI)
  fix s assume m: "keeps P m" and h: "\<And>e. keeps P (h e)" and s: "P s"
  obtain r s' where ms: "m s = (r, s')" by (cases "m s")
  with keepsD [OF m s] have "P s'" by simp
  with ms h show "P (snd (try_except m h s))"
    by (cases r) (auto simp: try_except_def dest: keepsD)
qed

lemma keeps_if [keeps_intro]: "keeps P m \<Longrightarrow> keeps P k \<Longrightarrow> keeps P (if b then m else k)"
  by simp

lemma keeps_modifyM: "(\<And>s. P s \<Longrightarrow> P (f s)) \<Longrightarrow> keeps P (modifyM f)"
  by (simp add: keeps_def modifyM_def)

text \<open>A \<open>for\<close> loop over a list; an exception leaves the loop.\<close>

primrec for_each :: "('a \<Rightarrow> ('s, unit) pyM) \<Rightarrow> 'a list \<Rightarrow> ('s, unit) pyM" where
  "for_each f [] = ret ()"
| "for_each f (x # xs) = seqE (f x) (for_each f xs)"

lemma keeps_for_each [keeps_intro]:
  "(\<And>x. x \<in> set xs \<Longrightarrow> keeps P (f x)) \<Longrightarrow> keeps P (for_each f xs)"
  by (induction xs) (auto intro: keeps_ret keeps_seqE)

section \<open>Bytes and strings\<close>

type_synonym bytes = "char list"

definition code :: "char \<Rightarrow> nat" where
  "code c = of_char c"

lemma code_char_of [simp]: "n < 256 \<Longrightarrow> code (char_of n) = n"
  by (simp add: code_def)

definition cont_byte :: "char \<Rightarrow> bool" where
  "cont_byte c \<longleftrightarrow> 128 \<le> code c \<and> code c \<le> 191"

text \<open>Well-formed UTF-8 (RFC 3629): what \<open>bytes.decode('utf-8')\<close> accepts.\<close>

fun utf8_valid :: "bytes \<Rightarrow> bool" where
  "utf8_valid [] = True"
| "utf8_valid (a # s) =
     (let n = code a in
      if n < 128 then utf8_valid s
      else if 194 \<le> n \<and> n \<le> 223 then
        (case s of b # r \<Rightarrow> cont_byte b \<and> utf8_valid r | _ \<Rightarrow> False)
      else if 224 \<le> n \<and> n \<le> 239 then
        (case s of b # c # r \<Rightarrow>
           cont_byte b \<and> cont_byte c \<and> (n = 224 \<longrightarrow> 160 \<le> code b) \<and> (n = 237 \<longrightarrow> code b \<le> 159)
           \<and> utf8_valid r
         | _ \<Rightarrow> False)
      else if 240 \<le> n \<and> n \<le> 244 then
        (case s of b # c # d # r \<Rightarrow>
           cont_byte b \<and> cont_byte c \<and> cont_byte d \<and> (n = 240 \<longrightarrow> 144 \<le> code b)
           \<and> (n = 244 \<longrightarrow> code b \<le> 143) \<and> utf8_valid r
         | _ \<Rightarrow> False)
      else False)"

definition decode_utf8 :: "bytes \<Rightarrow> exn + string" where
  "decode_utf8 b = (if utf8_valid b then Inr b else Inl UnicodeDecodeError)"

definition ascii :: "string \<Rightarrow> bool" where
  "ascii s \<longleftrightarrow> list_all (\<lambda>c. code c < 128) s"

lemma ascii_utf8_valid: "ascii s \<Longrightarrow> utf8_valid s"
  by (induction s) (auto simp: ascii_def Let_def)

lemma decode_ascii [simp]: "ascii s \<Longrightarrow> decode_utf8 s = Inr s"
  by (simp add: decode_utf8_def ascii_utf8_valid)

text \<open>\<open>b in s\<close> for byte strings: a contiguous occurrence.\<close>

definition contains :: "bytes \<Rightarrow> bytes \<Rightarrow> bool" where
  "contains sub s \<longleftrightarrow> (\<exists>t\<in>set (suffixes s). prefix sub t)"

lemma contains_sublist: "contains sub s \<longleftrightarrow> sublist sub s"
  unfolding contains_def sublist_altdef' by (simp add: Bex_def conj_commute)

definition startswith :: "string \<Rightarrow> string \<Rightarrow> bool" where
  "startswith s p \<longleftrightarrow> prefix p s"

text \<open>\<open>s.split(c, n)\<close> and \<open>s.split(c)\<close> for a one-character separator.\<close>

fun split_max :: "char \<Rightarrow> nat \<Rightarrow> bytes \<Rightarrow> bytes list" where
  "split_max c 0 s = [s]"
| "split_max c (Suc n) s =
     (case dropWhile (\<lambda>x. x \<noteq> c) s of
        [] \<Rightarrow> [s]
      | _ # t \<Rightarrow> takeWhile (\<lambda>x. x \<noteq> c) s # split_max c n t)"

definition split_all :: "char \<Rightarrow> bytes \<Rightarrow> bytes list" where
  "split_all c s = split_max c (length s) s"

lemma split_max_cut:
  "c \<notin> set h \<Longrightarrow> split_max c (Suc n) (h @ c # t) = h # split_max c n t"
proof -
  assume h: "c \<notin> set h"
  have "dropWhile (\<lambda>x. x \<noteq> c) (h @ c # t) = c # t"
    using h by (induction h) auto
  moreover have "takeWhile (\<lambda>x. x \<noteq> c) (h @ c # t) = h"
    using h by (induction h) auto
  ultimately show ?thesis by simp
qed

lemma split_max_whole: "c \<notin> set s \<Longrightarrow> split_max c n s = [s]"
proof -
  assume "c \<notin> set s"
  then have "dropWhile (\<lambda>x. x \<noteq> c) s = []" by (induction s) auto
  then show ?thesis by (cases n) (simp_all del: dropWhile_eq_Nil_conv)
qed

lemma split_max_nonempty: "split_max c n s \<noteq> []"
  by (cases n) (auto split: list.splits)

lemma split_max_length: "length (split_max c n s) \<le> Suc n"
  by (induction c n s rule: split_max.induct) (auto split: list.splits)

text \<open>\<open>s.split(sep)[0]\<close> for a longer separator: what comes before its first occurrence.\<close>

fun before_sep :: "string \<Rightarrow> string \<Rightarrow> string" where
  "before_sep sep [] = []"
| "before_sep sep (c # s) = (if prefix sep (c # s) then [] else c # before_sep sep s)"

section \<open>Numbers and text\<close>

definition is_space :: "char \<Rightarrow> bool" where
  "is_space c \<longleftrightarrow> (9 \<le> code c \<and> code c \<le> 13) \<or> (28 \<le> code c \<and> code c \<le> 32)"

definition lstrip :: "string \<Rightarrow> string" where
  "lstrip s = dropWhile is_space s"

definition strip :: "string \<Rightarrow> string" where
  "strip s = rev (dropWhile is_space (rev (lstrip s)))"

definition is_digit :: "char \<Rightarrow> bool" where
  "is_digit c \<longleftrightarrow> 48 \<le> code c \<and> code c \<le> 57"

definition digit_val :: "char \<Rightarrow> nat" where
  "digit_val c = code c - 48"

definition digit_char :: "nat \<Rightarrow> char" where
  "digit_char d = char_of (48 + d)"

text \<open>The rest of a decimal literal: digits, with single underscores between digits.\<close>

fun digits_val :: "nat \<Rightarrow> string \<Rightarrow> nat option" where
  "digits_val acc [] = Some acc"
| "digits_val acc (c # s) =
     (if is_digit c then digits_val (10 * acc + digit_val c) s
      else if c = CHR ''_'' then
        (case s of d # r \<Rightarrow> if is_digit d then digits_val (10 * acc + digit_val d) r else None
         | [] \<Rightarrow> None)
      else None)"

definition parse_nat :: "string \<Rightarrow> nat option" where
  "parse_nat s = (case s of c # r \<Rightarrow> if is_digit c then digits_val (digit_val c) r else None
                  | [] \<Rightarrow> None)"

text \<open>\<open>int(s)\<close>.\<close>

definition py_int :: "string \<Rightarrow> exn + int" where
  "py_int s =
     (let t = strip s;
          r = (case t of
                 c # u \<Rightarrow> if c = CHR ''-'' then map_option (\<lambda>n. - int n) (parse_nat u)
                          else if c = CHR ''+'' then map_option int (parse_nat u)
                          else map_option int (parse_nat t)
               | [] \<Rightarrow> None)
      in case r of Some i \<Rightarrow> Inr i | None \<Rightarrow> Inl (ValueError ''invalid literal for int()''))"

text \<open>\<open>str(i)\<close>.\<close>

fun str_nat :: "nat \<Rightarrow> string" where
  "str_nat n = (if n < 10 then [digit_char n] else str_nat (n div 10) @ [digit_char (n mod 10)])"

declare str_nat.simps [simp del]

definition str_int :: "int \<Rightarrow> string" where
  "str_int i = (if i < 0 then CHR ''-'' # str_nat (nat (- i)) else str_nat (nat i))"


lemma code_digit_char [simp]: "d < 10 \<Longrightarrow> code (digit_char d) = 48 + d"
  by (simp add: digit_char_def)

lemma is_digit_char [simp]: "d < 10 \<Longrightarrow> is_digit (digit_char d)"
  by (simp add: is_digit_def)

lemma digit_val_char [simp]: "d < 10 \<Longrightarrow> digit_val (digit_char d) = d"
  by (simp add: digit_val_def)

lemma digits_val_append:
  "list_all is_digit s \<Longrightarrow>
   digits_val acc (s @ t) = (case digits_val acc s of None \<Rightarrow> None | Some n \<Rightarrow> digits_val n t)"
  by (induction s arbitrary: acc) auto

lemma digits_val_digits: "list_all is_digit s \<Longrightarrow> \<exists>n. digits_val acc s = Some n"
  by (induction s arbitrary: acc) auto

lemma str_nat_digits: "list_all is_digit (str_nat n)"
proof (induction n rule: str_nat.induct)
  case (1 n)
  then show ?case by (subst str_nat.simps) auto
qed

lemma str_nat_nonempty [simp]: "str_nat n \<noteq> []"
  by (subst str_nat.simps) simp

lemma parse_nat_snoc:
  assumes "parse_nat s = Some m" "list_all is_digit s" "d < 10"
  shows "parse_nat (s @ [digit_char d]) = Some (10 * m + d)"
  using assms
  by (cases s) (auto simp: parse_nat_def digits_val_append split: if_splits option.splits)

lemma parse_str_nat [simp]: "parse_nat (str_nat n) = Some n"
proof (induction n rule: str_nat.induct)
  case (1 n)
  show ?case
  proof (cases "n < 10")
    case True
    then show ?thesis by (subst str_nat.simps) (simp add: parse_nat_def)
  next
    case False
    with 1 have "parse_nat (str_nat (n div 10)) = Some (n div 10)" by simp
    then have "parse_nat (str_nat (n div 10) @ [digit_char (n mod 10)]) = Some (10 * (n div 10) + n mod 10)"
      by (rule parse_nat_snoc) (simp_all add: str_nat_digits)
    with False show ?thesis by (subst str_nat.simps) simp
  qed
qed

lemma digit_no_space: "is_digit c \<Longrightarrow> \<not> is_space c"
  by (auto simp: is_digit_def is_space_def)

lemma dropWhile_none: "list_all (\<lambda>c. \<not> P c) s \<Longrightarrow> dropWhile P s = s"
  by (cases s) auto

lemma strip_no_space: "list_all (\<lambda>c. \<not> is_space c) s \<Longrightarrow> strip s = s"
  by (simp add: strip_def lstrip_def dropWhile_none)

lemma code_minus [simp]: "code CHR ''-'' = 45" and code_plus [simp]: "code CHR ''+'' = 43"
  by (simp_all add: code_def)

lemma str_int_no_space: "list_all (\<lambda>c. \<not> is_space c) (str_int i)"
  using str_nat_digits [of "nat i"] str_nat_digits [of "nat (- i)"]
  by (auto simp: str_int_def list_all_iff digit_no_space is_space_def [of "CHR ''-''"])

text \<open>Numbers survive printing and parsing.\<close>

lemma py_int_str_int [simp]: "py_int (str_int i) = Inr i"
proof -
  have st: "strip (str_int i) = str_int i" by (rule strip_no_space [OF str_int_no_space])
  show ?thesis
  proof (cases "i < 0")
    case True
    then show ?thesis unfolding py_int_def st by (simp add: str_int_def Let_def)
  next
    case False
    obtain c u where cu: "str_nat (nat i) = c # u" by (cases "str_nat (nat i)") auto
    with str_nat_digits [of "nat i"] have "is_digit c" by simp
    then have "c \<noteq> CHR ''-''" "c \<noteq> CHR ''+''" by (auto simp: is_digit_def)
    moreover have "parse_nat (c # u) = Some (nat i)" by (simp flip: cu)
    ultimately show ?thesis
      using False cu unfolding py_int_def st by (simp add: str_int_def Let_def)
  qed
qed

lemma str_nat_chars: "c \<in> set (str_nat n) \<Longrightarrow> is_digit c"
  using str_nat_digits [of n] by (auto simp: list_all_iff)

lemma str_int_chars: "c \<in> set (str_int i) \<Longrightarrow> is_digit c \<or> c = CHR ''-''"
  by (auto simp: str_int_def dest: str_nat_chars split: if_splits)

lemma ascii_str_int: "ascii (str_int i)"
  by (auto simp: ascii_def list_all_iff is_digit_def dest: str_int_chars)

lemma str_int_inj [simp]: "str_int i = str_int j \<longleftrightarrow> i = j"
  by (metis py_int_str_int sum.inject(2))

text \<open>\<open>repr\<close> of a byte string.\<close>

definition hex_digit :: "nat \<Rightarrow> char" where
  "hex_digit n = (if n < 10 then char_of (48 + n) else char_of (87 + n))"

definition repr_byte :: "char \<Rightarrow> char \<Rightarrow> string" where
  "repr_byte q c =
     (if c = q \<or> c = CHR 0x5C then [CHR 0x5C, c]
      else if code c = 9 then [CHR 0x5C, CHR ''t'']
      else if code c = 10 then [CHR 0x5C, CHR ''n'']
      else if code c = 13 then [CHR 0x5C, CHR ''r'']
      else if code c < 32 \<or> 127 \<le> code c
        then [CHR 0x5C, CHR ''x'', hex_digit (code c div 16), hex_digit (code c mod 16)]
      else [c])"

definition repr_bytes :: "bytes \<Rightarrow> string" where
  "repr_bytes b =
     (let q = (if CHR 0x27 \<in> set b \<and> CHR 0x22 \<notin> set b then CHR 0x22 else CHR 0x27)
      in CHR ''b'' # q # concat (map (repr_byte q) b) @ [q])"

section \<open>Paths\<close>

text \<open>\<open>os.path.join(d, n)\<close> on POSIX, for a directory that does not end in a slash.\<close>

definition path_join :: "string \<Rightarrow> string \<Rightarrow> string" where
  "path_join d n = (if startswith n ''/'' then n
                    else if d = [] \<or> last d = CHR ''/'' then d @ n else d @ ''/'' @ n)"

section \<open>Dictionaries\<close>

text \<open>
  A Python dictionary is an association list with distinct keys: assignment to a present key keeps
  its position, assignment to a new key appends, which is what \<open>AList.update\<close> does.
\<close>

type_synonym 'v dict = "(string \<times> 'v) list"

abbreviation dget :: "('k \<times> 'v) list \<Rightarrow> 'k \<Rightarrow> 'v option" where
  "dget d k \<equiv> map_of d k"

abbreviation dput :: "('k \<times> 'v) list \<Rightarrow> 'k \<Rightarrow> 'v \<Rightarrow> ('k \<times> 'v) list" where
  "dput d k v \<equiv> AList.update k v d"

abbreviation ddel :: "('k \<times> 'v) list \<Rightarrow> 'k \<Rightarrow> ('k \<times> 'v) list" where
  "ddel d k \<equiv> AList.delete k d"

definition dict_ok :: "('k \<times> 'v) list \<Rightarrow> bool" where
  "dict_ok d \<longleftrightarrow> distinct (map fst d)"

lemma dget_dput [dict_simps, simp]: "dget (dput d k v) k' = (if k' = k then Some v else dget d k')"
  by (simp add: update_conv')

lemma dget_ddel [dict_simps, simp]: "dget (ddel d k) k' = (if k' = k then None else dget d k')"
  by (simp add: delete_conv')

lemma dict_ok_dput [simp, intro]: "dict_ok d \<Longrightarrow> dict_ok (dput d k v)"
  by (simp add: dict_ok_def distinct_update)

lemma dict_ok_ddel [simp, intro]: "dict_ok d \<Longrightarrow> dict_ok (ddel d k)"
  by (simp add: dict_ok_def distinct_delete)

lemma dict_ok_Nil [simp]: "dict_ok []"
  by (simp add: dict_ok_def)

lemma keys_dom: "set (map fst d) = dom (map_of d)"
  by (simp add: dom_map_of_conv_image_fst)

section \<open>Stream sockets\<close>

text \<open>
  What a peer sends arrives in chunks of the network's choosing. \<open>recv(n)\<close> returns at most
  \<open>n\<close> bytes of the next chunk; an exhausted list is a closed connection, for which \<open>recv\<close>
  returns the empty byte string.
\<close>

fun recv :: "nat \<Rightarrow> bytes list \<Rightarrow> bytes \<times> bytes list" where
  "recv n [] = ([], [])"
| "recv n (c # cs) = (take n c, if length c \<le> n then cs else drop n c # cs)"

lemma recv_concat: "recv n cs = (b, cs') \<Longrightarrow> b @ concat cs' = concat cs"
  by (cases cs) (auto split: if_splits)

lemma recv_length: "recv n cs = (b, cs') \<Longrightarrow> length b \<le> n"
  by (cases cs) auto

section \<open>Waiting without a limit\<close>

text \<open>\<open>while not test: sleep\<close>, where the test is answered by the number of the attempt.\<close>

partial_function (option) poll_until :: "(nat \<Rightarrow> bool) \<Rightarrow> nat \<Rightarrow> nat option" where
  "poll_until test n = (if test n then Some n else poll_until test (n + 1))"

lemma poll_until_found: "test (n + k) \<Longrightarrow> \<exists>m. poll_until test n = Some m"
proof (induction k arbitrary: n)
  case 0
  then show ?case by (simp add: poll_until.simps)
next
  case (Suc k)
  then have "\<exists>m. poll_until test (n + 1) = Some m" by simp
  then show ?case by (auto simp: poll_until.simps [of test n])
qed

lemma poll_until_result: "poll_until test n = Some m \<Longrightarrow> n \<le> m \<and> test m"
  by (rule poll_until.raw_induct [of "\<lambda>test n m. n \<le> m \<and> test m"]) (fastforce split: if_splits)+

lemma poll_until_ends_iff: "(\<exists>m. poll_until test n = Some m) \<longleftrightarrow> (\<exists>m\<ge>n. test m)"
  using poll_until_found [of test n] poll_until_result [of test n] by (metis le_iff_add)

section \<open>Runs of a labelled transition system\<close>

inductive runs :: "('s \<Rightarrow> 'a \<Rightarrow> 's \<Rightarrow> bool) \<Rightarrow> 's \<Rightarrow> 'a list \<Rightarrow> 's \<Rightarrow> bool" for step where
  runs_Nil: "runs step s [] s"
| runs_Cons: "step s a t \<Longrightarrow> runs step t as u \<Longrightarrow> runs step s (a # as) u"

inductive_cases runs_NilE: "runs step s [] t"
inductive_cases runs_ConsE: "runs step s (a # as) t"

lemma runs_append:
  assumes "runs step s as t" "runs step t bs u" shows "runs step s (as @ bs) u"
  using assms by (induction rule: runs.induct) (auto intro: runs.intros)

definition reachable :: "('s \<Rightarrow> bool) \<Rightarrow> ('s \<Rightarrow> 'a \<Rightarrow> 's \<Rightarrow> bool) \<Rightarrow> 's \<Rightarrow> bool" where
  "reachable start step t \<longleftrightarrow> (\<exists>s as. start s \<and> runs step s as t)"

text \<open>What it takes for a predicate to hold in every reachable state.\<close>

locale invariant_system =
  fixes start :: "'s \<Rightarrow> bool" and step :: "'s \<Rightarrow> 'a \<Rightarrow> 's \<Rightarrow> bool" and I :: "'s \<Rightarrow> bool"
  assumes at_start: "start s \<Longrightarrow> I s"
    and at_step: "step s a t \<Longrightarrow> I s \<Longrightarrow> I t"
begin

lemma along_run: "runs step s as t \<Longrightarrow> I s \<Longrightarrow> I t"
  by (induction rule: runs.induct) (auto intro: at_step)

lemma when_reachable: "reachable start step t \<Longrightarrow> I t"
  by (auto simp: reachable_def intro: along_run at_start)

end

end
