(* ===== verification/Cuda_Allocator.thy ===== *)
theory Cuda_Allocator
  imports WPI_Prelude
begin

text \<open>
  The driver's CUDA allocator: \<open>class CudaAllocator\<close> of \<open>driver/main.py\<close> with the ctypes
  structures it fills in. The CUDA driver library itself is a parameter (\<open>libcuda\<close>): a record of
  functions on an abstract device state \<open>'g\<close>, each returning the error code, the value of its
  out-parameter and the new device state. What the allocator relies on is stated as
  \<open>vmm_laws\<close>, the documented behaviour of CUDA's virtual memory management calls in terms of the
  physical allocations, address reservations and mappings that exist on the device.
\<close>

section \<open>The ctypes structures\<close>

type_synonym u64 = "64 word"
type_synonym c_int = "32 word"

definition CU_MEM_ALLOCATION_TYPE_PINNED :: c_int where
  "CU_MEM_ALLOCATION_TYPE_PINNED = 1"

definition CU_MEM_HANDLE_TYPE_POSIX_FILE_DESCRIPTOR :: c_int where
  "CU_MEM_HANDLE_TYPE_POSIX_FILE_DESCRIPTOR = 1"

definition CU_MEM_LOCATION_TYPE_DEVICE :: c_int where
  "CU_MEM_LOCATION_TYPE_DEVICE = 1"

definition CU_MEM_ALLOC_GRANULARITY_MINIMUM :: c_int where
  "CU_MEM_ALLOC_GRANULARITY_MINIMUM = 0"

definition CU_MEM_ACCESS_FLAGS_PROT_READWRITE :: c_int where
  "CU_MEM_ACCESS_FLAGS_PROT_READWRITE = 3"

record CUmemLocation =
  loc_type :: c_int
  loc_id :: c_int

record CUmemAccessDesc =
  desc_location :: CUmemLocation
  desc_flags :: c_int

record AllocFlags =
  compressionType :: "8 word"
  gpuDirectRDMACapable :: "8 word"
  usage :: "16 word"
  reserved :: "8 word list"

record CUmemAllocationProp =
  prop_type :: c_int
  requestedHandleTypes :: c_int
  prop_location :: CUmemLocation
  win32HandleMetaData :: u64
  allocFlags :: AllocFlags

definition zero_flags :: AllocFlags where
  "zero_flags = \<lparr>compressionType = 0, gpuDirectRDMACapable = 0, usage = 0, reserved = [0, 0, 0, 0]\<rparr>"

text \<open>The property block both the driver and the client fill in for device \<open>dev\<close>.\<close>

definition device_prop :: "int \<Rightarrow> CUmemAllocationProp" where
  "device_prop dev =
     \<lparr>prop_type = CU_MEM_ALLOCATION_TYPE_PINNED,
      requestedHandleTypes = CU_MEM_HANDLE_TYPE_POSIX_FILE_DESCRIPTOR,
      prop_location = \<lparr>loc_type = CU_MEM_LOCATION_TYPE_DEVICE, loc_id = word_of_int dev\<rparr>,
      win32HandleMetaData = 0,
      allocFlags = zero_flags\<rparr>"

definition device_access :: "int \<Rightarrow> CUmemAccessDesc" where
  "device_access dev =
     \<lparr>desc_location = \<lparr>loc_type = CU_MEM_LOCATION_TYPE_DEVICE, loc_id = word_of_int dev\<rparr>,
      desc_flags = CU_MEM_ACCESS_FLAGS_PROT_READWRITE\<rparr>"

section \<open>The CUDA driver library as a parameter\<close>

record 'g libcuda =
  cuInit :: "int \<Rightarrow> 'g \<Rightarrow> int \<times> 'g"
  cuDeviceGet :: "int \<Rightarrow> 'g \<Rightarrow> (int \<times> c_int) \<times> 'g"
  cuCtxCreate_v2 :: "int \<Rightarrow> c_int \<Rightarrow> 'g \<Rightarrow> (int \<times> u64) \<times> 'g"
  cuCtxSetCurrent :: "u64 \<Rightarrow> 'g \<Rightarrow> int \<times> 'g"
  cuMemGetAllocationGranularity :: "CUmemAllocationProp \<Rightarrow> c_int \<Rightarrow> 'g \<Rightarrow> (int \<times> u64) \<times> 'g"
  cuMemCreate :: "u64 \<Rightarrow> CUmemAllocationProp \<Rightarrow> 'g \<Rightarrow> (int \<times> u64) \<times> 'g"
  cuMemExportToShareableHandle :: "u64 \<Rightarrow> c_int \<Rightarrow> 'g \<Rightarrow> (int \<times> c_int) \<times> 'g"
  cuMemAddressReserve :: "u64 \<Rightarrow> u64 \<Rightarrow> 'g \<Rightarrow> (int \<times> u64) \<times> 'g"
  cuMemMap :: "u64 \<Rightarrow> u64 \<Rightarrow> u64 \<Rightarrow> 'g \<Rightarrow> int \<times> 'g"
  cuMemSetAccess :: "u64 \<Rightarrow> u64 \<Rightarrow> CUmemAccessDesc \<Rightarrow> 'g \<Rightarrow> int \<times> 'g"
  cuMemUnmap :: "u64 \<Rightarrow> u64 \<Rightarrow> 'g \<Rightarrow> int \<times> 'g"
  cuMemAddressFree :: "u64 \<Rightarrow> u64 \<Rightarrow> 'g \<Rightarrow> int \<times> 'g"
  cuMemRelease :: "u64 \<Rightarrow> 'g \<Rightarrow> int \<times> 'g"

section \<open>The allocator's state and methods\<close>

record 'g cuda_allocator =
  contexts :: "(int \<times> u64) list"
  devices :: "(int \<times> int) list"
  alloc_device :: "int option"
  alloc_ctx :: "u64 option"
  gpu :: 'g

text \<open>One call into the library, and the sources' \<open>if ... != 0: raise Exception(msg)\<close>.\<close>

definition cu_call :: "('g \<Rightarrow> 'r \<times> 'g) \<Rightarrow> ('g cuda_allocator, 'r) pyM" where
  "cu_call f = (\<lambda>s. let (r, g) = f (gpu s) in (Inr r, s\<lparr>gpu := g\<rparr>))"

definition check_err :: "int \<Rightarrow> string \<Rightarrow> ('s, unit) pyM" where
  "check_err err msg = (if err \<noteq> 0 then raise_exn (Exception msg) else ret ())"

definition get_or_create_context :: "'g libcuda \<Rightarrow> int \<Rightarrow> ('g cuda_allocator, u64) pyM" where
  "get_or_create_context L device_id =
     bindE (getM contexts) (\<lambda>cs.
       case dget cs device_id of
         Some c \<Rightarrow> ret c
       | None \<Rightarrow>
           bindE (cu_call (cuDeviceGet L device_id)) (\<lambda>(err, dev).
           seqE (check_err err (''cuDeviceGet failed for device '' @ str_int device_id)) (
           bindE (cu_call (cuCtxCreate_v2 L 0 dev)) (\<lambda>(err, c).
           seqE (check_err err (''cuCtxCreate failed for device '' @ str_int device_id)) (
           seqE (modifyM (\<lambda>s. s\<lparr>contexts := dput (contexts s) device_id c,
                                devices := dput (devices s) device_id (sint dev)\<rparr>))
                (ret c))))))"

text \<open>
  The size rounding of \<open>allocate_and_export\<close>; Python's \<open>%\<close> raises on a zero granularity, which
  is what an unchecked failure of \<open>cuMemGetAllocationGranularity\<close> leaves in the out-parameter.
\<close>

definition round_up :: "int \<Rightarrow> int \<Rightarrow> int" where
  "round_up size_bytes g =
     (if size_bytes mod g \<noteq> 0 then (size_bytes div g + 1) * g else size_bytes)"

definition allocate_and_export ::
  "'g libcuda \<Rightarrow> int \<Rightarrow> int \<Rightarrow> ('g cuda_allocator, int \<times> int \<times> int) pyM" where
  "allocate_and_export L size_bytes device_id =
     bindE (get_or_create_context L device_id) (\<lambda>c.
     bindE (cu_call (cuCtxSetCurrent L c)) (\<lambda>_.
     bindE (getM devices) (\<lambda>ds.
       case dget ds device_id of
         None \<Rightarrow> raise_exn (KeyError (str_int device_id))
       | Some dev \<Rightarrow>
           bindE (cu_call (cuMemGetAllocationGranularity L (device_prop dev)
                             CU_MEM_ALLOC_GRANULARITY_MINIMUM)) (\<lambda>(_, granularity).
           if uint granularity = 0 then raise_exn (ZeroDivisionError ''integer modulo by zero'')
           else
             let size = word_of_int (round_up size_bytes (uint granularity)) in
             bindE (cu_call (cuMemCreate L size (device_prop dev))) (\<lambda>(err, handle).
             seqE (check_err err ''cuMemCreate failed'') (
             bindE (cu_call (cuMemExportToShareableHandle L handle
                               CU_MEM_HANDLE_TYPE_POSIX_FILE_DESCRIPTOR)) (\<lambda>(err, shareable).
             seqE (check_err err ''cuMemExportToShareableHandle failed'') (
             bindE (cu_call (cuMemAddressReserve L size 0)) (\<lambda>(err, ptr).
             seqE (check_err err ''cuMemAddressReserve failed'') (
             bindE (cu_call (cuMemMap L ptr size handle)) (\<lambda>err.
             seqE (check_err err ''cuMemMap failed'') (
             bindE (cu_call (cuMemSetAccess L ptr size (device_access dev))) (\<lambda>err.
             seqE (check_err err ''cuMemSetAccess failed'') (
             ret (sint shareable, uint handle, uint ptr))))))))))))
     )))"

definition cuda_free :: "'g libcuda \<Rightarrow> int \<Rightarrow> int \<Rightarrow> int \<Rightarrow> ('g cuda_allocator, unit) pyM" where
  "cuda_free L handle device_ptr size_bytes =
     bindE (cu_call (cuMemUnmap L (word_of_int device_ptr) (word_of_int size_bytes))) (\<lambda>err.
     seqE (check_err err ''cuMemUnmap failed'') (
     bindE (cu_call (cuMemAddressFree L (word_of_int device_ptr) (word_of_int size_bytes))) (\<lambda>err.
     seqE (check_err err ''cuMemAddressFree failed'') (
     bindE (cu_call (cuMemRelease L (word_of_int handle))) (\<lambda>err.
     check_err err ''cuMemRelease failed'')))))"

text \<open>
  \<open>CudaAllocator.__init__\<close>: \<open>cdll\<close> is the outcome of loading the library. The module keeps
  \<open>None\<close> when it raises (\<open>module_cuda_allocator\<close>).
\<close>

definition CudaAllocator_init ::
  "'g libcuda \<Rightarrow> exn option \<Rightarrow> 'g \<Rightarrow> (exn + unit) \<times> 'g cuda_allocator" where
  "CudaAllocator_init L cdll g =
     seqE (may_raise cdll) (
     bindE (cu_call (cuInit L 0)) (\<lambda>err.
     seqE (check_err err ''cuInit failed'') (
     seqE (modifyM (\<lambda>s. s\<lparr>contexts := [], devices := []\<rparr>)) (
     seqE (get_or_create_context L 0) (
     modifyM (\<lambda>s. s\<lparr>alloc_device := dget (devices s) 0, alloc_ctx := dget (contexts s) 0\<rparr>))))))
     \<lparr>contexts = [], devices = [], alloc_device = None, alloc_ctx = None, gpu = g\<rparr>"

definition module_cuda_allocator ::
  "'g libcuda \<Rightarrow> exn option \<Rightarrow> 'g \<Rightarrow> 'g cuda_allocator option" where
  "module_cuda_allocator L cdll g =
     (case CudaAllocator_init L cdll g of (Inr _, a) \<Rightarrow> Some a | (Inl _, _) \<Rightarrow> None)"

lemmas cuda_defs =
  cu_call_def check_err_def get_or_create_context_def allocate_and_export_def cuda_free_def


section \<open>Sizes\<close>

lemma round_up_multiple: "0 < g \<Longrightarrow> g dvd round_up n g"
  by (auto simp: round_up_def)

lemma round_up_bounds:
  assumes "0 < g" shows "n \<le> round_up n g \<and> round_up n g < n + g"
proof -
  define q r where "q = n div g" and "r = n mod g"
  have n: "n = q * g + r" and r: "0 \<le> r" "r < g"
    using assms by (simp_all add: q_def r_def)
  have "round_up n g = (if r \<noteq> 0 then q * g + g else n)"
    by (simp add: round_up_def q_def r_def algebra_simps)
  then show ?thesis using n r by auto
qed

lemma round_up_ge: "0 < g \<Longrightarrow> n \<le> round_up n g"
  using round_up_bounds by blast

lemma round_up_less: "0 < g \<Longrightarrow> round_up n g < n + g"
  using round_up_bounds by blast

lemma round_up_least:
  assumes "0 < g" "n \<le> m" "g dvd m" shows "round_up n g \<le> m"
proof (rule ccontr)
  assume "\<not> round_up n g \<le> m"
  then have lt: "m < round_up n g" by simp
  have "g dvd round_up n g - m" using assms round_up_multiple by (simp add: dvd_diff)
  with lt have "g \<le> round_up n g - m" by (simp add: zdvd_imp_le)
  with round_up_less [OF assms(1), of n] assms(2) show False by simp
qed

section \<open>Bookkeeping of contexts\<close>

definition alloc_ok :: "'g cuda_allocator \<Rightarrow> bool" where
  "alloc_ok a \<longleftrightarrow> map fst (contexts a) = map fst (devices a) \<and> dict_ok (contexts a)"

lemma alloc_ok_devices:
  "alloc_ok a \<Longrightarrow> dget (contexts a) d = Some c \<Longrightarrow> \<exists>dev. dget (devices a) d = Some dev"
  unfolding alloc_ok_def using keys_dom [of "contexts a"] keys_dom [of "devices a"]
  by (auto simp: dom_def)

lemma cu_call_returns [simp]:
  "cu_call f s = (r, t) \<longleftrightarrow> (\<exists>x g. f (gpu s) = (x, g) \<and> r = Inr x \<and> t = s\<lparr>gpu := g\<rparr>)"
  by (auto simp: cu_call_def Let_def split: prod.splits)

lemma check_err_returns [simp]: "check_err err msg s = (Inr y, t) \<longleftrightarrow> err = 0 \<and> t = s"
  by (auto simp: check_err_def)

lemma keeps_cu_call: "(\<And>s g. P s \<Longrightarrow> P (s\<lparr>gpu := g\<rparr>)) \<Longrightarrow> keeps P (cu_call f)"
  by (auto simp: keeps_def cu_call_def Let_def split: prod.splits)

lemma keeps_check_err [keeps_intro]: "keeps P (check_err err msg)"
  by (auto simp: check_err_def intro: keeps_intro)

lemma alloc_ok_gpu [simp]: "alloc_ok (s\<lparr>gpu := g\<rparr>) = alloc_ok s"
  by (simp add: alloc_ok_def)

lemma alloc_ok_put:
  "alloc_ok s \<Longrightarrow> alloc_ok (s\<lparr>contexts := dput (contexts s) d c, devices := dput (devices s) d v\<rparr>)"
  by (auto simp: alloc_ok_def update_keys)

lemma get_or_create_context_ok: "keeps alloc_ok (get_or_create_context L d)"
  unfolding get_or_create_context_def
  by (intro keeps_bindE keeps_getM)
     (auto split: option.split prod.split
        intro!: keeps_intro keeps_cu_call keeps_modifyM alloc_ok_put)

lemma allocate_and_export_ok: "keeps alloc_ok (allocate_and_export L n d)"
  unfolding allocate_and_export_def Let_def
  by (intro keeps_bindE get_or_create_context_ok keeps_cu_call keeps_getM)
     (auto split: option.split prod.split intro!: keeps_intro keeps_cu_call)

lemma cuda_free_ok: "keeps alloc_ok (cuda_free L h p n)"
  unfolding cuda_free_def by (auto intro!: keeps_intro keeps_cu_call)

section \<open>Documented behaviour of CUDA virtual memory management\<close>

text \<open>
  A view of the device state: the physical allocations (handle to size), the reserved address
  ranges (start to size) and the mappings (start to size and handle).
\<close>

record 'g vmm_view =
  v_handles :: "'g \<Rightarrow> u64 \<Rightarrow> u64 option"
  v_ranges :: "'g \<Rightarrow> u64 \<Rightarrow> u64 option"
  v_maps :: "'g \<Rightarrow> u64 \<Rightarrow> (u64 \<times> u64) option"

definition same_view :: "'g vmm_view \<Rightarrow> 'g \<Rightarrow> 'g \<Rightarrow> bool" where
  "same_view V g g' \<longleftrightarrow> v_handles V g' = v_handles V g \<and> v_ranges V g' = v_ranges V g
                         \<and> v_maps V g' = v_maps V g"

text \<open>Calls that leave allocations, reservations and mappings alone.\<close>

definition vmm_neutral :: "'g libcuda \<Rightarrow> 'g vmm_view \<Rightarrow> bool" where
  "vmm_neutral L V \<longleftrightarrow>
     (\<forall>d g. same_view V g (snd (cuDeviceGet L d g)))
   \<and> (\<forall>f d g. same_view V g (snd (cuCtxCreate_v2 L f d g)))
   \<and> (\<forall>c g. same_view V g (snd (cuCtxSetCurrent L c g)))
   \<and> (\<forall>p f g. same_view V g (snd (cuMemGetAllocationGranularity L p f g)))
   \<and> (\<forall>h t g. same_view V g (snd (cuMemExportToShareableHandle L h t g)))
   \<and> (\<forall>p n d g. same_view V g (snd (cuMemSetAccess L p n d g)))"

text \<open>
  Calls that create, map, unmap and release. A failing call changes nothing; a reservation is
  released and a mapping removed only with exactly the size it was made with.
\<close>

definition vmm_acquire :: "'g libcuda \<Rightarrow> 'g vmm_view \<Rightarrow> bool" where
  "vmm_acquire L V \<longleftrightarrow>
     (\<forall>n p g e h g'. cuMemCreate L n p g = ((e, h), g') \<longrightarrow>
        (if e = 0 then v_handles V g h = None \<and> v_handles V g' = (v_handles V g)(h \<mapsto> n)
                       \<and> v_ranges V g' = v_ranges V g \<and> v_maps V g' = v_maps V g
         else same_view V g g'))
   \<and> (\<forall>n a g e p g'. cuMemAddressReserve L n a g = ((e, p), g') \<longrightarrow>
        (if e = 0 then v_ranges V g p = None \<and> v_ranges V g' = (v_ranges V g)(p \<mapsto> n)
                       \<and> v_maps V g p = None
                       \<and> v_handles V g' = v_handles V g \<and> v_maps V g' = v_maps V g
         else same_view V g g'))
   \<and> (\<forall>p n h g e g'. cuMemMap L p n h g = (e, g') \<longrightarrow>
        (if e = 0 then v_maps V g' = (v_maps V g)(p \<mapsto> (n, h))
                       \<and> v_handles V g' = v_handles V g \<and> v_ranges V g' = v_ranges V g
         else same_view V g g'))"

definition vmm_release :: "'g libcuda \<Rightarrow> 'g vmm_view \<Rightarrow> bool" where
  "vmm_release L V \<longleftrightarrow>
     (\<forall>p n g e g'. cuMemUnmap L p n g = (e, g') \<longrightarrow>
        (if e = 0 then (\<exists>h. v_maps V g p = Some (n, h)) \<and> v_maps V g' = (v_maps V g)(p := None)
                       \<and> v_handles V g' = v_handles V g \<and> v_ranges V g' = v_ranges V g
         else same_view V g g'))
   \<and> (\<forall>p n g e g'. cuMemAddressFree L p n g = (e, g') \<longrightarrow>
        (if e = 0 then v_ranges V g p = Some n \<and> v_ranges V g' = (v_ranges V g)(p := None)
                       \<and> v_handles V g' = v_handles V g \<and> v_maps V g' = v_maps V g
         else same_view V g g'))
   \<and> (\<forall>h g e g'. cuMemRelease L h g = (e, g') \<longrightarrow>
        (if e = 0 then v_handles V g' = (v_handles V g)(h := None)
                       \<and> v_ranges V g' = v_ranges V g \<and> v_maps V g' = v_maps V g
         else same_view V g g'))"

definition vmm_laws :: "'g libcuda \<Rightarrow> 'g vmm_view \<Rightarrow> bool" where
  "vmm_laws L V \<longleftrightarrow> vmm_neutral L V \<and> vmm_acquire L V \<and> vmm_release L V"

lemma same_view_refl [simp]: "same_view V g g"
  by (simp add: same_view_def)

lemma same_view_trans [trans]: "same_view V g1 g2 \<Longrightarrow> same_view V g2 g3 \<Longrightarrow> same_view V g1 g3"
  by (simp add: same_view_def)

lemma neutral_rules:
  assumes "vmm_laws L V"
  shows "cuDeviceGet L d g = (r, g') \<Longrightarrow> same_view V g g'"
    and "cuCtxCreate_v2 L f c g = (r2, g') \<Longrightarrow> same_view V g g'"
    and "cuCtxSetCurrent L x g = (e, g') \<Longrightarrow> same_view V g g'"
    and "cuMemGetAllocationGranularity L p t g = (r2, g') \<Longrightarrow> same_view V g g'"
    and "cuMemExportToShareableHandle L h t g = (r, g') \<Longrightarrow> same_view V g g'"
    and "cuMemSetAccess L q n a g = (e, g') \<Longrightarrow> same_view V g g'"
  using assms unfolding vmm_laws_def vmm_neutral_def by (metis snd_conv)+

lemma acquire_rules:
  assumes "vmm_laws L V"
  shows "cuMemCreate L n p g = ((e, h), g') \<Longrightarrow>
          (if e = 0 then v_handles V g h = None \<and> v_handles V g' = (v_handles V g)(h \<mapsto> n)
                         \<and> v_ranges V g' = v_ranges V g \<and> v_maps V g' = v_maps V g
           else same_view V g g')"
    and "cuMemAddressReserve L n a g = ((e, q), g') \<Longrightarrow>
          (if e = 0 then v_ranges V g q = None \<and> v_ranges V g' = (v_ranges V g)(q \<mapsto> n)
                         \<and> v_maps V g q = None
                         \<and> v_handles V g' = v_handles V g \<and> v_maps V g' = v_maps V g
           else same_view V g g')"
    and "cuMemMap L q n h g = (e, g') \<Longrightarrow>
          (if e = 0 then v_maps V g' = (v_maps V g)(q \<mapsto> (n, h))
                         \<and> v_handles V g' = v_handles V g \<and> v_ranges V g' = v_ranges V g
           else same_view V g g')"
proof -
  from assms have "vmm_acquire L V" by (simp add: vmm_laws_def)
  note A = this [unfolded vmm_acquire_def]
  note create = A [THEN conjunct1, rule_format] and rest = A [THEN conjunct2]
  note reserve = rest [THEN conjunct1, rule_format] and map = rest [THEN conjunct2, rule_format]
  { assume "cuMemCreate L n p g = ((e, h), g')" from create [OF this] show
      "if e = 0 then v_handles V g h = None \<and> v_handles V g' = (v_handles V g)(h \<mapsto> n)
                     \<and> v_ranges V g' = v_ranges V g \<and> v_maps V g' = v_maps V g
       else same_view V g g'" . }
  { assume "cuMemAddressReserve L n a g = ((e, q), g')" from reserve [OF this] show
      "if e = 0 then v_ranges V g q = None \<and> v_ranges V g' = (v_ranges V g)(q \<mapsto> n)
                     \<and> v_maps V g q = None
                     \<and> v_handles V g' = v_handles V g \<and> v_maps V g' = v_maps V g
       else same_view V g g'" . }
  { assume "cuMemMap L q n h g = (e, g')" from map [OF this] show
      "if e = 0 then v_maps V g' = (v_maps V g)(q \<mapsto> (n, h))
                     \<and> v_handles V g' = v_handles V g \<and> v_ranges V g' = v_ranges V g
       else same_view V g g'" . }
qed

lemmas create_law = acquire_rules(1) [where e = 0, simplified]
lemmas reserve_law = acquire_rules(2) [where e = 0, simplified]
lemmas map_law = acquire_rules(3) [where e = 0, simplified]

lemma release_rules:
  assumes "vmm_laws L V"
  shows "cuMemUnmap L p n g = (e, g') \<Longrightarrow>
          (if e = 0 then (\<exists>h. v_maps V g p = Some (n, h)) \<and> v_maps V g' = (v_maps V g)(p := None)
                         \<and> v_handles V g' = v_handles V g \<and> v_ranges V g' = v_ranges V g
           else same_view V g g')"
    and "cuMemAddressFree L p n g = (e, g') \<Longrightarrow>
          (if e = 0 then v_ranges V g p = Some n \<and> v_ranges V g' = (v_ranges V g)(p := None)
                         \<and> v_handles V g' = v_handles V g \<and> v_maps V g' = v_maps V g
           else same_view V g g')"
    and "cuMemRelease L p g = (e, g') \<Longrightarrow>
          (if e = 0 then v_handles V g' = (v_handles V g)(p := None)
                         \<and> v_ranges V g' = v_ranges V g \<and> v_maps V g' = v_maps V g
           else same_view V g g')"
proof -
  from assms have "vmm_release L V" by (simp add: vmm_laws_def)
  note R = this [unfolded vmm_release_def]
  note unmap = R [THEN conjunct1, rule_format] and rest = R [THEN conjunct2]
  note addr = rest [THEN conjunct1, rule_format] and rel = rest [THEN conjunct2, rule_format]
  { assume "cuMemUnmap L p n g = (e, g')" from unmap [OF this] show
      "if e = 0 then (\<exists>h. v_maps V g p = Some (n, h)) \<and> v_maps V g' = (v_maps V g)(p := None)
                     \<and> v_handles V g' = v_handles V g \<and> v_ranges V g' = v_ranges V g
       else same_view V g g'" . }
  { assume "cuMemAddressFree L p n g = (e, g')" from addr [OF this] show
      "if e = 0 then v_ranges V g p = Some n \<and> v_ranges V g' = (v_ranges V g)(p := None)
                     \<and> v_handles V g' = v_handles V g \<and> v_maps V g' = v_maps V g
       else same_view V g g'" . }
  { assume "cuMemRelease L p g = (e, g')" from rel [OF this] show
      "if e = 0 then v_handles V g' = (v_handles V g)(p := None)
                     \<and> v_ranges V g' = v_ranges V g \<and> v_maps V g' = v_maps V g
       else same_view V g g'" . }
qed

section \<open>What allocation and release do\<close>

lemma get_or_create_context_view:
  assumes "vmm_laws L V" "get_or_create_context L d a = (r, a')"
  shows "same_view V (gpu a) (gpu a')"
proof -
  have "keeps (\<lambda>s. same_view V (gpu a) (gpu s)) (get_or_create_context L d)"
    unfolding get_or_create_context_def
    apply (intro keeps_bindE keeps_getM)
    apply (auto split: option.split prod.split intro!: keeps_intro keeps_modifyM)
     apply (auto simp: keeps_def cu_call_def Let_def split: prod.splits
        intro: same_view_trans neutral_rules(1,2) [OF assms(1)])
    done
  from keepsD [OF this, of a] assms(2) show ?thesis by simp
qed

lemma get_or_create_context_returns:
  assumes "get_or_create_context L d a = (Inr c, a')"
  shows "dget (contexts a') d = Some c"
  using assms unfolding get_or_create_context_def
  by (auto elim!: returns_elims split: option.splits prod.splits)

lemma get_or_create_context_again:
  assumes "get_or_create_context L d a = (Inr c, a')"
  shows "get_or_create_context L d a' = (Inr c, a')"
  using get_or_create_context_returns [OF assms]
  by (simp add: get_or_create_context_def bindE_def getM_def ret_def)

lemma allocate_effect:
  assumes laws: "vmm_laws L V"
    and run: "allocate_and_export L n d a = (Inr (fd, h, p), a')"
  shows "\<exists>gran q f g. 0 < uint gran \<and> snd (fst (cuMemGetAllocationGranularity L q f g)) = gran \<and>
           (let sz = word_of_int (round_up n (uint gran)); hw = word_of_int h; pw = word_of_int p in
            v_handles V (gpu a) hw = None \<and> v_ranges V (gpu a) pw = None \<and> v_maps V (gpu a) pw = None
          \<and> v_handles V (gpu a') = (v_handles V (gpu a))(hw \<mapsto> sz)
          \<and> v_ranges V (gpu a') = (v_ranges V (gpu a))(pw \<mapsto> sz)
          \<and> v_maps V (gpu a') = (v_maps V (gpu a))(pw \<mapsto> (sz, hw)))"
proof -
  from run obtain c a1 e1 g2 dev e3 gran g3 handle g4 shareable g5 ptr g6 g7 g8 where
    ctx: "get_or_create_context L d a = (Inr c, a1)"
    and cur: "cuCtxSetCurrent L c (gpu a1) = (e1, g2)"
    and gr: "cuMemGetAllocationGranularity L (device_prop dev) CU_MEM_ALLOC_GRANULARITY_MINIMUM g2
               = ((e3, gran), g3)"
    and gr0: "uint gran \<noteq> 0"
    and cr: "cuMemCreate L (word_of_int (round_up n (uint gran))) (device_prop dev) g3
               = ((0, handle), g4)"
    and ex: "cuMemExportToShareableHandle L handle CU_MEM_HANDLE_TYPE_POSIX_FILE_DESCRIPTOR g4
               = ((0, shareable), g5)"
    and rs: "cuMemAddressReserve L (word_of_int (round_up n (uint gran))) 0 g5 = ((0, ptr), g6)"
    and mp: "cuMemMap L ptr (word_of_int (round_up n (uint gran))) handle g6 = (0, g7)"
    and ac: "cuMemSetAccess L ptr (word_of_int (round_up n (uint gran))) (device_access dev) g7
               = (0, g8)"
    and out: "h = uint handle" "p = uint ptr" "gpu a' = g8"
    unfolding allocate_and_export_def Let_def
    by (auto elim!: returns_elims split: option.splits prod.splits if_splits)
  have views: "same_view V (gpu a) (gpu a1)" "same_view V (gpu a1) g2" "same_view V g2 g3"
    "same_view V g4 g5" "same_view V g7 g8"
    using get_or_create_context_view [OF laws ctx] neutral_rules(3) [OF laws cur]
      neutral_rules(4) [OF laws gr] neutral_rules(5) [OF laws ex] neutral_rules(6) [OF laws ac]
    by auto
  have "0 < uint gran" using gr0 by (simp add: order_less_le)
  moreover have "snd (fst (cuMemGetAllocationGranularity L (device_prop dev)
      CU_MEM_ALLOC_GRANULARITY_MINIMUM g2)) = gran" using gr by simp
  ultimately show ?thesis
    using views create_law [OF laws cr] reserve_law [OF laws rs] map_law [OF laws mp]
    by (intro exI [of _ gran] exI [of _ "device_prop dev"]
          exI [of _ CU_MEM_ALLOC_GRANULARITY_MINIMUM] exI [of _ g2])
       (simp add: out same_view_def Let_def)
qed

lemma free_effect:
  assumes laws: "vmm_laws L V" and run: "cuda_free L h p n a = (Inr (), a')"
  shows "(\<exists>h'. v_maps V (gpu a) (word_of_int p) = Some (word_of_int n, h'))
       \<and> v_ranges V (gpu a) (word_of_int p) = Some (word_of_int n)
       \<and> v_handles V (gpu a') = (v_handles V (gpu a))(word_of_int h := None)
       \<and> v_ranges V (gpu a') = (v_ranges V (gpu a))(word_of_int p := None)
       \<and> v_maps V (gpu a') = (v_maps V (gpu a))(word_of_int p := None)"
proof -
  from run obtain g1 g2 g3 where
    "cuMemUnmap L (word_of_int p) (word_of_int n) (gpu a) = (0, g1)"
    "cuMemAddressFree L (word_of_int p) (word_of_int n) g1 = (0, g2)"
    "cuMemRelease L (word_of_int h) g2 = (0, g3)" "gpu a' = g3"
    unfolding cuda_free_def by (auto elim!: returns_elims)
  note release_rules(1) [OF laws this(1), simplified] release_rules(2) [OF laws this(2), simplified]
    release_rules(3) [OF laws this(3), simplified] this(4)
  then show ?thesis by auto
qed

lemma free_wrong_size:
  assumes laws: "vmm_laws L V"
    and m: "v_maps V (gpu a) (word_of_int p) = Some (sz, hw)" and ne: "sz \<noteq> word_of_int n"
    and run: "cuda_free L h p n a = (r, a')"
  shows "r = Inl (Exception ''cuMemUnmap failed'') \<and> same_view V (gpu a) (gpu a')"
proof -
  obtain e g1 where u: "cuMemUnmap L (word_of_int p) (word_of_int n) (gpu a) = (e, g1)"
    by (cases "cuMemUnmap L (word_of_int p) (word_of_int n) (gpu a)")
  have "e \<noteq> 0" using release_rules(1) [OF laws u] m ne by (auto split: if_splits)
  with u run release_rules(1) [OF laws u] show ?thesis
    by (auto simp: cuda_free_def bindE_def seqE_def cu_call_def check_err_def raise_exn_def)
qed

text \<open>The library reports the allocation granularity \<open>gran\<close> on every device.\<close>

definition reports_granularity :: "'g libcuda \<Rightarrow> u64 \<Rightarrow> bool" where
  "reports_granularity L gran \<longleftrightarrow>
     0 < uint gran \<and> (\<forall>q f g. fst (cuMemGetAllocationGranularity L q f g) = (0, gran))"

lemma allocate_effect_gran:
  assumes "vmm_laws L V" "reports_granularity L gran"
    and "allocate_and_export L n d a = (Inr (fd, h, p), a')"
    and "sz = word_of_int (round_up n (uint gran))"
  shows "v_handles V (gpu a') = (v_handles V (gpu a))(word_of_int h \<mapsto> sz)"
    and "v_ranges V (gpu a') = (v_ranges V (gpu a))(word_of_int p \<mapsto> sz)"
    and "v_maps V (gpu a') = (v_maps V (gpu a))(word_of_int p \<mapsto> (sz, word_of_int h))"
    and "v_handles V (gpu a) (word_of_int h) = None" "v_ranges V (gpu a) (word_of_int p) = None"
        "v_maps V (gpu a) (word_of_int p) = None"
  using allocate_effect [OF assms(1,3)] assms(2,4)
  by (auto simp: reports_granularity_def Let_def)

end
