(* ===== verification/Sim_Cuda.thy ===== *)
theory Sim_Cuda
  imports Cuda_Allocator
begin

text \<open>
  A small executable device that satisfies the documented laws of CUDA's virtual memory management
  (\<open>vmm_laws\<close>). It models no code of the repository: it is the concrete library at which the
  properties that assume those laws are evaluated. Handles and addresses are drawn from a counter,
  a budget of bytes decides whether \<open>cuMemCreate\<close> succeeds, and devices 0 to 7 exist.
\<close>

record sim_gpu =
  sim_next :: int
  sim_budget :: int
  sim_gran :: u64
  sim_handles :: "(u64 \<times> u64) list"
  sim_ranges :: "(u64 \<times> u64) list"
  sim_maps :: "(u64 \<times> (u64 \<times> u64)) list"

definition sim_init :: "int \<Rightarrow> u64 \<Rightarrow> sim_gpu" where
  "sim_init budget gran =
     \<lparr>sim_next = 1, sim_budget = budget, sim_gran = gran, sim_handles = [], sim_ranges = [],
      sim_maps = []\<rparr>"

definition sim_create :: "u64 \<Rightarrow> sim_gpu \<Rightarrow> (int \<times> u64) \<times> sim_gpu" where
  "sim_create n g =
     (let h = word_of_int (sim_next g) in
      if sim_budget g < uint n \<or> map_of (sim_handles g) h \<noteq> None then ((2, 0), g)
      else ((0, h), g\<lparr>sim_next := sim_next g + 1, sim_budget := sim_budget g - uint n,
                      sim_handles := AList.update h n (sim_handles g)\<rparr>))"

definition sim_reserve :: "u64 \<Rightarrow> sim_gpu \<Rightarrow> (int \<times> u64) \<times> sim_gpu" where
  "sim_reserve n g =
     (let p = word_of_int (sim_next g * 4294967296) in
      if map_of (sim_ranges g) p \<noteq> None \<or> map_of (sim_maps g) p \<noteq> None then ((2, 0), g)
      else ((0, p), g\<lparr>sim_next := sim_next g + 1, sim_ranges := AList.update p n (sim_ranges g)\<rparr>))"

definition sim_map :: "u64 \<Rightarrow> u64 \<Rightarrow> u64 \<Rightarrow> sim_gpu \<Rightarrow> int \<times> sim_gpu" where
  "sim_map p n h g =
     (if map_of (sim_ranges g) p = Some n then (0, g\<lparr>sim_maps := AList.update p (n, h) (sim_maps g)\<rparr>)
      else (1, g))"

definition sim_unmap :: "u64 \<Rightarrow> u64 \<Rightarrow> sim_gpu \<Rightarrow> int \<times> sim_gpu" where
  "sim_unmap p n g =
     (case map_of (sim_maps g) p of
        Some (m, h) \<Rightarrow> if m = n then (0, g\<lparr>sim_maps := AList.delete p (sim_maps g)\<rparr>) else (1, g)
      | None \<Rightarrow> (1, g))"

definition sim_address_free :: "u64 \<Rightarrow> u64 \<Rightarrow> sim_gpu \<Rightarrow> int \<times> sim_gpu" where
  "sim_address_free p n g =
     (if map_of (sim_ranges g) p = Some n then (0, g\<lparr>sim_ranges := AList.delete p (sim_ranges g)\<rparr>)
      else (1, g))"

definition sim_release :: "u64 \<Rightarrow> sim_gpu \<Rightarrow> int \<times> sim_gpu" where
  "sim_release h g =
     (case map_of (sim_handles g) h of
        Some n \<Rightarrow> (0, g\<lparr>sim_handles := AList.delete h (sim_handles g),
                        sim_budget := sim_budget g + uint n\<rparr>)
      | None \<Rightarrow> (1, g))"

definition sim_cuda :: "sim_gpu libcuda" where
  "sim_cuda =
     \<lparr>cuInit = (\<lambda>_ g. (0, g)),
      cuDeviceGet = (\<lambda>d g. ((if 0 \<le> d \<and> d < 8 then 0 else 101, word_of_int d), g)),
      cuCtxCreate_v2 = (\<lambda>_ dev g. ((0, ucast dev + 1000), g)),
      cuCtxSetCurrent = (\<lambda>_ g. (0, g)),
      cuMemGetAllocationGranularity = (\<lambda>_ _ g. ((0, sim_gran g), g)),
      cuMemCreate = (\<lambda>n _. sim_create n),
      cuMemExportToShareableHandle = (\<lambda>h _ g. ((0, ucast h + 10), g)),
      cuMemAddressReserve = (\<lambda>n _. sim_reserve n),
      cuMemMap = sim_map,
      cuMemSetAccess = (\<lambda>_ _ _ g. (0, g)),
      cuMemUnmap = sim_unmap,
      cuMemAddressFree = sim_address_free,
      cuMemRelease = sim_release\<rparr>"

text \<open>The same device with a fixed granularity of 2 MiB.\<close>

definition sim_cuda_2M :: "sim_gpu libcuda" where
  "sim_cuda_2M = sim_cuda\<lparr>cuMemGetAllocationGranularity := (\<lambda>_ _ g. ((0, 2097152), g))\<rparr>"

definition sim_view :: "sim_gpu vmm_view" where
  "sim_view = \<lparr>v_handles = (\<lambda>g. map_of (sim_handles g)), v_ranges = (\<lambda>g. map_of (sim_ranges g)),
               v_maps = (\<lambda>g. map_of (sim_maps g))\<rparr>"

lemmas sim_ops = sim_create_def sim_reserve_def sim_map_def sim_unmap_def sim_address_free_def
  sim_release_def

lemma no_pair: "(\<forall>a b. x \<noteq> Some (a, b)) \<longleftrightarrow> x = None"
  by (cases x) auto

lemma sim_laws: "vmm_laws sim_cuda sim_view"
  unfolding vmm_laws_def vmm_neutral_def vmm_acquire_def vmm_release_def
  by (auto simp: sim_cuda_def sim_view_def same_view_def sim_ops Let_def update_conv' delete_conv'
      no_pair split: if_splits option.splits prod.splits)

lemma sim_laws_2M: "vmm_laws sim_cuda_2M sim_view"
  unfolding vmm_laws_def vmm_neutral_def vmm_acquire_def vmm_release_def sim_cuda_2M_def
  by (auto simp: sim_cuda_def sim_view_def same_view_def sim_ops Let_def update_conv' delete_conv'
      no_pair split: if_splits option.splits prod.splits)

lemma sim_2M_granularity: "reports_granularity sim_cuda_2M 2097152"
  by (simp add: reports_granularity_def sim_cuda_2M_def)

definition sim_allocator :: "sim_gpu cuda_allocator" where
  "sim_allocator = \<lparr>contexts = [], devices = [], alloc_device = None, alloc_ctx = None,
                    gpu = sim_init 1099511627776 2097152\<rparr>"

lemma sim_alloc_example:
  "allocate_and_export sim_cuda_2M 5 0 sim_allocator
   = (Inr (11, 1, 8589934592),
      \<lparr>contexts = [(0, 1000)], devices = [(0, 0)], alloc_device = None, alloc_ctx = None,
       gpu = \<lparr>sim_next = 3, sim_budget = 1099509530624, sim_gran = 2097152,
              sim_handles = [(1, 2097152)], sim_ranges = [(8589934592, 2097152)],
              sim_maps = [(8589934592, (2097152, 1))]\<rparr>\<rparr>)"
  by (simp add: allocate_and_export_def get_or_create_context_def sim_allocator_def sim_init_def sim_cuda_2M_def sim_cuda_def py_simps cu_call_def check_err_def sim_ops round_up_def)

end
