(* ===== verification/Driver_State.thy ===== *)
theory Driver_State
  imports Cuda_Allocator
begin

text \<open>
  The state of one driver process (\<open>driver/main.py\<close>) and the environment its handlers run in:
  the two module-level dictionaries \<open>ALLOCATED_BUFFERS\<close> and \<open>KNOWN_CLAIMS\<close>, the allocator, the
  observable effects in the order they happen (\<open>events\<close>) and the status codes a handler passed to
  \<open>context.abort\<close> (\<open>aborts\<close>). Request messages are the records of \<open>proto/wpi.proto\<close>.

  The environment \<open>env\<close> holds what the handlers call but the repository does not contain: the
  CUDA library, cupy, NCCL, safetensors, the file system and the network peers. Every field is an
  arbitrary function or value; no field has a definition here.
\<close>

section \<open>Messages and status codes\<close>

datatype status = INVALID_ARGUMENT | NOT_FOUND | INTERNAL | UNAVAILABLE | UNIMPLEMENTED

record NodeStageWeightRequest =
  req_claim_id :: string
  req_buffer_id :: string
  req_source_path :: string
  req_size_bytes :: u64
  req_shard_index :: c_int
  req_total_shards :: c_int

record ShardAssignment =
  target_node_id :: string
  as_shard_index :: c_int
  offset_bytes :: u64
  length_bytes :: u64
  target_gpu_id :: c_int

record NodePropagateRequest =
  prop_buffer_id :: string
  target_node_ids :: "string list"
  prop_mode :: int
  shard_assignments :: "ShardAssignment list"

section \<open>Effects\<close>

text \<open>
  \<open>Consumer\<close> sockets were accepted by a notify server, \<open>Conn\<close> sockets by the FD-passing or the
  NCCL target server, \<open>Target\<close> sockets were opened by \<open>NodePropagate\<close>.
\<close>

datatype sock = Consumer nat | Conn nat | Target nat

datatype nccl_op =
    NcclInit int bytes int     \<comment> \<open>world size, unique id, rank\<close>
  | NcclBcast int int int      \<comment> \<open>pointer, number of fp16 elements, root\<close>
  | NcclSend int int int       \<comment> \<open>pointer, number of fp16 elements, peer\<close>
  | NcclRecv int int int
  | NcclDestroy

datatype thread = PassFd string string | NotifyServer string string

datatype event =
    EvSend sock bytes
  | EvSendFd sock bytes int
  | EvClose sock
  | EvConnect sock string
  | EvNccl nccl_op
  | EvMemcpy int int int       \<comment> \<open>destination, source, bytes\<close>
  | EvCloseFd int
  | EvStart thread

section \<open>State\<close>

text \<open>
  An entry of \<open>ALLOCATED_BUFFERS\<close>. The keys that a relocated entry does not have are optional.
\<close>

record buf_info =
  device_ptr :: int
  size_bytes :: int
  handle :: int
  fd :: int
  gpu_id :: int
  notify_sockets :: "sock list"
  ref_count :: "int option"
  source_path :: "string option"
  shard_index :: "int option"
  total_shards :: "int option"
  parent_buffer :: "string option"
  notify_sock_path :: "string option"

record 'g driver =
  ALLOCATED_BUFFERS :: "buf_info dict"
  KNOWN_CLAIMS :: "string dict"
  cuda_ready :: bool             \<comment> \<open>\<open>cuda_allocator is not None\<close>\<close>
  allocator :: "'g cuda_allocator"
  events :: "event list"
  aborts :: "(status \<times> string) list"

record 'g env =
  libcuda_of :: "'g libcuda"
  cupy_available :: bool
  path_exists :: "string \<Rightarrow> bool"
  socket_dir_err :: "exn option"              \<comment> \<open>makedirs/chmod of the socket directory\<close>
  device_count :: "int option"                \<comment> \<open>getDeviceCount(), None when it raises\<close>
  import_err :: "exn option"                  \<comment> \<open>importing safetensors and torch\<close>
  safetensors :: "string \<Rightarrow> exn + (int \<times> int) list"   \<comment> \<open>numel and data pointer of each tensor\<close>
  memcpy_h2d :: "int \<Rightarrow> int \<Rightarrow> int \<Rightarrow> 'g \<Rightarrow> exn option \<times> 'g"
  copy_d2d :: "int \<Rightarrow> int \<Rightarrow> int \<Rightarrow> 'g \<Rightarrow> exn option \<times> 'g"  \<comment> \<open>destination, source, elements\<close>
  send_err :: "sock \<Rightarrow> bytes \<Rightarrow> exn option"
  connect_err :: "string \<Rightarrow> exn option"
  target_reply :: "string \<Rightarrow> bytes \<Rightarrow> exn + bytes"  \<comment> \<open>node, message sent: what recv returns\<close>
  nccl_unique_id :: "exn + bytes"
  nccl_err :: "nccl_op \<Rightarrow> exn option"
  abort_str :: string                         \<comment> \<open>text of the exception context.abort raises\<close>

definition SOCKET_DIR :: string where
  "SOCKET_DIR = ''/run/wpi/sockets''"

section \<open>Primitive steps\<close>

definition on_alloc :: "('g cuda_allocator, 'a) pyM \<Rightarrow> ('g driver, 'a) pyM" where
  "on_alloc m = (\<lambda>s. let (r, a) = m (allocator s) in (r, s\<lparr>allocator := a\<rparr>))"

definition emit :: "event \<Rightarrow> ('g driver, unit) pyM" where
  "emit ev = modifyM (\<lambda>s. s\<lparr>events := events s @ [ev]\<rparr>)"

definition abort :: "'g env \<Rightarrow> status \<Rightarrow> string \<Rightarrow> ('g driver, 'a) pyM" where
  "abort E st msg = seqE (modifyM (\<lambda>s. s\<lparr>aborts := aborts s @ [(st, msg)]\<rparr>))
                         (raise_exn (Exception (abort_str E)))"

definition get_buffer :: "string \<Rightarrow> ('g driver, buf_info option) pyM" where
  "get_buffer k = getM (\<lambda>s. dget (ALLOCATED_BUFFERS s) k)"

definition put_buffer :: "string \<Rightarrow> buf_info \<Rightarrow> ('g driver, unit) pyM" where
  "put_buffer k i = modifyM (\<lambda>s. s\<lparr>ALLOCATED_BUFFERS := dput (ALLOCATED_BUFFERS s) k i\<rparr>)"

definition pop_buffer :: "string \<Rightarrow> ('g driver, unit) pyM" where
  "pop_buffer k = modifyM (\<lambda>s. s\<lparr>ALLOCATED_BUFFERS := ddel (ALLOCATED_BUFFERS s) k\<rparr>)"

text \<open>\<open>cuCtxSetCurrent(get_or_create_context(gpu))\<close>, its result ignored as in the sources.\<close>

definition use_gpu :: "'g env \<Rightarrow> int \<Rightarrow> ('g driver, unit) pyM" where
  "use_gpu E g = on_alloc (bindE (get_or_create_context (libcuda_of E) g) (\<lambda>c.
                   bindE (cu_call (cuCtxSetCurrent (libcuda_of E) c)) (\<lambda>_. ret ())))"

text \<open>\<open>sendall\<close> on a socket: either it raises or the bytes are delivered.\<close>

definition sendall :: "'g env \<Rightarrow> sock \<Rightarrow> bytes \<Rightarrow> ('g driver, unit) pyM" where
  "sendall E s b = seqE (may_raise (send_err E s b)) (emit (EvSend s b))"

definition nccl :: "'g env \<Rightarrow> nccl_op \<Rightarrow> ('g driver, unit) pyM" where
  "nccl E op = seqE (may_raise (nccl_err E op)) (emit (EvNccl op))"

lemmas driver_prims [py_simps] =
  on_alloc_def emit_def abort_def get_buffer_def put_buffer_def pop_buffer_def use_gpu_def
  sendall_def nccl_def

lemma on_alloc_returns [simp]:
  "on_alloc m s = (r, t) \<longleftrightarrow> (\<exists>a. m (allocator s) = (r, a) \<and> t = s\<lparr>allocator := a\<rparr>)"
  by (auto simp: on_alloc_def Let_def split: prod.splits)

lemma keeps_on_alloc: "(\<And>s a. P s \<Longrightarrow> P (s\<lparr>allocator := a\<rparr>)) \<Longrightarrow> keeps P (on_alloc m)"
  by (auto simp: keeps_def on_alloc_def Let_def split: prod.splits)

lemma keeps_emit: "(\<And>s ev. P s \<Longrightarrow> P (s\<lparr>events := ev\<rparr>)) \<Longrightarrow> keeps P (emit e)"
  by (auto simp: emit_def intro!: keeps_modifyM)

lemma keeps_abort: "(\<And>s x. P s \<Longrightarrow> P (s\<lparr>aborts := x\<rparr>)) \<Longrightarrow> keeps P (abort E st msg)"
  by (auto simp: abort_def intro!: keeps_intro keeps_modifyM)

lemma keeps_sendall: "(\<And>s ev. P s \<Longrightarrow> P (s\<lparr>events := ev\<rparr>)) \<Longrightarrow> keeps P (sendall E c b)"
  by (auto simp: sendall_def intro!: keeps_intro keeps_emit)

lemma keeps_nccl: "(\<And>s ev. P s \<Longrightarrow> P (s\<lparr>events := ev\<rparr>)) \<Longrightarrow> keeps P (nccl E op)"
  by (auto simp: nccl_def intro!: keeps_intro keeps_emit)

lemma keeps_use_gpu: "(\<And>s a. P s \<Longrightarrow> P (s\<lparr>allocator := a\<rparr>)) \<Longrightarrow> keeps P (use_gpu E g)"
  by (auto simp: use_gpu_def intro: keeps_on_alloc)

lemma keeps_get_buffer [keeps_intro]: "keeps P (get_buffer k)"
  by (simp add: get_buffer_def keeps_getM)

text \<open>
  Predicates that only look at the dictionaries: what the device, the event log and the abort log
  do is irrelevant to them.
\<close>

definition tables_only :: "('g driver \<Rightarrow> bool) \<Rightarrow> bool" where
  "tables_only P \<longleftrightarrow> (\<forall>s a ev ab. P s \<longrightarrow> P (s\<lparr>allocator := a\<rparr>) \<and> P (s\<lparr>events := ev\<rparr>) \<and> P (s\<lparr>aborts := ab\<rparr>))"

lemma tables_onlyD:
  assumes "tables_only P" "P s"
  shows "P (s\<lparr>allocator := a\<rparr>)" "P (s\<lparr>events := ev\<rparr>)" "P (s\<lparr>aborts := ab\<rparr>)"
  using assms by (auto simp: tables_only_def)

lemma keeps_tables:
  assumes "tables_only P"
  shows "keeps P (on_alloc m)" "keeps P (emit e)" "keeps P (abort E st msg)" "keeps P (sendall E c b)"
    "keeps P (nccl E op)" "keeps P (use_gpu E g)"
  using assms
  by (auto intro!: keeps_on_alloc keeps_emit keeps_abort keeps_sendall keeps_nccl keeps_use_gpu
      dest: tables_onlyD)

end
