(* ===== verification/Driver_Staging.thy ===== *)
theory Driver_Staging
  imports Driver_State
begin

text \<open>
  Staging and unstaging of weight buffers: \<open>NodeStageWeight\<close>, \<open>NodeUnstageWeight\<close>,
  \<open>NodeRegisterWeight\<close> and \<open>NodeTranslateAndMap\<close> of the driver's \<open>NodeService\<close>. A handler is a
  computation on the driver's state; an exception that leaves it is the failed RPC, and
  \<open>aborts\<close> holds the status codes it reported, in order.
\<close>

section \<open>Buffer names\<close>

definition is_sharded :: "int \<Rightarrow> int \<Rightarrow> bool" where
  "is_sharded shard tot \<longleftrightarrow> 0 \<le> shard \<and> 0 < tot"

definition effective_buffer_id :: "string \<Rightarrow> int \<Rightarrow> int \<Rightarrow> string" where
  "effective_buffer_id b shard tot =
     (if is_sharded shard tot then b @ ''__shard_'' @ str_int shard else b)"

abbreviation stage_id :: "NodeStageWeightRequest \<Rightarrow> string" where
  "stage_id req \<equiv>
     effective_buffer_id (req_buffer_id req) (sint (req_shard_index req)) (sint (req_total_shards req))"

definition fd_sock_path :: "string \<Rightarrow> string" where
  "fd_sock_path k = path_join SOCKET_DIR (k @ ''.sock'')"

definition notify_path :: "string \<Rightarrow> string" where
  "notify_path k = path_join SOCKET_DIR (k @ ''_notify.sock'')"

section \<open>NodeStageWeight\<close>

text \<open>The size to allocate: 10 GiB when the request gives none.\<close>

definition stage_size :: "NodeStageWeightRequest \<Rightarrow> int" where
  "stage_size req =
     (if req_size_bytes req = 0 then 10 * 1024 * 1024 * 1024 else uint (req_size_bytes req))"

text \<open>The device: shards go round-robin over the devices, everything else to device 0.\<close>

definition stage_gpu :: "'g env \<Rightarrow> NodeStageWeightRequest \<Rightarrow> int" where
  "stage_gpu E req =
     (if is_sharded (sint (req_shard_index req)) (sint (req_total_shards req)) then
        (case device_count E of
           Some n \<Rightarrow> if n = 0 then 0 else sint (req_shard_index req) mod n
         | None \<Rightarrow> 0)
      else 0)"

text \<open>The loop that copies the tensors of a safetensors file one after the other.\<close>

primrec copy_tensors :: "'g env \<Rightarrow> int \<Rightarrow> int \<Rightarrow> (int \<times> int) list \<Rightarrow> ('g driver, unit) pyM" where
  "copy_tensors E base offset [] = ret ()"
| "copy_tensors E base offset (t # ts) =
     (let elements = fst t; src_ptr = snd t; dst_ptr = base + offset * 2 in
      seqE (seqE (bindE (on_alloc (cu_call (memcpy_h2d E dst_ptr src_ptr (elements * 2)))) may_raise)
                 (emit (EvMemcpy dst_ptr src_ptr (elements * 2))))
           (copy_tensors E base (offset + elements) ts))"

definition load_safetensors :: "'g env \<Rightarrow> int \<Rightarrow> string \<Rightarrow> ('g driver, unit) pyM" where
  "load_safetensors E base src =
     seqE (may_raise (import_err E)) (
     seqE (may_raise (if cupy_available E then None else Some (NameError ''cupy''))) (
     bindE (lift_sum (safetensors E src)) (copy_tensors E base 0)))"

definition stage_load :: "'g env \<Rightarrow> int \<Rightarrow> string \<Rightarrow> ('g driver, unit) pyM" where
  "stage_load E base src =
     (if src \<noteq> [] then
        if path_exists E src then
          try_except (load_safetensors E base src)
            (\<lambda>e. abort E INTERNAL (''Failed to load safetensors: '' @ exn_str e))
        else abort E NOT_FOUND (''Source path '' @ src @ '' specified but does not exist!'')
      else ret ())"

text \<open>The background threads: the FD-passing server, then the notify server.\<close>

definition start_servers :: "string \<Rightarrow> ('g driver, unit) pyM" where
  "start_servers k =
     seqE (emit (EvStart (PassFd (fd_sock_path k) k))) (
     bindE (get_buffer k) (\<lambda>b. case b of
       None \<Rightarrow> raise_exn (KeyError k)
     | Some info \<Rightarrow>
         seqE (put_buffer k (info\<lparr>notify_sock_path := Some (notify_path k)\<rparr>))
              (emit (EvStart (NotifyServer (notify_path k) k)))))"

definition new_buffer :: "NodeStageWeightRequest \<Rightarrow> int \<Rightarrow> int \<times> int \<times> int \<Rightarrow> buf_info" where
  "new_buffer req g = (\<lambda>(f, h, p).
     \<lparr>device_ptr = p, size_bytes = stage_size req, handle = h, fd = f, gpu_id = g,
      notify_sockets = [], ref_count = Some 1, source_path = Some (req_source_path req),
      shard_index = Some (if is_sharded (sint (req_shard_index req)) (sint (req_total_shards req))
                          then sint (req_shard_index req) else -1),
      total_shards = Some (if is_sharded (sint (req_shard_index req)) (sint (req_total_shards req))
                           then sint (req_total_shards req) else 0),
      parent_buffer = Some (req_buffer_id req), notify_sock_path = None\<rparr>)"

definition stage_new :: "'g env \<Rightarrow> NodeStageWeightRequest \<Rightarrow> ('g driver, unit) pyM" where
  "stage_new E req =
     seqE (may_raise (socket_dir_err E)) (
     bindE (getM cuda_ready) (\<lambda>ready.
     if ready then
       let g = stage_gpu E req in
       seqE (use_gpu E g) (
       bindE (on_alloc (allocate_and_export (libcuda_of E) (stage_size req) g)) (\<lambda>r.
       seqE (put_buffer (stage_id req) (new_buffer req g r)) (
       seqE (stage_load E (snd (snd r)) (req_source_path req))
            (start_servers (stage_id req)))))
     else abort E UNAVAILABLE ''CUDA allocator failed to initialize. Cannot allocate VRAM.''))"

definition stage_again :: "string \<Rightarrow> buf_info \<Rightarrow> ('g driver, unit) pyM" where
  "stage_again k info =
     (case ref_count info of
        None \<Rightarrow> raise_exn (KeyError ''ref_count'')
      | Some n \<Rightarrow> put_buffer k (info\<lparr>ref_count := Some (n + 1)\<rparr>))"

definition NodeStageWeight :: "'g env \<Rightarrow> NodeStageWeightRequest \<Rightarrow> ('g driver, unit) pyM" where
  "NodeStageWeight E req =
     try_except (
       seqE (modifyM (\<lambda>s. s\<lparr>KNOWN_CLAIMS := dput (KNOWN_CLAIMS s) (req_claim_id req) (stage_id req)\<rparr>)) (
       bindE (get_buffer (stage_id req)) (\<lambda>b. case b of
         Some info \<Rightarrow> stage_again (stage_id req) info
       | None \<Rightarrow> stage_new E req)))
     (\<lambda>e. abort E INTERNAL (exn_str e))"

section \<open>NodeUnstageWeight\<close>

definition free_one :: "'g env \<Rightarrow> string \<Rightarrow> string \<times> buf_info \<Rightarrow> ('g driver, unit) pyM" where
  "free_one E buffer_id = (\<lambda>(k, item).
     seqE (bindE (getM cuda_ready) (\<lambda>ready.
            if ready then
              seqE (try_except
                     (seqE (use_gpu E (gpu_id item))
                           (on_alloc (cuda_free (libcuda_of E) (handle item) (device_ptr item)
                                        (size_bytes item))))
                     (\<lambda>_. ret ()))
                   (emit (EvCloseFd (fd item)))
            else ret ()))
          (if k \<noteq> buffer_id then pop_buffer k else ret ()))"

definition relocated_keys :: "string \<Rightarrow> buf_info dict \<Rightarrow> string list" where
  "relocated_keys b d = filter (\<lambda>k. startswith k (b @ ''_gpu'')) (map fst d)"

definition all_to_free :: "string \<Rightarrow> buf_info \<Rightarrow> buf_info dict \<Rightarrow> (string \<times> buf_info) list" where
  "all_to_free b info d =
     (b, info) # map (\<lambda>k. (k, the (dget d k))) (relocated_keys b d)"

definition release_claim :: "'g env \<Rightarrow> string \<Rightarrow> buf_info \<Rightarrow> ('g driver, unit) pyM" where
  "release_claim E b info =
     (case ref_count info of
        None \<Rightarrow> raise_exn (KeyError ''ref_count'')
      | Some n \<Rightarrow>
          let info' = info\<lparr>ref_count := Some (n - 1)\<rparr> in
          seqE (put_buffer b info') (
          if n - 1 \<le> 0 then
            bindE (getM ALLOCATED_BUFFERS) (\<lambda>d.
            seqE (for_each (free_one E b) (all_to_free b info' d))
                 (pop_buffer b))
          else ret ()))"

definition NodeUnstageWeight :: "'g env \<Rightarrow> string \<Rightarrow> ('g driver, unit) pyM" where
  "NodeUnstageWeight E claim_id =
     try_except (
       bindE (getM (\<lambda>s. dget (KNOWN_CLAIMS s) claim_id)) (\<lambda>c. case c of
         None \<Rightarrow> ret ()
       | Some b \<Rightarrow>
           seqE (modifyM (\<lambda>s. s\<lparr>KNOWN_CLAIMS := ddel (KNOWN_CLAIMS s) claim_id\<rparr>)) (
           bindE (get_buffer b) (\<lambda>i. case i of
             None \<Rightarrow> ret ()
           | Some info \<Rightarrow> release_claim E b info))))
     (\<lambda>e. abort E INTERNAL (exn_str e))"

section \<open>NodeRegisterWeight, NodeTranslateAndMap and the identity service\<close>

definition NodeRegisterWeight :: "'g env \<Rightarrow> string \<Rightarrow> ('g driver, string) pyM" where
  "NodeRegisterWeight E b =
     bindE (get_buffer b) (\<lambda>i. case i of
       None \<Rightarrow> abort E NOT_FOUND (''Buffer '' @ b @ '' not found'')
     | Some info \<Rightarrow> ret (str_int (handle info)))"

definition NodeTranslateAndMap :: "string \<Rightarrow> ('g driver, string) pyM" where
  "NodeTranslateAndMap claim_id = ret (path_join SOCKET_DIR (claim_id @ ''.sock''))"

definition GetPluginInfo :: "string \<times> string" where
  "GetPluginInfo = (''wpi-driver'', ''v0.1.0'')"

datatype plugin_capability =
  UNKNOWN | CROSS_VENDOR_TRANSFER | ON_THE_FLY_RESHAPING | PRE_STAGING_SUPPORT

definition GetPluginCapabilities :: "plugin_capability list" where
  "GetPluginCapabilities = [ON_THE_FLY_RESHAPING]"

section \<open>What the handlers do to the dictionaries\<close>

definition tables :: "'g driver \<Rightarrow> buf_info dict \<times> string dict" where
  "tables s = (ALLOCATED_BUFFERS s, KNOWN_CLAIMS s)"

lemma tables_only_tables: "tables_only (\<lambda>s. tables s = T)"
  by (simp add: tables_only_def tables_def)

lemmas keeps_same_tables = keeps_tables [OF tables_only_tables]

lemma keeps_sameD: "keeps (\<lambda>s. tables s = T) m \<Longrightarrow> tables s = T \<Longrightarrow> m s = (r, s') \<Longrightarrow> tables s' = T"
  using keepsD [of "\<lambda>s. tables s = T" m s] by simp

lemma copy_tensors_tables: "keeps (\<lambda>s. tables s = T) (copy_tensors E base off ts)"
  by (induction ts arbitrary: off) (auto simp: Let_def intro!: keeps_intro keeps_same_tables)

lemma stage_load_tables: "keeps (\<lambda>s. tables s = T) (stage_load E base src)"
  unfolding stage_load_def load_safetensors_def
  by (auto intro!: keeps_intro keeps_same_tables copy_tensors_tables)

text \<open>The entries that survive when buffer \<open>b\<close> is released for good.\<close>

definition drop_buffer :: "string \<Rightarrow> buf_info dict \<Rightarrow> buf_info dict" where
  "drop_buffer b d = filter (\<lambda>p. fst p \<noteq> b \<and> \<not> startswith (fst p) (b @ ''_gpu'')) d"

lemma dget_drop_buffer [simp]:
  "dget (drop_buffer b d) k = (if k = b \<or> startswith k (b @ ''_gpu'') then None else dget d k)"
  unfolding drop_buffer_def by (induction d) auto

lemma dict_ok_drop_buffer [simp]: "dict_ok d \<Longrightarrow> dict_ok (drop_buffer b d)"
  by (simp add: dict_ok_def drop_buffer_def distinct_map_filter)

text \<open>
  The effect of unstaging on the two dictionaries, as a pure function: it does not depend on what
  the CUDA calls answer, because \<open>NodeUnstageWeight\<close> catches their failures one by one.
\<close>

definition unstage_tables ::
  "string \<Rightarrow> buf_info dict \<times> string dict \<Rightarrow> buf_info dict \<times> string dict" where
  "unstage_tables c = (\<lambda>(A, C).
     case dget C c of
       None \<Rightarrow> (A, C)
     | Some b \<Rightarrow>
         (case dget A b of
            None \<Rightarrow> A
          | Some i \<Rightarrow>
              (case ref_count i of
                 None \<Rightarrow> A
               | Some n \<Rightarrow> if n \<le> 1 then drop_buffer b A
                           else dput A b (i\<lparr>ref_count := Some (n - 1)\<rparr>)),
          ddel C c))"

lemma free_one_returns:
  "\<exists>t. free_one E b x s = (Inr (), t)
      \<and> tables t = ((if fst x \<noteq> b then ddel (ALLOCATED_BUFFERS s) (fst x) else ALLOCATED_BUFFERS s),
                    KNOWN_CLAIMS s)"
proof -
  obtain k item where x: "x = (k, item)" by (cases x)
  show ?thesis
    by (auto simp: x free_one_def py_simps tables_def Let_def split: prod.splits sum.splits)
qed

lemma for_each_free_one:
  "\<exists>t. for_each (free_one E b) xs s = (Inr (), t)
      \<and> tables t = (filter (\<lambda>p. fst p = b \<or> fst p \<notin> fst ` set xs) (ALLOCATED_BUFFERS s), KNOWN_CLAIMS s)"
proof (induction xs arbitrary: s)
  case Nil
  then show ?case by (simp add: tables_def ret_def)
next
  case (Cons x xs)
  from free_one_returns [of E b x s] obtain u where
    u: "free_one E b x s = (Inr (), u)"
    and tu: "tables u = ((if fst x \<noteq> b then ddel (ALLOCATED_BUFFERS s) (fst x) else ALLOCATED_BUFFERS s),
                         KNOWN_CLAIMS s)"
    by blast
  from Cons.IH [of u] obtain t where
    t: "for_each (free_one E b) xs u = (Inr (), t)"
    and tt: "tables t = (filter (\<lambda>p. fst p = b \<or> fst p \<notin> fst ` set xs) (ALLOCATED_BUFFERS u), KNOWN_CLAIMS u)"
    by blast
  have "for_each (free_one E b) (x # xs) s = (Inr (), t)"
    using u t by (simp add: seqE_Inr)
  moreover have "tables t = (filter (\<lambda>p. fst p = b \<or> fst p \<notin> fst ` set (x # xs)) (ALLOCATED_BUFFERS s), KNOWN_CLAIMS s)"
    using tt tu by (auto simp: tables_def AList.delete_eq intro!: filter_cong)
  ultimately show ?case by blast
qed

lemma all_to_free_keys: "fst ` set (all_to_free b i d) = insert b (set (relocated_keys b d))"
  by (force simp: all_to_free_def)

lemma filter_dput_other:
  "(\<And>v. \<not> Q (k, v)) \<Longrightarrow> filter Q (dput d k w) = filter Q d"
  by (induction d) auto

lemma release_claim_effect:
  assumes "dget (ALLOCATED_BUFFERS s) b = Some i" and "release_claim E b i s = (r, t)"
  shows "tables t = (case ref_count i of
             None \<Rightarrow> ALLOCATED_BUFFERS s
           | Some n \<Rightarrow> if n \<le> 1 then drop_buffer b (ALLOCATED_BUFFERS s)
                       else dput (ALLOCATED_BUFFERS s) b (i\<lparr>ref_count := Some (n - 1)\<rparr>), KNOWN_CLAIMS s)
       \<and> (r = Inr () \<longleftrightarrow> ref_count i \<noteq> None) \<and> (ref_count i = None \<longrightarrow> r = Inl (KeyError ''ref_count''))"
proof (cases "ref_count i")
  case None
  with assms show ?thesis by (auto simp: release_claim_def raise_exn_def tables_def)
next
  case (Some n)
  define info where "info = i\<lparr>ref_count := Some (n - 1)\<rparr>"
  define u where "u = s\<lparr>ALLOCATED_BUFFERS := dput (ALLOCATED_BUFFERS s) b info\<rparr>"
  show ?thesis
  proof (cases "n \<le> 1")
    case False
    with Some assms(2) show ?thesis
      by (auto simp: release_claim_def py_simps tables_def info_def Let_def)
  next
    case True
    from for_each_free_one [of E b "all_to_free b info (ALLOCATED_BUFFERS u)" u] obtain v where
      v: "for_each (free_one E b) (all_to_free b info (ALLOCATED_BUFFERS u)) u = (Inr (), v)"
      and tv: "tables v = (filter (\<lambda>p. fst p = b \<or> fst p \<notin> fst ` set (all_to_free b info (ALLOCATED_BUFFERS u)))
                              (ALLOCATED_BUFFERS u), KNOWN_CLAIMS u)"
      by blast
    have put: "put_buffer b info s = (Inr (), u)"
      by (simp add: put_buffer_def modifyM_def u_def)
    have run: "release_claim E b i s = pop_buffer b v"
      using Some True v put
      by (simp add: release_claim_def Let_def info_def [symmetric] seqE_Inr bindE_Inr getM_def)
    have "ddel (ALLOCATED_BUFFERS v) b = drop_buffer b (ALLOCATED_BUFFERS u)"
      using tv unfolding all_to_free_keys
      by (auto simp: tables_def AList.delete_eq drop_buffer_def relocated_keys_def intro!: filter_cong)
    also have "\<dots> = drop_buffer b (ALLOCATED_BUFFERS s)"
      by (simp add: u_def drop_buffer_def filter_dput_other)
    finally show ?thesis
      using run assms(2) tv Some True by (auto simp: pop_buffer_def modifyM_def tables_def u_def)
  qed
qed

lemma unstage_effect:
  assumes "NodeUnstageWeight E c s = (r, t)"
  shows "tables t = unstage_tables c (tables s)"
proof (cases "dget (KNOWN_CLAIMS s) c")
  case None
  with assms show ?thesis
    by (auto simp: NodeUnstageWeight_def unstage_tables_def tables_def py_simps)
next
  case C: (Some b)
  define u where "u = s\<lparr>KNOWN_CLAIMS := ddel (KNOWN_CLAIMS s) c\<rparr>"
  show ?thesis
  proof (cases "dget (ALLOCATED_BUFFERS s) b")
    case None
    with C assms show ?thesis
      by (auto simp: NodeUnstageWeight_def unstage_tables_def tables_def py_simps)
  next
    case (Some i)
    obtain r' v where rv: "release_claim E b i u = (r', v)" by (cases "release_claim E b i u")
    have "NodeUnstageWeight E c s = try_except (release_claim E b i) (\<lambda>e. abort E INTERNAL (exn_str e)) u"
      using C Some
      by (simp add: NodeUnstageWeight_def try_except_def bindE_def getM_def seqE_def modifyM_def
          get_buffer_def u_def)
    with assms rv have "tables t = tables v"
      by (cases r') (auto simp: py_simps tables_def)
    with release_claim_effect [OF _ rv] Some C show ?thesis
      by (simp add: unstage_tables_def tables_def u_def split: option.splits)
  qed
qed

lemma unstage_tables_snd: "tables (snd (NodeUnstageWeight E c s)) = unstage_tables c (tables s)"
  by (rule unstage_effect [of E c s "fst (NodeUnstageWeight E c s)"]) simp

lemma start_servers_effect:
  assumes "dget (ALLOCATED_BUFFERS s) k = Some i"
  shows "start_servers k s =
     (Inr (), s\<lparr>ALLOCATED_BUFFERS := dput (ALLOCATED_BUFFERS s) k (i\<lparr>notify_sock_path := Some (notify_path k)\<rparr>),
                events := events s @ [EvStart (PassFd (fd_sock_path k) k), EvStart (NotifyServer (notify_path k) k)]\<rparr>)"
  using assms by (simp add: start_servers_def py_simps)

text \<open>
  The outcomes of staging a buffer that is not tracked yet: an error before anything was stored, an
  error while loading the weights (the entry stays), or a complete entry with both servers.
\<close>

definition staged_entry :: "NodeStageWeightRequest \<Rightarrow> int \<Rightarrow> int \<times> int \<times> int \<Rightarrow> buf_info" where
  "staged_entry req g x = (new_buffer req g x)\<lparr>notify_sock_path := Some (notify_path (stage_id req))\<rparr>"

lemma ref_count_new [simp]:
  "ref_count (new_buffer req g x) = Some 1" "ref_count (staged_entry req g x) = Some 1"
  by (simp_all add: new_buffer_def staged_entry_def split: prod.splits)

lemma stage_new_effect:
  assumes run: "stage_new E req s = (r, t)"
  shows "(\<exists>e. r = Inl e \<and> tables t = tables s)
       \<or> (\<exists>e g x. r = Inl e \<and> tables t = (dput (ALLOCATED_BUFFERS s) (stage_id req) (new_buffer req g x), KNOWN_CLAIMS s))
       \<or> (\<exists>x. r = Inr () \<and> tables t = (dput (ALLOCATED_BUFFERS s) (stage_id req) (staged_entry req (stage_gpu E req) x), KNOWN_CLAIMS s))"
proof -
  let ?g = "stage_gpu E req" and ?k = "stage_id req"
  show ?thesis
  proof (cases "socket_dir_err E = None \<and> cuda_ready s")
    case False
    with run show ?thesis
      by (auto simp: stage_new_def py_simps tables_def split: option.splits if_splits)
  next
    case True
    obtain ru u where u: "use_gpu E ?g s = (ru, u)" by (cases "use_gpu E ?g s")
    have tu: "tables u = tables s" by (rule keeps_sameD [OF keeps_same_tables(6) refl u])
    obtain rv v where v: "on_alloc (allocate_and_export (libcuda_of E) (stage_size req) ?g) u = (rv, v)"
      by (cases "on_alloc (allocate_and_export (libcuda_of E) (stage_size req) ?g) u")
    have tv: "tables v = tables s" by (rule keeps_sameD [OF keeps_same_tables(1) tu v])
    have step: "stage_new E req s =
        (case ru of Inl e \<Rightarrow> (Inl e, u) | Inr _ \<Rightarrow> (case rv of Inl e \<Rightarrow> (Inl e, v) | Inr x \<Rightarrow>
          seqE (put_buffer ?k (new_buffer req ?g x)) (
          seqE (stage_load E (snd (snd x)) (req_source_path req)) (start_servers ?k)) v))"
      using True u v
      by (simp add: stage_new_def Let_def seqE_def bindE_def may_raise_def ret_def getM_def
          del: on_alloc_returns split: sum.splits)
    show ?thesis
    proof (cases "ru")
      case (Inl e) with step run tu show ?thesis by auto
    next
      case ru: (Inr y)
      show ?thesis
      proof (cases rv)
        case (Inl e) with ru step run tv show ?thesis by auto
      next
        case (Inr x)
        define w where "w = v\<lparr>ALLOCATED_BUFFERS := dput (ALLOCATED_BUFFERS v) ?k (new_buffer req ?g x)\<rparr>"
        obtain rz z where z: "stage_load E (snd (snd x)) (req_source_path req) w = (rz, z)"
          by (cases "stage_load E (snd (snd x)) (req_source_path req) w")
        have tz: "tables z = (dput (ALLOCATED_BUFFERS s) ?k (new_buffer req ?g x), KNOWN_CLAIMS s)"
          by (rule keeps_sameD [OF stage_load_tables _ z]) (use tv in \<open>simp add: tables_def w_def\<close>)
        have run2: "stage_new E req s = (case rz of Inl e \<Rightarrow> (Inl e, z) | Inr _ \<Rightarrow> start_servers ?k z)"
          using step ru Inr z
          by (simp add: seqE_def bindE_def put_buffer_def modifyM_def w_def [symmetric] split: sum.splits)
        show ?thesis
        proof (cases rz)
          case (Inl e)
          with run2 run tz have "r = Inl e \<and> tables t =
              (dput (ALLOCATED_BUFFERS s) ?k (new_buffer req ?g x), KNOWN_CLAIMS s)" by simp
          then show ?thesis by blast
        next
          case rz: (Inr y)
          have "dget (ALLOCATED_BUFFERS z) ?k = Some (new_buffer req ?g x)"
            using tz by (simp add: tables_def)
          from start_servers_effect [OF this] rz run2 run tz have "r = Inr () \<and> tables t =
              (dput (ALLOCATED_BUFFERS s) ?k (staged_entry req ?g x), KNOWN_CLAIMS s)"
            by (auto simp: tables_def staged_entry_def)
          then show ?thesis by blast
        qed
      qed
    qed
  qed
qed

text \<open>The possible effects of \<open>NodeStageWeight\<close> on \<open>ALLOCATED_BUFFERS\<close>, with its result.\<close>

definition stage_outcome ::
  "'g env \<Rightarrow> NodeStageWeightRequest \<Rightarrow> buf_info dict \<Rightarrow> exn + unit \<Rightarrow> buf_info dict \<Rightarrow> bool" where
  "stage_outcome E req A r A' =
     (case dget A (stage_id req) of
        Some i \<Rightarrow> (case ref_count i of
            None \<Rightarrow> r = Inl (Exception (abort_str E)) \<and> A' = A
          | Some n \<Rightarrow> r = Inr () \<and> A' = dput A (stage_id req) (i\<lparr>ref_count := Some (n + 1)\<rparr>))
      | None \<Rightarrow>
          (r = Inl (Exception (abort_str E)) \<and> A' = A)
        \<or> (r = Inl (Exception (abort_str E)) \<and> (\<exists>g x. A' = dput A (stage_id req) (new_buffer req g x)))
        \<or> (r = Inr () \<and> (\<exists>x. A' = dput A (stage_id req) (staged_entry req (stage_gpu E req) x))))"

lemma stage_effect:
  assumes run: "NodeStageWeight E req s = (r, t)"
  shows "KNOWN_CLAIMS t = dput (KNOWN_CLAIMS s) (req_claim_id req) (stage_id req)
       \<and> stage_outcome E req (ALLOCATED_BUFFERS s) r (ALLOCATED_BUFFERS t)"
proof -
  define u where "u = s\<lparr>KNOWN_CLAIMS := dput (KNOWN_CLAIMS s) (req_claim_id req) (stage_id req)\<rparr>"
  have body: "NodeStageWeight E req s =
      try_except (case dget (ALLOCATED_BUFFERS s) (stage_id req) of
         Some info \<Rightarrow> stage_again (stage_id req) info | None \<Rightarrow> stage_new E req)
       (\<lambda>e. abort E INTERNAL (exn_str e)) u"
    by (simp add: NodeStageWeight_def try_except_def seqE_def bindE_def modifyM_def get_buffer_def
        getM_def u_def)
  show ?thesis
  proof (cases "dget (ALLOCATED_BUFFERS s) (stage_id req)")
    case (Some i)
    with run show ?thesis
      unfolding body stage_outcome_def
      by (cases "ref_count i") (auto simp: stage_again_def py_simps u_def)
  next
    case None
    obtain rw w where w: "stage_new E req u = (rw, w)" by (cases "stage_new E req u")
    from None run have t: "(r, t) = (case rw of Inl e \<Rightarrow>
        (Inl (Exception (abort_str E)), w\<lparr>aborts := aborts w @ [(INTERNAL, exn_str e)]\<rparr>) | Inr y \<Rightarrow> (Inr y, w))"
      unfolding body by (simp add: try_except_def w py_simps split: sum.splits)
    from stage_new_effect [OF w] t None show ?thesis
      unfolding stage_outcome_def tables_def u_def
      by (elim disjE exE conjE; simp; blast)
  qed
qed

end
