(* ===== verification/Driver_Sockets.thy ===== *)
theory Driver_Sockets
  imports Driver_Staging
begin

text \<open>
  The driver's UNIX socket servers and the notifications to local consumers:
  \<open>send_pre_update_signal\<close>, the READY loops of the two transfer handlers (the same code as the
  PRE_UPDATE loop), \<open>pass_fd_server\<close> with its dynamic relocation, and \<open>notify_server\<close>. A server
  thread is the sequence of the connections it accepts.
\<close>

section \<open>Notifications\<close>

definition newline :: char where
  "newline = CHR 0x0A"

definition PRE_UPDATE :: bytes where
  "PRE_UPDATE = ''PRE_UPDATE'' @ [newline]"

definition READY :: bytes where
  "READY = ''READY'' @ [newline]"

text \<open>The sending loop: it returns the sockets on which \<open>sendall\<close> raised.\<close>

primrec send_each :: "'g env \<Rightarrow> bytes \<Rightarrow> sock list \<Rightarrow> ('g driver, sock list) pyM" where
  "send_each E msg [] = ret []"
| "send_each E msg (c # cs) =
     bindE (try_except (seqE (sendall E c msg) (ret [])) (\<lambda>_. ret [c])) (\<lambda>b.
     bindE (send_each E msg cs) (\<lambda>bs. ret (b @ bs)))"

definition remove_broken :: "sock list \<Rightarrow> sock list \<Rightarrow> sock list" where
  "remove_broken socks broken = foldl (\<lambda>l c. remove1 c l) socks broken"

definition notify_consumers :: "'g env \<Rightarrow> string \<Rightarrow> bytes \<Rightarrow> ('g driver, unit) pyM" where
  "notify_consumers E k msg =
     bindE (get_buffer k) (\<lambda>b. case b of
       None \<Rightarrow> ret ()
     | Some info \<Rightarrow>
         bindE (send_each E msg (notify_sockets info)) (\<lambda>broken.
         put_buffer k (info\<lparr>notify_sockets := remove_broken (notify_sockets info) broken\<rparr>)))"

definition send_pre_update_signal :: "'g env \<Rightarrow> string \<Rightarrow> ('g driver, unit) pyM" where
  "send_pre_update_signal E k = notify_consumers E k PRE_UPDATE"

text \<open>\<open>notify_server\<close>: an accepted connection joins the buffer's list, or is closed.\<close>

definition notify_accept :: "string \<Rightarrow> sock \<Rightarrow> ('g driver, unit) pyM" where
  "notify_accept k c =
     bindE (get_buffer k) (\<lambda>b. case b of
       Some info \<Rightarrow> put_buffer k (info\<lparr>notify_sockets := notify_sockets info @ [c]\<rparr>)
     | None \<Rightarrow> emit (EvClose c))"

text \<open>The accept loop ends at the first exception.\<close>

fun notify_loop :: "string \<Rightarrow> (exn + sock) list \<Rightarrow> ('g driver, unit) pyM" where
  "notify_loop k [] = ret ()"
| "notify_loop k (Inl e # as) = ret ()"
| "notify_loop k (Inr c # as) = seqE (notify_accept k c) (notify_loop k as)"

definition notify_server :: "string \<Rightarrow> exn option \<Rightarrow> (exn + sock) list \<Rightarrow> ('g driver, unit) pyM" where
  "notify_server k bind_err as = (case bind_err of Some e \<Rightarrow> ret () | None \<Rightarrow> notify_loop k as)"

section \<open>The FD-passing server\<close>

definition OK_line :: bytes where
  "OK_line = ''OK'' @ [newline]"

text \<open>The requested device: \<open>GPU=<n>\<close>, and device 0 for anything else.\<close>

definition parse_gpu :: "string \<Rightarrow> int" where
  "parse_gpu txt =
     (let d = strip txt in
      if startswith d ''GPU='' then
        (case py_int (split_all (CHR ''='') d ! 1) of Inr i \<Rightarrow> i | Inl _ \<Rightarrow> 0)
      else 0)"

definition relocate_key :: "string \<Rightarrow> int \<Rightarrow> string" where
  "relocate_key k g = k @ ''_gpu'' @ str_int g"

definition relocated_buffer :: "buf_info \<Rightarrow> int \<Rightarrow> int \<times> int \<times> int \<Rightarrow> buf_info" where
  "relocated_buffer info g = (\<lambda>(f, h, p).
     \<lparr>device_ptr = p, size_bytes = size_bytes info, handle = h, fd = f, gpu_id = g,
      notify_sockets = [], ref_count = None, source_path = None, shard_index = None,
      total_shards = None, parent_buffer = None, notify_sock_path = None\<rparr>)"

definition relocate_buffer :: "'g env \<Rightarrow> string \<Rightarrow> buf_info \<Rightarrow> int \<Rightarrow> ('g driver, int) pyM" where
  "relocate_buffer E k info g =
     bindE (getM cuda_ready) (\<lambda>ready.
     if ready then
       bindE (on_alloc (allocate_and_export (libcuda_of E) (size_bytes info) g)) (\<lambda>r.
       seqE (if cupy_available E then
               seqE (use_gpu E (gpu_id info)) (
               seqE (use_gpu E g)
                    (bindE (on_alloc (cu_call (copy_d2d E (snd (snd r)) (device_ptr info)
                                                 (size_bytes info div 2)))) may_raise))
             else raise_exn (Exception ''CuPy not available for D2D copy.''))
            (seqE (put_buffer (relocate_key k g) (relocated_buffer info g r)) (ret (fst r))))
     else raise_exn (AttributeError ''allocate_and_export''))"

text \<open>
  The descriptor to hand out: the buffer's own, one relocated before, or a fresh relocation. When
  the relocation fails, the client is told and the connection closed (\<open>None\<close>).
\<close>

definition fd_to_send :: "'g env \<Rightarrow> string \<Rightarrow> buf_info \<Rightarrow> int \<Rightarrow> sock \<Rightarrow> ('g driver, int option) pyM" where
  "fd_to_send E k info g c =
     (if g \<noteq> gpu_id info then
        bindE (get_buffer (relocate_key k g)) (\<lambda>b. case b of
          Some j \<Rightarrow> ret (Some (fd j))
        | None \<Rightarrow>
            try_except (bindE (relocate_buffer E k info g) (\<lambda>f. ret (Some f)))
              (\<lambda>_. seqE (sendall E c (''ERROR_RELOCATION_FAILED'' @ [newline])) (
                    seqE (emit (EvClose c)) (ret None))))
      else ret (Some (fd info)))"

definition pass_fd_conn :: "'g env \<Rightarrow> string \<Rightarrow> sock \<times> bytes \<Rightarrow> ('g driver, unit) pyM" where
  "pass_fd_conn E k = (\<lambda>(c, raw).
     try_except (
       bindE (lift_sum (decode_utf8 raw)) (\<lambda>txt.
       bindE (get_buffer k) (\<lambda>b. case b of
         None \<Rightarrow> emit (EvClose c)
       | Some info \<Rightarrow>
           bindE (fd_to_send E k info (parse_gpu txt) c) (\<lambda>o_fd. case o_fd of
             None \<Rightarrow> ret ()
           | Some f \<Rightarrow>
               seqE (may_raise (send_err E c OK_line)) (
               seqE (emit (EvSendFd c OK_line f)) (emit (EvClose c)))))))
     (\<lambda>_. ret ()))"

definition pass_fd_server :: "'g env \<Rightarrow> string \<Rightarrow> exn option \<Rightarrow> (sock \<times> bytes) list \<Rightarrow> ('g driver, unit) pyM" where
  "pass_fd_server E k bind_err conns =
     seqE (may_raise bind_err) (for_each (pass_fd_conn E k) conns)"

section \<open>Effect of a notification\<close>

lemma remove1_prefix: "c \<notin> set ys \<Longrightarrow> remove1 c (ys @ xs) = ys @ remove1 c xs"
  by (induction ys) auto

lemma remove_broken_filter: "remove_broken xs (filter (\<lambda>c. \<not> P c) xs) = filter P xs"
proof -
  have "foldl (\<lambda>l c. remove1 c l) (ys @ xs) (filter (\<lambda>c. \<not> P c) xs) = ys @ filter P xs"
    if "list_all P ys" for ys
    using that
  proof (induction xs arbitrary: ys)
    case Nil
    then show ?case by simp
  next
    case (Cons x xs)
    show ?case
    proof (cases "P x")
      case True
      with Cons.prems Cons.IH [of "ys @ [x]"] show ?thesis by simp
    next
      case False
      with Cons.prems have "x \<notin> set ys" by (auto simp: list_all_iff)
      with False Cons.IH [of ys] Cons.prems show ?thesis by (simp add: remove1_prefix)
    qed
  qed
  from this [of "[]"] show ?thesis by (simp add: remove_broken_def)
qed

lemma send_each_effect:
  "send_each E msg cs s =
     (Inr (filter (\<lambda>c. send_err E c msg \<noteq> None) cs),
      s\<lparr>events := events s @ map (\<lambda>c. EvSend c msg) (filter (\<lambda>c. send_err E c msg = None) cs)\<rparr>)"
proof (induction cs arbitrary: s)
  case Nil
  then show ?case by (simp add: ret_def)
next
  case (Cons c cs)
  show ?case
    by (cases "send_err E c msg") (simp_all add: py_simps Cons.IH del: bindE_ret)
qed

lemma notify_consumers_effect:
  "notify_consumers E k msg s =
     (Inr (), case dget (ALLOCATED_BUFFERS s) k of
        None \<Rightarrow> s
      | Some i \<Rightarrow>
          (let ok = filter (\<lambda>c. send_err E c msg = None) (notify_sockets i) in
           s\<lparr>events := events s @ map (\<lambda>c. EvSend c msg) ok,
             ALLOCATED_BUFFERS := dput (ALLOCATED_BUFFERS s) k (i\<lparr>notify_sockets := ok\<rparr>)\<rparr>))"
  using remove_broken_filter [of _ "\<lambda>c. send_err E c msg = None"]
  by (auto simp: notify_consumers_def send_each_effect bindE_def getM_def get_buffer_def
      put_buffer_def modifyM_def ret_def Let_def split: option.splits)

end
