(* ===== verification/Driver_Transfer.thy ===== *)
theory Driver_Transfer
  imports Driver_Sockets
begin

text \<open>
  The weight transfer between drivers: \<open>NodePropagate\<close> on the source and
  \<open>handle_target_connection\<close> on each target. The source sends one handshake message per target
  over TCP, waits for its \<open>OK\<close>, and then both sides enter NCCL.

  The target's stream is the list of chunks that arrive. The header loop ends at the first newline
  or at the end of the stream and is a total function; the loop that completes the 128 bytes of the
  NCCL identifier has no end-of-stream test, so it is a \<open>partial_function\<close> in which a loop that
  never ends is \<open>None\<close>. A \<open>recv\<close> that raises is not distinguished from a header that does not
  parse: both end in the handler's \<open>except\<close>. Device selection and synchronisation around an NCCL
  call are part of the call's outcome.
\<close>

section \<open>The handshake message\<close>

record target_msg =
  tm_buffer_id :: string
  tm_world_size :: int
  tm_rank :: int
  tm_mode :: int
  scatter_offset :: int
  scatter_length :: int

definition handshake :: "string \<Rightarrow> int \<Rightarrow> int \<Rightarrow> int \<Rightarrow> string \<Rightarrow> bytes \<Rightarrow> bytes" where
  "handshake b ws rank mode meta nid =
     b @ [newline] @ str_int ws @ [newline] @ str_int rank @ [newline] @ str_int mode @ [newline]
     @ meta @ [newline] @ nid"

definition scatter_meta :: "int \<Rightarrow> int \<Rightarrow> string" where
  "scatter_meta off len = str_int off @ '','' @ str_int len"

text \<open>\<open>while b"\n" not in buf\<close>.\<close>

function read_header :: "bytes \<Rightarrow> bytes list \<Rightarrow> bytes \<times> bytes list" where
  "read_header buf cs =
     (if newline \<in> set buf then (buf, cs)
      else (case recv 1024 cs of (chunk, cs') \<Rightarrow>
              if chunk = [] then (buf, cs') else read_header (buf @ chunk) cs'))"
  by pat_completeness auto
termination
proof (relation "measure (\<lambda>(b, cs). length (concat cs))", goal_cases)
  case 1
  then show ?case by simp
next
  case (2 buf cs chunk cs')
  then have "chunk @ concat cs' = concat cs" by (metis recv_concat)
  then have "length chunk + length (concat cs') = length (concat cs)" by (metis length_append)
  moreover have "0 < length chunk" using 2 by simp
  ultimately have "length (concat cs') < length (concat cs)" by linarith
  then show ?case by simp
qed

declare read_header.simps [simp del]

definition int_field :: "bytes list \<Rightarrow> nat \<Rightarrow> exn + int" where
  "int_field parts i = bindS (index parts i) (\<lambda>p. bindS (decode_utf8 p) py_int)"

text \<open>The fields of the header; the last part is the beginning of the NCCL identifier.\<close>

definition parse_header :: "bytes \<Rightarrow> exn + target_msg \<times> bytes" where
  "parse_header buf =
     (let parts = split_max newline 5 buf in
      bindS (bindS (index parts 0) decode_utf8) (\<lambda>b.
      bindS (int_field parts 1) (\<lambda>ws.
      bindS (int_field parts 2) (\<lambda>rank.
      bindS (if 4 < length parts then int_field parts 3 else Inr 0) (\<lambda>mode.
      bindS (if mode = 1 \<and> 5 < length parts then
               bindS (bindS (index parts 4) decode_utf8) (\<lambda>meta.
               let mp = split_all (CHR '','') meta in
               bindS (bindS (index mp 0) py_int) (\<lambda>off.
               bindS (bindS (index mp 1) py_int) (\<lambda>len. Inr (off, len))))
             else Inr (0, 0)) (\<lambda>ol.
      Inr (\<lparr>tm_buffer_id = b, tm_world_size = ws, tm_rank = rank, tm_mode = mode,
            scatter_offset = fst ol, scatter_length = snd ol\<rparr>, last parts)))))))"

text \<open>\<open>while len(nccl_id_bytes) < 128\<close>.\<close>

partial_function (option) read_id :: "bytes \<Rightarrow> bytes list \<Rightarrow> bytes option" where
  "read_id b cs =
     (if length b < 128 then (case recv (128 - length b) cs of (c, cs') \<Rightarrow> read_id (b @ c) cs')
      else Some b)"

declare read_id.simps [code]

section \<open>handle\_target\_connection\<close>

definition ERROR_line :: bytes where
  "ERROR_line = ''ERROR'' @ [newline]"

definition nccl_destroy :: "'g env \<Rightarrow> ('g driver, unit) pyM" where
  "nccl_destroy E = try_except (nccl E NcclDestroy)
     (\<lambda>e. case e of AttributeError _ \<Rightarrow> ret () | _ \<Rightarrow> raise_exn e)"

text \<open>The collective operation a target joins.\<close>

definition target_op :: "target_msg \<Rightarrow> buf_info \<Rightarrow> nccl_op" where
  "target_op m info =
     (if tm_mode m = 1 \<and> 0 < scatter_length m
      then NcclRecv (device_ptr info + scatter_offset m) (scatter_length m div 2) 0
      else NcclBcast (device_ptr info) (size_bytes info div 2) 0)"

definition target_transfer :: "'g env \<Rightarrow> sock \<Rightarrow> target_msg \<Rightarrow> bytes \<Rightarrow> ('g driver, unit) pyM" where
  "target_transfer E c m nid =
     bindE (get_buffer (tm_buffer_id m)) (\<lambda>b. case b of
       None \<Rightarrow> seqE (sendall E c ERROR_line) (emit (EvClose c))
     | Some info \<Rightarrow>
         seqE (send_pre_update_signal E (tm_buffer_id m)) (
         seqE (sendall E c OK_line) (
         bindE (getM cuda_ready) (\<lambda>ready.
         if cupy_available E \<and> ready then
           seqE (nccl E (NcclInit (tm_world_size m) nid (tm_rank m))) (
           seqE (nccl E (target_op m info)) (
           seqE (nccl_destroy E)
                (notify_consumers E (tm_buffer_id m) READY)))
         else ret ()))))"

text \<open>The whole handler: \<open>None\<close> when its thread never ends.\<close>

definition handle_target_connection ::
  "'g env \<Rightarrow> sock \<Rightarrow> bytes list \<Rightarrow> 'g driver \<Rightarrow> 'g driver option" where
  "handle_target_connection E c chunks s =
     (case read_header [] chunks of (buf, rest) \<Rightarrow>
        let finish = (\<lambda>m. snd (seqE (try_except m (\<lambda>_. ret ())) (emit (EvClose c)) s)) in
        if buf = [] then Some (finish (emit (EvClose c)))
        else (case parse_header buf of
                Inl e \<Rightarrow> Some (finish (raise_exn e))
              | Inr (m, start) \<Rightarrow>
                  map_option (\<lambda>nid. finish (target_transfer E c m nid)) (read_id start rest)))"

section \<open>NodePropagate\<close>

definition is_scatter :: "NodePropagateRequest \<Rightarrow> bool" where
  "is_scatter req \<longleftrightarrow> prop_mode req = 1 \<and> shard_assignments req \<noteq> []"

definition target_buffer_id :: "string \<Rightarrow> int \<Rightarrow> string" where
  "target_buffer_id b shard =
     (if 0 \<le> shard then before_sep ''__shard_'' b @ ''__shard_'' @ str_int shard else b)"

text \<open>Node, buffer name and scatter field of each connection, in the order of the ranks.\<close>

definition propagate_targets :: "NodePropagateRequest \<Rightarrow> (string \<times> string \<times> string) list" where
  "propagate_targets req =
     (if is_scatter req then
        map (\<lambda>a. (target_node_id a, target_buffer_id (prop_buffer_id req) (sint (as_shard_index a)),
                  scatter_meta (uint (offset_bytes a)) (uint (length_bytes a)))) (shard_assignments req)
      else map (\<lambda>ip. (ip, prop_buffer_id req, ''0,0'')) (target_node_ids req))"

definition world_size :: "NodePropagateRequest \<Rightarrow> int" where
  "world_size req = int (length (propagate_targets req)) + 1"

definition rejected :: "string \<Rightarrow> bytes \<Rightarrow> string" where
  "rejected node resp = ''Target node '' @ node @ '' rejected NCCL preparation: '' @ repr_bytes resp"

definition connect_target ::
  "'g env \<Rightarrow> (nat \<Rightarrow> string \<times> string \<times> string \<Rightarrow> bytes) \<Rightarrow> nat \<Rightarrow> string \<times> string \<times> string \<Rightarrow> ('g driver, unit) pyM" where
  "connect_target E msg rank tgt =
     seqE (may_raise (connect_err E (fst tgt))) (
     seqE (emit (EvConnect (Target rank) (fst tgt))) (
     seqE (sendall E (Target rank) (msg rank tgt)) (
     bindE (lift_sum (target_reply E (fst tgt) (msg rank tgt))) (\<lambda>resp.
     if contains ''OK'' resp then ret () else raise_exn (Exception (rejected (fst tgt) resp))))))"

primrec connect_all ::
  "'g env \<Rightarrow> (nat \<Rightarrow> string \<times> string \<times> string \<Rightarrow> bytes) \<Rightarrow> nat \<Rightarrow> (string \<times> string \<times> string) list \<Rightarrow> ('g driver, sock list) pyM" where
  "connect_all E msg rank [] = ret []"
| "connect_all E msg rank (x # xs) =
     seqE (connect_target E msg rank x) (
     bindE (connect_all E msg (rank + 1) xs) (\<lambda>ss. ret (Target rank # ss)))"

definition target_message :: "NodePropagateRequest \<Rightarrow> bytes \<Rightarrow> nat \<Rightarrow> string \<times> string \<times> string \<Rightarrow> bytes" where
  "target_message req nid rank = (\<lambda>(node, b, meta).
     handshake b (world_size req) (int rank) (prop_mode req) meta nid)"

text \<open>The operations of rank 0: one send per shard, or one broadcast.\<close>

definition source_ops :: "NodePropagateRequest \<Rightarrow> buf_info \<Rightarrow> nccl_op list" where
  "source_ops req info =
     (if is_scatter req then
        map (\<lambda>(i, a). NcclSend (device_ptr info + uint (offset_bytes a)) (uint (length_bytes a) div 2) (int i + 1))
            (enumerate 0 (shard_assignments req))
      else [NcclBcast (device_ptr info) (size_bytes info div 2) 0])"

text \<open>The body up to the last notification.\<close>

definition propagate_work :: "'g env \<Rightarrow> NodePropagateRequest \<Rightarrow> buf_info \<Rightarrow> ('g driver, unit) pyM" where
  "propagate_work E req info =
     seqE (may_raise (if cupy_available E then None
                      else Some (Exception ''cupy is not available. Cannot perform NCCL transfer.''))) (
     seqE (send_pre_update_signal E (prop_buffer_id req)) (
     bindE (lift_sum (nccl_unique_id E)) (\<lambda>nid.
     bindE (connect_all E (target_message req nid) 1 (propagate_targets req)) (\<lambda>socks.
     seqE (nccl E (NcclInit (world_size req) nid 0)) (
     seqE (for_each (nccl E) (source_ops req info)) (
     seqE (nccl_destroy E) (for_each (\<lambda>c. emit (EvClose c)) socks)))))))"

definition propagate_body :: "'g env \<Rightarrow> NodePropagateRequest \<Rightarrow> ('g driver, unit) pyM" where
  "propagate_body E req =
     bindE (get_buffer (prop_buffer_id req)) (\<lambda>b. case b of
       None \<Rightarrow> raise_exn (Exception (''Buffer '' @ prop_buffer_id req @ '' not found in local tracking.''))
     | Some info \<Rightarrow>
         seqE (propagate_work E req info) (notify_consumers E (prop_buffer_id req) READY))"

definition NodePropagate :: "'g env \<Rightarrow> NodePropagateRequest \<Rightarrow> ('g driver, unit) pyM" where
  "NodePropagate E req = try_except (propagate_body E req) (\<lambda>e. abort E INTERNAL (exn_str e))"

section \<open>The wire format\<close>

lemma str_int_no_newline [simp]: "newline \<notin> set (str_int i)"
  by (auto simp: newline_def is_digit_def code_def dest!: str_int_chars)

lemma str_int_no_comma [simp]: "CHR '','' \<notin> set (str_int i)"
  by (auto simp: is_digit_def code_def dest!: str_int_chars)

lemma newline_not_comma [simp]: "newline \<noteq> CHR '',''"
  by (simp add: newline_def)

lemma scatter_meta_clean [simp]: "newline \<notin> set (scatter_meta off len)" "ascii (scatter_meta off len)"
  using ascii_str_int [of off] ascii_str_int [of len]
  by (auto simp: scatter_meta_def ascii_def code_def)

lemma split_scatter_meta: "split_all (CHR '','') (scatter_meta off len) = [str_int off, str_int len]"
proof -
  obtain n where n: "length (scatter_meta off len) = Suc n"
    by (auto simp: scatter_meta_def)
  show ?thesis
    unfolding split_all_def n
    by (simp add: scatter_meta_def split_max_cut split_max_whole del: split_max.simps)
qed

lemma split_handshake:
  assumes "newline \<notin> set b" "newline \<notin> set meta"
  shows "split_max newline 5 (handshake b ws rank mode meta nid) =
           [b, str_int ws, str_int rank, str_int mode, meta, nid]"
  using assms
  by (simp add: handshake_def eval_nat_numeral split_max_cut del: split_max.simps(2))

text \<open>What the target reads is what the source wrote, wherever the identifier is cut.\<close>

lemma parse_handshake:
  assumes "newline \<notin> set b" "utf8_valid b"
  shows "parse_header (handshake b ws rank mode (scatter_meta off len) nid) =
     Inr (\<lparr>tm_buffer_id = b, tm_world_size = ws, tm_rank = rank, tm_mode = mode,
            scatter_offset = (if mode = 1 then off else 0),
            scatter_length = (if mode = 1 then len else 0)\<rparr>, nid)"
  using assms
  by (simp add: parse_header_def split_handshake int_field_def index_def split_scatter_meta ascii_str_int
      decode_utf8_def ascii_utf8_valid)

lemma read_header_first:
  assumes "newline \<in> set (take 1024 c)"
  shows "read_header [] (c # cs) = (take 1024 c, if length c \<le> 1024 then cs else drop 1024 c # cs)"
proof -
  from assms have "take 1024 c \<noteq> []" by auto
  with assms show ?thesis
    by (subst read_header.simps) (auto simp: read_header.simps [of "take 1024 c"])
qed

text \<open>The identifier loop returns exactly when the stream holds enough bytes.\<close>

lemma read_id_partial:
  assumes "read_id b cs = Some r" "length b \<le> 128"
  shows "128 \<le> length (b @ concat cs) \<and> r = take 128 (b @ concat cs)"
proof -
  let ?P = "\<lambda>b cs r. length b \<le> 128 \<longrightarrow> 128 \<le> length (b @ concat cs) \<and> r = take 128 (b @ concat cs)"
  have "?P b cs r"
  proof (rule read_id.raw_induct [of ?P, OF _ assms(1)])
    fix rd b cs r
    assume IH: "\<And>b cs r. rd b cs = Some r \<Longrightarrow> ?P b cs r"
      and step: "(if length b < 128 then (case recv (128 - length b) cs of (c, cs') \<Rightarrow> rd (b @ c) cs')
                 else Some b) = Some r"
    obtain c cs' where rc: "recv (128 - length b) cs = (c, cs')" by fastforce
    show "?P b cs r"
    proof (cases "length b < 128")
      case True
      with step rc have "rd (b @ c) cs' = Some r" by simp
      from IH [OF this] recv_concat [OF rc] recv_length [OF rc] True show ?thesis by simp
    next
      case False
      with step show ?thesis by auto
    qed
  qed
  with assms(2) show ?thesis by blast
qed

lemma read_id_total:
  assumes "128 \<le> length (b @ concat cs)" "length b \<le> 128"
  shows "read_id b cs = Some (take 128 (b @ concat cs))"
  using assms
proof (induction cs arbitrary: b)
  case Nil
  then show ?case by (subst read_id.simps) simp
next
  case (Cons c cs)
  show ?case
  proof (cases "length b + length c \<le> 128")
    case True
    show ?thesis
    proof (cases "length b < 128")
      case lt: True
      with True have "recv (128 - length b) (c # cs) = (c, cs)" by simp
      with lt have "read_id b (c # cs) = read_id (b @ c) cs" by (subst read_id.simps) simp
      with Cons.IH [of "b @ c"] Cons.prems True show ?thesis by simp
    next
      case False
      with Cons.prems show ?thesis by (subst read_id.simps) simp
    qed
  next
    case False
    then have "read_id (b @ take (128 - length b) c) cs' = Some (b @ take (128 - length b) c)" for cs'
      using Cons.prems by (subst read_id.simps) simp
    with False Cons.prems show ?thesis by (subst read_id.simps) auto
  qed
qed

lemma read_id_diverges:
  assumes "length (b @ concat cs) < 128"
  shows "read_id b cs = None"
proof (cases "read_id b cs")
  case (Some r)
  with read_id_partial [OF this] assms show ?thesis by simp
qed

section \<open>What a transfer does\<close>

text \<open>The events of a run extend those before it, each new one satisfying \<open>Q\<close>.\<close>

definition grows :: "event list \<Rightarrow> (event \<Rightarrow> bool) \<Rightarrow> 'g driver \<Rightarrow> bool" where
  "grows base Q s \<longleftrightarrow> (\<exists>ev. events s = base @ ev \<and> list_all Q ev)"

lemma grows_refl [simp]: "grows (events s) Q s"
  by (simp add: grows_def)

lemma keeps_grows_emit: "Q e \<Longrightarrow> keeps (grows base Q) (emit e)"
proof (rule keepsI)
  fix s :: "'g driver" assume Q: "Q e" and "grows base Q s"
  then obtain ev where "events s = base @ ev" "list_all Q ev" by (auto simp: grows_def)
  with Q show "grows base Q (snd (emit e s))"
    by (auto simp: grows_def emit_def modifyM_def intro!: exI [of _ "ev @ [e]"])
qed

lemma keeps_grows_sendall: "Q (EvSend c b) \<Longrightarrow> keeps (grows base Q) (sendall E c b)"
  by (auto simp: sendall_def intro!: keeps_intro keeps_grows_emit)

lemma keeps_grows_nccl: "Q (EvNccl op) \<Longrightarrow> keeps (grows base Q) (nccl E op)"
  by (auto simp: nccl_def intro!: keeps_intro keeps_grows_emit)

lemma keeps_grows_put: "keeps (grows base Q) (put_buffer k i)"
  by (auto simp: put_buffer_def grows_def intro: keeps_modifyM)

lemma keeps_grows_abort: "keeps (grows base Q) (abort E st msg)"
  by (auto simp: grows_def intro: keeps_abort)

lemma keeps_grows_destroy:
  assumes "Q (EvNccl NcclDestroy)"
  shows "keeps (grows base Q) (nccl_destroy E)"
  unfolding nccl_destroy_def
proof (rule keeps_try)
  show "keeps (grows base Q) (case e of AttributeError _ \<Rightarrow> ret () | _ \<Rightarrow> raise_exn e)" for e
    by (cases e) (simp_all add: keeps_ret keeps_raise)
qed (simp add: keeps_grows_nccl assms)

lemma keeps_grows_notify:
  assumes "\<And>c. Q (EvSend c msg)"
  shows "keeps (grows base Q) (notify_consumers E k msg)"
proof -
  have "keeps (grows base Q) (send_each E msg cs)" for cs
    by (induction cs) (auto intro!: keeps_intro keeps_grows_sendall assms)
  then show ?thesis
    unfolding notify_consumers_def
    by (auto intro!: keeps_intro keeps_grows_put split: option.splits)
qed

lemmas keeps_grows =
  keeps_grows_emit keeps_grows_sendall keeps_grows_nccl keeps_grows_put keeps_grows_abort
  keeps_grows_destroy keeps_grows_notify

lemma keeps_grows_connect_all:
  assumes "\<And>n x. Q (EvConnect (Target n) x)" "\<And>n m. Q (EvSend (Target n) m)"
  shows "keeps (grows base Q) (connect_all E msg r xs)"
  by (induction xs arbitrary: r)
    (auto simp: connect_target_def intro!: keeps_intro keeps_grows assms)

text \<open>Connections that the target accepts, and the events of connecting to all of them.\<close>

definition accepts :: "'g env \<Rightarrow> nat \<Rightarrow> bytes \<Rightarrow> string \<Rightarrow> bool" where
  "accepts E rank msg node \<longleftrightarrow>
     connect_err E node = None \<and> send_err E (Target rank) msg = None
     \<and> (case target_reply E node msg of Inr resp \<Rightarrow> contains ''OK'' resp | Inl _ \<Rightarrow> False)"

primrec all_accept ::
  "'g env \<Rightarrow> (nat \<Rightarrow> string \<times> string \<times> string \<Rightarrow> bytes) \<Rightarrow> nat \<Rightarrow> (string \<times> string \<times> string) list \<Rightarrow> bool" where
  "all_accept E msg r [] = True"
| "all_accept E msg r (x # xs) = (accepts E r (msg r x) (fst x) \<and> all_accept E msg (r + 1) xs)"

primrec connection_events ::
  "(nat \<Rightarrow> string \<times> string \<times> string \<Rightarrow> bytes) \<Rightarrow> nat \<Rightarrow> (string \<times> string \<times> string) list \<Rightarrow> event list" where
  "connection_events msg r [] = []"
| "connection_events msg r (x # xs) =
     EvConnect (Target r) (fst x) # EvSend (Target r) (msg r x) # connection_events msg (r + 1) xs"

lemma connect_target_returns:
  "connect_target E msg r x s = (Inr u, t) \<longleftrightarrow>
     accepts E r (msg r x) (fst x)
     \<and> t = s\<lparr>events := events s @ [EvConnect (Target r) (fst x), EvSend (Target r) (msg r x)]\<rparr>"
  by (auto simp: connect_target_def accepts_def py_simps split: option.splits sum.splits if_splits)

lemma connect_all_returns:
  "connect_all E msg r xs s = (Inr ss, t) \<longleftrightarrow>
     all_accept E msg r xs \<and> ss = map Target [r..<r + length xs]
     \<and> t = s\<lparr>events := events s @ connection_events msg r xs\<rparr>"
proof (induction xs arbitrary: r s ss)
  case Nil
  then show ?case by auto
next
  case (Cons x xs)
  show ?case
  proof (cases "accepts E r (msg r x) (fst x)")
    case True
    define v where "v = s\<lparr>events := events s @ [EvConnect (Target r) (fst x), EvSend (Target r) (msg r x)]\<rparr>"
    have "connect_target E msg r x s = (Inr (), v)"
      using True by (simp add: connect_target_returns v_def)
    then have "connect_all E msg r (x # xs) s = bindE (connect_all E msg (r + 1) xs) (\<lambda>ss. ret (Target r # ss)) v"
      by (simp add: seqE_Inr)
    moreover have "[r..<r + length (x # xs)] = r # [r + 1..<(r + 1) + length xs]"
      by (simp add: upt_conv_Cons del: upt_Suc)
    ultimately show ?thesis
      using True by (auto simp: bindE_ret_returns Cons.IH v_def)
  next
    case False
    then show ?thesis by (simp add: seqE_returns_iff connect_target_returns)
  qed
qed

text \<open>Loops and calls that raise only when the environment says so.\<close>

lemma nccl_returns: "nccl E op s = (Inr u, t) \<longleftrightarrow> nccl_err E op = None \<and> t = s\<lparr>events := events s @ [EvNccl op]\<rparr>"
  by (auto simp: py_simps split: option.splits)

lemma nccl_each_returns:
  "for_each (nccl E) ops s = (Inr u, t) \<longleftrightarrow>
     list_all (\<lambda>op. nccl_err E op = None) ops \<and> t = s\<lparr>events := events s @ map EvNccl ops\<rparr>"
  by (induction ops arbitrary: s) (auto simp: seqE_returns_iff nccl_returns)

lemma close_each_returns:
  "for_each (\<lambda>c. emit (EvClose c)) cs s = (Inr u, t) \<longleftrightarrow> t = s\<lparr>events := events s @ map EvClose cs\<rparr>"
  by (induction cs arbitrary: s) (auto simp: seqE_returns_iff emit_def)

definition destroy_events :: "'g env \<Rightarrow> event list" where
  "destroy_events E = (if nccl_err E NcclDestroy = None then [EvNccl NcclDestroy] else [])"

definition destroy_ok :: "'g env \<Rightarrow> bool" where
  "destroy_ok E \<longleftrightarrow>
     (case nccl_err E NcclDestroy of None \<Rightarrow> True | Some (AttributeError _) \<Rightarrow> True | Some _ \<Rightarrow> False)"

lemma nccl_destroy_returns:
  "nccl_destroy E s = (Inr u, t) \<longleftrightarrow> destroy_ok E \<and> t = s\<lparr>events := events s @ destroy_events E\<rparr>"
proof (cases "nccl_err E NcclDestroy")
  case None
  then show ?thesis by (auto simp: nccl_destroy_def destroy_ok_def destroy_events_def py_simps)
next
  case (Some e)
  then show ?thesis
    by (cases e) (auto simp: nccl_destroy_def destroy_ok_def destroy_events_def py_simps)
qed

text \<open>The consumers still connected after both notifications of a transfer.\<close>

definition heard :: "'g env \<Rightarrow> bytes \<Rightarrow> sock list \<Rightarrow> sock list" where
  "heard E msg cs = filter (\<lambda>c. send_err E c msg = None) cs"

lemma dput_dput [simp]: "dput (dput d k v) k w = dput d k w"
  by (induction d) auto

lemma notify_returns:
  assumes "dget (ALLOCATED_BUFFERS s) k = Some i"
  shows "notify_consumers E k msg s = (Inr u, t) \<longleftrightarrow>
     t = s\<lparr>events := events s @ map (\<lambda>c. EvSend c msg) (heard E msg (notify_sockets i)),
           ALLOCATED_BUFFERS := dput (ALLOCATED_BUFFERS s) k (i\<lparr>notify_sockets := heard E msg (notify_sockets i)\<rparr>)\<rparr>"
  using assms by (auto simp: notify_consumers_effect Let_def heard_def)

text \<open>Everything a source does in a transfer that succeeds, in order.\<close>

definition propagate_events :: "'g env \<Rightarrow> NodePropagateRequest \<Rightarrow> buf_info \<Rightarrow> bytes \<Rightarrow> event list" where
  "propagate_events E req info nid =
     (let told = heard E PRE_UPDATE (notify_sockets info) in
      map (\<lambda>c. EvSend c PRE_UPDATE) told
      @ connection_events (target_message req nid) 1 (propagate_targets req)
      @ [EvNccl (NcclInit (world_size req) nid 0)]
      @ map EvNccl (source_ops req info)
      @ destroy_events E
      @ map (\<lambda>r. EvClose (Target r)) [1..<1 + length (propagate_targets req)]
      @ map (\<lambda>c. EvSend c READY) (heard E READY told))"

definition propagate_ok :: "'g env \<Rightarrow> NodePropagateRequest \<Rightarrow> buf_info \<Rightarrow> bytes \<Rightarrow> bool" where
  "propagate_ok E req info nid \<longleftrightarrow>
     cupy_available E \<and> nccl_unique_id E = Inr nid
     \<and> all_accept E (target_message req nid) 1 (propagate_targets req)
     \<and> nccl_err E (NcclInit (world_size req) nid 0) = None
     \<and> list_all (\<lambda>op. nccl_err E op = None) (source_ops req info) \<and> destroy_ok E"

lemma propagate_body_returns:
  "propagate_body E req s = (Inr u, t) \<longleftrightarrow>
     (\<exists>info nid. dget (ALLOCATED_BUFFERS s) (prop_buffer_id req) = Some info
        \<and> propagate_ok E req info nid
        \<and> t = s\<lparr>events := events s @ propagate_events E req info nid,
                ALLOCATED_BUFFERS := dput (ALLOCATED_BUFFERS s) (prop_buffer_id req)
                  (info\<lparr>notify_sockets := heard E READY (heard E PRE_UPDATE (notify_sockets info))\<rparr>)\<rparr>)"
proof (cases "dget (ALLOCATED_BUFFERS s) (prop_buffer_id req)")
  case None
  then show ?thesis by (simp add: propagate_body_def bindE_def get_buffer_def getM_def)
next
  case (Some info)
  let ?k = "prop_buffer_id req"
  define told where "told = heard E PRE_UPDATE (notify_sockets info)"
  define v where "v = s\<lparr>events := events s @ map (\<lambda>c. EvSend c PRE_UPDATE) told,
      ALLOCATED_BUFFERS := dput (ALLOCATED_BUFFERS s) ?k (info\<lparr>notify_sockets := told\<rparr>)\<rparr>"
  have pre: "send_pre_update_signal E ?k s = (Inr x, y) \<longleftrightarrow> y = v" for x y
    using Some by (simp add: send_pre_update_signal_def notify_returns v_def told_def)
  have post: "notify_consumers E ?k READY (v\<lparr>events := es\<rparr>) = (Inr x, y) \<longleftrightarrow>
      y = v\<lparr>events := es @ map (\<lambda>c. EvSend c READY) (heard E READY told),
            ALLOCATED_BUFFERS := dput (ALLOCATED_BUFFERS s) ?k (info\<lparr>notify_sockets := heard E READY told\<rparr>)\<rparr>"
    for es x y
    by (subst notify_returns [where i = "info\<lparr>notify_sockets := told\<rparr>"]) (auto simp: v_def)
  have vt: "v\<lparr>events := events v @ es, ALLOCATED_BUFFERS := A\<rparr> =
      s\<lparr>events := events s @ map (\<lambda>c. EvSend c PRE_UPDATE) told @ es, ALLOCATED_BUFFERS := A\<rparr>" for es A
    by (simp add: v_def)
  show ?thesis
    using Some
    by (auto simp: bindE_returns_iff seqE_returns_iff get_buffer_def pre connect_all_returns nccl_returns
        nccl_each_returns nccl_destroy_returns close_each_returns post propagate_ok_def
        propagate_events_def Let_def told_def [symmetric] vt may_raise_def lift_sum_def comp_def
        propagate_body_def propagate_work_def split: if_splits)
qed

text \<open>The same for a target whose transfer succeeds.\<close>

definition target_events :: "'g env \<Rightarrow> sock \<Rightarrow> target_msg \<Rightarrow> buf_info \<Rightarrow> bytes \<Rightarrow> event list" where
  "target_events E c m info nid =
     (let told = heard E PRE_UPDATE (notify_sockets info) in
      map (\<lambda>d. EvSend d PRE_UPDATE) told
      @ [EvSend c OK_line, EvNccl (NcclInit (tm_world_size m) nid (tm_rank m)), EvNccl (target_op m info)]
      @ destroy_events E
      @ map (\<lambda>d. EvSend d READY) (heard E READY told))"

definition target_ok :: "'g env \<Rightarrow> sock \<Rightarrow> target_msg \<Rightarrow> buf_info \<Rightarrow> bytes \<Rightarrow> bool" where
  "target_ok E c m info nid \<longleftrightarrow>
     send_err E c OK_line = None
     \<and> nccl_err E (NcclInit (tm_world_size m) nid (tm_rank m)) = None
     \<and> nccl_err E (target_op m info) = None \<and> destroy_ok E"

lemma sendall_returns:
  "sendall E c b s = (Inr u, t) \<longleftrightarrow> send_err E c b = None \<and> t = s\<lparr>events := events s @ [EvSend c b]\<rparr>"
  by (auto simp: py_simps split: option.splits)

lemma target_transfer_returns:
  assumes found: "dget (ALLOCATED_BUFFERS s) (tm_buffer_id m) = Some info"
    and up: "cupy_available E" "cuda_ready s"
  shows "target_transfer E c m nid s = (Inr u, t) \<longleftrightarrow>
     target_ok E c m info nid
     \<and> t = s\<lparr>events := events s @ target_events E c m info nid,
             ALLOCATED_BUFFERS := dput (ALLOCATED_BUFFERS s) (tm_buffer_id m)
               (info\<lparr>notify_sockets := heard E READY (heard E PRE_UPDATE (notify_sockets info))\<rparr>)\<rparr>"
proof -
  let ?k = "tm_buffer_id m"
  define told where "told = heard E PRE_UPDATE (notify_sockets info)"
  define v where "v = s\<lparr>events := events s @ map (\<lambda>c. EvSend c PRE_UPDATE) told,
      ALLOCATED_BUFFERS := dput (ALLOCATED_BUFFERS s) ?k (info\<lparr>notify_sockets := told\<rparr>)\<rparr>"
  have pre: "send_pre_update_signal E ?k s = (Inr x, y) \<longleftrightarrow> y = v" for x y
    using found by (simp add: send_pre_update_signal_def notify_returns v_def told_def)
  have post: "notify_consumers E ?k READY (v\<lparr>events := es\<rparr>) = (Inr x, y) \<longleftrightarrow>
      y = v\<lparr>events := es @ map (\<lambda>c. EvSend c READY) (heard E READY told),
            ALLOCATED_BUFFERS := dput (ALLOCATED_BUFFERS s) ?k (info\<lparr>notify_sockets := heard E READY told\<rparr>)\<rparr>"
    for es x y
    by (subst notify_returns [where i = "info\<lparr>notify_sockets := told\<rparr>"]) (auto simp: v_def)
  have vt: "v\<lparr>events := events v @ es, ALLOCATED_BUFFERS := A\<rparr> =
      s\<lparr>events := events s @ map (\<lambda>c. EvSend c PRE_UPDATE) told @ es, ALLOCATED_BUFFERS := A\<rparr>" for es A
    by (simp add: v_def)
  have ready: "cuda_ready v" using up by (simp add: v_def)
  show ?thesis
    using found up ready
    by (auto simp: target_transfer_def bindE_returns_iff seqE_returns_iff get_buffer_def pre nccl_returns
        nccl_destroy_returns post target_ok_def target_events_def Let_def told_def [symmetric] vt
        sendall_returns)
qed

text \<open>The state in which a handler leaves the driver when it ran to its end.\<close>

definition finished :: "sock \<Rightarrow> 'g driver \<Rightarrow> 'g driver" where
  "finished c t = t\<lparr>events := events t @ [EvClose c]\<rparr>"

lemma finish_run:
  "snd (seqE (try_except m (\<lambda>_. ret ())) (emit (EvClose c)) s) = finished c (snd (m s))"
  by (auto simp: py_simps finished_def split: prod.splits sum.splits)

lemma handle_target_run:
  assumes "read_header [] chunks = (buf, rest)" "parse_header buf = Inr (m, start)" "buf \<noteq> []"
    "read_id start rest = Some nid"
  shows "handle_target_connection E c chunks s = Some (finished c (snd (target_transfer E c m nid s)))"
  using assms by (simp add: handle_target_connection_def finish_run Let_def)

text \<open>A header that arrives in one piece, with the identifier cut anywhere.\<close>

lemma handshake_split:
  "handshake b ws rank mode meta nid = handshake b ws rank mode meta [] @ nid"
  by (simp add: handshake_def)

lemma handshake_header:
  assumes whole: "concat (c # cs) = handshake b ws rank mode meta nid"
    and inside: "length (handshake b ws rank mode meta []) \<le> min 1024 (length c)"
  obtains p rest where "read_header [] (c # cs) = (handshake b ws rank mode meta p, rest)"
    "p @ concat rest = nid" "length p \<le> length nid"
proof -
  let ?h = "handshake b ws rank mode meta []"
  define p where "p = drop (length ?h) (take 1024 c)"
  have nl: "newline \<in> set ?h" and "?h \<noteq> []" by (simp_all add: handshake_def)
  have c: "c @ concat cs = ?h @ nid" using whole by (simp add: handshake_split [of b ws rank mode meta nid])
  have "take (length ?h) (take 1024 c) = take (length ?h) (c @ concat cs)" using inside by simp
  also have "\<dots> = ?h" by (simp add: c)
  finally have t: "take 1024 c = ?h @ p" unfolding p_def by (metis append_take_drop_id)
  define rest where "rest = (if length c \<le> 1024 then cs else drop 1024 c # cs)"
  have "read_header [] (c # cs) = (take 1024 c, rest)"
    unfolding rest_def by (rule read_header_first) (simp add: t nl)
  moreover have "take 1024 c @ concat rest = c @ concat cs" by (simp add: rest_def)
  ultimately have "read_header [] (c # cs) = (handshake b ws rank mode meta p, rest)"
    "p @ concat rest = nid"
    using t c by (simp_all add: handshake_split [of b ws rank mode meta p])
  moreover from this have "length p \<le> length nid" by auto
  ultimately show thesis by (rule that)
qed

lemma handshake_nonempty [simp]: "handshake b ws rank mode meta nid \<noteq> []"
  by (simp add: handshake_def)

text \<open>A source that fails has told no consumer READY: the last step of the body cannot raise.\<close>

lemma seqE_last:
  assumes "seqE m k s = (Inl e, u)" "\<And>v. fst (k v) = Inr ()"
  shows "m s = (Inl e, u)"
proof (cases "m s")
  case (Pair r v)
  with assms(1) assms(2) [of v] show ?thesis by (cases r) (auto simp: seqE_def bindE_def)
qed

lemma propagate_body_split:
  assumes "dget (ALLOCATED_BUFFERS s) (prop_buffer_id req) = Some info"
  shows "propagate_body E req s =
     seqE (propagate_work E req info) (notify_consumers E (prop_buffer_id req) READY) s"
  using assms by (simp add: propagate_body_def get_buffer_def getM_def bindE_def)

lemma propagate_work_grows:
  "keeps (grows base (\<lambda>ev. \<forall>n. ev \<noteq> EvSend (Consumer n) READY)) (propagate_work E req info)"
  unfolding propagate_work_def send_pre_update_signal_def
  by (intro keeps_intro keeps_grows keeps_grows_connect_all) (simp_all add: PRE_UPDATE_def READY_def)

lemma destroy_aborts: "keeps (\<lambda>v. aborts v = ab) (nccl_destroy E)"
  unfolding nccl_destroy_def
proof (rule keeps_try)
  show "keeps (\<lambda>v. aborts v = ab) (case e of AttributeError _ \<Rightarrow> ret () | _ \<Rightarrow> raise_exn e)" for e
    by (cases e) (simp_all add: keeps_ret keeps_raise)
qed (simp add: keeps_nccl)

lemma connect_all_aborts: "keeps (\<lambda>v. aborts v = ab) (connect_all E msg r xs)"
  by (induction xs arbitrary: r)
    (auto simp: connect_target_def intro!: keeps_intro keeps_sendall keeps_emit)

lemma notify_aborts: "keeps (\<lambda>v. aborts v = ab) (notify_consumers E k msg)"
  by (rule keepsI) (auto simp: notify_consumers_effect Let_def split: option.splits)

lemma propagate_work_aborts: "keeps (\<lambda>v. aborts v = ab) (propagate_work E req info)"
  unfolding propagate_work_def send_pre_update_signal_def
  by (intro keeps_intro keeps_nccl keeps_emit destroy_aborts connect_all_aborts notify_aborts) simp_all

lemma propagate_body_fails:
  assumes "propagate_body E req s = (Inl e, u)"
  shows "grows (events s) (\<lambda>ev. \<forall>n. ev \<noteq> EvSend (Consumer n) READY) u \<and> aborts u = aborts s"
proof (cases "dget (ALLOCATED_BUFFERS s) (prop_buffer_id req)")
  case None
  with assms show ?thesis by (auto simp: propagate_body_def py_simps)
next
  case (Some info)
  have "fst (notify_consumers E (prop_buffer_id req) READY v) = Inr ()" for v
    by (simp add: notify_consumers_effect)
  with assms propagate_body_split [OF Some] have "propagate_work E req info s = (Inl e, u)"
    by (metis seqE_last)
  with keepsD [OF propagate_work_grows [of "events s"], of s E req info]
    keepsD [OF propagate_work_aborts [of "aborts s"], of s E req info]
  show ?thesis by simp
qed

section \<open>Names of shards\<close>

text \<open>
  The base name of a shard: what comes before the first separator. A name that ends in the
  separator's first seven characters would move it.
\<close>

lemma before_sep_shard:
  assumes "\<not> contains ''__shard'' b"
  shows "before_sep ''__shard_'' (b @ ''__shard_'' @ r) = b"
  using assms
proof (induction b)
  case Nil
  then show ?case by simp
next
  case (Cons c b)
  have "\<not> prefix ''__shard_'' (c # b @ ''__shard_'' @ r)"
  proof
    assume p: "prefix ''__shard_'' (c # b @ ''__shard_'' @ r)"
    consider "b = []" | x where "b = [x]" | x y where "b = [x, y]" | x y z where "b = [x, y, z]"
      | x y z u where "b = [x, y, z, u]" | x y z u v where "b = [x, y, z, u, v]"
      | x y z u v w d where "b = x # y # z # u # v # w # d"
      by (metis list.exhaust)
    then show False
    proof cases
      case (7 x y z u v w d)
      with p have "prefix ''__shard'' (c # b)" by auto
      then have "contains ''__shard'' (c # b)" unfolding contains_sublist by (rule prefix_imp_sublist)
      with Cons.prems show False by simp
    qed (use p in simp_all)
  qed
  moreover have "\<not> contains ''__shard'' b"
    using Cons.prems unfolding contains_sublist by (meson sublist_order.order_trans sublist_Cons_right)
  ultimately show ?case using Cons.IH by simp
qed

lemma before_sep_plain:
  assumes "\<not> contains sep b" "sep \<noteq> []"
  shows "before_sep sep b = b"
  using assms(1)
proof (induction b)
  case (Cons c b)
  then have "\<not> prefix sep (c # b)" "\<not> contains sep b"
    unfolding contains_sublist by (auto simp: sublist_Cons_right)
  with Cons.IH show ?case by simp
qed simp

end
