(* ===== verification/Driver_System.thy ===== *)
theory Driver_System
  imports Driver_Transfer
begin

text \<open>
  The driver process as a whole: the handlers composed into a step relation, from the state the
  module is in after it was loaded. A step is one RPC, one connection handled by a server thread or
  one connection of the NCCL target server. Handlers run to completion before the next one starts;
  handlers that overlap are the subject of theory Concurrent_Driver. Every step carries its own
  environment, so that what the libraries and peers answer may change from call to call.
\<close>

section \<open>Loading the module\<close>

definition driver_start :: "'g env \<Rightarrow> exn option \<Rightarrow> 'g \<Rightarrow> 'g driver" where
  "driver_start E cdll g =
     \<lparr>ALLOCATED_BUFFERS = [], KNOWN_CLAIMS = [],
      cuda_ready = (module_cuda_allocator (libcuda_of E) cdll g \<noteq> None),
      allocator = snd (CudaAllocator_init (libcuda_of E) cdll g),
      events = [], aborts = []\<rparr>"

definition started :: "'g driver \<Rightarrow> bool" where
  "started s \<longleftrightarrow> (\<exists>E cdll g. s = driver_start E cdll g)"

section \<open>Steps\<close>

datatype 'g action =
    Stage "'g env" NodeStageWeightRequest
  | Unstage "'g env" string
  | Register "'g env" string
  | Propagate "'g env" NodePropagateRequest
  | TargetConn "'g env" sock "bytes list"
  | FdConn "'g env" string sock bytes
  | NotifyConn string sock

text \<open>A server thread for buffer \<open>k\<close> exists once it was started; it is never stopped.\<close>

definition serving :: "('g driver) \<Rightarrow> thread \<Rightarrow> bool" where
  "serving s th \<longleftrightarrow> EvStart th \<in> set (events s)"

inductive driver_step :: "'g driver \<Rightarrow> 'g action \<Rightarrow> 'g driver \<Rightarrow> bool" where
  stage: "NodeStageWeight E req s = (r, t) \<Longrightarrow> driver_step s (Stage E req) t"
| unstage: "NodeUnstageWeight E c s = (r, t) \<Longrightarrow> driver_step s (Unstage E c) t"
| register: "NodeRegisterWeight E b s = (r, t) \<Longrightarrow> driver_step s (Register E b) t"
| propagate: "NodePropagate E req s = (r, t) \<Longrightarrow> driver_step s (Propagate E req) t"
| target: "handle_target_connection E c chunks s = Some t \<Longrightarrow> driver_step s (TargetConn E c chunks) t"
| pass_fd: "serving s (PassFd (fd_sock_path k) k) \<Longrightarrow> pass_fd_conn E k (c, raw) s = (r, t) \<Longrightarrow>
            driver_step s (FdConn E k c raw) t"
| notify: "serving s (NotifyServer (notify_path k) k) \<Longrightarrow> notify_accept k c s = (r, t) \<Longrightarrow>
           driver_step s (NotifyConn k c) t"

inductive_cases StageE: "driver_step s (Stage E req) t"
inductive_cases UnstageE: "driver_step s (Unstage E c) t"

section \<open>What the remaining handlers do to the dictionaries\<close>

text \<open>
  Two dictionaries that agree but for the consumers attached to each buffer: what notifications and
  transfers change.
\<close>

definition bare :: "buf_info \<Rightarrow> buf_info" where
  "bare i = i\<lparr>notify_sockets := []\<rparr>"

definition same_buffers :: "buf_info dict \<times> string dict \<Rightarrow> buf_info dict \<times> string dict \<Rightarrow> bool" where
  "same_buffers T U \<longleftrightarrow>
     snd U = snd T \<and> map fst (fst U) = map fst (fst T)
     \<and> (\<forall>k. map_option bare (dget (fst U) k) = map_option bare (dget (fst T) k))"

lemma same_buffers_refl [simp]: "same_buffers T T"
  by (simp add: same_buffers_def)

lemma map_fst_dput: "dget d k = Some v \<Longrightarrow> map fst (dput d k w) = map fst d"
  by (induction d) (auto split: if_splits)

lemma same_buffers_put:
  assumes "same_buffers T (A, C)" "dget A k = Some i"
  shows "same_buffers T (dput A k (i\<lparr>notify_sockets := cs\<rparr>), C)"
proof -
  have "map_option bare (dget (dput A k (i\<lparr>notify_sockets := cs\<rparr>)) k') = map_option bare (dget A k')" for k'
    using assms(2) by (simp add: bare_def)
  with assms show ?thesis by (simp add: same_buffers_def map_fst_dput)
qed

lemma tables_only_same: "tables_only (\<lambda>s. same_buffers T (tables s))"
  by (simp add: tables_only_def tables_def)

lemmas keeps_same_buffers = keeps_tables [OF tables_only_same]

lemma notify_consumers_same: "keeps (\<lambda>s. same_buffers T (tables s)) (notify_consumers E k msg)"
  by (rule keepsI)
    (auto simp: notify_consumers_effect tables_def Let_def intro: same_buffers_put split: option.splits)

lemma nccl_destroy_same: "keeps (\<lambda>s. same_buffers T (tables s)) (nccl_destroy E)"
  unfolding nccl_destroy_def
proof (rule keeps_try)
  show "keeps (\<lambda>s. same_buffers T (tables s)) (case e of AttributeError _ \<Rightarrow> ret () | _ \<Rightarrow> raise_exn e)" for e
    by (cases e) (simp_all add: keeps_ret keeps_raise)
qed (rule keeps_same_buffers)

lemma connect_all_same: "keeps (\<lambda>s. same_buffers T (tables s)) (connect_all E msg r xs)"
  by (induction xs arbitrary: r) (auto simp: connect_target_def intro!: keeps_intro keeps_same_buffers)

lemmas same_rules = keeps_same_buffers notify_consumers_same nccl_destroy_same connect_all_same

lemma propagate_same: "keeps (\<lambda>s. same_buffers T (tables s)) (NodePropagate E req)"
  unfolding NodePropagate_def propagate_body_def propagate_work_def send_pre_update_signal_def
  by (auto intro!: keeps_intro same_rules split: option.splits)

lemma target_transfer_same: "keeps (\<lambda>s. same_buffers T (tables s)) (target_transfer E c m nid)"
  unfolding target_transfer_def send_pre_update_signal_def
  by (auto intro!: keeps_intro same_rules split: option.splits)

lemma handle_target_same:
  assumes "handle_target_connection E c chunks s = Some t"
  shows "same_buffers (tables s) (tables t)"
proof -
  have finish: "same_buffers (tables s) (tables (snd (seqE (try_except m (\<lambda>_. ret ())) (emit (EvClose c)) s)))"
    if "keeps (\<lambda>u. same_buffers (tables s) (tables u)) m" for m :: "('a driver, unit) pyM"
    by (rule keepsD [where P = "\<lambda>u. same_buffers (tables s) (tables u)"])
      (auto intro!: keeps_intro same_rules that)
  have emitted: "keeps (\<lambda>u. same_buffers (tables s) (tables u)) (emit (EvClose c))"
    by (rule same_rules)
  from assms show ?thesis
    by (auto simp: handle_target_connection_def Let_def split: prod.splits if_splits sum.splits
        intro!: finish emitted keeps_raise target_transfer_same)
qed

lemma notify_accept_same: "keeps (\<lambda>s. same_buffers T (tables s)) (notify_accept k c)"
  by (rule keepsI)
    (auto simp: notify_accept_def py_simps tables_def intro: same_buffers_put split: option.splits)

lemma register_same: "keeps (\<lambda>s. same_buffers T (tables s)) (NodeRegisterWeight E b)"
  unfolding NodeRegisterWeight_def by (auto intro!: keeps_intro same_rules split: option.splits)

text \<open>
  Handing out a descriptor changes the dictionaries only by a relocation: a new entry for a device
  the tracked buffer is not on.
\<close>

definition relocation :: "string \<Rightarrow> buf_info dict \<times> string dict \<Rightarrow> buf_info dict \<times> string dict \<Rightarrow> bool" where
  "relocation k T U \<longleftrightarrow> U = T \<or>
     (\<exists>info g x. dget (fst T) k = Some info \<and> g \<noteq> gpu_id info \<and> dget (fst T) (relocate_key k g) = None
        \<and> U = (dput (fst T) (relocate_key k g) (relocated_buffer info g x), snd T))"

lemma relocate_buffer_tables:
  assumes "relocate_buffer E k info g s = (r, t)"
  shows "tables t = tables s \<or>
    (\<exists>x. tables t = (dput (ALLOCATED_BUFFERS s) (relocate_key k g) (relocated_buffer info g x), KNOWN_CLAIMS s))"
proof (cases "cuda_ready s")
  case False
  with assms show ?thesis by (auto simp: relocate_buffer_def py_simps)
next
  case True
  obtain ra a where a: "on_alloc (allocate_and_export (libcuda_of E) (size_bytes info) g) s = (ra, a)"
    by (cases "on_alloc (allocate_and_export (libcuda_of E) (size_bytes info) g) s")
  then have ta: "tables a = tables s" by (auto simp: tables_def)
  show ?thesis
  proof (cases ra)
    case (Inl e)
    with True a assms have "t = a"
      by (simp add: relocate_buffer_def getM_def bindE_def del: on_alloc_returns)
    with ta show ?thesis by simp
  next
    case (Inr x)
    define copy where "copy = (if cupy_available E then
               seqE (use_gpu E (gpu_id info)) (
               seqE (use_gpu E g)
                    (bindE (on_alloc (cu_call (copy_d2d E (snd (snd x)) (device_ptr info)
                                                 (size_bytes info div 2)))) may_raise))
             else raise_exn (Exception ''CuPy not available for D2D copy.''))"
    have "keeps (\<lambda>s. tables s = tables a) copy"
      unfolding copy_def by (auto intro!: keeps_intro keeps_same_tables)
    moreover obtain rc v where c: "copy a = (rc, v)" by (cases "copy a")
    ultimately have tv: "tables v = tables s" using ta by (auto dest: keeps_sameD)
    have "relocate_buffer E k info g s =
       seqE copy (seqE (put_buffer (relocate_key k g) (relocated_buffer info g x)) (ret (fst x))) a"
      using True a Inr unfolding copy_def
      by (simp add: relocate_buffer_def getM_def bindE_def del: on_alloc_returns)
    with assms c tv have "tables t = tables s \<or>
        tables t = (dput (ALLOCATED_BUFFERS s) (relocate_key k g) (relocated_buffer info g x), KNOWN_CLAIMS s)"
      by (cases rc) (auto simp: py_simps tables_def)
    then show ?thesis by blast
  qed
qed

lemma fd_to_send_tables:
  assumes "dget (ALLOCATED_BUFFERS s) k = Some info" "fd_to_send E k info g c s = (r, t)"
  shows "relocation k (tables s) (tables t)"
proof (cases "g \<noteq> gpu_id info \<and> dget (ALLOCATED_BUFFERS s) (relocate_key k g) = None")
  case False
  with assms(2) show ?thesis
    by (auto simp: fd_to_send_def py_simps relocation_def split: if_splits option.splits)
next
  case True
  obtain rr u where u: "relocate_buffer E k info g s = (rr, u)" by (cases "relocate_buffer E k info g s")
  from relocate_buffer_tables [OF u] True assms(1) have rel: "relocation k (tables s) (tables u)"
    by (auto simp: relocation_def tables_def)
  have "tables t = tables u"
    using True assms(2) u by (cases rr) (auto simp: fd_to_send_def py_simps tables_def split: option.splits)
  with rel show ?thesis by simp
qed

lemma relocate_buffer_fd:
  assumes "relocate_buffer E k info g s = (Inr f, t)"
  shows "\<exists>j. dget (ALLOCATED_BUFFERS t) (relocate_key k g) = Some j \<and> fd j = f"
proof -
  from assms obtain x v where "put_buffer (relocate_key k g) (relocated_buffer info g x) v = (Inr (), t)" "f = fst x"
    unfolding relocate_buffer_def
    by (auto simp: bindE_returns_iff [of "getM _"] simp del: on_alloc_returns elim!: bindE_returns seqE_returns
        split: if_splits)
  then show ?thesis by (auto simp: put_buffer_def relocated_buffer_def split: prod.splits)
qed

lemma fd_to_send_effect:
  assumes "dget (ALLOCATED_BUFFERS s) k = Some info" "fd_to_send E k info g c s = (r, t)"
  shows "case r of
      Inr (Some f) \<Rightarrow> events t = events s
        \<and> (\<exists>j. dget (ALLOCATED_BUFFERS t) (if g = gpu_id info then k else relocate_key k g) = Some j \<and> fd j = f)
    | _ \<Rightarrow> (\<exists>ev. events t = events s @ ev \<and> (\<forall>f. EvSendFd c OK_line f \<notin> set ev))"
proof (cases "g \<noteq> gpu_id info \<and> dget (ALLOCATED_BUFFERS s) (relocate_key k g) = None")
  case False
  with assms show ?thesis
    by (auto simp: fd_to_send_def py_simps split: if_splits option.splits)
next
  case True
  obtain rr u where u: "relocate_buffer E k info g s = (rr, u)" by fastforce
  have ev: "events u = events s"
  proof -
    have "keeps (\<lambda>v. events v = events s) (relocate_buffer E k info g)"
      unfolding relocate_buffer_def put_buffer_def
      by (auto intro!: keeps_intro keeps_on_alloc keeps_use_gpu keeps_modifyM)
    from keepsD [OF this, of s] u show ?thesis by simp
  qed
  show ?thesis
  proof (cases rr)
    case (Inl e)
    with True u ev assms(2) show ?thesis
      by (auto simp: fd_to_send_def py_simps split: option.splits)
  next
    case (Inr f)
    from relocate_buffer_fd [OF u [unfolded Inr]] True u ev Inr assms(2) show ?thesis
      by (auto simp: fd_to_send_def py_simps)
  qed
qed

lemma pass_fd_tables:
  assumes "pass_fd_conn E k (c, raw) s = (r, t)"
  shows "relocation k (tables s) (tables t)"
proof (cases "decode_utf8 raw")
  case (Inl e)
  with assms show ?thesis by (auto simp: pass_fd_conn_def py_simps relocation_def)
next
  case d: (Inr msg)
  show ?thesis
  proof (cases "dget (ALLOCATED_BUFFERS s) k")
    case None
    with assms d show ?thesis by (auto simp: pass_fd_conn_def py_simps relocation_def tables_def)
  next
    case (Some info)
    obtain rf u where u: "fd_to_send E k info (parse_gpu msg) c s = (rf, u)"
      by (cases "fd_to_send E k info (parse_gpu msg) c s")
    have "tables t = tables u"
      using assms d Some u
      by (cases rf) (auto simp: pass_fd_conn_def py_simps tables_def split: option.splits)
    with fd_to_send_tables [OF Some u] show ?thesis by simp
  qed
qed

text \<open>What serving a connection sends: the descriptor for the requested device, or none.\<close>

lemma pass_fd_events:
  assumes "dget (ALLOCATED_BUFFERS s) k = Some info" "decode_utf8 raw = Inr msg"
    and "pass_fd_conn E k (c, raw) s = (r, t)"
  shows "(\<exists>f j. events t = events s @ [EvSendFd c OK_line f, EvClose c] \<and> fd j = f
            \<and> dget (ALLOCATED_BUFFERS t) (if parse_gpu msg = gpu_id info then k
                                           else relocate_key k (parse_gpu msg)) = Some j)
       \<or> (\<exists>ev. events t = events s @ ev \<and> (\<forall>f. EvSendFd c OK_line f \<notin> set ev))"
proof -
  obtain rf u where u: "fd_to_send E k info (parse_gpu msg) c s = (rf, u)" by fastforce
  note eff = fd_to_send_effect [OF assms(1) u]
  have run: "pass_fd_conn E k (c, raw) s =
      (case rf of Inr (Some f) \<Rightarrow> (if send_err E c OK_line = None
           then (Inr (), u\<lparr>events := events u @ [EvSendFd c OK_line f, EvClose c]\<rparr>) else (Inr (), u))
       | _ \<Rightarrow> (Inr (), u))"
    using assms(1,2) u by (auto simp: pass_fd_conn_def py_simps split: sum.splits option.splits)
  show ?thesis
  proof (cases rf)
    case (Inr o_fd)
    with eff run assms(3) show ?thesis by (cases o_fd) (auto split: if_splits)
  qed (use eff run assms(3) in auto)
qed

section \<open>The invariant of the dictionaries\<close>

text \<open>
  Keys are distinct; a counted entry has a positive count; an entry without a count was made by a
  relocation and the buffer it was copied from is still tracked, so that unstaging that buffer will
  find it.
\<close>

definition table_inv :: "buf_info dict \<times> string dict \<Rightarrow> bool" where
  "table_inv = (\<lambda>(A, C).
     dict_ok A \<and> dict_ok C
     \<and> (\<forall>k i n. dget A k = Some i \<longrightarrow> ref_count i = Some n \<longrightarrow> 1 \<le> n)
     \<and> (\<forall>k i. dget A k = Some i \<longrightarrow> ref_count i = None \<longrightarrow>
            (\<exists>p g. k = relocate_key p g \<and> dget A p \<noteq> None)))"

lemma table_invD:
  assumes "table_inv (A, C)"
  shows "dict_ok A" "dict_ok C" "dget A k = Some i \<Longrightarrow> ref_count i = Some n \<Longrightarrow> 1 \<le> n"
    "dget A k = Some i \<Longrightarrow> ref_count i = None \<Longrightarrow> \<exists>p g. k = relocate_key p g \<and> dget A p \<noteq> None"
  using assms by (auto simp: table_inv_def)

text \<open>Storing an entry whose count is positive, or one with a tracked parent.\<close>

lemma table_inv_put:
  assumes "table_inv (A, C)" "\<And>n. ref_count i = Some n \<Longrightarrow> 1 \<le> n"
    "ref_count i = None \<Longrightarrow> \<exists>p g. k = relocate_key p g \<and> dget A p \<noteq> None"
  shows "table_inv (dput A k i, C)"
proof -
  have "\<exists>p g. k' = relocate_key p g \<and> dget (dput A k i) p \<noteq> None"
    if "dget (dput A k i) k' = Some j" "ref_count j = None" for k' j
  proof -
    have "\<exists>p g. k' = relocate_key p g \<and> dget A p \<noteq> None"
      using that assms(3) table_invD(4) [OF assms(1), of k' j] by (auto split: if_splits)
    then show ?thesis by auto
  qed
  with assms(1,2) table_invD(3) [OF assms(1)] show ?thesis
    by (auto simp: table_inv_def split: if_splits)
qed

lemma table_inv_claims: "table_inv (A, C) \<Longrightarrow> dict_ok C' \<Longrightarrow> table_inv (A, C')"
  by (simp add: table_inv_def)

lemma startswith_relocate:
  "startswith p q \<Longrightarrow> startswith (relocate_key p g) q" "startswith (relocate_key b g) (b @ ''_gpu'')"
  by (auto simp: startswith_def relocate_key_def prefix_def)

lemma table_inv_drop: "table_inv (A, C) \<Longrightarrow> table_inv (drop_buffer b A, C)"
proof -
  assume inv: "table_inv (A, C)"
  have "\<exists>p g. k = relocate_key p g \<and> dget (drop_buffer b A) p \<noteq> None"
    if "dget (drop_buffer b A) k = Some i" "ref_count i = None" for k i
  proof -
    from that table_invD(4) [OF inv, of k i] obtain p g where
      k: "k = relocate_key p g" "dget A p \<noteq> None" "\<not> startswith k (b @ ''_gpu'')"
      by (auto split: if_splits)
    with startswith_relocate have "p \<noteq> b" "\<not> startswith p (b @ ''_gpu'')" by blast+
    with k show ?thesis by auto
  qed
  with inv table_invD(3) [OF inv] show ?thesis by (auto simp: table_inv_def split: if_splits)
qed

lemma table_inv_unstage: "table_inv T \<Longrightarrow> table_inv (unstage_tables c T)"
proof -
  assume inv: "table_inv T"
  obtain A C where T: "T = (A, C)" by (cases T)
  then have inv': "table_inv (A, ddel C c)" using inv by (simp add: table_inv_def)
  show ?thesis
    using inv inv' unfolding T
    by (auto simp: unstage_tables_def intro!: table_inv_drop table_inv_put split: option.splits)
qed

lemma table_inv_stage:
  assumes "table_inv (A, C)" "stage_outcome E req A r A'"
  shows "table_inv (A', C)"
proof -
  have new: "table_inv (dput A (stage_id req) i, C)" if "ref_count i = Some 1" for i
    using assms(1) that by (auto intro!: table_inv_put)
  have "ref_count (new_buffer req g x) = Some 1" "ref_count (staged_entry req g x) = Some 1" for g x
    by (simp_all add: staged_entry_def new_buffer_def split: prod.splits)
  with assms new table_invD(3) [OF assms(1)] show ?thesis
    by (force simp: stage_outcome_def split: option.splits intro!: table_inv_put)
qed

lemma table_inv_same: "table_inv T \<Longrightarrow> same_buffers T U \<Longrightarrow> table_inv U"
proof -
  assume inv: "table_inv T" and same: "same_buffers T U"
  obtain A C B where T: "T = (A, C)" and U: "U = (B, C)"
    using same by (cases T, cases U) (auto simp: same_buffers_def)
  have ref: "\<exists>j. dget A k = Some j \<and> ref_count j = ref_count i" if "dget B k = Some i" for k i
  proof -
    from same have "map_option bare (dget B k) = map_option bare (dget A k)" by (simp add: same_buffers_def T U)
    with that have "map_option bare (dget A k) = Some (bare i)" by simp
    then obtain j where "dget A k = Some j" "bare j = bare i" by auto
    then show ?thesis by (auto simp: bare_def dest: arg_cong [of _ _ ref_count])
  qed
  have tracked: "dget B k \<noteq> None \<longleftrightarrow> dget A k \<noteq> None" for k
  proof -
    from same have "map_option bare (dget B k) = map_option bare (dget A k)" by (simp add: same_buffers_def T U)
    then show ?thesis by (metis map_option_is_None)
  qed
  have "dict_ok B" using same inv by (simp add: dict_ok_def same_buffers_def table_inv_def T U)
  with ref tracked inv show ?thesis
    unfolding T U table_inv_def by clarsimp metis
qed

lemma table_inv_relocation: "table_inv T \<Longrightarrow> relocation k T U \<Longrightarrow> table_inv U"
  by (cases T) (auto simp: relocation_def relocated_buffer_def split: prod.splits intro!: table_inv_put)

lemma driver_step_inv:
  assumes "driver_step s a t" "table_inv (tables s)"
  shows "table_inv (tables t)"
  using assms
proof cases
  case (stage E req r)
  have "table_inv (ALLOCATED_BUFFERS s, dput (KNOWN_CLAIMS s) (req_claim_id req) (stage_id req))"
    using assms(2) by (auto simp: tables_def table_inv_def)
  with stage_effect [OF stage(2)] show ?thesis by (auto simp: tables_def intro: table_inv_stage)
next
  case (unstage E c r)
  with assms show ?thesis by (simp add: unstage_effect table_inv_unstage)
next
  case (pass_fd k E c raw r)
  with assms show ?thesis by (auto dest: pass_fd_tables table_inv_relocation)
next
  case (target E c chunks)
  with assms show ?thesis by (auto dest: handle_target_same table_inv_same)
next
  case (register E b r)
  with assms keepsD [OF register_same, of "tables s" s E b] show ?thesis by (auto dest: table_inv_same)
next
  case (propagate E req r)
  with assms keepsD [OF propagate_same, of "tables s" s E req] show ?thesis by (auto dest: table_inv_same)
next
  case (notify k c r)
  with assms keepsD [OF notify_accept_same, of "tables s" s k c] show ?thesis by (auto dest: table_inv_same)
qed

lemma started_tables: "started s \<Longrightarrow> tables s = ([], [])"
  by (auto simp: started_def driver_start_def tables_def)

interpretation driver_tables: invariant_system started driver_step "\<lambda>s. table_inv (tables s)"
proof unfold_locales
  show "started s \<Longrightarrow> table_inv (tables s)" for s :: "'a driver"
    by (simp add: started_tables table_inv_def)
qed (rule driver_step_inv)

section \<open>The NCCL target server\<close>

text \<open>
  The accept loop: an accepted connection is handled by its own thread, an exception in
  \<open>accept\<close> is logged and the loop goes on. A thread that never ends has changed nothing.
\<close>

fun target_server_loop :: "'g env \<Rightarrow> (exn + sock \<times> bytes list) list \<Rightarrow> 'g driver \<Rightarrow> 'g driver" where
  "target_server_loop E [] s = s"
| "target_server_loop E (Inl e # as) s = target_server_loop E as s"
| "target_server_loop E (Inr (c, chunks) # as) s =
     target_server_loop E as (case handle_target_connection E c chunks s of Some t \<Rightarrow> t | None \<Rightarrow> s)"

definition start_nccl_target_server ::
  "'g env \<Rightarrow> exn option \<Rightarrow> (exn + sock \<times> bytes list) list \<Rightarrow> ('g driver, unit) pyM" where
  "start_nccl_target_server E bind_err as = seqE (may_raise bind_err) (modifyM (target_server_loop E as))"

lemma target_server_runs: "\<exists>acts. runs driver_step s acts (target_server_loop E as s)"
proof (induction E as s rule: target_server_loop.induct)
  case (1 E s)
  show ?case by (auto intro: runs_Nil)
next
  case (3 E c chunks as s)
  then show ?case
    by (cases "handle_target_connection E c chunks s") (auto intro: runs_Cons driver_step.target)
qed simp

text \<open>What the server does to the driver is a sequence of the driver's steps.\<close>

lemma target_server_reachable:
  assumes "reachable started driver_step s"
  shows "reachable started driver_step (snd (start_nccl_target_server E bind_err as s))"
proof (cases bind_err)
  case None
  with target_server_runs [of s E as] assms show ?thesis
    by (auto simp: start_nccl_target_server_def py_simps reachable_def dest: runs_append)
next
  case (Some e)
  with assms show ?thesis by (simp add: start_nccl_target_server_def py_simps)
qed

end
