(* ===== verification/Driver_Claims.thy ===== *)
theory Driver_Claims
  imports Driver_System
begin

text \<open>
  The contract of the driver towards the orchestrator: a buffer lives exactly as long as some claim
  holds it. The contract is stated as an abstract machine on a map from claims to buffers
  (\<open>claim_registry\<close>), and the driver is shown to implement it on the runs in which every
  staging request brings a new claim, succeeds, and names a buffer without the infix
  \<open>_gpu\<close> that the driver uses for relocated copies. What happens outside these runs is the
  subject of the counterexamples among the properties.
\<close>

section \<open>The abstract machine\<close>

datatype claim_op = Acquire string string | Release string | Internal

fun claim_step :: "claim_op \<Rightarrow> (string \<rightharpoonup> string) \<Rightarrow> (string \<rightharpoonup> string)" where
  "claim_step (Acquire c b) M = M(c \<mapsto> b)"
| "claim_step (Release c) M = M(c := None)"
| "claim_step Internal M = M"

locale claim_registry =
  fixes step :: "'s \<Rightarrow> 'a \<Rightarrow> 's \<Rightarrow> bool"
    and op_of :: "'a \<Rightarrow> claim_op"
    and claims :: "'s \<Rightarrow> (string \<rightharpoonup> string)"
    and live :: "'s \<Rightarrow> string set"
    and ok :: "'s \<Rightarrow> bool"
  assumes step_ok: "ok s \<Longrightarrow> step s a t \<Longrightarrow> ok t"
    and step_claims: "ok s \<Longrightarrow> step s a t \<Longrightarrow> claims t = claim_step (op_of a) (claims s)"
    and live_claimed: "ok s \<Longrightarrow> live s = ran (claims s)"
begin

lemma run_claims:
  "runs step s as t \<Longrightarrow> ok s \<Longrightarrow> ok t \<and> claims t = fold (claim_step \<circ> op_of) as (claims s)"
  by (induction rule: runs.induct) (auto simp: step_claims dest: step_ok)

text \<open>A buffer is live after a run exactly when the history of claims says so.\<close>

lemma run_live:
  "runs step s as t \<Longrightarrow> ok s \<Longrightarrow> live t = ran (fold (claim_step \<circ> op_of) as (claims s))"
  using run_claims live_claimed by metis

end

section \<open>The driver on orderly runs\<close>

definition claims_of :: "'g driver \<Rightarrow> (string \<rightharpoonup> string)" where
  "claims_of s = dget (KNOWN_CLAIMS s)"

definition live_buffers :: "'g driver \<Rightarrow> string set" where
  "live_buffers s = {k. \<exists>i. dget (ALLOCATED_BUFFERS s) k = Some i \<and> ref_count i \<noteq> None}"

fun action_op :: "'g action \<Rightarrow> claim_op" where
  "action_op (Stage E req) = Acquire (req_claim_id req) (stage_id req)"
| "action_op (Unstage E c) = Release c"
| "action_op _ = Internal"

definition plain_name :: "string \<Rightarrow> bool" where
  "plain_name b \<longleftrightarrow> \<not> contains ''_gpu'' b"

definition orderly_step :: "'g driver \<Rightarrow> 'g action \<Rightarrow> 'g driver \<Rightarrow> bool" where
  "orderly_step s a t \<longleftrightarrow> driver_step s a t
     \<and> (case a of Stage E req \<Rightarrow> claims_of s (req_claim_id req) = None \<and> plain_name (stage_id req)
                                \<and> fst (NodeStageWeight E req s) = Inr ()
        | _ \<Rightarrow> True)"

text \<open>The coupling invariant: every count is the number of claims on the buffer.\<close>

definition holders :: "string dict \<Rightarrow> string \<Rightarrow> string set" where
  "holders C b = {c. dget C c = Some b}"

definition counted :: "buf_info dict \<times> string dict \<Rightarrow> bool" where
  "counted = (\<lambda>(A, C). table_inv (A, C)
     \<and> (\<forall>c b. dget C c = Some b \<longrightarrow> plain_name b \<and> (\<exists>i. dget A b = Some i \<and> ref_count i \<noteq> None))
     \<and> (\<forall>k i n. dget A k = Some i \<longrightarrow> ref_count i = Some n \<longrightarrow> n = int (card (holders C k))))"

lemma finite_holders [simp]: "finite (holders C b)"
proof -
  have "holders C b \<subseteq> dom (map_of C)" by (auto simp: holders_def)
  then show ?thesis by (rule finite_subset) (rule finite_dom_map_of)
qed

lemma holders_put: "holders (dput C c b) k = (if k = b then insert c (holders C k) else holders C k - {c})"
  by (auto simp: holders_def)

lemma holders_del: "holders (ddel C c) k = holders C k - {c}"
  by (auto simp: holders_def)

lemma plain_not_relocated: "plain_name k \<Longrightarrow> \<not> startswith k (b @ ''_gpu'')"
  by (auto simp: plain_name_def contains_sublist startswith_def prefix_def sublist_def)

lemma countedD:
  assumes "counted (A, C)"
  shows "table_inv (A, C)" "dget C c = Some b \<Longrightarrow> plain_name b"
    "dget C c = Some b \<Longrightarrow> \<exists>i n. dget A b = Some i \<and> ref_count i = Some n"
    "dget A k = Some i \<Longrightarrow> ref_count i = Some n \<Longrightarrow> n = int (card (holders C k))"
  using assms by (auto simp: counted_def)

lemma countedI:
  assumes "table_inv (A, C)" "\<And>c b. dget C c = Some b \<Longrightarrow> plain_name b"
    "\<And>c b. dget C c = Some b \<Longrightarrow> \<exists>i n. dget A b = Some i \<and> ref_count i = Some n"
    "\<And>k i n. dget A k = Some i \<Longrightarrow> ref_count i = Some n \<Longrightarrow> n = int (card (holders C k))"
  shows "counted (A, C)"
proof -
  have "\<exists>i. dget A b = Some i \<and> ref_count i \<noteq> None" if "dget C c = Some b" for c b
    using assms(3) [OF that] by auto
  with assms(1,2,4) show ?thesis unfolding counted_def by blast
qed

text \<open>A counted buffer has a claim, because its count is positive.\<close>

lemma counted_claimed:
  assumes "counted (A, C)" "dget A k = Some i" "ref_count i = Some n"
  shows "holders C k \<noteq> {}"
proof
  assume "holders C k = {}"
  with countedD(4) [OF assms] have "n = 0" by simp
  with table_invD(3) [OF countedD(1) [OF assms(1)] assms(2,3)] show False by simp
qed

lemma counted_live:
  assumes "counted (tables s)"
  shows "live_buffers s = ran (claims_of s)"
proof -
  let ?A = "ALLOCATED_BUFFERS s" and ?C = "KNOWN_CLAIMS s"
  have c: "counted (?A, ?C)" using assms by (simp add: tables_def)
  show ?thesis
    using countedD(3) [OF c] counted_claimed [OF c]
    by (fastforce simp: live_buffers_def claims_of_def ran_def holders_def)
qed

lemma counted_stage:
  assumes c: "counted (A, C)" and fresh: "dget C c = None" and plain: "plain_name k"
    and A': "A' = dput A k j" "ref_count j = Some (case dget A k of Some i \<Rightarrow> the (ref_count i) + 1 | None \<Rightarrow> 1)"
    and prev: "\<And>i. dget A k = Some i \<Longrightarrow> ref_count i \<noteq> None"
    and inv: "table_inv (A', dput C c k)"
  shows "counted (A', dput C c k)"
proof -
  have c_out: "c \<notin> holders C k" using fresh by (simp add: holders_def)
  have none: "holders C k = {}" if "dget A k = None"
    using that countedD(3) [OF c] by (force simp: holders_def)
  have "ref_count j = Some (int (card (insert c (holders C k))))"
  proof (cases "dget A k")
    case None
    with A'(2) none show ?thesis by simp
  next
    case (Some i)
    with prev obtain n where n: "ref_count i = Some n" by auto
    with countedD(4) [OF c Some n] A'(2) Some c_out show ?thesis by simp
  qed
  moreover have "holders (dput C c k) k' = holders C k'" if "k' \<noteq> k" for k'
    using that fresh by (auto simp: holders_put holders_def)
  ultimately show ?thesis
    using inv plain countedD(2-4) [OF c]
    by (auto simp: counted_def A'(1) holders_put split: if_splits)
qed

lemma counted_unstage:
  assumes c: "counted T"
  shows "counted (unstage_tables c T)"
proof -
  obtain A C where T: "T = (A, C)" by (cases T)
  have cT: "counted (A, C)" using c by (simp add: T)
  have inv: "table_inv (unstage_tables c T)"
    using countedD(1) c by (auto simp: T intro: table_inv_unstage)
  show ?thesis
  proof (cases "dget C c")
    case None
    with c show ?thesis by (simp add: T unstage_tables_def)
  next
    case C: (Some b)
    with countedD(3) c T obtain i n where A: "dget A b = Some i" "ref_count i = Some n" by blast
    have n: "n = int (card (holders C b))" using countedD(4) c A by (simp add: T)
    have cb: "c \<in> holders C b" using C by (simp add: holders_def)
    have plain: "plain_name k" if "dget C d = Some k" for d k
      using that countedD(2) c by (simp add: T)
    have others: "holders (ddel C c) k = holders C k" if "k \<noteq> b" for k
      using that C by (auto simp: holders_del holders_def)
    show ?thesis
    proof (cases "n \<le> 1")
      case True
      with n cb have "holders C b = {c}" by (auto simp: card_le_Suc0_iff_eq)
      then have left: "dget (ddel C c) d = Some k \<Longrightarrow> k \<noteq> b" for d k
        by (auto simp: holders_def split: if_splits)
      from True C A have U: "unstage_tables c T = (drop_buffer b A, ddel C c)"
        by (simp add: T unstage_tables_def)
      show ?thesis unfolding U
      proof (rule countedI)
        show "table_inv (drop_buffer b A, ddel C c)" using inv U by simp
        show "plain_name k" if "dget (ddel C c) d = Some k" for d k
          using that plain by (simp split: if_splits)
        show "\<exists>i n. dget (drop_buffer b A) k = Some i \<and> ref_count i = Some n"
          if d: "dget (ddel C c) d = Some k" for d k
        proof -
          have "dget C d = Some k" using d by (simp split: if_splits)
          with cT have "\<exists>i n. dget A k = Some i \<and> ref_count i = Some n" by (rule countedD(3))
          with left [OF d] plain_not_relocated plain \<open>dget C d = Some k\<close> show ?thesis by simp
        qed
        show "m = int (card (holders (ddel C c) k))"
          if "dget (drop_buffer b A) k = Some j" "ref_count j = Some m" for k j m
          using that others countedD(4) [OF cT] by (simp split: if_splits)
      qed
    next
      case False
      with C A have U: "unstage_tables c T = (dput A b (i\<lparr>ref_count := Some (n - 1)\<rparr>), ddel C c)"
        by (simp add: T unstage_tables_def)
      have "int (card (holders (ddel C c) b)) = n - 1"
        using n cb False by (simp add: holders_del of_nat_diff)
      then have b: "n - 1 = int (card (holders (ddel C c) b))" by simp
      show ?thesis unfolding U
      proof (rule countedI)
        show "table_inv (dput A b (i\<lparr>ref_count := Some (n - 1)\<rparr>), ddel C c)" using inv U by simp
        show "plain_name k" if "dget (ddel C c) d = Some k" for d k
          using that plain by (simp split: if_splits)
        show "\<exists>j m. dget (dput A b (i\<lparr>ref_count := Some (n - 1)\<rparr>)) k = Some j \<and> ref_count j = Some m"
          if "dget (ddel C c) d = Some k" for d k
          using that countedD(3) [OF cT] by (simp split: if_splits)
        show "m = int (card (holders (ddel C c) k))"
          if "dget (dput A b (i\<lparr>ref_count := Some (n - 1)\<rparr>)) k = Some j" "ref_count j = Some m" for k j m
          using that b others countedD(4) [OF cT] by (cases "k = b") auto
      qed
    qed
  qed
qed

lemma same_buffers_ref:
  assumes "same_buffers (A, C) (B, D)"
  shows "D = C" "map_option ref_count (dget B k) = map_option ref_count (dget A k)"
proof -
  show "D = C" using assms by (simp add: same_buffers_def)
  have "ref_count \<circ> bare = ref_count" by (simp add: bare_def fun_eq_iff)
  moreover have "map_option bare (dget B k) = map_option bare (dget A k)"
    using assms by (simp add: same_buffers_def)
  then have "map_option (ref_count \<circ> bare) (dget B k) = map_option (ref_count \<circ> bare) (dget A k)"
    by (metis option.map_comp)
  ultimately show "map_option ref_count (dget B k) = map_option ref_count (dget A k)" by simp
qed

lemma counted_same:
  assumes c: "counted T" and same: "same_buffers T U"
  shows "counted U"
proof -
  obtain A C where T: "T = (A, C)" by (cases T)
  obtain B where U: "U = (B, C)" using same by (cases U) (auto simp: T same_buffers_def)
  have ref: "map_option ref_count (dget B k) = map_option ref_count (dget A k)" for k
    using same unfolding T U by (rule same_buffers_ref)
  have fwd: "\<exists>j. dget A k = Some j \<and> ref_count j = ref_count i" if "dget B k = Some i" for k i
    using ref [of k] that by (cases "dget A k") auto
  have bwd: "\<exists>j. dget B k = Some j \<and> ref_count j = ref_count i" if "dget A k = Some i" for k i
    using ref [of k] that by (cases "dget B k") auto
  have cT: "counted (A, C)" using c by (simp add: T)
  show ?thesis unfolding U
  proof (rule countedI)
    show "table_inv (B, C)" using table_inv_same [OF countedD(1) [OF cT]] same by (simp add: T U)
    show "plain_name b" if "dget C d = Some b" for d b using countedD(2) [OF cT that] .
    show "\<exists>i n. dget B b = Some i \<and> ref_count i = Some n" if "dget C d = Some b" for d b
      using countedD(3) [OF cT that] bwd by metis
    show "n = int (card (holders C k))" if "dget B k = Some i" "ref_count i = Some n" for k i n
      using fwd [OF that(1)] that(2) countedD(4) [OF cT] by metis
  qed
qed

lemma counted_relocation:
  assumes c: "counted T" and rel: "relocation k T U"
  shows "counted U"
proof (cases "U = T")
  case False
  obtain A C where T: "T = (A, C)" by (cases T)
  from rel False T obtain info g x where none: "dget A (relocate_key k g) = None"
    and U: "U = (dput A (relocate_key k g) (relocated_buffer info g x), C)"
    unfolding relocation_def by (metis fst_conv snd_conv)
  have bare: "ref_count (relocated_buffer info g x) = None"
    by (simp add: relocated_buffer_def split: prod.splits)
  have cT: "counted (A, C)" using c by (simp add: T)
  show ?thesis unfolding U
  proof (rule countedI)
    show "table_inv (dput A (relocate_key k g) (relocated_buffer info g x), C)"
      using table_inv_relocation [OF countedD(1) [OF cT]] rel by (simp add: T U)
    show "plain_name b" if "dget C d = Some b" for d b using countedD(2) [OF cT that] .
    show "\<exists>i n. dget (dput A (relocate_key k g) (relocated_buffer info g x)) b = Some i \<and> ref_count i = Some n"
      if "dget C d = Some b" for d b
      using countedD(3) [OF cT that] none by auto
    show "n = int (card (holders C b))"
      if "dget (dput A (relocate_key k g) (relocated_buffer info g x)) b = Some i" "ref_count i = Some n" for b i n
      using that bare countedD(4) [OF cT, of b i n] by (auto split: if_splits)
  qed
qed (use c in simp)

lemma orderly_stage:
  assumes ok: "counted (tables s)" and step: "orderly_step s (Stage E req) t"
  shows "counted (tables t) \<and> claims_of t = (claims_of s)(req_claim_id req \<mapsto> stage_id req)"
proof -
  let ?A = "ALLOCATED_BUFFERS s" and ?C = "KNOWN_CLAIMS s" and ?c = "req_claim_id req" and ?k = "stage_id req"
  from step have run: "NodeStageWeight E req s = (Inr (), t)" and fresh: "dget ?C ?c = None"
    and plain: "plain_name ?k"
    by (auto simp: orderly_step_def claims_of_def elim: StageE)
  from stage_effect [OF run] have C: "KNOWN_CLAIMS t = dput ?C ?c ?k"
    and out: "stage_outcome E req ?A (Inr ()) (ALLOCATED_BUFFERS t)" by simp_all
  have inv: "table_inv (ALLOCATED_BUFFERS t, dput ?C ?c ?k)"
    using driver_step_inv [OF driver_step.stage [OF run]] countedD(1) ok C by (simp add: tables_def)
  have "ref_count (staged_entry req g x) = Some 1" for g x
    by (simp add: staged_entry_def new_buffer_def split: prod.splits)
  with out obtain j where "ALLOCATED_BUFFERS t = dput ?A ?k j"
    "ref_count j = Some (case dget ?A ?k of Some i \<Rightarrow> the (ref_count i) + 1 | None \<Rightarrow> 1)"
    "\<And>i. dget ?A ?k = Some i \<Longrightarrow> ref_count i \<noteq> None"
    by (fastforce simp: stage_outcome_def split: option.splits)
  from counted_stage [OF _ fresh plain this inv] ok C show ?thesis
    by (simp add: tables_def claims_of_def fun_eq_iff)
qed

lemma orderly_other:
  assumes ok: "counted (tables s)" and step: "driver_step s a t" and other: "action_op a = Internal"
  shows "counted (tables t) \<and> claims_of t = claims_of s"
proof -
  have "(\<exists>k. relocation k (tables s) (tables t)) \<or> same_buffers (tables s) (tables t)"
    using step
  proof cases
    case (pass_fd k E c raw r)
    then show ?thesis by (auto dest: pass_fd_tables)
  next
    case (target E c chunks)
    then show ?thesis by (auto dest: handle_target_same)
  next
    case (register E b r)
    with keepsD [OF register_same, of "tables s" s E b] show ?thesis by simp
  next
    case (propagate E req r)
    with keepsD [OF propagate_same, of "tables s" s E req] show ?thesis by simp
  next
    case (notify k c r)
    with keepsD [OF notify_accept_same, of "tables s" s k c] show ?thesis by simp
  qed (use other in simp_all)
  then show ?thesis
  proof
    assume "\<exists>k. relocation k (tables s) (tables t)"
    then obtain k where k: "relocation k (tables s) (tables t)" ..
    then have "KNOWN_CLAIMS t = KNOWN_CLAIMS s" by (auto simp: relocation_def tables_def)
    with counted_relocation [OF ok k] show ?thesis by (simp add: claims_of_def)
  next
    assume same: "same_buffers (tables s) (tables t)"
    then have "KNOWN_CLAIMS t = KNOWN_CLAIMS s" by (simp add: same_buffers_def tables_def)
    with counted_same [OF ok same] show ?thesis by (simp add: claims_of_def)
  qed
qed

interpretation driver_claims: claim_registry orderly_step action_op claims_of live_buffers
  "\<lambda>s. counted (tables s)"
proof unfold_locales
  have step: "counted (tables t) \<and> claims_of t = claim_step (action_op a) (claims_of s)"
    if "counted (tables s)" "orderly_step s a t" for s t :: "'a driver" and a
  proof -
    consider (Stage) E req where "a = Stage E req" | (Unstage) E c where "a = Unstage E c"
      | (Other) "action_op a = Internal" by (cases a) auto
    then show ?thesis
    proof cases
    case Stage
    with that orderly_stage [of s E req t] show ?thesis by simp
  next
    case Unstage
    with that obtain r where "NodeUnstageWeight E c s = (r, t)"
      by (auto simp: orderly_step_def elim: UnstageE)
    from unstage_effect [OF this] have t: "tables t = unstage_tables c (tables s)" .
    then have "KNOWN_CLAIMS t = ddel (KNOWN_CLAIMS s) c \<or> KNOWN_CLAIMS t = KNOWN_CLAIMS s \<and> dget (KNOWN_CLAIMS s) c = None"
      by (auto simp: unstage_tables_def tables_def split: option.splits)
    with t Unstage counted_unstage [OF that(1), of c] show ?thesis
      by (auto simp: claims_of_def fun_eq_iff)
    next
      case Other
      with that orderly_other [of s a t] show ?thesis by (simp add: orderly_step_def)
    qed
  qed
  show "counted (tables s) \<Longrightarrow> orderly_step s a t \<Longrightarrow> counted (tables t)" for s t :: "'a driver" and a
    using step by blast
  show "counted (tables s) \<Longrightarrow> orderly_step s a t \<Longrightarrow> claims_of t = claim_step (action_op a) (claims_of s)"
    for s t :: "'a driver" and a
    using step by blast
  show "counted (tables s) \<Longrightarrow> live_buffers s = ran (claims_of s)" for s :: "'a driver"
    by (rule counted_live)
qed

lemma started_counted: "started s \<Longrightarrow> counted (tables s)"
  by (simp add: started_tables counted_def table_inv_def)

end
