(* ===== verification/Sim_Driver.thy ===== *)
theory Sim_Driver
  imports Sim_Cuda Driver_Claims
begin

text \<open>
  A concrete environment for the driver, on top of the simulated device: every peer answers, every
  library call succeeds, no weight file exists. Like the simulated device it models no code of the
  repository; the properties are evaluated in it.
\<close>

definition sim_env :: "sim_gpu env" where
  "sim_env =
     \<lparr>libcuda_of = sim_cuda_2M, cupy_available = True, path_exists = (\<lambda>_. False),
      socket_dir_err = None, device_count = Some 8, import_err = None,
      safetensors = (\<lambda>_. Inr []), memcpy_h2d = (\<lambda>_ _ _ g. (None, g)),
      copy_d2d = (\<lambda>_ _ _ g. (None, g)), send_err = (\<lambda>_ _. None), connect_err = (\<lambda>_. None),
      target_reply = (\<lambda>_ _. Inr OK_line), nccl_unique_id = Inr (replicate 128 (CHR 0x07)),
      nccl_err = (\<lambda>_. None), abort_str = ''''\<rparr>"

definition sim_start :: "sim_gpu driver" where
  "sim_start = driver_start sim_env None (sim_init 1099511627776 2097152)"

definition sim_req :: "string \<Rightarrow> string \<Rightarrow> string \<Rightarrow> NodeStageWeightRequest" where
  "sim_req c b src = \<lparr>req_claim_id = c, req_buffer_id = b, req_source_path = src,
     req_size_bytes = 2097152, req_shard_index = 0, req_total_shards = 0\<rparr>"

lemma unsharded [simp]: "effective_buffer_id b 0 0 = b"
  by (simp add: effective_buffer_id_def is_sharded_def)

lemma sim_req_simps [simp]:
  "req_shard_index (sim_req c b src) = 0" "req_total_shards (sim_req c b src) = 0"
  "req_claim_id (sim_req c b src) = c" "req_buffer_id (sim_req c b src) = b"
  "req_source_path (sim_req c b src) = src"
  "stage_size (sim_req c b src) = 2097152" "stage_gpu E (sim_req c b src) = 0"
  by (simp_all add: sim_req_def effective_buffer_id_def is_sharded_def stage_size_def stage_gpu_def)

lemma sim_started: "started sim_start"
  unfolding started_def sim_start_def by blast

lemma sim_start_state:
  "sim_start = \<lparr>ALLOCATED_BUFFERS = [], KNOWN_CLAIMS = [], cuda_ready = True,
     allocator = \<lparr>contexts = [(0, 1000)], devices = [(0, 0)], alloc_device = Some 0, alloc_ctx = Some 1000,
                  gpu = sim_init 1099511627776 2097152\<rparr>, events = [], aborts = []\<rparr>"
  by (simp add: sim_start_def driver_start_def module_cuda_allocator_def CudaAllocator_init_def
      sim_env_def sim_cuda_2M_def sim_cuda_def cuda_defs py_simps)

text \<open>The entry and the device after staging one buffer of 2 MiB.\<close>

definition sim_entry :: "string \<Rightarrow> string \<Rightarrow> buf_info" where
  "sim_entry b src =
     \<lparr>device_ptr = 8589934592, size_bytes = 2097152, handle = 1, fd = 11, gpu_id = 0,
      notify_sockets = [], ref_count = Some 1, source_path = Some src, shard_index = Some (-1),
      total_shards = Some 0, parent_buffer = Some b, notify_sock_path = Some (notify_path b)\<rparr>"

definition sim_used :: "sim_gpu cuda_allocator" where
  "sim_used = \<lparr>contexts = [(0, 1000)], devices = [(0, 0)], alloc_device = Some 0, alloc_ctx = Some 1000,
     gpu = \<lparr>sim_next = 3, sim_budget = 1099509530624, sim_gran = 2097152,
            sim_handles = [(1, 2097152)], sim_ranges = [(8589934592, 2097152)],
            sim_maps = [(8589934592, (2097152, 1))]\<rparr>\<rparr>"

definition sim_staged :: "string \<Rightarrow> string \<Rightarrow> sim_gpu driver" where
  "sim_staged c b = \<lparr>ALLOCATED_BUFFERS = [(b, sim_entry b [])], KNOWN_CLAIMS = [(c, b)], cuda_ready = True,
     allocator = sim_used,
     events = [EvStart (PassFd (fd_sock_path b) b), EvStart (NotifyServer (notify_path b) b)], aborts = []\<rparr>"

lemmas sim_eval = sim_env_def sim_cuda_2M_def sim_cuda_def sim_ops cuda_defs round_up_def py_simps

lemma sim_stage: "NodeStageWeight sim_env (sim_req c b []) sim_start = (Inr (), sim_staged c b)"
  by (simp add: NodeStageWeight_def stage_new_def stage_load_def start_servers_def new_buffer_def Let_def
      sim_start_state sim_init_def sim_staged_def sim_entry_def sim_used_def sim_eval)
    (simp add: is_sharded_def)

lemma sim_run: "runs driver_step sim_start [Stage sim_env (sim_req c b [])] (sim_staged c b)"
  by (rule runs_Cons) (rule driver_step.stage, rule sim_stage, rule runs_Nil)

lemma sim_orderly_run:
  assumes "plain_name b"
  shows "runs orderly_step sim_start [Stage sim_env (sim_req c b [])] (sim_staged c b)"
proof (rule runs_Cons)
  show "orderly_step sim_start (Stage sim_env (sim_req c b [])) (sim_staged c b)"
    using assms driver_step.stage [OF sim_stage [of c b]] sim_stage [of c b]
    by (simp add: orderly_step_def claims_of_def) (simp add: sim_start_state)
qed (rule runs_Nil)

end
