(* ===== verification/Driver_Properties.thy ===== *)
theory Driver_Properties
  imports Sim_Driver
begin

text \<open>
  The properties of the driver: the claims that its handlers, its servers and its transfer protocol
  are correct, each evaluated at a concrete input where it has hypotheses, and the behaviours in
  which the code departs from the contract.
\<close>

section \<open>Life time of buffers\<close>

text \<open>C1. In every state the driver reaches, whatever the libraries and peers answer, dictionary
  keys are distinct, every reference count is at least one, and every relocated copy has the buffer
  it was made from still tracked.\<close>

theorem driver_invariant: "reachable started driver_step s \<Longrightarrow> table_inv (tables s)"
  by (rule driver_tables.when_reachable)

theorem driver_invariant_witness: "table_inv (tables (sim_staged ''c1'' ''w''))"
proof (rule driver_invariant)
  show "reachable started driver_step (sim_staged ''c1'' ''w'')"
    unfolding reachable_def using sim_started sim_run by blast
qed

text \<open>C2. The driver implements the claim registry: on a run in which every staging request brings
  a new claim, succeeds and has a plain name, the tracked buffers are exactly the ones that the
  history of claims says are held. No buffer is freed while a claim holds it, and none survives its
  last claim.\<close>

theorem driver_implements_claims:
  assumes "started s" "runs orderly_step s as t"
  shows "claims_of t = fold (claim_step \<circ> action_op) as Map.empty
       \<and> live_buffers t = ran (fold (claim_step \<circ> action_op) as Map.empty)"
proof -
  have empty: "claims_of s = Map.empty"
    using started_tables [OF assms(1)] by (auto simp: claims_of_def tables_def)
  note ok = started_counted [OF assms(1)]
  show ?thesis
    using driver_claims.run_claims [OF assms(2) ok] driver_claims.run_live [OF assms(2) ok]
    by (simp add: empty)
qed

theorem driver_implements_claims_witness:
  "live_buffers (sim_staged ''c1'' ''w'') = {''w''}"
  using driver_implements_claims [OF sim_started sim_orderly_run [of "''w''" "''c1''"]]
  by (simp add: plain_name_def contains_def)

text \<open>C3. On such runs the reference count of a buffer is the number of claims that hold it.\<close>

theorem ref_count_counts_claims:
  assumes "started s" "runs orderly_step s as t"
    and "dget (ALLOCATED_BUFFERS t) b = Some i" "ref_count i = Some n"
  shows "n = int (card {c. claims_of t c = Some b})"
proof -
  from driver_claims.run_claims [OF assms(2) started_counted [OF assms(1)]]
  have "counted (ALLOCATED_BUFFERS t, KNOWN_CLAIMS t)" by (simp add: tables_def)
  from countedD(4) [OF this assms(3,4)] show ?thesis by (simp add: holders_def claims_of_def)
qed

theorem ref_count_counts_claims_witness:
  "(1::int) = int (card {c. claims_of (sim_staged ''c1'' ''w'') c = Some ''w''})"
  by (rule ref_count_counts_claims [OF sim_started sim_orderly_run [of "''w''" "''c1''"],
        where b = "''w''" and i = "sim_entry ''w'' []"])
    (simp_all add: plain_name_def contains_def sim_staged_def sim_entry_def)

text \<open>C4. Unstaging has one effect on the dictionaries, whatever the CUDA calls answer: the claim
  goes, the count of its buffer drops by one, and at the last claim the buffer and its relocated
  copies go.\<close>

theorem unstage_exact:
  "tables (snd (NodeUnstageWeight E c s)) = unstage_tables c (tables s)"
  by (rule unstage_tables_snd)


section \<open>Weight transfer\<close>

lemma propagate_returns_body: "NodePropagate E req s = (Inr (), t) \<longleftrightarrow> propagate_body E req s = (Inr (), t)"
  by (auto simp: NodePropagate_def try_except_def abort_def seqE_def bindE_def modifyM_def raise_exn_def
      split: prod.splits sum.splits)

text \<open>C6. A propagation succeeds exactly when the buffer is tracked, cupy is there, every target
  accepts and every NCCL call succeeds; it then does exactly the following, in order: PRE_UPDATE to
  every local consumer, one handshake per target with ranks from 1, the communicator of all
  targets and the source, the sends or the broadcast, the teardown, and only then READY.\<close>

theorem propagate_exact:
  "NodePropagate E req s = (Inr (), t) \<longleftrightarrow>
     (\<exists>info nid. dget (ALLOCATED_BUFFERS s) (prop_buffer_id req) = Some info
        \<and> propagate_ok E req info nid
        \<and> t = s\<lparr>events := events s @ propagate_events E req info nid,
                ALLOCATED_BUFFERS := dput (ALLOCATED_BUFFERS s) (prop_buffer_id req)
                  (info\<lparr>notify_sockets := heard E READY (heard E PRE_UPDATE (notify_sockets info))\<rparr>)\<rparr>)"
  by (simp only: propagate_returns_body propagate_body_returns)

text \<open>C7. A propagation that fails is reported once, as INTERNAL, and no local consumer is told
  READY: it leaves both dictionaries as they were but for consumers that had disconnected.\<close>

theorem propagate_failure:
  assumes "NodePropagate E req s = (Inl e, t)"
  shows "(\<exists>msg. aborts t = aborts s @ [(INTERNAL, msg)])
       \<and> (\<exists>ev. events t = events s @ ev \<and> (\<forall>n. EvSend (Consumer n) READY \<notin> set ev))
       \<and> same_buffers (tables s) (tables t)"
proof -
  obtain e' u where u: "propagate_body E req s = (Inl e', u)"
    and t: "t = u\<lparr>aborts := aborts u @ [(INTERNAL, exn_str e')]\<rparr>"
    using assms by (auto simp: NodePropagate_def py_simps split: prod.splits sum.splits)
  have "grows (events s) (\<lambda>ev. \<forall>n. ev \<noteq> EvSend (Consumer n) READY) u" "aborts u = aborts s"
    using propagate_body_fails [OF u] by simp_all
  moreover have "same_buffers (tables s) (tables t)"
    using keepsD [OF propagate_same, of "tables s" s E req] assms by simp
  ultimately show ?thesis by (auto simp: t grows_def list_all_iff)
qed

theorem propagate_failure_witness:
  "\<exists>e t. NodePropagate sim_env \<lparr>prop_buffer_id = ''w'', target_node_ids = [''n2''], prop_mode = 0,
                               shard_assignments = []\<rparr> sim_start = (Inl e, t)
       \<and> (\<exists>msg. aborts t = [(INTERNAL, msg)])"
proof -
  let ?run = "NodePropagate sim_env \<lparr>prop_buffer_id = ''w'', target_node_ids = [''n2''], prop_mode = 0,
                               shard_assignments = []\<rparr> sim_start"
  have "aborts sim_start = []" by (simp add: sim_start_state)
  moreover obtain e t where "?run = (Inl e, t)"
    by (simp add: NodePropagate_def propagate_body_def sim_start_state py_simps)
  ultimately show ?thesis using propagate_failure [of sim_env _ sim_start e t] by auto
qed

text \<open>C8. A target that has the buffer and whose NCCL calls succeed does exactly the following, in
  order: PRE_UPDATE to its consumers, OK to the source, the communicator with the rank it was
  given, the receive or the broadcast, the teardown, READY.\<close>

theorem target_exact:
  assumes "dget (ALLOCATED_BUFFERS s) (tm_buffer_id m) = Some info" "cupy_available E" "cuda_ready s"
  shows "target_transfer E c m nid s = (Inr (), t) \<longleftrightarrow>
     target_ok E c m info nid
     \<and> t = s\<lparr>events := events s @ target_events E c m info nid,
             ALLOCATED_BUFFERS := dput (ALLOCATED_BUFFERS s) (tm_buffer_id m)
               (info\<lparr>notify_sockets := heard E READY (heard E PRE_UPDATE (notify_sockets info))\<rparr>)\<rparr>"
  using assms by (rule target_transfer_returns)

theorem target_exact_witness:
  "target_transfer sim_env (Conn 0)
     \<lparr>tm_buffer_id = ''w'', tm_world_size = 2, tm_rank = 1, tm_mode = 0, scatter_offset = 0, scatter_length = 0\<rparr>
     [] (sim_staged ''c1'' ''w'')
   = (Inr (), (sim_staged ''c1'' ''w'')\<lparr>events := events (sim_staged ''c1'' ''w'') @
        [EvSend (Conn 0) OK_line, EvNccl (NcclInit 2 [] 1), EvNccl (NcclBcast 8589934592 1048576 0),
         EvNccl NcclDestroy]\<rparr>)"
proof -
  let ?s = "sim_staged ''c1'' ''w''"
  let ?m = "\<lparr>tm_buffer_id = ''w'', tm_world_size = 2, tm_rank = 1, tm_mode = 0, scatter_offset = 0, scatter_length = 0\<rparr>"
  have "dget (ALLOCATED_BUFFERS ?s) (tm_buffer_id ?m) = Some (sim_entry ''w'' [])" "cupy_available sim_env"
    "cuda_ready ?s"
    by (simp_all add: sim_staged_def sim_env_def)
  note found = this
  show ?thesis
    unfolding target_exact [OF found]
    by (simp add: target_ok_def target_events_def heard_def Let_def target_op_def destroy_events_def
        destroy_ok_def sim_env_def sim_entry_def sim_staged_def)
qed

text \<open>A handshake that arrives in pieces, the header in the first.\<close>

lemma handshake_run:
  assumes "newline \<notin> set b" "utf8_valid b" "length nid = 128"
    and "concat (c # cs) = handshake b ws rank mode (scatter_meta off len) nid"
    and "length (handshake b ws rank mode (scatter_meta off len) []) \<le> min 1024 (length c)"
  shows "handle_target_connection E conn (c # cs) s =
     Some (finished conn (snd (target_transfer E conn
       \<lparr>tm_buffer_id = b, tm_world_size = ws, tm_rank = rank, tm_mode = mode,
        scatter_offset = (if mode = 1 then off else 0), scatter_length = (if mode = 1 then len else 0)\<rparr> nid s)))"
proof -
  obtain p rest where h: "read_header [] (c # cs) = (handshake b ws rank mode (scatter_meta off len) p, rest)"
    and p: "p @ concat rest = nid" "length p \<le> length nid"
    using handshake_header [OF assms(4,5)] .
  have "read_id p rest = Some nid" using read_id_total [of p rest] p assms(3) by simp
  from handle_target_run [OF h parse_handshake [OF assms(1,2)] handshake_nonempty this] show ?thesis .
qed

text \<open>C9. The handshake round trip: a target that receives, in whatever pieces, a message whose
  header lies in the first piece reads back the buffer name, world size, rank, mode, slice and
  the 128 bytes of the identifier that the source wrote, and runs its transfer with them.\<close>

theorem handshake_roundtrip:
  assumes "newline \<notin> set b" "utf8_valid b" "length nid = 128"
    and "concat (c # cs) = handshake b ws rank mode (scatter_meta off len) nid"
    and "length (handshake b ws rank mode (scatter_meta off len) []) \<le> min 1024 (length c)"
  shows "handle_target_connection E conn (c # cs) s =
     Some (finished conn (snd (target_transfer E conn
       \<lparr>tm_buffer_id = b, tm_world_size = ws, tm_rank = rank, tm_mode = mode,
        scatter_offset = (if mode = 1 then off else 0), scatter_length = (if mode = 1 then len else 0)\<rparr> nid s)))"
  using assms by (rule handshake_run)

theorem handshake_roundtrip_witness:
  "handle_target_connection sim_env (Conn 0)
     [handshake ''w'' 2 1 0 (scatter_meta 0 0) (replicate 28 CHR ''x''), replicate 100 CHR ''y''] sim_start
   = Some (finished (Conn 0) (snd (target_transfer sim_env (Conn 0)
       \<lparr>tm_buffer_id = ''w'', tm_world_size = 2, tm_rank = 1, tm_mode = 0, scatter_offset = 0, scatter_length = 0\<rparr>
       (replicate 28 CHR ''x'' @ replicate 100 CHR ''y'') sim_start)))"
  using handshake_roundtrip [of "''w''" "replicate 28 CHR ''x'' @ replicate 100 CHR ''y''"
      "handshake ''w'' 2 1 0 (scatter_meta 0 0) (replicate 28 CHR ''x'')" "[replicate 100 CHR ''y'']"
      2 1 0 0 0 sim_env "Conn 0" sim_start]
  by (simp add: newline_def code_def handshake_def scatter_meta_def str_int_def str_nat.simps)

text \<open>C10. The loop that completes the NCCL identifier ends exactly when the stream holds the 128
  bytes: a source that closes the connection early leaves the handler's thread spinning.\<close>

theorem identifier_loop_ends:
  assumes "length b \<le> 128"
  shows "read_id b cs = (if 128 \<le> length (b @ concat cs) then Some (take 128 (b @ concat cs)) else None)"
  using read_id_total [OF _ assms] read_id_diverges [of b cs] by simp

theorem identifier_loop_ends_witness: "read_id ''ab'' [''c'', ''de''] = None"
  by (subst identifier_loop_ends) simp_all

section \<open>Scattering shards\<close>

lemma nth_propagate_targets:
  assumes "is_scatter req" "i < length (shard_assignments req)"
  shows "propagate_targets req ! i =
     (let a = shard_assignments req ! i in
      (target_node_id a, target_buffer_id (prop_buffer_id req) (sint (as_shard_index a)),
       scatter_meta (uint (offset_bytes a)) (uint (length_bytes a))))"
  using assms by (simp add: propagate_targets_def Let_def)

lemma nth_source_ops:
  assumes "is_scatter req" "i < length (shard_assignments req)"
  shows "source_ops req info ! i =
     (let a = shard_assignments req ! i in
      NcclSend (device_ptr info + uint (offset_bytes a)) (uint (length_bytes a) div 2) (int i + 1))"
  using assms by (simp add: source_ops_def nth_enumerate_eq Let_def)

text \<open>Source and targets agree on a scatter: the handshake for the i-th assignment gives its
  target rank i + 1 in a world of all targets and the source, and the receive that the target
  enters is the counterpart of the i-th send of the source: same number of elements, and the two
  ranks name each other.\<close>

theorem scatter_matches:
  assumes "is_scatter req" "i < length (shard_assignments req)" "a = shard_assignments req ! i"
    and "0 < length_bytes a" "b = target_buffer_id (prop_buffer_id req) (sint (as_shard_index a))"
    and "newline \<notin> set b" "utf8_valid b"
  shows "\<exists>m. parse_header (target_message req nid (i + 1) (propagate_targets req ! i)) = Inr (m, nid)
     \<and> tm_buffer_id m = b \<and> tm_rank m = int i + 1 \<and> tm_world_size m = int (length (shard_assignments req)) + 1
     \<and> (let n = uint (length_bytes a) div 2 in
        target_op m tinfo = NcclRecv (device_ptr tinfo + uint (offset_bytes a)) n 0
        \<and> source_ops req sinfo ! i = NcclSend (device_ptr sinfo + uint (offset_bytes a)) n (int i + 1))"
proof -
  have mode: "prop_mode req = 1" using assms(1) by (simp add: is_scatter_def)
  have ws: "world_size req = int (length (shard_assignments req)) + 1"
    using assms(1) by (simp add: world_size_def propagate_targets_def)
  have pos: "0 < uint (length_bytes a)" using assms(4) by (simp add: word_less_def)
  show ?thesis
    using assms(1-3,5) mode ws pos parse_handshake [OF assms(6,7)]
    by (simp add: target_message_def nth_propagate_targets nth_source_ops Let_def target_op_def)
qed

definition sim_scatter :: NodePropagateRequest where
  "sim_scatter = \<lparr>prop_buffer_id = ''w'', target_node_ids = [], prop_mode = 1,
     shard_assignments = [\<lparr>target_node_id = ''n2'', as_shard_index = 0, offset_bytes = 0, length_bytes = 64, target_gpu_id = 0\<rparr>,
                          \<lparr>target_node_id = ''n3'', as_shard_index = 1, offset_bytes = 64, length_bytes = 64, target_gpu_id = 0\<rparr>]\<rparr>"

lemma sim_scatter_facts:
  "is_scatter sim_scatter" "length (shard_assignments sim_scatter) = 2"
  "shard_assignments sim_scatter ! Suc 0 =
     \<lparr>target_node_id = ''n3'', as_shard_index = 1, offset_bytes = 64, length_bytes = 64, target_gpu_id = 0\<rparr>"
  "prop_buffer_id sim_scatter = ''w''"
  by (simp_all add: sim_scatter_def is_scatter_def)

theorem scatter_matches_witness:
  "\<exists>m. parse_header (target_message sim_scatter [] 2 (propagate_targets sim_scatter ! 1)) = Inr (m, [])
     \<and> tm_rank m = 2 \<and> tm_world_size m = 3
     \<and> target_op m (sim_entry ''w'' []) = NcclRecv 8589934656 32 0
     \<and> source_ops sim_scatter (sim_entry ''w'' []) ! 1 = NcclSend 8589934656 32 2"
proof -
  let ?b = "''w__shard_'' @ str_int 1"
  have b: "?b = target_buffer_id (prop_buffer_id sim_scatter) (sint (as_shard_index (shard_assignments sim_scatter ! Suc 0)))"
    by (simp add: sim_scatter_facts target_buffer_id_def)
  have nl: "newline \<notin> set ?b" by (simp add: newline_def) (simp add: newline_def [symmetric])
  have "utf8_valid ?b"
    using ascii_str_int [of 1] by (intro ascii_utf8_valid) (simp add: ascii_def code_def)
  note m = scatter_matches [OF sim_scatter_facts(1) _ refl _ b nl this, of "[]" "sim_entry ''w'' []" "sim_entry ''w'' []"]
  have "device_ptr (sim_entry ''w'' []) = 8589934592" by (simp add: sim_entry_def)
  with m show ?thesis by (simp add: sim_scatter_facts Let_def) (simp add: eval_nat_numeral; blast)
qed

text \<open>The name under which a scattered shard is looked up at its target is the name under
  which that node staged it, whether the source holds the whole buffer or a shard of it.\<close>

theorem shard_names_agree:
  assumes "\<not> contains ''__shard'' b" "0 \<le> i" "0 < n"
  shows "target_buffer_id (effective_buffer_id b j n) i = effective_buffer_id b i n"
proof -
  have "\<not> contains ''__shard_'' b"
  proof -
    have "sublist ''__shard'' ''__shard_''" by (rule prefix_imp_sublist) simp
    with assms(1) show ?thesis unfolding contains_sublist by (meson sublist_order.order_trans)
  qed
  with assms show ?thesis
    by (simp add: target_buffer_id_def effective_buffer_id_def is_sharded_def before_sep_shard [simplified] before_sep_plain)
qed

theorem shard_names_agree_witness: "target_buffer_id (effective_buffer_id ''w'' 0 2) 1 = effective_buffer_id ''w'' 1 2"
  by (rule shard_names_agree) (simp_all add: contains_def)

text \<open>A target applies the offset that the shard has in the source buffer to its own buffer:
  when the target staged a buffer of the shard's size, every shard but the first is received beyond
  the end of that buffer.\<close>

theorem shard_received_out_of_bounds:
  assumes "tm_mode m = 1" "0 < scatter_length m" "even (scatter_length m)" "0 < scatter_offset m"
    and "size_bytes info = scatter_length m"
  shows "\<exists>p n. target_op m info = NcclRecv p n 0 \<and> device_ptr info + size_bytes info < p + 2 * n"
  using assms by (simp add: target_op_def)

theorem shard_received_out_of_bounds_witness:
  "\<exists>p n. target_op \<lparr>tm_buffer_id = ''w__shard_1'', tm_world_size = 3, tm_rank = 2, tm_mode = 1,
                     scatter_offset = 2097152, scatter_length = 2097152\<rparr> (sim_entry ''w'' []) = NcclRecv p n 0
       \<and> 8589934592 + 2097152 < p + 2 * n"
  using shard_received_out_of_bounds [of "\<lparr>tm_buffer_id = ''w__shard_1'', tm_world_size = 3, tm_rank = 2, tm_mode = 1,
                     scatter_offset = 2097152, scatter_length = 2097152\<rparr>" "sim_entry ''w'' []"]
  by (simp add: sim_entry_def)

text \<open>An assignment of length zero makes the two sides enter different operations: the source
  sends to the target's rank while the target waits for a broadcast of its whole buffer.\<close>

theorem empty_shard_mismatch:
  assumes "is_scatter req" "i < length (shard_assignments req)" "a = shard_assignments req ! i"
    and "length_bytes a = 0" "b = target_buffer_id (prop_buffer_id req) (sint (as_shard_index a))"
    and "newline \<notin> set b" "utf8_valid b"
  shows "\<exists>m. parse_header (target_message req nid (i + 1) (propagate_targets req ! i)) = Inr (m, nid)
     \<and> target_op m tinfo = NcclBcast (device_ptr tinfo) (size_bytes tinfo div 2) 0
     \<and> source_ops req sinfo ! i = NcclSend (device_ptr sinfo + uint (offset_bytes a)) 0 (int i + 1)"
  using assms(1-5) parse_handshake [OF assms(6,7)]
  by (simp add: target_message_def nth_propagate_targets nth_source_ops Let_def target_op_def)

theorem empty_shard_mismatch_witness:
  "\<exists>m. parse_header (target_message (sim_scatter\<lparr>shard_assignments :=
        [\<lparr>target_node_id = ''n2'', as_shard_index = -1, offset_bytes = 0, length_bytes = 0, target_gpu_id = 0\<rparr>]\<rparr>) [] 1
        (propagate_targets (sim_scatter\<lparr>shard_assignments :=
        [\<lparr>target_node_id = ''n2'', as_shard_index = -1, offset_bytes = 0, length_bytes = 0, target_gpu_id = 0\<rparr>]\<rparr>) ! 0))
        = Inr (m, []) \<and> target_op m (sim_entry ''w'' []) = NcclBcast 8589934592 1048576 0"
proof -
  let ?a = "\<lparr>target_node_id = ''n2'', as_shard_index = -1, offset_bytes = 0, length_bytes = 0, target_gpu_id = 0\<rparr>"
  let ?r = "sim_scatter\<lparr>shard_assignments := [?a]\<rparr>"
  have "is_scatter ?r" "0 < length (shard_assignments ?r)" "?a = shard_assignments ?r ! 0" "length_bytes ?a = 0"
    "''w'' = target_buffer_id (prop_buffer_id ?r) (sint (as_shard_index ?a))" "newline \<notin> set ''w''" "utf8_valid ''w''"
    by (simp_all add: sim_scatter_def is_scatter_def target_buffer_id_def newline_def code_def)
  from empty_shard_mismatch [OF this, of "[]" "sim_entry ''w'' []" "sim_entry ''w'' []"] show ?thesis
    by (auto simp: sim_entry_def)
qed

section \<open>Handing out descriptors\<close>



section \<open>Device memory\<close>

text \<open>C26. Allocating and freeing a buffer whose size is a multiple of the granularity restores
  the device: no physical allocation, reservation or mapping is left.\<close>

theorem allocate_free_restores:
  assumes "vmm_laws L V" "reports_granularity L gran" "uint gran dvd n"
    and "allocate_and_export L n d a = (Inr (f, h, p), a')" "cuda_free L h p n a' = (Inr (), a'')"
  shows "same_view V (gpu a) (gpu a'')"
proof -
  have "round_up n (uint gran) = n" using assms(3) by (simp add: round_up_def dvd_eq_mod_eq_0)
  then have "word_of_int n = (word_of_int (round_up n (uint gran)) :: u64)" by simp
  note alloc = allocate_effect_gran [OF assms(1,2,4) this]
  from free_effect [OF assms(1,5)] alloc show ?thesis by (simp add: same_view_def fun_upd_idem)
qed

lemma sim_free_example:
  "cuda_free sim_cuda_2M 1 8589934592 2097152 (snd (allocate_and_export sim_cuda_2M 2097152 0 sim_allocator))
   = (Inr (), sim_allocator\<lparr>contexts := [(0, 1000)], devices := [(0, 0)], gpu := (sim_init 1099511627776 2097152)\<lparr>sim_next := 3\<rparr>\<rparr>)"
  by (simp add: sim_allocator_def sim_init_def sim_eval)

lemma sim_alloc_2M:
  "allocate_and_export sim_cuda_2M 2097152 0 sim_allocator
   = (Inr (11, 1, 8589934592), snd (allocate_and_export sim_cuda_2M 2097152 0 sim_allocator))"
  by (simp add: sim_allocator_def sim_init_def sim_eval)

theorem allocate_free_restores_witness:
  "same_view sim_view (gpu sim_allocator) ((sim_init 1099511627776 2097152)\<lparr>sim_next := 3\<rparr>)"
  using allocate_free_restores [OF sim_laws_2M sim_2M_granularity _ sim_alloc_2M sim_free_example] by simp

text \<open>C40. A buffer whose size is not a multiple of the granularity is not given back: the driver
  remembers the requested size, the mapping has the rounded one, and \<open>free\<close> stops at its first
  call, leaving the allocation, the reservation and the mapping in place.\<close>

theorem unaligned_buffer_leaks:
  assumes "vmm_laws L V" "reports_granularity L gran" "\<not> uint gran dvd n"
    and "0 \<le> n" "round_up n (uint gran) < 2 ^ 64"
    and "allocate_and_export L n d a = (Inr (f, h, p), a')"
  shows "fst (cuda_free L h p n a') = Inl (Exception ''cuMemUnmap failed'')
       \<and> same_view V (gpu a') (gpu (snd (cuda_free L h p n a')))
       \<and> v_handles V (gpu (snd (cuda_free L h p n a'))) (word_of_int h) = Some (word_of_int (round_up n (uint gran)))"
proof -
  have g: "0 < uint gran" using assms(2) by (simp add: reports_granularity_def)
  note alloc = allocate_effect_gran [OF assms(1,2,6) refl]
  have "round_up n (uint gran) \<noteq> n" using round_up_multiple [OF g, of n] assms(3) by metis
  moreover have "0 \<le> round_up n (uint gran)" "n < 2 ^ 64"
    using round_up_ge [OF g, of n] assms(4,5) by linarith+
  moreover have "uint (word_of_int m :: u64) = m" if "0 \<le> m" "m < 2 ^ 64" for m
    using that by (simp add: unsigned_of_int take_bit_int_eq_self)
  ultimately have ne: "(word_of_int (round_up n (uint gran)) :: u64) \<noteq> word_of_int n"
    using assms(4,5) by metis
  obtain r b where run: "cuda_free L h p n a' = (r, b)" by fastforce
  have m: "v_maps V (gpu a') (word_of_int p) = Some (word_of_int (round_up n (uint gran)), word_of_int h)"
    using alloc(3) by simp
  from free_wrong_size [OF assms(1) m ne run] run alloc(1) show ?thesis by (simp add: same_view_def)
qed

theorem unaligned_buffer_leaks_witness:
  "fst (cuda_free sim_cuda_2M 1 8589934592 5 (snd (allocate_and_export sim_cuda_2M 5 0 sim_allocator)))
   = Inl (Exception ''cuMemUnmap failed'')"
  using unaligned_buffer_leaks [OF sim_laws_2M sim_2M_granularity _ _ _ sim_alloc_example]
  by (simp add: round_up_def sim_alloc_example)

section \<open>Outside the contract\<close>

text \<open>An environment in which the socket directory cannot be prepared, so that staging fails.\<close>

definition sim_broken_env :: "sim_gpu env" where
  "sim_broken_env = sim_env\<lparr>socket_dir_err := Some (OSError ''Permission denied'')\<rparr>"

lemma step_stage: "driver_step s (Stage E req) (snd (NodeStageWeight E req s))"
  by (rule driver_step.stage [where r = "fst (NodeStageWeight E req s)"]) simp

lemma step_unstage: "driver_step s (Unstage E c) (snd (NodeUnstageWeight E c s))"
  by (rule driver_step.unstage [where r = "fst (NodeUnstageWeight E c s)"]) simp

lemma reachable_step: "reachable started driver_step s \<Longrightarrow> driver_step s a t \<Longrightarrow> reachable started driver_step t"
  unfolding reachable_def by (metis runs_append runs_Cons runs_Nil)

lemma sim_staged_reachable: "reachable started driver_step (sim_staged c b)"
  unfolding reachable_def using sim_started sim_run by blast

lemma tables_fields: "tables s = (A, C) \<longleftrightarrow> ALLOCATED_BUFFERS s = A \<and> KNOWN_CLAIMS s = C"
  by (simp add: tables_def)

lemma sim_stage_after_failure:
  assumes "c \<noteq> d"
  shows "NodeStageWeight sim_env (sim_req c b [])
     (sim_start\<lparr>KNOWN_CLAIMS := [(d, b)], aborts := ab\<rparr>) =
     (Inr (), (sim_staged c b)\<lparr>KNOWN_CLAIMS := [(d, b), (c, b)], aborts := ab\<rparr>)"
  using assms
  by (simp add: NodeStageWeight_def stage_new_def stage_load_def start_servers_def new_buffer_def Let_def
      sim_start_state sim_init_def sim_staged_def sim_entry_def sim_used_def sim_eval)
    (simp add: is_sharded_def)

text \<open>C39. A claim whose staging failed is remembered all the same. When another claim then stages
  the buffer, both are recorded and the count is one, and releasing the failed claim, whatever CUDA
  answers, removes the buffer under the claim that holds it; releasing that one later finds
  nothing to free.\<close>

theorem failed_claim_frees_buffer:
  assumes "stage_id r = b" "stage_id r' = b" "req_claim_id r \<noteq> req_claim_id r'"
    and failed: "NodeStageWeight E r s = (Inl e, t)" "dget (ALLOCATED_BUFFERS t) b = None"
    and staged: "NodeStageWeight E' r' t = (Inr (), u)"
    and released: "NodeUnstageWeight D (req_claim_id r) u = (x, v)"
  shows "dget (KNOWN_CLAIMS u) (req_claim_id r) = Some b \<and> dget (KNOWN_CLAIMS u) (req_claim_id r') = Some b
     \<and> (\<exists>i. dget (ALLOCATED_BUFFERS u) b = Some i \<and> ref_count i = Some 1)
     \<and> dget (ALLOCATED_BUFFERS v) b = None \<and> dget (KNOWN_CLAIMS v) (req_claim_id r') = Some b
     \<and> ALLOCATED_BUFFERS (snd (NodeUnstageWeight D' (req_claim_id r') v)) = ALLOCATED_BUFFERS v"
proof -
  have claims: "dget (KNOWN_CLAIMS u) (req_claim_id r) = Some b" "dget (KNOWN_CLAIMS u) (req_claim_id r') = Some b"
    using stage_effect [OF failed(1)] stage_effect [OF staged] assms(1-3) by simp_all
  obtain y where y: "dget (ALLOCATED_BUFFERS u) b = Some (staged_entry r' (stage_gpu E' r') y)"
    using stage_effect [OF staged] failed(2) assms(2) by (auto simp: stage_outcome_def)
  have v: "dget (ALLOCATED_BUFFERS v) b = None" "dget (KNOWN_CLAIMS v) (req_claim_id r') = Some b"
    using unstage_effect [OF released] claims y assms(3) by (auto simp: unstage_tables_def tables_def)
  have "tables (snd (NodeUnstageWeight D' (req_claim_id r') v)) = unstage_tables (req_claim_id r') (tables v)"
    by (rule unstage_tables_snd)
  then have "ALLOCATED_BUFFERS (snd (NodeUnstageWeight D' (req_claim_id r') v)) = ALLOCATED_BUFFERS v"
    using v by (simp add: unstage_tables_def tables_def)
  with claims y v show ?thesis by simp
qed

theorem failed_claim_frees_buffer_witness:
  "\<exists>t :: sim_gpu driver. reachable started driver_step t \<and> claims_of t ''c2'' = Some ''w'' \<and> ''w'' \<notin> live_buffers t"
proof -
  let ?r = "sim_req ''c1'' ''w'' []" and ?r' = "sim_req ''c2'' ''w'' []"
  let ?s1 = "sim_start\<lparr>KNOWN_CLAIMS := [(''c1'', ''w'')], aborts := [(INTERNAL, ''Permission denied'')]\<rparr>"
  let ?s2 = "(sim_staged ''c2'' ''w'')\<lparr>KNOWN_CLAIMS := [(''c1'', ''w''), (''c2'', ''w'')],
      aborts := [(INTERNAL, ''Permission denied'')]\<rparr>"
  let ?t = "snd (NodeUnstageWeight sim_env ''c1'' ?s2)"
  obtain e where failed: "NodeStageWeight sim_broken_env ?r sim_start = (Inl e, ?s1)"
    by (simp add: NodeStageWeight_def stage_new_def sim_broken_env_def sim_start_state py_simps)
  have staged: "NodeStageWeight sim_env ?r' ?s1 = (Inr (), ?s2)" by (simp add: sim_stage_after_failure)
  obtain x where released: "NodeUnstageWeight sim_env ''c1'' ?s2 = (x, ?t)" by (metis prod.collapse)
  have "reachable started driver_step sim_start"
    unfolding reachable_def by (intro exI conjI) (rule sim_started, rule runs_Nil)
  from reachable_step [OF reachable_step [OF this driver_step.stage [OF failed]] driver_step.stage [OF staged]]
  have "reachable started driver_step ?t" by (rule reachable_step [OF _ step_unstage])
  moreover from failed_claim_frees_buffer [OF _ _ _ failed _ staged, of "''w''" sim_env x ?t] released
  have "claims_of ?t ''c2'' = Some ''w''" "''w'' \<notin> live_buffers ?t"
    by (simp_all add: sim_start_state claims_of_def live_buffers_def domIff)
  ultimately show ?thesis by blast
qed

text \<open>A claim that is staged twice is counted twice but recorded once: after it is released
  the buffer stays allocated and no claim is left to release it.\<close>

theorem repeated_claim_leaks:
  "\<exists>t :: sim_gpu driver. reachable started driver_step t \<and> claims_of t = Map.empty \<and> ''w'' \<in> live_buffers t"
proof -
  let ?s = "sim_staged ''c1'' ''w''"
  let ?u = "snd (NodeStageWeight sim_env (sim_req ''c1'' ''w'' []) ?s)"
  let ?t = "snd (NodeUnstageWeight sim_env ''c1'' ?u)"
  have "reachable started driver_step ?t"
    by (intro reachable_step [OF reachable_step [OF sim_staged_reachable step_stage] step_unstage])
  moreover have "tables ?u = ([(''w'', (sim_entry ''w'' [])\<lparr>ref_count := Some 2\<rparr>)], [(''c1'', ''w'')])"
    by (simp add: NodeStageWeight_def stage_again_def sim_staged_def sim_entry_def py_simps tables_def)
  moreover have "tables ?t = unstage_tables ''c1'' (tables ?u)" by (rule unstage_tables_snd)
  ultimately have "reachable started driver_step ?t"
    "tables ?t = ([(''w'', (sim_entry ''w'' [])\<lparr>ref_count := Some 1\<rparr>)], [])"
    by (simp_all add: unstage_tables_def)
  then have "claims_of ?t = Map.empty" "''w'' \<in> live_buffers ?t"
    by (simp_all add: tables_fields claims_of_def live_buffers_def)
  with \<open>reachable started driver_step ?t\<close> show ?thesis by blast
qed

lemma sim_second_stage: "fst (NodeStageWeight sim_env (sim_req ''c2'' ''w_gpu-b'' []) (sim_staged ''c1'' ''w'')) = Inr ()"
  by (simp add: NodeStageWeight_def stage_new_def stage_load_def start_servers_def new_buffer_def Let_def
      sim_staged_def sim_used_def sim_eval)

text \<open>Releasing a buffer frees every entry whose name continues with \<open>_gpu\<close>, also one that
  was staged under that name and is held by a claim of its own.\<close>

theorem name_collision_frees_buffer:
  "\<exists>t :: sim_gpu driver. reachable started driver_step t \<and> claims_of t ''c2'' = Some ''w_gpu-b''
     \<and> ''w_gpu-b'' \<notin> live_buffers t"
proof -
  let ?s = "sim_staged ''c1'' ''w''"
  let ?req = "sim_req ''c2'' ''w_gpu-b'' []"
  obtain u where u: "NodeStageWeight sim_env ?req ?s = (Inr (), u)"
    using sim_second_stage by (metis prod.collapse)
  let ?t = "snd (NodeUnstageWeight sim_env ''c1'' u)"
  have "reachable started driver_step ?t"
    using reachable_step [OF sim_staged_reachable driver_step.stage [OF u]] step_unstage by (rule reachable_step)
  moreover have none: "dget (ALLOCATED_BUFFERS ?s) (stage_id ?req) = None" by (simp add: sim_staged_def)
  obtain x where "tables u = (dput (ALLOCATED_BUFFERS ?s) ''w_gpu-b'' (staged_entry ?req 0 x),
      [(''c1'', ''w''), (''c2'', ''w_gpu-b'')])"
    using stage_effect [OF u] none
    by (auto simp: stage_outcome_def tables_def) (auto simp: sim_staged_def)
  then have "tables ?t = ([], [(''c2'', ''w_gpu-b'')])"
    unfolding unstage_tables_snd
    by (simp add: unstage_tables_def drop_buffer_def startswith_def sim_staged_def sim_entry_def)
  then have "claims_of ?t ''c2'' = Some ''w_gpu-b''" "''w_gpu-b'' \<notin> live_buffers ?t"
    by (simp_all add: tables_fields claims_of_def live_buffers_def)
  ultimately show ?thesis by blast
qed

lemma sim_load_fails:
  "\<exists>s. NodeStageWeight sim_env (sim_req ''c1'' ''w'' ''/missing'') sim_start = (Inl (Exception []), s)
      \<and> dget (ALLOCATED_BUFFERS s) ''w'' = Some (sim_entry ''w'' ''/missing''\<lparr>notify_sock_path := None\<rparr>)
      \<and> events s = [] \<and> map fst (aborts s) = [NOT_FOUND, INTERNAL]"
  by (simp add: NodeStageWeight_def stage_new_def stage_load_def new_buffer_def Let_def sim_entry_def
      sim_start_state sim_init_def sim_eval) (simp add: is_sharded_def)

text \<open>A staging that fails while the weights are loaded leaves the entry behind without its
  servers: repeating the request succeeds, and yet no thread serves the buffer.\<close>

theorem retry_leaves_buffer_unserved:
  "\<exists>(s :: sim_gpu driver) t. reachable started driver_step s
     \<and> NodeStageWeight sim_env (sim_req ''c1'' ''w'' ''/missing'') s = (Inr (), t)
     \<and> ''w'' \<in> live_buffers t \<and> (\<forall>th. \<not> serving t th)"
proof -
  let ?req = "sim_req ''c1'' ''w'' ''/missing''"
  obtain s where s: "NodeStageWeight sim_env ?req sim_start = (Inl (Exception []), s)"
    "dget (ALLOCATED_BUFFERS s) ''w'' = Some (sim_entry ''w'' ''/missing''\<lparr>notify_sock_path := None\<rparr>)" "events s = []"
    using sim_load_fails by blast
  have "reachable started driver_step sim_start"
    unfolding reachable_def by (intro exI conjI) (rule sim_started, rule runs_Nil)
  from reachable_step [OF this driver_step.stage [OF s(1)]] have "reachable started driver_step s" .
  moreover obtain t where "NodeStageWeight sim_env ?req s = (Inr (), t)" "events t = []"
    "dget (ALLOCATED_BUFFERS t) ''w'' = Some (sim_entry ''w'' ''/missing''\<lparr>notify_sock_path := None, ref_count := Some 2\<rparr>)"
    using s(2,3) by (simp add: NodeStageWeight_def stage_again_def py_simps sim_entry_def)
  moreover from this have "''w'' \<in> live_buffers t" "\<forall>th. \<not> serving t th"
    by (simp_all add: live_buffers_def serving_def)
  ultimately show ?thesis by blast
qed

end
