(* ===== verification/WPI_Client.thy ===== *)
theory WPI_Client
  imports Driver_State
begin

text \<open>
  The consumer library: \<open>WPIClient\<close> of \<open>consumer/wpi_client/client.py\<close>, and of
  \<open>consumer/wpi_verl_plugin/client.py\<close>, which differs from it in the GPU it asks for. The state is
  the object's attributes, the CUDA device of the process and what is at the other end of the gRPC
  channel (\<open>remote\<close>, of any type). The environment \<open>cenv\<close> holds the file system, the
  sockets, the process environment, libcuda and the RPCs. A file test or a connection attempt is
  answered by the number of the attempt, so that the polling loops can be told apart.
\<close>

section \<open>State and environment\<close>

datatype client_event =
    ClSleep
  | ClSend bytes
  | ClCloseFdSocket
  | ClCloseNotify
  | ClCloseChannel
  | ClCtxPush
  | ClCtxPop

record ('g, 'd) client =
  socket_dir :: string
  driver_host :: string
  driver_port :: int
  grpc_channel :: "string option"
  grpc_stub :: "string option"
  notify_socket :: "bytes list option"  \<comment> \<open>the chunks that will arrive on it\<close>
  libcuda_loaded :: bool
  cuda_ctx :: "u64 option"
  cuda_device :: "c_int option"
  pushed_context :: bool                \<comment> \<open>absent reads as False, as \<open>getattr\<close> does\<close>
  cl_gpu :: 'g
  remote :: 'd
  cl_events :: "client_event list"

record 'g client_cuda = "'g libcuda" +
  cuCtxGetCurrent :: "'g \<Rightarrow> (int \<times> u64) \<times> 'g"
  cuDevicePrimaryCtxRetain :: "c_int \<Rightarrow> 'g \<Rightarrow> (int \<times> u64) \<times> 'g"
  cuCtxPushCurrent :: "u64 \<Rightarrow> 'g \<Rightarrow> int \<times> 'g"
  cuCtxPopCurrent :: "'g \<Rightarrow> (int \<times> u64) \<times> 'g"
  cuMemImportFromShareableHandle :: "u64 \<Rightarrow> c_int \<Rightarrow> 'g \<Rightarrow> (int \<times> u64) \<times> 'g"

record ('g, 'd) cenv =
  WPI_DRIVER_ADDRESS :: "string option"
  WPI_FORCE_UNIX_SOCKET :: "string option"
  exists_at :: "string \<Rightarrow> nat \<Rightarrow> bool"
  connect_at :: "string \<Rightarrow> nat \<Rightarrow> exn option"
  cl_send_err :: "exn option"
  recvmsg :: "exn + (int \<times> int \<times> bytes) list"     \<comment> \<open>ancillary data: level, type, payload\<close>
  inbox :: "bytes list"                              \<comment> \<open>what the notify connection will deliver\<close>
  cdll_loads :: "string \<Rightarrow> bool"
  cl_cuda :: "'g client_cuda"
  rpc_stage :: "string \<Rightarrow> NodeStageWeightRequest \<Rightarrow> 'd \<Rightarrow> exn option \<times> 'd"
  rpc_propagate :: "string \<Rightarrow> NodePropagateRequest \<Rightarrow> 'd \<Rightarrow> exn option \<times> 'd"
  rpc_unstage :: "string \<Rightarrow> string \<Rightarrow> 'd \<Rightarrow> exn option \<times> 'd"

definition WPIClient_init :: "string \<Rightarrow> string \<Rightarrow> int \<Rightarrow> 'g \<Rightarrow> 'd \<Rightarrow> ('g, 'd) client" where
  "WPIClient_init dir host port g d =
     \<lparr>socket_dir = dir, driver_host = host, driver_port = port, grpc_channel = None, grpc_stub = None,
      notify_socket = None, libcuda_loaded = False, cuda_ctx = None, cuda_device = None,
      pushed_context = False, cl_gpu = g, remote = d, cl_events = []\<rparr>"

definition cl_emit :: "client_event \<Rightarrow> (('g, 'd) client, unit) pyM" where
  "cl_emit e = modifyM (\<lambda>s. s\<lparr>cl_events := cl_events s @ [e]\<rparr>)"

definition cl_call :: "('g \<Rightarrow> 'r \<times> 'g) \<Rightarrow> (('g, 'd) client, 'r) pyM" where
  "cl_call f = (\<lambda>s. let (r, g) = f (cl_gpu s) in (Inr r, s\<lparr>cl_gpu := g\<rparr>))"

definition on_remote :: "('d \<Rightarrow> exn option \<times> 'd) \<Rightarrow> (('g, 'd) client, unit) pyM" where
  "on_remote f = bindE (\<lambda>s. let (r, d) = f (remote s) in (Inr r, s\<lparr>remote := d\<rparr>)) may_raise"

lemmas client_prims [py_simps] = cl_emit_def cl_call_def on_remote_def

section \<open>gRPC calls\<close>

definition grpc_target :: "('g, 'd) cenv \<Rightarrow> ('g, 'd) client \<Rightarrow> string" where
  "grpc_target E s =
     (case WPI_DRIVER_ADDRESS E of
        Some (c # cs) \<Rightarrow> c # cs
      | _ \<Rightarrow>
          (let path = path_join (socket_dir s) ''wpi-grpc.sock'' in
           if exists_at E path 0 \<or> WPI_FORCE_UNIX_SOCKET E = Some ''1''
           then ''unix://'' @ path
           else driver_host s @ '':'' @ str_int (driver_port s)))"

definition get_grpc_stub :: "('g, 'd) cenv \<Rightarrow> (('g, 'd) client, string) pyM" where
  "get_grpc_stub E =
     bindE (getM grpc_stub) (\<lambda>st. case st of
       Some t \<Rightarrow> ret t
     | None \<Rightarrow>
         bindE (getM (grpc_target E)) (\<lambda>t.
         seqE (modifyM (\<lambda>s. s\<lparr>grpc_channel := Some t, grpc_stub := Some t\<rparr>)) (ret t)))"

definition in_int32 :: "int \<Rightarrow> bool" where
  "in_int32 i \<longleftrightarrow> - (2 ^ 31) \<le> i \<and> i < 2 ^ 31"

definition in_uint64 :: "int \<Rightarrow> bool" where
  "in_uint64 i \<longleftrightarrow> 0 \<le> i \<and> i < 2 ^ 64"

text \<open>Constructing the message: protobuf refuses numbers out of the fields' ranges.\<close>

definition make_stage_request ::
  "string \<Rightarrow> int \<Rightarrow> string \<Rightarrow> string \<Rightarrow> int \<Rightarrow> int \<Rightarrow> exn + NodeStageWeightRequest" where
  "make_stage_request buffer_id nbytes claim src shard tot =
     (if in_uint64 nbytes \<and> in_int32 shard \<and> in_int32 tot then
        Inr \<lparr>req_claim_id = claim, req_buffer_id = buffer_id, req_source_path = src,
             req_size_bytes = word_of_int nbytes, req_shard_index = word_of_int shard,
             req_total_shards = word_of_int tot\<rparr>
      else Inl (ValueError ''Value out of range''))"

definition swallowed :: "exn \<Rightarrow> bool" where
  "swallowed e = (case e of RpcError c _ \<Rightarrow> c = ''INVALID_ARGUMENT'' \<or> c = ''INTERNAL'' | _ \<Rightarrow> False)"

definition stage_weight ::
  "('g, 'd) cenv \<Rightarrow> string \<Rightarrow> int \<Rightarrow> string \<Rightarrow> string \<Rightarrow> int \<Rightarrow> int \<Rightarrow> (('g, 'd) client, unit) pyM" where
  "stage_weight E buffer_id nbytes claim src shard tot =
     bindE (get_grpc_stub E) (\<lambda>stub.
     bindE (lift_sum (make_stage_request buffer_id nbytes claim src shard tot)) (\<lambda>req.
     try_except (on_remote (rpc_stage E stub req))
       (\<lambda>e. if swallowed e then ret () else raise_exn e)))"

definition propagate ::
  "('g, 'd) cenv \<Rightarrow> string \<Rightarrow> string list \<Rightarrow> int \<Rightarrow> ShardAssignment list \<Rightarrow> (('g, 'd) client, unit) pyM" where
  "propagate E buffer_id targets mode assignments =
     bindE (get_grpc_stub E) (\<lambda>stub.
     on_remote (rpc_propagate E stub
       \<lparr>prop_buffer_id = buffer_id, target_node_ids = targets, prop_mode = mode,
        shard_assignments = assignments\<rparr>))"

definition unstage_weight :: "('g, 'd) cenv \<Rightarrow> string \<Rightarrow> (('g, 'd) client, unit) pyM" where
  "unstage_weight E claim =
     bindE (get_grpc_stub E) (\<lambda>stub. on_remote (rpc_unstage E stub claim))"

section \<open>File descriptor passing\<close>

definition client_buffer_id :: "string \<Rightarrow> int \<Rightarrow> int \<Rightarrow> string" where
  "client_buffer_id buffer_id shard tot =
     (if 0 \<le> shard \<and> 0 < tot then buffer_id @ ''__shard_'' @ str_int shard else buffer_id)"

text \<open>
  \<open>while not os.path.exists(p) and waited < max_wait\<close>: the number of seconds slept; the
  first argument counts the rounds left.
\<close>

fun wait_rounds :: "nat \<Rightarrow> (nat \<Rightarrow> bool) \<Rightarrow> nat \<Rightarrow> nat" where
  "wait_rounds 0 ex waited = waited"
| "wait_rounds (Suc n) ex waited = (if ex waited then waited else wait_rounds n ex (waited + 1))"

definition wait_for_path :: "('g, 'd) cenv \<Rightarrow> string \<Rightarrow> nat \<Rightarrow> string \<Rightarrow> (('g, 'd) client, unit) pyM" where
  "wait_for_path E path max_wait msg =
     (let w = wait_rounds max_wait (exists_at E path) 0 in
      seqE (for_each (\<lambda>_. cl_emit ClSleep) [0..<w])
           (if exists_at E path (w + 1) then ret () else raise_exn (TimeoutError msg)))"

text \<open>
  The connection loop: an \<open>OSError\<close> is retried after a second, the one of the last attempt and
  any other exception leave it.
\<close>

fun is_oserror :: "exn \<Rightarrow> bool" where
  "is_oserror (OSError _) = True"
| "is_oserror _ = False"

fun connect_loop :: "(nat \<Rightarrow> exn option) \<Rightarrow> nat \<Rightarrow> nat \<Rightarrow> (('g, 'd) client, unit) pyM" where
  "connect_loop try_at attempt 0 = ret ()"
| "connect_loop try_at attempt (Suc left) =
     (case try_at attempt of
        None \<Rightarrow> ret ()
      | Some e \<Rightarrow>
          if is_oserror e then
            (if left = 0 then raise_exn e
             else seqE (cl_emit ClSleep) (connect_loop try_at (attempt + 1) left))
          else raise_exn e)"

definition gpu_metadata :: "int \<Rightarrow> bytes" where
  "gpu_metadata g = ''GPU='' @ str_int g @ [CHR 0x0A]"

text \<open>The copy in the verl plugin ignores the requested device.\<close>

definition gpu_metadata_verl :: "int \<Rightarrow> bytes" where
  "gpu_metadata_verl g = ''GPU=0'' @ [CHR 0x0A]"

text \<open>\<open>array.array("i")\<close>: 32-bit integers in little-endian order.\<close>

fun le_val :: "bytes \<Rightarrow> int" where
  "le_val [] = 0"
| "le_val (c # cs) = int (code c) + 256 * le_val cs"

definition le32 :: "bytes \<Rightarrow> int" where
  "le32 b = sint (word_of_int (le_val b) :: 32 word)"

definition SOL_SOCKET :: int where "SOL_SOCKET = 1"

definition SCM_RIGHTS :: int where "SCM_RIGHTS = 1"

text \<open>
  \<open>fds\<close> starts with one element; the received descriptors are appended to it, and \<open>fds[1]\<close>
  is the first of them.
\<close>

fun find_fd :: "(int \<times> int \<times> bytes) list \<Rightarrow> exn + int option" where
  "find_fd [] = Inr None"
| "find_fd ((level, typ, payload) # rest) =
     (if level = SOL_SOCKET \<and> typ = SCM_RIGHTS then
        (if length payload < 4 then Inl (IndexError ''array index out of range'')
         else Inr (Some (le32 (take 4 payload))))
      else find_fd rest)"

definition receive_fd_with ::
  "(int \<Rightarrow> bytes) \<Rightarrow> ('g, 'd) cenv \<Rightarrow> string \<Rightarrow> int \<Rightarrow> int \<Rightarrow> int \<Rightarrow> (('g, 'd) client, int) pyM" where
  "receive_fd_with metadata E buffer_id dev shard tot =
     bindE (getM (\<lambda>s. path_join (socket_dir s) (client_buffer_id buffer_id shard tot @ ''.sock''))) (\<lambda>path.
     seqE (wait_for_path E path 60 (''WPI FD socket '' @ path @ '' not found after 60s'')) (
     seqE (connect_loop (connect_at E path) 0 30) (
     seqE (may_raise (cl_send_err E)) (
     seqE (cl_emit (ClSend (metadata dev))) (
     bindE (lift_sum (recvmsg E)) (\<lambda>anc.
     bindE (lift_sum (find_fd anc)) (\<lambda>o_fd.
     seqE (cl_emit ClCloseFdSocket)
          (case o_fd of
             None \<Rightarrow> raise_exn (RuntimeError (''WPI: Failed to receive FD from '' @ path))
           | Some f \<Rightarrow> ret f))))))))"

definition receive_fd ::
  "('g, 'd) cenv \<Rightarrow> string \<Rightarrow> int \<Rightarrow> int \<Rightarrow> int \<Rightarrow> (('g, 'd) client, int) pyM" where
  "receive_fd = receive_fd_with gpu_metadata"

definition receive_fd_verl ::
  "('g, 'd) cenv \<Rightarrow> string \<Rightarrow> int \<Rightarrow> int \<Rightarrow> int \<Rightarrow> (('g, 'd) client, int) pyM" where
  "receive_fd_verl = receive_fd_with gpu_metadata_verl"

section \<open>Importing the memory\<close>

definition search_paths :: "string list" where
  "search_paths = [''/usr/local/nvidia/lib64/libcuda.so.1'', ''/usr/lib/x86_64-linux-gnu/libcuda.so.1'',
                   ''/usr/local/cuda/compat/lib/libcuda.so.1'', ''libcuda.so.1'']"

definition find_libcuda :: "('g, 'd) cenv \<Rightarrow> exn + string" where
  "find_libcuda E =
     (case filter (cdll_loads E) search_paths of
        p # _ \<Rightarrow> Inr p
      | [] \<Rightarrow> Inl (RuntimeError (''Could not find libcuda.so.1. Make sure the NVIDIA driver is installed ''
                               @ ''and libcuda.so.1 is in a standard library path.'')))"

definition fails_with :: "int \<Rightarrow> string \<Rightarrow> (('g, 'd) client, unit) pyM" where
  "fails_with err what =
     (if err \<noteq> 0 then raise_exn (RuntimeError (what @ '' failed with error code '' @ str_int err)) else ret ())"

definition init_cuda_context :: "('g, 'd) cenv \<Rightarrow> int \<Rightarrow> (('g, 'd) client, unit) pyM" where
  "init_cuda_context E device_id =
     bindE (getM libcuda_loaded) (\<lambda>loaded.
     if loaded then ret ()
     else
       bindE (lift_sum (find_libcuda E)) (\<lambda>_.
       seqE (modifyM (\<lambda>s. s\<lparr>libcuda_loaded := True\<rparr>)) (
       bindE (cl_call (cuCtxGetCurrent (cl_cuda E))) (\<lambda>_.
       bindE (cl_call (cuInit (libcuda.truncate (cl_cuda E)) 0)) (\<lambda>err.
       seqE (fails_with err ''cuInit'') (
       bindE (cl_call (cuDeviceGet (libcuda.truncate (cl_cuda E)) device_id)) (\<lambda>(err, dev).
       seqE (fails_with err (''cuDeviceGet('' @ str_int device_id @ '')'')) (
       seqE (modifyM (\<lambda>s. s\<lparr>cuda_device := Some dev\<rparr>)) (
       bindE (cl_call (cuDevicePrimaryCtxRetain (cl_cuda E) dev)) (\<lambda>(err, c).
       seqE (fails_with err (''cuDevicePrimaryCtxRetain('' @ str_int device_id @ '')'')) (
       bindE (cl_call (cuCtxGetCurrent (cl_cuda E))) (\<lambda>(_, current).
       seqE (modifyM (\<lambda>s. s\<lparr>pushed_context := False\<rparr>)) (
       seqE (if current \<noteq> c then
               bindE (cl_call (cuCtxPushCurrent (cl_cuda E) c)) (\<lambda>err.
               seqE (fails_with err ''cuCtxPushCurrent'') (
               seqE (cl_emit ClCtxPush)
                    (modifyM (\<lambda>s. s\<lparr>pushed_context := True\<rparr>))))
             else ret ()) (
       seqE (modifyM (\<lambda>s. s\<lparr>cuda_ctx := Some c\<rparr>))
            (bindE (cl_call (cuCtxGetCurrent (cl_cuda E))) (\<lambda>_. ret ()))))))))))))))))"

text \<open>The granularity the client aligns to: 2 MiB when the query fails.\<close>

definition client_gran :: "int \<times> u64 \<Rightarrow> int" where
  "client_gran r = (if fst r \<noteq> 0 then 2 * 1024 * 1024 else uint (snd r))"

text \<open>The context is popped when the first initialisation pushed it.\<close>

definition pop_context :: "('g, 'd) cenv \<Rightarrow> (('g, 'd) client, unit) pyM" where
  "pop_context E =
     bindE (getM pushed_context) (\<lambda>pushed.
     if pushed then
       bindE (cl_call (cuCtxPopCurrent (cl_cuda E))) (\<lambda>(err, _).
       seqE (fails_with err ''cuCtxPopCurrent'') (cl_emit ClCtxPop))
     else ret ())"

definition import_cuda_memory :: "('g, 'd) cenv \<Rightarrow> int \<Rightarrow> int \<Rightarrow> int \<Rightarrow> (('g, 'd) client, int) pyM" where
  "import_cuda_memory E f nbytes device_id =
     (let L = libcuda.truncate (cl_cuda E) in
     seqE (init_cuda_context E device_id) (
     bindE (getM cuda_device) (\<lambda>d. case d of
       None \<Rightarrow> raise_exn (AttributeError ''value'')
     | Some dev \<Rightarrow>
         bindE (cl_call (cuMemGetAllocationGranularity L (device_prop (sint dev))
                           CU_MEM_ALLOC_GRANULARITY_MINIMUM)) (\<lambda>r.
         if client_gran r = 0 then raise_exn (ZeroDivisionError ''integer modulo by zero'')
         else
           let gran = client_gran r; aligned = word_of_int (round_up nbytes gran) in
           bindE (cl_call (cuMemImportFromShareableHandle (cl_cuda E) (word_of_int f)
                             CU_MEM_HANDLE_TYPE_POSIX_FILE_DESCRIPTOR)) (\<lambda>(err, h).
           seqE (fails_with err ''cuMemImportFromShareableHandle'') (
           bindE (cl_call (cuMemAddressReserve L aligned (word_of_int gran))) (\<lambda>(err, ptr).
           seqE (fails_with err ''cuMemAddressReserve'') (
           bindE (cl_call (cuCtxGetCurrent (cl_cuda E))) (\<lambda>_.
           bindE (cl_call (cuMemMap L ptr aligned h)) (\<lambda>err.
           seqE (fails_with err ''cuMemMap'') (
           bindE (cl_call (cuMemSetAccess L ptr aligned (device_access (sint dev)))) (\<lambda>err.
           seqE (fails_with err ''cuMemSetAccess'') (
           seqE (pop_context E) (ret (uint ptr)))))))))))))))"

record RawCUDATensor =
  raw_shape :: int
  raw_typestr :: string
  raw_ptr :: int
  raw_read_only :: bool
  raw_version :: int

definition wrap_as_buffer :: "int \<Rightarrow> int \<Rightarrow> RawCUDATensor" where
  "wrap_as_buffer ptr nbytes =
     \<lparr>raw_shape = nbytes, raw_typestr = ''|u1'', raw_ptr = ptr, raw_read_only = False, raw_version = 3\<rparr>"

section \<open>Notifications\<close>

definition connect_notify_socket ::
  "('g, 'd) cenv \<Rightarrow> string \<Rightarrow> nat \<Rightarrow> int \<Rightarrow> int \<Rightarrow> (('g, 'd) client, unit) pyM" where
  "connect_notify_socket E buffer_id timeout shard tot =
     bindE (getM (\<lambda>s. path_join (socket_dir s) (client_buffer_id buffer_id shard tot @ ''_notify.sock''))) (\<lambda>path.
     seqE (wait_for_path E path timeout
            (''WPI notify socket '' @ path @ '' not found after '' @ str_nat timeout @ ''.0s'')) (
     seqE (modifyM (\<lambda>s. s\<lparr>notify_socket := Some (inbox E)\<rparr>))
          (connect_loop (connect_at E path) 0 30)))"

text \<open>
  \<open>wait_for_ready\<close>: one \<open>recv(1024)\<close>. The warning about unexpected data is returned as
  \<open>False\<close>; the method itself returns nothing in both cases.
\<close>

definition wait_for_ready :: "string \<Rightarrow> (('g, 'd) client, bool) pyM" where
  "wait_for_ready timeout =
     bindE (getM notify_socket) (\<lambda>ns. case ns of
       None \<Rightarrow> raise_exn (RuntimeError ''WPI: Notify socket not connected. Call connect_notify_socket() first.'')
     | Some [] \<Rightarrow> raise_exn (TimeoutError (''WPI: Did not receive READY notification within '' @ timeout @ ''s''))
     | Some (c # cs) \<Rightarrow>
         (case recv 1024 (c # cs) of (msg, rest) \<Rightarrow>
            seqE (modifyM (\<lambda>s. s\<lparr>notify_socket := Some rest\<rparr>)) (ret (contains ''READY'' msg))))"

definition client_close :: "(('g, 'd) client, unit) pyM" where
  "client_close =
     seqE (bindE (getM notify_socket) (\<lambda>ns.
             if ns \<noteq> None then seqE (cl_emit ClCloseNotify) (modifyM (\<lambda>s. s\<lparr>notify_socket := None\<rparr>))
             else ret ()))
          (bindE (getM grpc_channel) (\<lambda>ch.
             if ch \<noteq> None then seqE (cl_emit ClCloseChannel)
                                    (modifyM (\<lambda>s. s\<lparr>grpc_channel := None, grpc_stub := None\<rparr>))
             else ret ()))"

end
