(* ===== verification/Checkpoint_Engine.thy ===== *)
theory Checkpoint_Engine
  imports WPI_Client
begin

text \<open>
  The verl checkpoint engine (\<open>consumer/wpi_verl_plugin/engine.py\<close>): the trainer packs its tensors
  into the shared buffer, publishes the table of offsets over ZMQ and asks its driver to propagate;
  a rollout worker waits, takes the table and cuts the tensors out of its own copy of the buffer.

  Torch is not part of the repository. A tensor is its shape, its element type and its bytes; what
  flattening a tensor and viewing bytes as a tensor give are parameters of the environment, and the
  properties state what they rely on.
\<close>

section \<open>Tensors and metadata\<close>

record dtype =
  dtype_name :: string
  itemsize :: nat

record tensor =
  t_shape :: "nat list"
  t_dtype :: dtype
  t_bytes :: bytes

definition numel :: "nat list \<Rightarrow> nat" where
  "numel sh = prod_list sh"

definition nbytes :: "tensor \<Rightarrow> nat" where
  "nbytes w = itemsize (t_dtype w) * numel (t_shape w)"

record TensorMeta =
  meta_name :: string
  meta_shape :: "nat list"
  meta_dtype :: dtype
  meta_offset :: nat

record bucket_metadata =
  bucket_meta :: "TensorMeta dict"
  total_bytes :: nat

record WPIMasterMetadata =
  mm_zmq_ip :: string
  mm_zmq_port :: int
  mm_node_ip :: string

text \<open>What \<open>prepare\<close> returns: the master's metadata, or a worker's node address.\<close>

datatype worker_metadata = MasterMeta WPIMasterMetadata | NodeMeta string

section \<open>State and environment\<close>

datatype zmq_socket = ZmqPub string | ZmqSub string

record ('g, 'd) engine =
  bucket_size :: nat
  buffer_id :: string
  claim_id :: string
  is_master :: bool
  rank :: "int option"
  engine_world_size :: "int option"
  vram_buffer :: "bytes option"
  target_ids :: "string list option"
  wpi_client :: "('g, 'd) client"
  zmq_ip :: string
  zmq_port :: int
  zmq_socket :: "zmq_socket option"
  staged :: bool
  published :: "bucket_metadata list"
  zmq_inbox :: "bucket_metadata list"

record ('g, 'd) eenv =
  client_env :: "('g, 'd) cenv"
  ray_node_ip :: string
  free_port :: int
  is_valid_ipv6_address :: "string \<Rightarrow> bool"
  WPI_NODE_IP :: "string option"
  WPI_USE_GCE_METADATA :: "string option"
  gce_node_ip :: "exn + string"
  LOCAL_RANK :: "string option"
  CUDA_VISIBLE_DEVICES :: "string option"
  mapped_bytes :: "int \<Rightarrow> nat \<Rightarrow> bytes"           \<comment> \<open>what the memory holds when it is mapped\<close>
  device_memory :: bytes                          \<comment> \<open>what it holds when a worker reads it\<close>
  flat_bytes :: "tensor \<Rightarrow> exn + bytes"           \<comment> \<open>\<open>view(-1).view(torch.uint8)\<close>\<close>
  view_as :: "dtype \<Rightarrow> nat list \<Rightarrow> nat \<Rightarrow> bytes \<Rightarrow> exn + tensor"
                                                  \<comment> \<open>\<open>view(dtype).view(shape)\<close> of a slice at an offset\<close>

definition strip_brackets :: "string \<Rightarrow> string" where
  "strip_brackets s =
     (let b = (\<lambda>c. c = CHR ''['' \<or> c = CHR '']'') in rev (dropWhile b (rev (dropWhile b s))))"

definition zmq_address :: "('g, 'd) eenv \<Rightarrow> string \<Rightarrow> int \<Rightarrow> string" where
  "zmq_address E ip port =
     (if is_valid_ipv6_address E ip then ''tcp://['' @ ip @ '']:'' @ str_int port
      else ''tcp://'' @ ip @ '':'' @ str_int port)"

definition start_zmq_server :: "('g, 'd) eenv \<Rightarrow> (('g, 'd) engine, unit) pyM" where
  "start_zmq_server E =
     modifyM (\<lambda>s. let ip = strip_brackets (ray_node_ip E) in
       s\<lparr>zmq_ip := ip, zmq_port := free_port E, zmq_socket := Some (ZmqPub (zmq_address E ip (free_port E)))\<rparr>)"

definition WPICheckpointEngine_init ::
  "('g, 'd) eenv \<Rightarrow> nat \<Rightarrow> string \<Rightarrow> string \<Rightarrow> string \<Rightarrow> int \<Rightarrow> bool \<Rightarrow> 'g \<Rightarrow> 'd \<Rightarrow> ('g, 'd) engine" where
  "WPICheckpointEngine_init E bucket bid claim dir port master g d =
     (let s = \<lparr>bucket_size = bucket, buffer_id = bid, claim_id = (if claim = [] then bid else claim),
               is_master = master, rank = None, engine_world_size = None, vram_buffer = None,
               target_ids = None, wpi_client = WPIClient_init dir ''localhost'' port g d,
               zmq_ip = [], zmq_port = 0, zmq_socket = None, staged = False, published = [],
               zmq_inbox = []\<rparr>
      in if master then snd (start_zmq_server E s) else s)"

definition connect_zmq_client :: "('g, 'd) eenv \<Rightarrow> WPIMasterMetadata \<Rightarrow> (('g, 'd) engine, unit) pyM" where
  "connect_zmq_client E md =
     bindE (getM is_master) (\<lambda>m.
     if m then raise_exn (AssertionError ''Master process should not connect as ZMQ client.'')
     else modifyM (\<lambda>s. s\<lparr>zmq_socket := Some (ZmqSub (zmq_address E (mm_zmq_ip md) (mm_zmq_port md)))\<rparr>))"

section \<open>prepare\<close>

definition node_ip :: "('g, 'd) eenv \<Rightarrow> string" where
  "node_ip E =
     (let ip0 = (case WPI_NODE_IP E of Some v \<Rightarrow> strip v | None \<Rightarrow> []);
          ip1 = (if ip0 = [] \<and> WPI_USE_GCE_METADATA E = Some ''1''
                 then (case gce_node_ip E of Inr v \<Rightarrow> strip v | Inl _ \<Rightarrow> []) else ip0)
      in if ip1 = [] then strip_brackets (ray_node_ip E) else ip1)"

definition local_gpu :: "('g, 'd) eenv \<Rightarrow> exn + int" where
  "local_gpu E =
     py_int (case LOCAL_RANK E of
               Some v \<Rightarrow> v
             | None \<Rightarrow> hd (split_all (CHR '','') (case CUDA_VISIBLE_DEVICES E of Some v \<Rightarrow> v | None \<Rightarrow> ''0'')))"

definition on_client :: "(('g, 'd) client, 'a) pyM \<Rightarrow> (('g, 'd) engine, 'a) pyM" where
  "on_client m = (\<lambda>s. let (r, c) = m (wpi_client s) in (r, s\<lparr>wpi_client := c\<rparr>))"

definition prepare :: "('g, 'd) eenv \<Rightarrow> (('g, 'd) engine, worker_metadata) pyM" where
  "prepare E =
     bindE (lift_sum (local_gpu E)) (\<lambda>gpu.
     bindE (getM id) (\<lambda>s0.
     seqE (if staged s0 then ret ()
           else seqE (on_client (stage_weight (client_env E) (buffer_id s0) (int (bucket_size s0))
                                   (claim_id s0) [] (-1) 0))
                     (modifyM (\<lambda>s. s\<lparr>staged := True\<rparr>))) (
     bindE (on_client (receive_fd (client_env E) (buffer_id s0) gpu (-1) 0)) (\<lambda>f.
     bindE (on_client (import_cuda_memory (client_env E) f (int (bucket_size s0)) gpu)) (\<lambda>ptr.
     seqE (modifyM (\<lambda>s. s\<lparr>vram_buffer := Some (mapped_bytes E ptr (bucket_size s0))\<rparr>)) (
     if is_master s0 then
       ret (MasterMeta \<lparr>mm_zmq_ip = zmq_ip s0, mm_zmq_port = zmq_port s0, mm_node_ip = node_ip E\<rparr>)
     else
       seqE (on_client (connect_notify_socket (client_env E) (buffer_id s0) 60 (-1) 0))
            (ret (NodeMeta (node_ip E)))))))))"

section \<open>Topology\<close>

record group_kwargs =
  kw_rank :: "int list"
  kw_world_size :: "int list"
  kw_master_metadata :: "WPIMasterMetadata list"
  kw_target_node_ids :: "string list option list"

text \<open>
  The addresses of the rollout nodes: \<open>None\<close> entries are skipped, and subscripting the master's
  metadata object raises. The order in which a set is listed is the argument \<open>listing\<close>.
\<close>

primrec rollout_ips :: "string \<Rightarrow> worker_metadata option list \<Rightarrow> exn + string list" where
  "rollout_ips master_ip [] = Inr []"
| "rollout_ips master_ip (m # ms) =
     (case m of
        None \<Rightarrow> rollout_ips master_ip ms
      | Some (MasterMeta _) \<Rightarrow> Inl (TypeError ''object is not subscriptable'')
      | Some (NodeMeta ip) \<Rightarrow>
          bindS (rollout_ips master_ip ms) (\<lambda>ips. Inr (if ip \<noteq> master_ip then ip # ips else ips)))"

definition build_topology ::
  "(string list \<Rightarrow> string list) \<Rightarrow> nat \<Rightarrow> nat \<Rightarrow> worker_metadata option list \<Rightarrow> exn + group_kwargs \<times> group_kwargs" where
  "build_topology listing tw rw metadata =
     (case metadata of
        [] \<Rightarrow> Inl (IndexError ''list index out of range'')
      | Some (MasterMeta master) # _ \<Rightarrow>
          bindS (rollout_ips (mm_node_ip master) (drop tw metadata)) (\<lambda>ips.
            Inr (\<lparr>kw_rank = 0 # replicate (tw - 1) (-1),
                  kw_world_size = replicate tw (int rw + 1),
                  kw_master_metadata = replicate tw master,
                  kw_target_node_ids = replicate tw (Some (listing ips))\<rparr>,
                 \<lparr>kw_rank = map int [1..<rw + 1],
                  kw_world_size = replicate rw (int rw + 1),
                  kw_master_metadata = replicate rw master,
                  kw_target_node_ids = replicate rw None\<rparr>))
      | _ # _ \<Rightarrow> Inl (AttributeError ''node_ip''))"

definition init_process_group ::
  "('g, 'd) eenv \<Rightarrow> int \<Rightarrow> int \<Rightarrow> WPIMasterMetadata \<Rightarrow> string list option \<Rightarrow> (('g, 'd) engine, unit) pyM" where
  "init_process_group E r ws md targets =
     seqE (modifyM (\<lambda>s. s\<lparr>rank := Some r, engine_world_size := Some ws, target_ids := targets\<rparr>)) (
     if 0 < r then connect_zmq_client E md else ret ())"

section \<open>send\_weights\<close>

text \<open>\<open>buf[off : off + len(b)].copy_(b)\<close> inside the buffer, and \<open>buf[off : off + n]\<close>.\<close>

definition write_at :: "nat \<Rightarrow> bytes \<Rightarrow> bytes \<Rightarrow> bytes" where
  "write_at off b buf = take off buf @ b @ drop (off + length b) buf"

definition read_at :: "nat \<Rightarrow> nat \<Rightarrow> bytes \<Rightarrow> bytes" where
  "read_at off n buf = take n (drop off buf)"

text \<open>The message of the assertion without the printed shape, type and sizes, which are torch's.\<close>

definition would_exceed :: "string \<Rightarrow> exn" where
  "would_exceed name = AssertionError (''Weight '' @ name @ '' would exceed buffer size.'')"

definition weight_meta :: "string \<Rightarrow> tensor \<Rightarrow> nat \<Rightarrow> TensorMeta" where
  "weight_meta name w off = \<lparr>meta_name = name, meta_shape = t_shape w, meta_dtype = t_dtype w, meta_offset = off\<rparr>"

text \<open>
  The packing loop; the copies made before an assertion fails stay in the buffer. It returns the
  table and the number of bytes used.
\<close>

primrec pack_weights ::
  "('g, 'd) eenv \<Rightarrow> nat \<Rightarrow> TensorMeta dict \<Rightarrow> (string \<times> tensor) list \<Rightarrow> (('g, 'd) engine, bucket_metadata) pyM" where
  "pack_weights E off table [] = ret \<lparr>bucket_meta = table, total_bytes = off\<rparr>"
| "pack_weights E off table (x # xs) =
     (let name = fst x; w = snd x in
      bindE (getM bucket_size) (\<lambda>bs.
      if off + nbytes w \<le> bs then
        bindE (lift_sum (flat_bytes E w)) (\<lambda>b.
        seqE (modifyM (\<lambda>s. s\<lparr>vram_buffer := map_option (write_at off b) (vram_buffer s)\<rparr>))
             (pack_weights E (off + nbytes w) (dput table name (weight_meta name w off)) xs))
      else raise_exn (would_exceed name)))"

definition send_weights :: "('g, 'd) eenv \<Rightarrow> (string \<times> tensor) list \<Rightarrow> (('g, 'd) engine, unit) pyM" where
  "send_weights E weights =
     bindE (getM id) (\<lambda>s0. case rank s0 of
       None \<Rightarrow> raise_exn (AssertionError ''Only trainer workers should call send_weights.'')
     | Some r \<Rightarrow>
         if 0 < r then raise_exn (AssertionError ''Only trainer workers should call send_weights.'')
         else if r < 0 then ret ()
         else if vram_buffer s0 = None
           then raise_exn (AssertionError ''VRAM buffer not initialized. Call prepare() first.'')
         else (case target_ids s0 of
             None \<Rightarrow> raise_exn (AssertionError ''Target node IDs not set. Call init_process_group() first.'')
           | Some targets \<Rightarrow>
               bindE (pack_weights E 0 [] weights) (\<lambda>md.
               seqE (if zmq_socket s0 = None then raise_exn (AttributeError ''send_string'')
                     else modifyM (\<lambda>s. s\<lparr>published := published s @ [md]\<rparr>))
                    (on_client (propagate (client_env E) (buffer_id s0) targets 0 [])))))"

section \<open>receive\_weights\<close>

text \<open>What the generator yields, and the exception that ended it.\<close>

primrec unpack_weights ::
  "('g, 'd) eenv \<Rightarrow> bytes \<Rightarrow> TensorMeta dict \<Rightarrow> (string \<times> tensor) list \<times> exn option" where
  "unpack_weights E buf [] = ([], None)"
| "unpack_weights E buf (x # xs) =
     (let name = fst x; m = snd x; n = itemsize (meta_dtype m) * numel (meta_shape m) in
      case view_as E (meta_dtype m) (meta_shape m) (meta_offset m) (read_at (meta_offset m) n buf) of
        Inl e \<Rightarrow> ([], Some e)
      | Inr w \<Rightarrow> (case unpack_weights E buf xs of (ys, r) \<Rightarrow> ((name, w) # ys, r)))"

text \<open>
  \<open>None\<close> is a worker that waits for the table for ever. The tensors are cut out of what the
  mapped memory holds when they are read: the driver writes it behind the worker's back.
\<close>

definition receive_weights ::
  "('g, 'd) eenv \<Rightarrow> ('g, 'd) engine \<Rightarrow> ((exn + (string \<times> tensor) list \<times> exn option) \<times> ('g, 'd) engine) option" where
  "receive_weights E s =
     (let only = AssertionError ''Only rollout workers should call receive_weights.'' in
      case rank s of
        None \<Rightarrow> Some (Inl only, s)
      | Some r \<Rightarrow>
          if r \<le> 0 then Some (Inl only, s)
          else if vram_buffer s = None
            then Some (Inl (AssertionError ''VRAM buffer not initialized. Call prepare() first.''), s)
          else (case on_client (wait_for_ready ''300.0'') s of
                  (Inl e, s1) \<Rightarrow> Some (Inl e, s1)
                | (Inr _, s1) \<Rightarrow>
                    if zmq_socket s1 = None then Some (Inl (AttributeError ''recv_string''), s1)
                    else (case zmq_inbox s1 of
                            [] \<Rightarrow> None
                          | md # rest \<Rightarrow>
                              Some (Inr (unpack_weights E (device_memory E) (bucket_meta md)),
                                    s1\<lparr>zmq_inbox := rest\<rparr>))))"

definition finalize :: "(('g, 'd) engine, unit) pyM" where
  "finalize = ret ()"

definition shutdown :: "('g, 'd) eenv \<Rightarrow> (('g, 'd) engine, unit) pyM" where
  "shutdown E =
     bindE (getM id) (\<lambda>s0.
     seqE (if staged s0 then
             seqE (try_except (on_client (unstage_weight (client_env E) (claim_id s0))) (\<lambda>_. ret ()))
                  (modifyM (\<lambda>s. s\<lparr>staged := False\<rparr>))
           else ret ()) (
     seqE (on_client client_close)
          (modifyM (\<lambda>s. s\<lparr>vram_buffer := None, zmq_socket := None\<rparr>))))"

section \<open>Packing and unpacking\<close>

text \<open>A flat store: what writing and reading ranges of bytes promise.\<close>

locale flat_store =
  fixes put :: "nat \<Rightarrow> bytes \<Rightarrow> 's \<Rightarrow> 's" and get :: "nat \<Rightarrow> nat \<Rightarrow> 's \<Rightarrow> bytes" and cap :: "'s \<Rightarrow> nat"
  assumes cap_put: "off + length b \<le> cap s \<Longrightarrow> cap (put off b s) = cap s"
    and get_put: "off + length b \<le> cap s \<Longrightarrow> get off (length b) (put off b s) = b"
    and get_put_other: "off + length b \<le> cap s \<Longrightarrow> o' + n \<le> off \<or> off + length b \<le> o' \<Longrightarrow>
                        get o' n (put off b s) = get o' n s"
begin

text \<open>Blocks written one after the other from \<open>off\<close>.\<close>

primrec put_all :: "nat \<Rightarrow> bytes list \<Rightarrow> 's \<Rightarrow> 's" where
  "put_all off [] s = s"
| "put_all off (b # bs) s = put_all (off + length b) bs (put off b s)"

primrec starts :: "nat \<Rightarrow> bytes list \<Rightarrow> nat list" where
  "starts off [] = []"
| "starts off (b # bs) = off # starts (off + length b) bs"

lemma length_starts [simp]: "length (starts off bs) = length bs"
  by (induction bs arbitrary: off) auto

lemma cap_put_all: "off + sum_list (map length bs) \<le> cap s \<Longrightarrow> cap (put_all off bs s) = cap s"
  by (induction bs arbitrary: off s) (auto simp: cap_put add.assoc)

lemma get_before:
  "off + sum_list (map length bs) \<le> cap s \<Longrightarrow> o' + n \<le> off \<Longrightarrow> get o' n (put_all off bs s) = get o' n s"
proof (induction bs arbitrary: off s)
  case (Cons b bs)
  then have "cap (put off b s) = cap s" by (simp add: cap_put)
  with Cons show ?case by (simp add: get_put_other add.assoc)
qed simp

lemma get_after:
  "off + sum_list (map length bs) \<le> cap s \<Longrightarrow> off + sum_list (map length bs) \<le> o' \<Longrightarrow>
   get o' n (put_all off bs s) = get o' n s"
proof (induction bs arbitrary: off s)
  case (Cons b bs)
  then have "cap (put off b s) = cap s" by (simp add: cap_put)
  with Cons show ?case by (simp add: get_put_other add.assoc)
qed simp

text \<open>Every block is read back from where it was put.\<close>

lemma get_block:
  "off + sum_list (map length bs) \<le> cap s \<Longrightarrow> i < length bs \<Longrightarrow>
   get (starts off bs ! i) (length (bs ! i)) (put_all off bs s) = bs ! i"
proof (induction bs arbitrary: off s i)
  case (Cons b bs)
  then have c: "cap (put off b s) = cap s" by (simp add: cap_put)
  show ?case
  proof (cases i)
    case 0
    have "get off (length b) (put_all (off + length b) bs (put off b s)) = get off (length b) (put off b s)"
      using Cons.prems c by (intro get_before) auto
    with 0 Cons.prems show ?thesis by (simp add: get_put)
  next
    case (Suc j)
    with Cons.prems c Cons.IH [of "off + length b" "put off b s" j] show ?thesis by (simp add: add.assoc)
  qed
qed simp

end

lemma slice_write:
  assumes "off + length b \<le> length buf"
  shows "length (write_at off b buf) = length buf" "read_at off (length b) (write_at off b buf) = b"
    "o' + n \<le> off \<or> off + length b \<le> o' \<Longrightarrow> read_at o' n (write_at off b buf) = read_at o' n buf"
proof -
  show "length (write_at off b buf) = length buf" "read_at off (length b) (write_at off b buf) = b"
    using assms by (simp_all add: write_at_def read_at_def)
  assume "o' + n \<le> off \<or> off + length b \<le> o'"
  then show "read_at o' n (write_at off b buf) = read_at o' n buf"
  proof
    assume "o' + n \<le> off"
    then have "take (o' + n) (write_at off b buf) = take (o' + n) buf"
      using assms by (simp add: write_at_def)
    then show ?thesis unfolding read_at_def by (metis take_drop add.commute)
  next
    assume "off + length b \<le> o'"
    then have "drop o' (write_at off b buf) = drop o' buf"
      using assms by (simp add: write_at_def)
    then show ?thesis by (simp add: read_at_def)
  qed
qed

interpretation vram: flat_store write_at read_at length
  by unfold_locales (simp_all add: slice_write)

text \<open>What the sender relies on: a tensor's flat view is its bytes, as many as \<open>nbytes\<close> says.\<close>

definition flattens :: "('g, 'd) eenv \<Rightarrow> (string \<times> tensor) list \<Rightarrow> bool" where
  "flattens E ws \<longleftrightarrow>
     list_all (\<lambda>(name, w). flat_bytes E w = Inr (t_bytes w) \<and> length (t_bytes w) = nbytes w) ws"

text \<open>What the receiver relies on: bytes at an offset that the element size divides can be viewed.\<close>

definition views_aligned :: "('g, 'd) eenv \<Rightarrow> bool" where
  "views_aligned E \<longleftrightarrow>
     (\<forall>d sh off b. 0 < itemsize d \<longrightarrow> itemsize d dvd off \<longrightarrow> length b = itemsize d * numel sh \<longrightarrow>
        view_as E d sh off b = Inr \<lparr>t_shape = sh, t_dtype = d, t_bytes = b\<rparr>)"

abbreviation blocks :: "(string \<times> tensor) list \<Rightarrow> bytes list" where
  "blocks ws \<equiv> map (\<lambda>x. t_bytes (snd x)) ws"

definition packed_size :: "(string \<times> tensor) list \<Rightarrow> nat" where
  "packed_size ws = sum_list (map (\<lambda>x. nbytes (snd x)) ws)"

lemma flattens_size: "flattens E ws \<Longrightarrow> sum_list (map length (blocks ws)) = packed_size ws"
  by (induction ws) (auto simp: flattens_def packed_size_def)

primrec pack_table :: "nat \<Rightarrow> TensorMeta dict \<Rightarrow> (string \<times> tensor) list \<Rightarrow> TensorMeta dict" where
  "pack_table off table [] = table"
| "pack_table off table (x # xs) =
     pack_table (off + nbytes (snd x)) (dput table (fst x) (weight_meta (fst x) (snd x) off)) xs"

lemma pack_weights_fits:
  assumes "flattens E ws" "vram_buffer s = Some buf" "off + packed_size ws \<le> bucket_size s"
  shows "pack_weights E off table ws s =
     (Inr \<lparr>bucket_meta = pack_table off table ws, total_bytes = off + packed_size ws\<rparr>,
      s\<lparr>vram_buffer := Some (vram.put_all off (blocks ws) buf)\<rparr>)"
  using assms
proof (induction ws arbitrary: off table s buf)
  case Nil
  then show ?case by (simp add: ret_def packed_size_def)
next
  case (Cons x ws)
  define u where "u = s\<lparr>vram_buffer := Some (write_at off (t_bytes (snd x)) buf)\<rparr>"
  have b: "flat_bytes E (snd x) = Inr (t_bytes (snd x))" "length (t_bytes (snd x)) = nbytes (snd x)"
    "flattens E ws"
    using Cons.prems(1) by (auto simp: flattens_def split: prod.splits)
  have fits: "off + nbytes (snd x) + packed_size ws \<le> bucket_size u"
    using Cons.prems(3) by (simp add: packed_size_def u_def)
  have "pack_weights E off table (x # ws) s =
      pack_weights E (off + nbytes (snd x)) (dput table (fst x) (weight_meta (fst x) (snd x) off)) ws u"
    using b Cons.prems(2) fits by (simp add: Let_def bindE_def getM_def seqE_def modifyM_def lift_sum_def u_def)
  with Cons.IH [OF b(3) _ fits] b(2) show ?case
    by (simp add: u_def packed_size_def add.assoc)
qed

text \<open>A bucket that is too small is refused, at the first tensor that does not fit.\<close>

lemma pack_weights_overflow:
  assumes "flattens E ws" "bucket_size s < off + packed_size ws" "off \<le> bucket_size s"
  shows "\<exists>ys name w zs. ws = ys @ (name, w) # zs
       \<and> off + packed_size ys \<le> bucket_size s \<and> bucket_size s < off + packed_size ys + nbytes w
       \<and> fst (pack_weights E off table ws s) = Inl (would_exceed name)"
  using assms
proof (induction ws arbitrary: off table s)
  case Nil
  then show ?case by (simp add: packed_size_def)
next
  case (Cons x ws)
  obtain name w where x: "x = (name, w)" by (cases x)
  show ?case
  proof (cases "off + nbytes w \<le> bucket_size s")
    case False
    then have "fst (pack_weights E off table (x # ws) s) = Inl (would_exceed name)"
      by (simp add: x Let_def bindE_def getM_def raise_exn_def)
    with False Cons.prems show ?thesis
      unfolding x by (intro exI [of _ "[]"] exI [of _ name] exI [of _ w] exI [of _ ws]) (simp add: packed_size_def)
  next
    case True
    define u where "u = s\<lparr>vram_buffer := map_option (write_at off (t_bytes w)) (vram_buffer s)\<rparr>"
    have b: "flat_bytes E w = Inr (t_bytes w)" "flattens E ws"
      using Cons.prems(1) by (auto simp: flattens_def x)
    have step: "pack_weights E off table (x # ws) s =
        pack_weights E (off + nbytes w) (dput table name (weight_meta name w off)) ws u"
      using b True by (simp add: x Let_def bindE_def getM_def seqE_def modifyM_def lift_sum_def u_def)
    have bs: "bucket_size u = bucket_size s" by (simp add: u_def)
    have "bucket_size u < off + nbytes w + packed_size ws" "off + nbytes w \<le> bucket_size u"
      using Cons.prems(2) True by (simp_all add: packed_size_def x bs add.assoc)
    from Cons.IH [OF b(2) this, of "dput table name (weight_meta name w off)"]
    obtain ys n v zs where IH: "ws = ys @ (n, v) # zs"
      "off + nbytes w + packed_size ys \<le> bucket_size s" "bucket_size s < off + nbytes w + packed_size ys + nbytes v"
      "fst (pack_weights E off table (x # ws) s) = Inl (would_exceed n)"
      unfolding step bs by blast
    then show ?thesis
      by (intro exI [of _ "x # ys"] exI [of _ n] exI [of _ v] exI [of _ zs]) (simp add: packed_size_def x add.assoc)
  qed
qed

text \<open>The table of a packing whose names are distinct, and what makes its offsets usable.\<close>

primrec layout :: "nat \<Rightarrow> (string \<times> tensor) list \<Rightarrow> TensorMeta dict" where
  "layout off [] = []"
| "layout off (x # xs) = (fst x, weight_meta (fst x) (snd x) off) # layout (off + nbytes (snd x)) xs"

primrec aligned :: "nat \<Rightarrow> (string \<times> tensor) list \<Rightarrow> bool" where
  "aligned off [] = True"
| "aligned off (x # xs) =
     (0 < itemsize (t_dtype (snd x)) \<and> itemsize (t_dtype (snd x)) dvd off \<and> aligned (off + nbytes (snd x)) xs)"

lemma dput_fresh: "k \<notin> fst ` set d \<Longrightarrow> dput d k v = d @ [(k, v)]"
  by (induction d) auto

lemma pack_table_layout:
  "distinct (map fst ws) \<Longrightarrow> fst ` set ws \<inter> fst ` set table = {} \<Longrightarrow>
   pack_table off table ws = table @ layout off ws"
  by (induction ws arbitrary: off table) (auto simp: dput_fresh)

lemma unpack_layout:
  assumes "views_aligned E" "flattens E' ws" "aligned off ws"
    and "\<forall>i<length ws. read_at (vram.starts off (blocks ws) ! i) (length (blocks ws ! i)) buf = blocks ws ! i"
  shows "unpack_weights E buf (layout off ws) = (ws, None)"
  using assms(2-)
proof (induction ws arbitrary: off)
  case Nil
  then show ?case by simp
next
  case (Cons x ws)
  let ?w = "snd x"
  have len: "length (t_bytes ?w) = nbytes ?w" and fl: "flattens E' ws"
    using Cons.prems(1) by (auto simp: flattens_def split: prod.splits)
  have head: "read_at off (nbytes ?w) buf = t_bytes ?w" using Cons.prems(3) len by force
  have "view_as E (t_dtype ?w) (t_shape ?w) off (t_bytes ?w) = Inr ?w"
    using assms(1) Cons.prems(2) len by (simp add: views_aligned_def nbytes_def)
  moreover have "\<forall>i<length ws. read_at (vram.starts (off + nbytes ?w) (blocks ws) ! i) (length (blocks ws ! i)) buf
      = blocks ws ! i"
    using Cons.prems(3) len by (metis (no_types, lifting) Suc_less_eq length_Cons list.simps(9) nth_Cons_Suc vram.starts.simps(2))
  ultimately show ?case
    using Cons.IH [OF fl] Cons.prems(2) head
    by (simp add: Let_def weight_meta_def nbytes_def [symmetric])
qed

lemma aligned_uniform:
  "0 < k \<Longrightarrow> \<forall>x\<in>set ws. itemsize (t_dtype (snd x)) = k \<Longrightarrow> k dvd off \<Longrightarrow> aligned off ws"
  by (induction ws arbitrary: off) (auto simp: nbytes_def)

text \<open>What was packed into one buffer is unpacked from a copy of it.\<close>

lemma pack_unpack:
  assumes "flattens E ws" "distinct (map fst ws)" "aligned 0 ws" "views_aligned E'"
    and "vram_buffer s = Some buf" "length buf = bucket_size s"
    and run: "pack_weights E 0 [] ws s = (Inr md, t)"
  shows "\<exists>buf'. vram_buffer t = Some buf' \<and> unpack_weights E' buf' (bucket_meta md) = (ws, None)
       \<and> total_bytes md = packed_size ws \<and> length buf' = bucket_size s
       \<and> (\<forall>o' n. packed_size ws \<le> o' \<longrightarrow> read_at o' n buf' = read_at o' n buf)"
proof -
  have fits: "0 + packed_size ws \<le> bucket_size s"
  proof (rule ccontr)
    assume "\<not> 0 + packed_size ws \<le> bucket_size s"
    then have "bucket_size s < 0 + packed_size ws" by simp
    from pack_weights_overflow [OF assms(1) this, of "[]"] run show False by auto
  qed
  have size: "0 + sum_list (map length (blocks ws)) \<le> length buf"
    using fits flattens_size [OF assms(1)] assms(6) by simp
  let ?buf = "vram.put_all 0 (blocks ws) buf"
  have md: "md = \<lparr>bucket_meta = layout 0 ws, total_bytes = packed_size ws\<rparr>" "vram_buffer t = Some ?buf"
    using run pack_weights_fits [OF assms(1,5) fits, of "[]"] pack_table_layout [OF assms(2), of "[]" 0] by auto
  have "\<forall>i<length ws. read_at (vram.starts 0 (blocks ws) ! i) (length (blocks ws ! i)) ?buf = blocks ws ! i"
    using vram.get_block [OF size] by (metis length_map)
  from unpack_layout [OF assms(4,1,3) this] md vram.get_after [OF size] vram.cap_put_all [OF size]
    flattens_size [OF assms(1)] assms(6)
  show ?thesis by simp
qed

end
