(* ===== verification/Grpc_Services.thy ===== *)
theory Grpc_Services
  imports Driver_System
begin

text \<open>
  The services of \<open>proto/wpi.proto\<close> as the generated modules declare them
  (\<open>driver/wpi_pb2_grpc.py\<close>, and the copies in \<open>consumer/wpi_client/proto\<close> and
  \<open>consumer/wpi_verl_plugin/proto\<close>), the servicers of the driver and \<open>serve\<close>, which registers
  them. A stub is a table from method names to the path that is called and the types of the two
  messages; a servicer is a table from method names to behaviours; registering a servicer builds the
  table of handlers.

  The grpc package is not part of the repository: how a server is built and finds the handler of a
  path, how a message survives serialization, and how versions are compared are parameters
  (\<open>grpc_lib\<close>), and what the generated code relies on is \<open>grpc_laws\<close>.
\<close>

section \<open>Messages\<close>

text \<open>
  The messages by service. The controller's carry no content here: no code of the repository
  constructs or reads one.
\<close>

datatype wpi_request =
    PluginInfoRq | PluginCapabilitiesRq
  | CreateWeightBufferRq | AuthorizeTransferRq | QueryTopologyRq
  | RegisterRq string
  | StageRq NodeStageWeightRequest
  | UnstageRq string
  | PropagateRq NodePropagateRequest
  | TranslateRq string

datatype wpi_response =
    PluginInfoRs string string
  | PluginCapabilitiesRs "plugin_capability list"
  | RegisterRs string
  | StageRs | UnstageRs | PropagateRs
  | TranslateRs string

fun request_type :: "wpi_request \<Rightarrow> string" where
  "request_type PluginInfoRq = ''GetPluginInfoRequest''"
| "request_type PluginCapabilitiesRq = ''GetPluginCapabilitiesRequest''"
| "request_type CreateWeightBufferRq = ''CreateWeightBufferRequest''"
| "request_type AuthorizeTransferRq = ''AuthorizeTransferRequest''"
| "request_type QueryTopologyRq = ''QueryTopologyRequest''"
| "request_type (RegisterRq _) = ''NodeRegisterWeightRequest''"
| "request_type (StageRq _) = ''NodeStageWeightRequest''"
| "request_type (UnstageRq _) = ''NodeUnstageWeightRequest''"
| "request_type (PropagateRq _) = ''NodePropagateRequest''"
| "request_type (TranslateRq _) = ''NodeTranslateAndMapRequest''"

fun response_type :: "wpi_response \<Rightarrow> string" where
  "response_type (PluginInfoRs _ _) = ''GetPluginInfoResponse''"
| "response_type (PluginCapabilitiesRs _) = ''GetPluginCapabilitiesResponse''"
| "response_type (RegisterRs _) = ''NodeRegisterWeightResponse''"
| "response_type StageRs = ''NodeStageWeightResponse''"
| "response_type UnstageRs = ''NodeUnstageWeightResponse''"
| "response_type PropagateRs = ''NodePropagateResponse''"
| "response_type (TranslateRs _) = ''NodeTranslateAndMapResponse''"

section \<open>The generated module\<close>

record stub_method =
  sm_path :: string
  sm_request :: string
  sm_response :: string

type_synonym 'g behaviour = "wpi_request \<Rightarrow> ('g driver, wpi_response) pyM"
type_synonym 'g servicer = "'g behaviour dict"

record 'g method_handler =
  mh_behaviour :: "'g behaviour"
  mh_request :: string
  mh_response :: string

record ('g, 'srv) grpc_lib =
  new_server :: 'srv
  add_generic_rpc_handlers :: "string \<Rightarrow> 'g method_handler dict \<Rightarrow> 'srv \<Rightarrow> 'srv"
  add_registered_method_handlers :: "string \<Rightarrow> 'g method_handler dict \<Rightarrow> 'srv \<Rightarrow> 'srv"
  find_handler :: "'srv \<Rightarrow> string \<Rightarrow> 'g method_handler option"
  transcode :: "string \<Rightarrow> string \<Rightarrow> wpi_request \<Rightarrow> exn + wpi_request"
                                      \<comment> \<open>serialize as one message type, read as another\<close>
  error_details :: "exn \<Rightarrow> string"

text \<open>
  The check at the top of the module: \<open>lower\<close> is \<open>first_version_is_lower\<close>, absent when it
  cannot be imported.
\<close>

definition version_check :: "(string \<Rightarrow> string \<Rightarrow> bool) option \<Rightarrow> string \<Rightarrow> string \<Rightarrow> exn option" where
  "version_check lower installed generated =
     (if (case lower of Some f \<Rightarrow> f installed generated | None \<Rightarrow> True) then
        Some (RuntimeError (''The grpc package installed is at version '' @ installed
          @ '', but the generated code in wpi_pb2_grpc.py depends on'' @ '' grpcio>='' @ generated @ ''.''
          @ '' Please upgrade your grpc module to grpcio>='' @ generated
          @ '' or downgrade your generated code using grpcio-tools<='' @ installed @ ''.''))
      else None)"

definition driver_GRPC_GENERATED_VERSION :: string where
  "driver_GRPC_GENERATED_VERSION = ''1.80.0''"

definition client_GRPC_GENERATED_VERSION :: string where
  "client_GRPC_GENERATED_VERSION = ''1.78.1''"

definition verl_GRPC_GENERATED_VERSION :: string where
  "verl_GRPC_GENERATED_VERSION = ''1.80.0''"

text \<open>Every method of a servicer's base class.\<close>

definition unimplemented :: "'g behaviour" where
  "unimplemented r =
     seqE (modifyM (\<lambda>s. s\<lparr>aborts := aborts s @ [(UNIMPLEMENTED, ''Method not implemented!'')]\<rparr>))
          (raise_exn (NotImplementedError ''Method not implemented!''))"

text \<open>The dictionary of handlers: a method the servicer does not have is an \<open>AttributeError\<close>.\<close>

primrec rpc_method_handlers ::
  "'g servicer \<Rightarrow> (string \<times> string \<times> string \<times> string) list \<Rightarrow> exn + 'g method_handler dict" where
  "rpc_method_handlers servicer [] = Inr []"
| "rpc_method_handlers servicer (x # xs) =
     (case x of (name, attr, req, resp) \<Rightarrow>
        (case dget servicer attr of
           None \<Rightarrow> Inl (AttributeError attr)
         | Some b \<Rightarrow>
             bindS (rpc_method_handlers servicer xs) (\<lambda>hs.
             Inr ((name, \<lparr>mh_behaviour = b, mh_request = req, mh_response = resp\<rparr>) # hs))))"

definition add_service :: "('g, 'srv) grpc_lib \<Rightarrow> string \<Rightarrow> 'g method_handler dict \<Rightarrow> 'srv \<Rightarrow> 'srv" where
  "add_service L service hs server =
     add_registered_method_handlers L service hs (add_generic_rpc_handlers L service hs server)"

subsection \<open>IdentityService\<close>

definition IdentityServiceStub :: "stub_method dict" where
  "IdentityServiceStub =
    [(''GetPluginInfo'', \<lparr>sm_path = ''/wpi.v1alpha1.IdentityService/GetPluginInfo'',
        sm_request = ''GetPluginInfoRequest'', sm_response = ''GetPluginInfoResponse''\<rparr>),
     (''GetPluginCapabilities'', \<lparr>sm_path = ''/wpi.v1alpha1.IdentityService/GetPluginCapabilities'',
        sm_request = ''GetPluginCapabilitiesRequest'', sm_response = ''GetPluginCapabilitiesResponse''\<rparr>)]"

definition IdentityServiceServicer :: "'g servicer" where
  "IdentityServiceServicer = map (\<lambda>m. (m, unimplemented)) [''GetPluginInfo'', ''GetPluginCapabilities'']"

definition add_IdentityServiceServicer_to_server ::
  "('g, 'srv) grpc_lib \<Rightarrow> 'g servicer \<Rightarrow> 'srv \<Rightarrow> exn + 'srv" where
  "add_IdentityServiceServicer_to_server L servicer server =
     bindS (rpc_method_handlers servicer [(''GetPluginInfo'', ''GetPluginInfo'', ''GetPluginInfoRequest'', ''GetPluginInfoResponse''),
       (''GetPluginCapabilities'', ''GetPluginCapabilities'', ''GetPluginCapabilitiesRequest'', ''GetPluginCapabilitiesResponse'')]) (\<lambda>hs.
     Inr (add_service L ''wpi.v1alpha1.IdentityService'' hs server))"

definition IdentityService_api :: "stub_method dict" where
  "IdentityService_api =
    [(''GetPluginInfo'', \<lparr>sm_path = ''/wpi.v1alpha1.IdentityService/GetPluginInfo'',
        sm_request = ''GetPluginInfoRequest'', sm_response = ''GetPluginInfoResponse''\<rparr>),
     (''GetPluginCapabilities'', \<lparr>sm_path = ''/wpi.v1alpha1.IdentityService/GetPluginCapabilities'',
        sm_request = ''GetPluginCapabilitiesRequest'', sm_response = ''GetPluginCapabilitiesResponse''\<rparr>)]"

subsection \<open>ControllerService\<close>

definition ControllerServiceStub :: "stub_method dict" where
  "ControllerServiceStub =
    [(''CreateWeightBuffer'', \<lparr>sm_path = ''/wpi.v1alpha1.ControllerService/CreateWeightBuffer'',
        sm_request = ''CreateWeightBufferRequest'', sm_response = ''CreateWeightBufferResponse''\<rparr>),
     (''AuthorizeTransfer'', \<lparr>sm_path = ''/wpi.v1alpha1.ControllerService/AuthorizeTransfer'',
        sm_request = ''AuthorizeTransferRequest'', sm_response = ''AuthorizeTransferResponse''\<rparr>),
     (''QueryTopology'', \<lparr>sm_path = ''/wpi.v1alpha1.ControllerService/QueryTopology'',
        sm_request = ''QueryTopologyRequest'', sm_response = ''QueryTopologyResponse''\<rparr>)]"

definition ControllerServiceServicer :: "'g servicer" where
  "ControllerServiceServicer = map (\<lambda>m. (m, unimplemented)) [''CreateWeightBuffer'', ''AuthorizeTransfer'', ''QueryTopology'']"

definition add_ControllerServiceServicer_to_server ::
  "('g, 'srv) grpc_lib \<Rightarrow> 'g servicer \<Rightarrow> 'srv \<Rightarrow> exn + 'srv" where
  "add_ControllerServiceServicer_to_server L servicer server =
     bindS (rpc_method_handlers servicer [(''CreateWeightBuffer'', ''CreateWeightBuffer'', ''CreateWeightBufferRequest'', ''CreateWeightBufferResponse''),
       (''AuthorizeTransfer'', ''AuthorizeTransfer'', ''AuthorizeTransferRequest'', ''AuthorizeTransferResponse''),
       (''QueryTopology'', ''QueryTopology'', ''QueryTopologyRequest'', ''QueryTopologyResponse'')]) (\<lambda>hs.
     Inr (add_service L ''wpi.v1alpha1.ControllerService'' hs server))"

definition ControllerService_api :: "stub_method dict" where
  "ControllerService_api =
    [(''CreateWeightBuffer'', \<lparr>sm_path = ''/wpi.v1alpha1.ControllerService/CreateWeightBuffer'',
        sm_request = ''CreateWeightBufferRequest'', sm_response = ''CreateWeightBufferResponse''\<rparr>),
     (''AuthorizeTransfer'', \<lparr>sm_path = ''/wpi.v1alpha1.ControllerService/AuthorizeTransfer'',
        sm_request = ''AuthorizeTransferRequest'', sm_response = ''AuthorizeTransferResponse''\<rparr>),
     (''QueryTopology'', \<lparr>sm_path = ''/wpi.v1alpha1.ControllerService/QueryTopology'',
        sm_request = ''QueryTopologyRequest'', sm_response = ''QueryTopologyResponse''\<rparr>)]"

subsection \<open>NodeService\<close>

definition NodeServiceStub :: "stub_method dict" where
  "NodeServiceStub =
    [(''NodeRegisterWeight'', \<lparr>sm_path = ''/wpi.v1alpha1.NodeService/NodeRegisterWeight'',
        sm_request = ''NodeRegisterWeightRequest'', sm_response = ''NodeRegisterWeightResponse''\<rparr>),
     (''NodeStageWeight'', \<lparr>sm_path = ''/wpi.v1alpha1.NodeService/NodeStageWeight'',
        sm_request = ''NodeStageWeightRequest'', sm_response = ''NodeStageWeightResponse''\<rparr>),
     (''NodeUnstageWeight'', \<lparr>sm_path = ''/wpi.v1alpha1.NodeService/NodeUnstageWeight'',
        sm_request = ''NodeUnstageWeightRequest'', sm_response = ''NodeUnstageWeightResponse''\<rparr>),
     (''NodePropagate'', \<lparr>sm_path = ''/wpi.v1alpha1.NodeService/NodePropagate'',
        sm_request = ''NodePropagateRequest'', sm_response = ''NodePropagateResponse''\<rparr>),
     (''NodeTranslateAndMap'', \<lparr>sm_path = ''/wpi.v1alpha1.NodeService/NodeTranslateAndMap'',
        sm_request = ''NodeTranslateAndMapRequest'', sm_response = ''NodeTranslateAndMapResponse''\<rparr>)]"

definition NodeServiceServicer :: "'g servicer" where
  "NodeServiceServicer = map (\<lambda>m. (m, unimplemented)) [''NodeRegisterWeight'', ''NodeStageWeight'', ''NodeUnstageWeight'', ''NodePropagate'', ''NodeTranslateAndMap'']"

definition add_NodeServiceServicer_to_server ::
  "('g, 'srv) grpc_lib \<Rightarrow> 'g servicer \<Rightarrow> 'srv \<Rightarrow> exn + 'srv" where
  "add_NodeServiceServicer_to_server L servicer server =
     bindS (rpc_method_handlers servicer [(''NodeRegisterWeight'', ''NodeRegisterWeight'', ''NodeRegisterWeightRequest'', ''NodeRegisterWeightResponse''),
       (''NodeStageWeight'', ''NodeStageWeight'', ''NodeStageWeightRequest'', ''NodeStageWeightResponse''),
       (''NodeUnstageWeight'', ''NodeUnstageWeight'', ''NodeUnstageWeightRequest'', ''NodeUnstageWeightResponse''),
       (''NodePropagate'', ''NodePropagate'', ''NodePropagateRequest'', ''NodePropagateResponse''),
       (''NodeTranslateAndMap'', ''NodeTranslateAndMap'', ''NodeTranslateAndMapRequest'', ''NodeTranslateAndMapResponse'')]) (\<lambda>hs.
     Inr (add_service L ''wpi.v1alpha1.NodeService'' hs server))"

definition NodeService_api :: "stub_method dict" where
  "NodeService_api =
    [(''NodeRegisterWeight'', \<lparr>sm_path = ''/wpi.v1alpha1.NodeService/NodeRegisterWeight'',
        sm_request = ''NodeRegisterWeightRequest'', sm_response = ''NodeRegisterWeightResponse''\<rparr>),
     (''NodeStageWeight'', \<lparr>sm_path = ''/wpi.v1alpha1.NodeService/NodeStageWeight'',
        sm_request = ''NodeStageWeightRequest'', sm_response = ''NodeStageWeightResponse''\<rparr>),
     (''NodeUnstageWeight'', \<lparr>sm_path = ''/wpi.v1alpha1.NodeService/NodeUnstageWeight'',
        sm_request = ''NodeUnstageWeightRequest'', sm_response = ''NodeUnstageWeightResponse''\<rparr>),
     (''NodePropagate'', \<lparr>sm_path = ''/wpi.v1alpha1.NodeService/NodePropagate'',
        sm_request = ''NodePropagateRequest'', sm_response = ''NodePropagateResponse''\<rparr>),
     (''NodeTranslateAndMap'', \<lparr>sm_path = ''/wpi.v1alpha1.NodeService/NodeTranslateAndMap'',
        sm_request = ''NodeTranslateAndMapRequest'', sm_response = ''NodeTranslateAndMapResponse''\<rparr>)]"

section \<open>The stubs of the two client packages\<close>

definition client_IdentityServiceStub :: "stub_method dict" where
  "client_IdentityServiceStub =
    [(''GetPluginInfo'', \<lparr>sm_path = ''/wpi.v1alpha1.IdentityService/GetPluginInfo'',
        sm_request = ''GetPluginInfoRequest'', sm_response = ''GetPluginInfoResponse''\<rparr>),
     (''GetPluginCapabilities'', \<lparr>sm_path = ''/wpi.v1alpha1.IdentityService/GetPluginCapabilities'',
        sm_request = ''GetPluginCapabilitiesRequest'', sm_response = ''GetPluginCapabilitiesResponse''\<rparr>)]"

definition client_ControllerServiceStub :: "stub_method dict" where
  "client_ControllerServiceStub =
    [(''CreateWeightBuffer'', \<lparr>sm_path = ''/wpi.v1alpha1.ControllerService/CreateWeightBuffer'',
        sm_request = ''CreateWeightBufferRequest'', sm_response = ''CreateWeightBufferResponse''\<rparr>),
     (''AuthorizeTransfer'', \<lparr>sm_path = ''/wpi.v1alpha1.ControllerService/AuthorizeTransfer'',
        sm_request = ''AuthorizeTransferRequest'', sm_response = ''AuthorizeTransferResponse''\<rparr>),
     (''QueryTopology'', \<lparr>sm_path = ''/wpi.v1alpha1.ControllerService/QueryTopology'',
        sm_request = ''QueryTopologyRequest'', sm_response = ''QueryTopologyResponse''\<rparr>)]"

definition client_NodeServiceStub :: "stub_method dict" where
  "client_NodeServiceStub =
    [(''NodeRegisterWeight'', \<lparr>sm_path = ''/wpi.v1alpha1.NodeService/NodeRegisterWeight'',
        sm_request = ''NodeRegisterWeightRequest'', sm_response = ''NodeRegisterWeightResponse''\<rparr>),
     (''NodeStageWeight'', \<lparr>sm_path = ''/wpi.v1alpha1.NodeService/NodeStageWeight'',
        sm_request = ''NodeStageWeightRequest'', sm_response = ''NodeStageWeightResponse''\<rparr>),
     (''NodeUnstageWeight'', \<lparr>sm_path = ''/wpi.v1alpha1.NodeService/NodeUnstageWeight'',
        sm_request = ''NodeUnstageWeightRequest'', sm_response = ''NodeUnstageWeightResponse''\<rparr>),
     (''NodePropagate'', \<lparr>sm_path = ''/wpi.v1alpha1.NodeService/NodePropagate'',
        sm_request = ''NodePropagateRequest'', sm_response = ''NodePropagateResponse''\<rparr>),
     (''NodeTranslateAndMap'', \<lparr>sm_path = ''/wpi.v1alpha1.NodeService/NodeTranslateAndMap'',
        sm_request = ''NodeTranslateAndMapRequest'', sm_response = ''NodeTranslateAndMapResponse''\<rparr>)]"

definition verl_IdentityServiceStub :: "stub_method dict" where
  "verl_IdentityServiceStub =
    [(''GetPluginInfo'', \<lparr>sm_path = ''/wpi.v1alpha1.IdentityService/GetPluginInfo'',
        sm_request = ''GetPluginInfoRequest'', sm_response = ''GetPluginInfoResponse''\<rparr>),
     (''GetPluginCapabilities'', \<lparr>sm_path = ''/wpi.v1alpha1.IdentityService/GetPluginCapabilities'',
        sm_request = ''GetPluginCapabilitiesRequest'', sm_response = ''GetPluginCapabilitiesResponse''\<rparr>)]"

definition verl_ControllerServiceStub :: "stub_method dict" where
  "verl_ControllerServiceStub =
    [(''CreateWeightBuffer'', \<lparr>sm_path = ''/wpi.v1alpha1.ControllerService/CreateWeightBuffer'',
        sm_request = ''CreateWeightBufferRequest'', sm_response = ''CreateWeightBufferResponse''\<rparr>),
     (''AuthorizeTransfer'', \<lparr>sm_path = ''/wpi.v1alpha1.ControllerService/AuthorizeTransfer'',
        sm_request = ''AuthorizeTransferRequest'', sm_response = ''AuthorizeTransferResponse''\<rparr>),
     (''QueryTopology'', \<lparr>sm_path = ''/wpi.v1alpha1.ControllerService/QueryTopology'',
        sm_request = ''QueryTopologyRequest'', sm_response = ''QueryTopologyResponse''\<rparr>)]"

definition verl_NodeServiceStub :: "stub_method dict" where
  "verl_NodeServiceStub =
    [(''NodeRegisterWeight'', \<lparr>sm_path = ''/wpi.v1alpha1.NodeService/NodeRegisterWeight'',
        sm_request = ''NodeRegisterWeightRequest'', sm_response = ''NodeRegisterWeightResponse''\<rparr>),
     (''NodeStageWeight'', \<lparr>sm_path = ''/wpi.v1alpha1.NodeService/NodeStageWeight'',
        sm_request = ''NodeStageWeightRequest'', sm_response = ''NodeStageWeightResponse''\<rparr>),
     (''NodeUnstageWeight'', \<lparr>sm_path = ''/wpi.v1alpha1.NodeService/NodeUnstageWeight'',
        sm_request = ''NodeUnstageWeightRequest'', sm_response = ''NodeUnstageWeightResponse''\<rparr>),
     (''NodePropagate'', \<lparr>sm_path = ''/wpi.v1alpha1.NodeService/NodePropagate'',
        sm_request = ''NodePropagateRequest'', sm_response = ''NodePropagateResponse''\<rparr>),
     (''NodeTranslateAndMap'', \<lparr>sm_path = ''/wpi.v1alpha1.NodeService/NodeTranslateAndMap'',
        sm_request = ''NodeTranslateAndMapRequest'', sm_response = ''NodeTranslateAndMapResponse''\<rparr>)]"

section \<open>The driver's services\<close>

text \<open>A handler reads the fields of its own request; another message does not have them.\<close>

definition no_field :: "('g driver, wpi_response) pyM" where
  "no_field = raise_exn (AttributeError ''request field'')"

definition NodeService_methods :: "'g env \<Rightarrow> 'g servicer" where
  "NodeService_methods E =
    [(''NodeStageWeight'', \<lambda>r. case r of
        StageRq q \<Rightarrow> bindE (NodeStageWeight E q) (\<lambda>_. ret StageRs) | _ \<Rightarrow> no_field),
     (''NodeUnstageWeight'', \<lambda>r. case r of
        UnstageRq c \<Rightarrow> bindE (NodeUnstageWeight E c) (\<lambda>_. ret UnstageRs) | _ \<Rightarrow> no_field),
     (''NodeRegisterWeight'', \<lambda>r. case r of
        RegisterRq b \<Rightarrow> bindE (NodeRegisterWeight E b) (\<lambda>h. ret (RegisterRs h)) | _ \<Rightarrow> no_field),
     (''NodePropagate'', \<lambda>r. case r of
        PropagateRq q \<Rightarrow> bindE (NodePropagate E q) (\<lambda>_. ret PropagateRs) | _ \<Rightarrow> no_field),
     (''NodeTranslateAndMap'', \<lambda>r. case r of
        TranslateRq c \<Rightarrow> bindE (NodeTranslateAndMap c) (\<lambda>p. ret (TranslateRs p)) | _ \<Rightarrow> no_field)]"

definition IdentityService_methods :: "'g servicer" where
  "IdentityService_methods =
    [(''GetPluginInfo'', \<lambda>r. ret (PluginInfoRs (fst GetPluginInfo) (snd GetPluginInfo))),
     (''GetPluginCapabilities'', \<lambda>r. ret (PluginCapabilitiesRs GetPluginCapabilities))]"

text \<open>Attributes of a class that derives from another are looked up in it first.\<close>

definition derives :: "'g servicer \<Rightarrow> 'g servicer \<Rightarrow> 'g servicer" where
  "derives sub base = sub @ base"

definition register_services :: "('g, 'srv) grpc_lib \<Rightarrow> 'g env \<Rightarrow> exn + 'srv" where
  "register_services L E =
     bindS (add_NodeServiceServicer_to_server L (derives (NodeService_methods E) NodeServiceServicer)
              (new_server L)) (\<lambda>srv.
     add_IdentityServiceServicer_to_server L (derives IdentityService_methods IdentityServiceServicer) srv)"

text \<open>What \<open>serve\<close> does, in order; changing the mode of the socket may fail without consequence.\<close>

datatype boot_event =
    StartTargetServer
  | InsecurePort string
  | ServerStart
  | ChmodSocket string
  | WaitForTermination

definition boot_act :: "(boot_event \<Rightarrow> exn option) \<Rightarrow> boot_event \<Rightarrow> (boot_event list, unit) pyM" where
  "boot_act err e = seqE (may_raise (err e)) (modifyM (\<lambda>l. l @ [e]))"

definition serve :: "('g, 'srv) grpc_lib \<Rightarrow> 'g env \<Rightarrow> (boot_event \<Rightarrow> exn option) \<Rightarrow> (boot_event list, 'srv) pyM" where
  "serve L E err =
     seqE (boot_act err StartTargetServer) (
     bindE (lift_sum (register_services L E)) (\<lambda>srv.
     seqE (boot_act err (InsecurePort ''[::]:50051'')) (
     seqE (boot_act err (InsecurePort ''unix:///run/wpi/sockets/wpi-grpc.sock'')) (
     seqE (boot_act err ServerStart) (
     seqE (try_except (boot_act err (ChmodSocket ''/run/wpi/sockets/wpi-grpc.sock'')) (\<lambda>_. ret ())) (
     seqE (boot_act err WaitForTermination) (ret srv)))))))"

section \<open>A call\<close>

fun status_name :: "status \<Rightarrow> string" where
  "status_name INVALID_ARGUMENT = ''INVALID_ARGUMENT''"
| "status_name NOT_FOUND = ''NOT_FOUND''"
| "status_name INTERNAL = ''INTERNAL''"
| "status_name UNAVAILABLE = ''UNAVAILABLE''"
| "status_name UNIMPLEMENTED = ''UNIMPLEMENTED''"

text \<open>
  Calling a method of a stub: the request is serialized, the server looks for the path, and the
  handler runs. A handler that raised ends the call with the status set last, or with
  UNKNOWN when it set none; an unknown path ends it with UNIMPLEMENTED.
\<close>

definition run_handler ::
  "('g, 'srv) grpc_lib \<Rightarrow> 'g behaviour \<Rightarrow> wpi_request \<Rightarrow> ('g driver, wpi_response) pyM" where
  "run_handler L b r = (\<lambda>s. case b r s of
     (Inr y, t) \<Rightarrow> (Inr y, t)
   | (Inl e, t) \<Rightarrow>
       (Inl (RpcError (if aborts t = aborts s then ''UNKNOWN'' else status_name (fst (last (aborts t))))
               (error_details L e)), t))"

definition stub_call ::
  "('g, 'srv) grpc_lib \<Rightarrow> 'srv \<Rightarrow> stub_method dict \<Rightarrow> string \<Rightarrow> wpi_request \<Rightarrow> ('g driver, wpi_response) pyM" where
  "stub_call L srv stub name r =
     (case dget stub name of
        None \<Rightarrow> raise_exn (AttributeError name)
      | Some m \<Rightarrow>
          if request_type r \<noteq> sm_request m then raise_exn (TypeError (sm_request m))
          else (case find_handler L srv (sm_path m) of
              None \<Rightarrow> raise_exn (RpcError ''UNIMPLEMENTED'' ''Method not found!'')
            | Some h \<Rightarrow>
                bindE (lift_sum (transcode L (sm_request m) (mh_request h) r)) (run_handler L (mh_behaviour h))))"

end
