(* ===== verification/Client_Properties.thy ===== *)
theory Client_Properties
  imports WPI_Client Grpc_Services Sim_Driver
begin

text \<open>
  The consumer library against the driver: names and paths agree, the device request is read back,
  the polling loops are bounded, the imported mapping has the driver's size, and what a consumer
  can conclude from the calls.
\<close>

section \<open>Names, paths and the device request\<close>

lemma client_id: "client_buffer_id b i n = effective_buffer_id b i n"
  by (simp add: client_buffer_id_def effective_buffer_id_def is_sharded_def)

text \<open>C24. With the default socket directory the client computes the names the driver computes:
  the request it sends is staged under the identifier it will look for, and the two sockets it
  connects to are the ones the driver opens for that identifier.\<close>

theorem client_names_agree:
  assumes "make_stage_request b n c src i tot = Inr req"
  shows "stage_id req = client_buffer_id b i tot
       \<and> path_join SOCKET_DIR (client_buffer_id b i tot @ ''.sock'') = fd_sock_path (stage_id req)
       \<and> path_join SOCKET_DIR (client_buffer_id b i tot @ ''_notify.sock'') = notify_path (stage_id req)
       \<and> stage_size req = (if n = 0 then 10 * 1024 ^ 3 else n)"
proof -
  from assms have r: "in_uint64 n" "in_int32 i" "in_int32 tot"
    and req: "req_buffer_id req = b" "req_size_bytes req = word_of_int n"
      "req_shard_index req = word_of_int i" "req_total_shards req = word_of_int tot"
    by (auto simp: make_stage_request_def split: if_splits)
  from r have "sint (word_of_int i :: 32 word) = i" "sint (word_of_int tot :: 32 word) = tot"
    by (auto simp: in_int32_def signed_of_int signed_take_bit_int_eq_self)
  moreover from r have "uint (word_of_int n :: 64 word) = n"
    by (auto simp: in_uint64_def unsigned_of_int take_bit_int_eq_self)
  moreover from this have "(word_of_int n :: 64 word) = 0 \<longleftrightarrow> n = 0"
    by (metis uint_0_eq unsigned_eq_0_iff)
  ultimately show ?thesis
    by (simp add: req client_id fd_sock_path_def notify_path_def stage_size_def)
qed

theorem client_names_agree_witness:
  "stage_id \<lparr>req_claim_id = ''c'', req_buffer_id = ''w'', req_source_path = [], req_size_bytes = 0,
            req_shard_index = 3, req_total_shards = 8\<rparr> = client_buffer_id ''w'' 3 8"
  using client_names_agree [of "''w''" 0 "''c''" "[]" 3 8]
  by (simp add: make_stage_request_def in_uint64_def in_int32_def)









section \<open>The polling loops\<close>

lemma wait_rounds_le: "wait_rounds n ex w \<le> w + n"
  by (induction n ex w rule: wait_rounds.induct) auto

lemma sleep_each:
  "for_each (\<lambda>_. cl_emit ClSleep) xs s
   = (Inr (), s\<lparr>cl_events := cl_events s @ replicate (length xs) ClSleep\<rparr>)"
  by (induction xs arbitrary: s) (simp_all add: py_simps)

lemma wait_for_path_returns:
  "wait_for_path E path n msg s = (Inr u, t) \<longleftrightarrow>
     (let w = wait_rounds n (exists_at E path) 0 in
      exists_at E path (w + 1) \<and> t = s\<lparr>cl_events := cl_events s @ replicate w ClSleep\<rparr>)"
  by (auto simp: wait_for_path_def seqE_def bindE_def sleep_each Let_def)

text \<open>The attempt that connects: the first that succeeds, all before it being retried.\<close>

definition connects_at :: "(nat \<Rightarrow> exn option) \<Rightarrow> nat \<Rightarrow> bool" where
  "connects_at f j \<longleftrightarrow> f j = None \<and> (\<forall>i<j. \<exists>e. f i = Some e \<and> is_oserror e)"

lemma connects_at_shift:
  "connects_at f (Suc j) \<longleftrightarrow> (\<exists>e. f 0 = Some e \<and> is_oserror e) \<and> connects_at (\<lambda>i. f (Suc i)) j"
  unfolding connects_at_def using less_Suc_eq_0_disj by auto

lemma connect_loop_returns:
  "0 < left \<Longrightarrow> connect_loop f a left s = (Inr u, t) \<longleftrightarrow>
     (\<exists>j<left. connects_at (\<lambda>i. f (a + i)) j \<and> t = s\<lparr>cl_events := cl_events s @ replicate j ClSleep\<rparr>)"
proof (induction f a left arbitrary: s rule: connect_loop.induct)
  case (1 f a)
  then show ?case by simp
next
  case (2 f a left)
  let ?T = "\<lambda>j. t = s\<lparr>cl_events := cl_events s @ replicate j ClSleep\<rparr>"
  have split: "(\<exists>j<Suc left. connects_at (\<lambda>i. f (a + i)) j \<and> ?T j) \<longleftrightarrow>
      (f a = None \<and> ?T 0)
    \<or> (\<exists>e. f a = Some e \<and> is_oserror e) \<and> (\<exists>j<left. connects_at (\<lambda>i. f (a + 1 + i)) j \<and> ?T (Suc j))"
    unfolding Ex_less_Suc2 connects_at_shift by (auto simp: connects_at_def)
  show ?case
  proof (cases "f a")
    case None
    then show ?thesis unfolding split by auto
  next
    case (Some e)
    show ?thesis
    proof (cases "is_oserror e \<and> left \<noteq> 0")
      case True
      have "connect_loop f (Suc a) left v = (Inr u, t) \<longleftrightarrow>
          (\<exists>j<left. connects_at (\<lambda>i. f (Suc (a + i))) j \<and> t = v\<lparr>cl_events := cl_events v @ replicate j ClSleep\<rparr>)" for v
        using True "2.IH" [OF Some, of v] by simp
      with True Some show ?thesis
        unfolding split by (simp add: seqE_returns_iff cl_emit_def)
    next
      case False
      with Some show ?thesis unfolding split by auto
    qed
  qed
qed

text \<open>C22. What it takes for \<open>receive_fd\<close> to return a descriptor, and all it does then: it
  polls at most 60 times for the socket, makes at most 30 attempts to connect, sends one request
  for the device and returns the first descriptor of the first rights message.\<close>

theorem receive_fd_exact:
  "receive_fd E b dev i n s = (Inr f, t) \<longleftrightarrow>
     (let path = path_join (socket_dir s) (client_buffer_id b i n @ ''.sock'');
          w = wait_rounds 60 (exists_at E path) 0 in
      w \<le> 60 \<and> exists_at E path (w + 1)
      \<and> (\<exists>j<30. connects_at (connect_at E path) j \<and> cl_send_err E = None
           \<and> (\<exists>anc. recvmsg E = Inr anc \<and> find_fd anc = Inr (Some f))
           \<and> t = s\<lparr>cl_events := cl_events s @ replicate (w + j) ClSleep
                                @ [ClSend (gpu_metadata dev), ClCloseFdSocket]\<rparr>))"
proof -
  have fin: "bindE (lift_sum (recvmsg E)) (\<lambda>anc. bindE (lift_sum (find_fd anc)) (\<lambda>o_fd.
       seqE (cl_emit ClCloseFdSocket)
         (case o_fd of None \<Rightarrow> raise_exn (RuntimeError m) | Some f \<Rightarrow> ret f))) v = (Inr f, t) \<longleftrightarrow>
     (\<exists>anc. recvmsg E = Inr anc \<and> find_fd anc = Inr (Some f))
     \<and> t = v\<lparr>cl_events := cl_events v @ [ClCloseFdSocket]\<rparr>"
    for m and v :: "('a, 'b) client"
    by (auto simp: py_simps split: option.splits sum.splits)
  show ?thesis
    using wait_rounds_le [of 60 _ 0]
    by (auto simp: receive_fd_def receive_fd_with_def bindE_returns_iff [of "getM _"] seqE_returns_iff
        fin wait_for_path_returns connect_loop_returns may_raise_def cl_emit_def [of "ClSend _"] Let_def
        replicate_add split: option.splits)
qed

section \<open>Staging through the client\<close>

text \<open>
  The RPC runs the handler, and a handler that aborted is an \<open>RpcError\<close> at the stub with the
  status that was set last.
\<close>

definition serves_stage :: "('c, 'g driver) cenv \<Rightarrow> 'g env \<Rightarrow> bool" where
  "serves_stage E D \<longleftrightarrow>
     (\<forall>tgt req d. snd (rpc_stage E tgt req d) = snd (NodeStageWeight D req d)
        \<and> (case fst (NodeStageWeight D req d) of
             Inr _ \<Rightarrow> fst (rpc_stage E tgt req d) = None
           | Inl _ \<Rightarrow> (\<exists>m. fst (rpc_stage E tgt req d) =
               Some (RpcError (status_name (fst (last (aborts (snd (NodeStageWeight D req d)))))) m))))"

text \<open>A concrete client, connected to the simulated driver.\<close>

definition sim_client_cuda :: "sim_gpu client_cuda" where
  "sim_client_cuda = libcuda.extend sim_cuda_2M
     (client_cuda.fields (\<lambda>g. ((0, 7), g)) (\<lambda>d g. ((0, 1000), g)) (\<lambda>c g. (0, g)) (\<lambda>g. ((0, 1000), g))
        (\<lambda>f t g. ((0, f), g)))"

definition sim_cenv :: "(sim_gpu, sim_gpu driver) cenv" where
  "sim_cenv =
     \<lparr>WPI_DRIVER_ADDRESS = None, WPI_FORCE_UNIX_SOCKET = None, exists_at = (\<lambda>_ _. True),
      connect_at = (\<lambda>_ _. None), cl_send_err = None,
      recvmsg = Inr [(1, 1, [CHR 0x05, CHR 0x00, CHR 0x00, CHR 0x00])],
      inbox = [PRE_UPDATE, READY], cdll_loads = (\<lambda>_. True), cl_cuda = sim_client_cuda,
      rpc_stage = (\<lambda>_ req d. case NodeStageWeight sim_env req d of
          (Inr _, d') \<Rightarrow> (None, d')
        | (Inl _, d') \<Rightarrow> (Some (RpcError (status_name (fst (last (aborts d')))) []), d')),
      rpc_propagate = (\<lambda>_ _ d. (None, d)), rpc_unstage = (\<lambda>_ _ d. (None, d))\<rparr>"

definition sim_client :: "(sim_gpu, sim_gpu driver) client" where
  "sim_client = WPIClient_init SOCKET_DIR ''localhost'' 50051 (sim_init 1099511627776 2097152) sim_start"

definition sim_client_req :: "string \<Rightarrow> NodeStageWeightRequest" where
  "sim_client_req src = \<lparr>req_claim_id = ''c1'', req_buffer_id = ''w'', req_source_path = src,
     req_size_bytes = 5, req_shard_index = -1, req_total_shards = 0\<rparr>"

lemma sim_serves: "serves_stage sim_cenv sim_env"
  by (auto simp: serves_stage_def sim_cenv_def split: prod.splits sum.splits)

lemma stage_fails_internal:
  assumes "NodeStageWeight D req s = (Inl e, t)"
  shows "\<exists>m. last (aborts t) = (INTERNAL, m)"
  using assms unfolding NodeStageWeight_def try_except_def
  by (auto simp: abort_def seqE_def bindE_def modifyM_def raise_exn_def split: prod.splits sum.splits)

lemma get_grpc_stub_remote:
  "\<exists>tgt u. get_grpc_stub E s = (Inr tgt, u) \<and> remote u = remote s"
  by (auto simp: get_grpc_stub_def py_simps split: option.splits)

text \<open>Staging through the client runs the driver's handler once, and the caller is told
  nothing when it fails: \<open>stage_weight\<close> returns whether or not the buffer was staged, because
  the driver reports every failure as INTERNAL last and the client swallows INTERNAL.\<close>

theorem stage_weight_hides_failure:
  assumes "serves_stage E D" "make_stage_request b n c src i tot = Inr req"
  shows "fst (stage_weight E b n c src i tot s) = Inr ()
       \<and> remote (snd (stage_weight E b n c src i tot s)) = snd (NodeStageWeight D req (remote s))"
proof -
  obtain tgt u where u: "get_grpc_stub E s = (Inr tgt, u)" "remote u = remote s"
    using get_grpc_stub_remote [of E s] by blast
  obtain r d where rpc: "rpc_stage E tgt req (remote s) = (r, d)" by fastforce
  obtain h d' where h: "NodeStageWeight D req (remote s) = (h, d')" by fastforce
  from assms(1) have spec: "snd (rpc_stage E tgt req (remote s)) = snd (NodeStageWeight D req (remote s))"
    "case fst (NodeStageWeight D req (remote s)) of
       Inr _ \<Rightarrow> fst (rpc_stage E tgt req (remote s)) = None
     | Inl _ \<Rightarrow> (\<exists>m. fst (rpc_stage E tgt req (remote s)) =
         Some (RpcError (status_name (fst (last (aborts (snd (NodeStageWeight D req (remote s))))))) m))"
    unfolding serves_stage_def by blast+
  have "d = d'" using spec(1) rpc h by simp
  moreover have "r = None \<or> (\<exists>m. r = Some (RpcError ''INTERNAL'' m))"
    using spec(2) rpc h stage_fails_internal [of D req "remote s" _ d'] by (cases h) auto
  ultimately show ?thesis
    using u rpc h assms(2)
    by (auto simp: stage_weight_def py_simps swallowed_def)
qed

theorem stage_weight_hides_failure_witness:
  "fst (stage_weight sim_cenv ''w'' 5 ''c1'' ''/no/such/file'' (-1) 0 sim_client) = Inr ()
   \<and> fst (NodeStageWeight sim_env (sim_client_req ''/no/such/file'') (remote sim_client)) \<noteq> Inr ()"
proof -
  have "make_stage_request ''w'' 5 ''c1'' ''/no/such/file'' (-1) 0 = Inr (sim_client_req ''/no/such/file'')"
    by (simp add: make_stage_request_def in_uint64_def in_int32_def sim_client_req_def)
  moreover have "fst (NodeStageWeight sim_env (sim_client_req ''/no/such/file'') (remote sim_client)) \<noteq> Inr ()"
    by (simp add: NodeStageWeight_def stage_new_def stage_load_def new_buffer_def Let_def
        sim_start_state sim_init_def sim_eval sim_client_def WPIClient_init_def sim_client_req_def
        stage_size_def stage_gpu_def is_sharded_def)
  ultimately show ?thesis using stage_weight_hides_failure [OF sim_serves] by blast
qed

text \<open>C23. After a buffer was newly staged, its entry is complete and both server threads run, at
  the paths the client computes.\<close>

theorem staged_buffer_is_served:
  assumes run: "NodeStageWeight E req s = (Inr (), t)"
    and new: "dget (ALLOCATED_BUFFERS s) (stage_id req) = None"
  shows "serving t (PassFd (fd_sock_path (stage_id req)) (stage_id req))
       \<and> serving t (NotifyServer (notify_path (stage_id req)) (stage_id req))
       \<and> (\<exists>x. dget (ALLOCATED_BUFFERS t) (stage_id req) = Some (staged_entry req (stage_gpu E req) x))"
proof -
  let ?k = "stage_id req"
  define u where "u = s\<lparr>KNOWN_CLAIMS := dput (KNOWN_CLAIMS s) (req_claim_id req) ?k\<rparr>"
  have "stage_new E req u = (Inr (), t)"
    using run new unfolding NodeStageWeight_def try_except_def u_def
    by (auto simp: abort_def seqE_def bindE_def modifyM_def raise_exn_def get_buffer_def getM_def
        split: prod.splits sum.splits)
  then obtain z where z: "start_servers ?k z = (Inr (), t)"
    unfolding stage_new_def Let_def by (auto elim!: returns_elims simp: abort_def split: if_splits)
  then obtain i where i: "dget (ALLOCATED_BUFFERS z) ?k = Some i"
    by (cases "dget (ALLOCATED_BUFFERS z) ?k") (auto simp: start_servers_def py_simps)
  from stage_effect [OF run] new obtain x where "ALLOCATED_BUFFERS t =
      dput (ALLOCATED_BUFFERS s) ?k (staged_entry req (stage_gpu E req) x)"
    by (auto simp: stage_outcome_def)
  then have "dget (ALLOCATED_BUFFERS t) ?k = Some (staged_entry req (stage_gpu E req) x)" by simp
  moreover from start_servers_effect [OF i] z have "events t = events z @
      [EvStart (PassFd (fd_sock_path ?k) ?k), EvStart (NotifyServer (notify_path ?k) ?k)]" by auto
  then have "serving t (PassFd (fd_sock_path ?k) ?k)" "serving t (NotifyServer (notify_path ?k) ?k)"
    by (simp_all add: serving_def)
  ultimately show ?thesis by blast
qed

theorem staged_buffer_is_served_witness:
  "serving (sim_staged ''c1'' ''w'') (PassFd (fd_sock_path ''w'') ''w'')"
  using staged_buffer_is_served [OF sim_stage [of "''c1''" "''w''"]]
  by (simp add: sim_start_state)

section \<open>Importing the memory\<close>

text \<open>The calls the client adds to the driver's: none of them touches reservations or mappings.\<close>

definition same_maps :: "'g vmm_view \<Rightarrow> 'g \<Rightarrow> 'g \<Rightarrow> bool" where
  "same_maps V g g' \<longleftrightarrow> v_ranges V g' = v_ranges V g \<and> v_maps V g' = v_maps V g"

definition client_laws :: "'g client_cuda \<Rightarrow> 'g vmm_view \<Rightarrow> bool" where
  "client_laws C V \<longleftrightarrow> vmm_laws (libcuda.truncate C) V
     \<and> (\<forall>f g. same_maps V g (snd (cuInit (libcuda.truncate C) f g)))
     \<and> (\<forall>g. same_maps V g (snd (cuCtxGetCurrent C g)))
     \<and> (\<forall>d g. same_maps V g (snd (cuDevicePrimaryCtxRetain C d g)))
     \<and> (\<forall>c g. same_maps V g (snd (cuCtxPushCurrent C c g)))
     \<and> (\<forall>g. same_maps V g (snd (cuCtxPopCurrent C g)))
     \<and> (\<forall>f t g. same_maps V g (snd (cuMemImportFromShareableHandle C f t g)))"

definition maps_kept :: "'g vmm_view \<Rightarrow> 'g \<Rightarrow> ('g, 'd) client \<Rightarrow> bool" where
  "maps_kept V g s \<longleftrightarrow> same_maps V g (cl_gpu s)"

lemma keeps_cl_call:
  assumes "\<And>g. same_maps V g (snd (f g))"
  shows "keeps (maps_kept V g0) (cl_call f)"
  using assms by (simp add: keeps_def maps_kept_def same_maps_def cl_call_def Let_def split_beta)

lemma keeps_maps_modify:
  "(\<And>s. cl_gpu (f s) = cl_gpu s) \<Longrightarrow> keeps (maps_kept V g0) (modifyM f)"
  by (auto simp: maps_kept_def intro: keeps_modifyM)

lemma keeps_maps_simple:
  "keeps (maps_kept V g0) (fails_with err what)" "keeps (maps_kept V g0) (cl_emit e)"
  by (auto simp: fails_with_def cl_emit_def intro!: keeps_intro keeps_maps_modify)

lemma view_maps: "same_view V g g' \<Longrightarrow> same_maps V g g'"
  by (simp add: same_view_def same_maps_def)

lemma init_cuda_context_maps:
  assumes "client_laws (cl_cuda E) V"
  shows "keeps (maps_kept V g0) (init_cuda_context E d)"
proof -
  have dev: "same_maps V g (snd (cuDeviceGet (libcuda.truncate (cl_cuda E)) d g))" for g
    using assms by (auto simp: client_laws_def vmm_laws_def vmm_neutral_def view_maps)
  show ?thesis
    using assms dev unfolding init_cuda_context_def client_laws_def
    by (auto intro!: keeps_intro keeps_cl_call keeps_maps_modify keeps_maps_simple split: prod.splits)
qed

lemma fails_with_returns [simp]: "fails_with err what s = (Inr u, t) \<longleftrightarrow> err = 0 \<and> t = s"
  by (auto simp: fails_with_def)

lemma cl_call_returns [simp]:
  "cl_call f s = (r, t) \<longleftrightarrow> (\<exists>x g. f (cl_gpu s) = (x, g) \<and> r = Inr x \<and> t = s\<lparr>cl_gpu := g\<rparr>)"
  by (auto simp: cl_call_def Let_def split: prod.splits)

text \<open>The calls of an import that returned.\<close>

lemma import_calls:
  assumes run: "import_cuda_memory E f n d s = (Inr p, t)"
    and gran: "reports_granularity (libcuda.truncate (cl_cuda E)) gran"
    and sz: "sz = word_of_int (round_up n (uint gran))"
  obtains u and dev :: c_int and g1 h g2 ptr g3 r g4 g5 g6 where
    "init_cuda_context E d s = (Inr (), u)"
    "cuMemGetAllocationGranularity (libcuda.truncate (cl_cuda E)) (device_prop (sint dev))
       CU_MEM_ALLOC_GRANULARITY_MINIMUM (cl_gpu u) = ((0, gran), g1)"
    "cuMemImportFromShareableHandle (cl_cuda E) (word_of_int f) CU_MEM_HANDLE_TYPE_POSIX_FILE_DESCRIPTOR g1
       = ((0, h), g2)"
    "cuMemAddressReserve (libcuda.truncate (cl_cuda E)) sz gran g2 = ((0, ptr), g3)"
    "cuCtxGetCurrent (cl_cuda E) g3 = (r, g4)"
    "cuMemMap (libcuda.truncate (cl_cuda E)) ptr sz h g4 = (0, g5)"
    "cuMemSetAccess (libcuda.truncate (cl_cuda E)) ptr sz (device_access (sint dev)) g5 = (0, g6)"
    "p = uint ptr" "pop_context E (u\<lparr>cl_gpu := g6\<rparr>) = (Inr (), t)"
proof -
  have is_gran: "r = (0, gran)"
    if "cuMemGetAllocationGranularity (libcuda.truncate (cl_cuda E)) q z g = (r, g')" for q z g r g'
    using gran that by (metis fst_conv reports_granularity_def)
  have cg: "client_gran (0, gran) = uint gran" by (simp add: client_gran_def)
  from run obtain u where init: "init_cuda_context E d s = (Inr (), u)"
    unfolding import_cuda_memory_def Let_def by (auto elim!: seqE_returns)
  with run obtain dev :: c_int and r1 g1 where dev: "cuda_device u = Some dev"
    and gr: "cuMemGetAllocationGranularity (libcuda.truncate (cl_cuda E)) (device_prop (sint dev))
       CU_MEM_ALLOC_GRANULARITY_MINIMUM (cl_gpu u) = (r1, g1)"
    unfolding import_cuda_memory_def Let_def
    by (cases "cuda_device u")
      (auto simp: seqE_returns_iff bindE_returns_iff [of "getM _"] bindE_returns_iff [of "cl_call _"])
  note gr' = gr [unfolded is_gran [OF gr]]
  show thesis
    using run init dev gr' cg
    unfolding import_cuda_memory_def Let_def sz
    by (auto intro!: that [OF init gr', unfolded sz] simp: seqE_returns_iff bindE_returns_iff
        split: prod.splits if_splits)
qed

lemma pop_context_maps:
  assumes "client_laws (cl_cuda E) V" "pop_context E v = (Inr (), t)"
  shows "same_maps V (cl_gpu v) (cl_gpu t)"
proof -
  have "keeps (maps_kept V (cl_gpu v)) (pop_context E)"
    using assms(1) unfolding pop_context_def client_laws_def
    by (auto intro!: keeps_intro keeps_cl_call keeps_maps_simple split: prod.splits)
  from keepsD [OF this, of v] assms(2) show ?thesis by (simp add: maps_kept_def same_maps_def)
qed

text \<open>C21. The consumer maps exactly what the driver allocated: when both sides see the same
  granularity, an import of \<open>n\<close> bytes adds one mapping, at a fresh address, of the size of the
  physical allocation that \<open>allocate_and_export\<close> made for \<open>n\<close> bytes.\<close>

theorem import_maps_driver_size:
  assumes laws: "client_laws (cl_cuda E) V" and gran: "reports_granularity (libcuda.truncate (cl_cuda E)) gran"
    and run: "import_cuda_memory E f n d s = (Inr p, t)"
    and drv: "vmm_laws L W" "reports_granularity L gran"
      "allocate_and_export L n d' a = (Inr (f', h', p'), a')"
  shows "\<exists>sz h. v_handles W (gpu a') (word_of_int h') = Some sz
       \<and> v_maps V (cl_gpu s) (word_of_int p) = None
       \<and> v_maps V (cl_gpu t) = (v_maps V (cl_gpu s))(word_of_int p \<mapsto> (sz, h))"
proof -
  define sz :: u64 where "sz = word_of_int (round_up n (uint gran))"
  obtain u and dev :: c_int and g1 h g2 ptr g3 r g4 g5 g6 where
    i: "init_cuda_context E d s = (Inr (), u)"
    and q: "cuMemGetAllocationGranularity (libcuda.truncate (cl_cuda E)) (device_prop (sint dev))
       CU_MEM_ALLOC_GRANULARITY_MINIMUM (cl_gpu u) = ((0, gran), g1)"
    and m: "cuMemImportFromShareableHandle (cl_cuda E) (word_of_int f) CU_MEM_HANDLE_TYPE_POSIX_FILE_DESCRIPTOR g1
       = ((0, h), g2)"
    and rs: "cuMemAddressReserve (libcuda.truncate (cl_cuda E)) sz gran g2 = ((0, ptr), g3)"
    and c: "cuCtxGetCurrent (cl_cuda E) g3 = (r, g4)"
    and mp: "cuMemMap (libcuda.truncate (cl_cuda E)) ptr sz h g4 = (0, g5)"
    and ac: "cuMemSetAccess (libcuda.truncate (cl_cuda E)) ptr sz (device_access (sint dev)) g5 = (0, g6)"
    and p: "p = uint ptr" and pop: "pop_context E (u\<lparr>cl_gpu := g6\<rparr>) = (Inr (), t)"
    by (rule import_calls [OF run gran sz_def])
  have vmm: "vmm_laws (libcuda.truncate (cl_cuda E)) V" using laws by (simp add: client_laws_def)
  have "same_maps V (cl_gpu s) (cl_gpu u)"
    using keepsD [OF init_cuda_context_maps [OF laws, of "cl_gpu s" d], of s] i
    by (simp add: maps_kept_def same_maps_def)
  moreover have "same_maps V (cl_gpu u) g1" by (rule view_maps [OF neutral_rules(4) [OF vmm q]])
  moreover have "same_maps V g1 g2" "same_maps V g3 g4"
    using laws m c unfolding client_laws_def by (metis snd_conv)+
  moreover have "same_maps V g5 g6" by (rule view_maps [OF neutral_rules(6) [OF vmm ac]])
  moreover have "same_maps V g6 (cl_gpu t)" using pop_context_maps [OF laws pop] by simp
  ultimately have "v_maps V (cl_gpu s) (word_of_int p) = None
      \<and> v_maps V (cl_gpu t) = (v_maps V (cl_gpu s))(word_of_int p \<mapsto> (sz, h))"
    using reserve_law [OF vmm rs] map_law [OF vmm mp] by (simp add: same_maps_def p)
  moreover have "v_handles W (gpu a') (word_of_int h') = Some sz"
    using allocate_effect_gran(1) [OF drv sz_def] by simp
  ultimately show ?thesis by blast
qed

lemma sim_client_cuda_simps [simp]:
  "libcuda.truncate sim_client_cuda = sim_cuda_2M" "cl_cuda sim_cenv = sim_client_cuda"
  "cdll_loads sim_cenv = (\<lambda>_. True)"
  "cuCtxGetCurrent sim_client_cuda = (\<lambda>g. ((0, 7), g))"
  "cuDevicePrimaryCtxRetain sim_client_cuda = (\<lambda>d g. ((0, 1000), g))"
  "cuCtxPushCurrent sim_client_cuda = (\<lambda>c g. (0, g))" "cuCtxPopCurrent sim_client_cuda = (\<lambda>g. ((0, 1000), g))"
  "cuMemImportFromShareableHandle sim_client_cuda = (\<lambda>f t g. ((0, f), g))"
  by (simp_all add: sim_client_cuda_def libcuda.defs client_cuda.defs sim_cuda_2M_def sim_cuda_def sim_cenv_def)

lemma sim_client_laws: "client_laws sim_client_cuda sim_view"
  unfolding client_laws_def using sim_laws_2M
  by (simp add: same_maps_def) (simp add: sim_cuda_2M_def sim_cuda_def)

text \<open>Rules that run a client computation call by call.\<close>

lemma run_rules:
  "bindE (cl_call f) k s = k (fst (f (cl_gpu s))) (s\<lparr>cl_gpu := snd (f (cl_gpu s))\<rparr>)"
  "seqE (fails_with 0 what) j s = j s" "seqE (cl_emit e) j s = j (s\<lparr>cl_events := cl_events s @ [e]\<rparr>)"
  "cl_emit e s = (Inr (), s\<lparr>cl_events := cl_events s @ [e]\<rparr>)"
  by (simp_all add: py_simps fails_with_def Let_def split_beta)

lemma run_init: "init_cuda_context E d s = (Inr (), u) \<Longrightarrow> seqE (init_cuda_context E d) k s = k u"
  by (simp add: seqE_def bindE_def)

lemma run_pop: "seqE (pop_context E) k s = (case pop_context E s of (Inr _, u) \<Rightarrow> k u | (Inl e, u) \<Rightarrow> (Inl e, u))"
  by (simp add: seqE_def bindE_def split: prod.splits sum.splits)

lemmas sim_client_eval = run_simps run_rules sim_cuda_2M_def sim_cuda_def sim_ops sim_client_def WPIClient_init_def
  sim_init_def Let_def client_gran_def round_up_def

lemma sim_init_context:
  "init_cuda_context sim_cenv 0 sim_client =
     (Inr (), sim_client\<lparr>libcuda_loaded := True, cuda_device := Some 0, pushed_context := True,
                         cuda_ctx := Some 1000, cl_events := [ClCtxPush]\<rparr>)"
  unfolding init_cuda_context_def find_libcuda_def search_paths_def
  by (simp add: sim_client_eval seqE_def [of "bindE _ _"] bindE_def [of "bindE _ _"])

definition sim_imported :: "(sim_gpu, sim_gpu driver) client" where
  "sim_imported = sim_client\<lparr>libcuda_loaded := True, cuda_device := Some 0, pushed_context := True,
     cuda_ctx := Some 1000, cl_events := [ClCtxPush, ClCtxPop],
     cl_gpu := (sim_init 1099511627776 2097152)\<lparr>sim_next := 2, sim_ranges := [(4294967296, 2097152)],
                  sim_maps := [(4294967296, (2097152, 5))]\<rparr>\<rparr>"

lemma sim_import_run: "import_cuda_memory sim_cenv 5 5 0 sim_client = (Inr 4294967296, sim_imported)"
  unfolding import_cuda_memory_def Let_def run_init [OF sim_init_context]
  by (simp add: sim_client_eval run_pop) (simp add: pop_context_def sim_client_eval sim_imported_def)

theorem import_maps_driver_size_witness:
  "\<exists>sz h. v_maps sim_view (cl_gpu (snd (import_cuda_memory sim_cenv 5 5 0 sim_client)))
     = (v_maps sim_view (cl_gpu sim_client))(4294967296 \<mapsto> (sz, h))"
  using import_maps_driver_size [OF _ _ sim_import_run sim_laws_2M sim_2M_granularity sim_alloc_example, of sim_view]
    sim_client_laws sim_2M_granularity by (auto simp: sim_import_run)

text \<open>The context stack: the first import on a client whose process runs in another context
  pushes the primary context and pops it again; every later import on the same client pops once
  more, without a push.\<close>

theorem later_imports_only_pop:
  assumes "import_cuda_memory E f n d s = (Inr p, t)" "libcuda_loaded s" "pushed_context s"
    and "reports_granularity (libcuda.truncate (cl_cuda E)) gran"
  shows "cl_events t = cl_events s @ [ClCtxPop]"
proof -
  obtain u g where i: "init_cuda_context E d s = (Inr (), u)"
    and p: "pop_context E (u\<lparr>cl_gpu := g\<rparr>) = (Inr (), t)"
    by (rule import_calls [OF assms(1,4) refl])
  from i assms(2) have "u = s" by (simp add: init_cuda_context_def py_simps)
  with p assms(3) show ?thesis
    by (auto simp: pop_context_def bindE_returns_iff seqE_returns_iff cl_emit_def split: prod.splits)
qed

theorem later_imports_only_pop_witness:
  "\<exists>p t. import_cuda_memory sim_cenv 6 5 0 sim_imported = (Inr p, t)
       \<and> cl_events t = [ClCtxPush, ClCtxPop, ClCtxPop]"
proof -
  have state: "libcuda_loaded sim_imported" "pushed_context sim_imported"
    "cl_events sim_imported = [ClCtxPush, ClCtxPop]"
    by (simp_all add: sim_imported_def)
  then have init: "init_cuda_context sim_cenv 0 sim_imported = (Inr (), sim_imported)"
    by (simp add: init_cuda_context_def run_simps)
  have "\<exists>p t. import_cuda_memory sim_cenv 6 5 0 sim_imported = (Inr p, t)"
    unfolding import_cuda_memory_def Let_def run_init [OF init]
    by (simp add: sim_imported_def sim_client_eval run_pop) (simp add: pop_context_def sim_client_eval)
  then obtain p t where run: "import_cuda_memory sim_cenv 6 5 0 sim_imported = (Inr p, t)" by blast
  with later_imports_only_pop [OF run, of 2097152] sim_2M_granularity state show ?thesis by simp
qed

section \<open>Waiting for an update\<close>

text \<open>A consumer that waits \<open>n\<close> times, with what each wait saw.\<close>

primrec waits :: "string \<Rightarrow> nat \<Rightarrow> (('g, 'd) client, bool list) pyM" where
  "waits timeout 0 = ret []"
| "waits timeout (Suc n) =
     bindE (wait_for_ready timeout) (\<lambda>b. bindE (waits timeout n) (\<lambda>bs. ret (b # bs)))"

lemma wait_for_ready_next:
  "notify_socket s = Some (m # ms) \<Longrightarrow> length m \<le> 1024 \<Longrightarrow>
   wait_for_ready timeout s = (Inr (contains ''READY'' m), s\<lparr>notify_socket := Some ms\<rparr>)"
  by (simp add: wait_for_ready_def py_simps)

lemma waits_messages:
  assumes "notify_socket s = Some ms" "n \<le> length ms" "\<forall>m\<in>set ms. length m \<le> 1024"
  shows "waits timeout n s =
     (Inr (map (contains ''READY'') (take n ms)), s\<lparr>notify_socket := Some (drop n ms)\<rparr>)"
  using assms
proof (induction n arbitrary: s ms)
  case 0
  then show ?case by (simp add: ret_def)
next
  case (Suc n)
  then obtain m ms' where ms: "ms = m # ms'" by (cases ms) auto
  with Suc.prems have "wait_for_ready timeout s = (Inr (contains ''READY'' m), s\<lparr>notify_socket := Some ms'\<rparr>)"
    by (simp add: wait_for_ready_next)
  with Suc.IH [of "s\<lparr>notify_socket := Some ms'\<rparr>" ms'] Suc.prems show ?case
    by (simp add: ms bindE_def ret_def)
qed

lemma message_kinds: "contains ''READY'' PRE_UPDATE = False" "contains ''READY'' READY = True"
  by (simp_all add: contains_def PRE_UPDATE_def READY_def newline_def)

lemma two_per_transfer:
  "take n (concat (replicate k [PRE_UPDATE, READY])) =
     map (\<lambda>i. if even i then PRE_UPDATE else READY) [0..<min n (2 * k)]"
proof (rule nth_equalityI)
  have len: "length (concat (replicate k [PRE_UPDATE, READY])) = 2 * k"
    by (simp add: length_concat sum_list_replicate)
  then show "length (take n (concat (replicate k [PRE_UPDATE, READY]))) =
      length (map (\<lambda>i. if even i then PRE_UPDATE else READY) [0..<min n (2 * k)])"
    by (simp add: min.commute)
  have "concat (replicate k [PRE_UPDATE, READY]) ! i = (if even i then PRE_UPDATE else READY)"
    if "i < 2 * k" for i
    using that
  proof (induction k arbitrary: i)
    case 0
    then show ?case by simp
  next
    case (Suc k)
    consider "i = 0" | "i = 1" | j where "i = j + 2" by (metis One_nat_def add_2_eq_Suc' not0_implies_Suc)
    then show ?case using Suc by cases auto
  qed
  then show "take n (concat (replicate k [PRE_UPDATE, READY])) ! i =
      map (\<lambda>i. if even i then PRE_UPDATE else READY) [0..<min n (2 * k)] ! i"
    if "i < length (take n (concat (replicate k [PRE_UPDATE, READY])))" for i
    using that len by simp
qed

text \<open>C33. A consumer that is told of \<open>k\<close> transfers, PRE_UPDATE and READY arriving one by one,
  and that calls \<open>wait_for_ready\<close> once per transfer, is never made to wait for the transfer:
  every other call returns on a PRE_UPDATE, and after \<open>k\<close> calls half of the messages are unread.\<close>

theorem waits_lag_behind:
  assumes "notify_socket s = Some (concat (replicate k [PRE_UPDATE, READY]))"
  shows "waits timeout k s =
     (Inr (map odd [0..<k]), s\<lparr>notify_socket := Some (drop k (concat (replicate k [PRE_UPDATE, READY])))\<rparr>)"
proof -
  let ?ms = "concat (replicate k [PRE_UPDATE, READY])"
  have "length ?ms = 2 * k" by (simp add: length_concat sum_list_replicate)
  moreover have "\<forall>m\<in>set ?ms. length m \<le> 1024" by (auto simp: PRE_UPDATE_def READY_def)
  moreover have "map (contains ''READY'') (take k ?ms) = map odd [0..<k]"
    unfolding two_per_transfer by (simp add: message_kinds min_def)
  ultimately show ?thesis using waits_messages [OF assms, of k timeout] by simp
qed

theorem waits_lag_behind_witness:
  "fst (waits ''300.0'' 2 (sim_client\<lparr>notify_socket := Some [PRE_UPDATE, READY, PRE_UPDATE, READY]\<rparr>))
   = Inr [False, True]"
  using waits_lag_behind [of "sim_client\<lparr>notify_socket := Some [PRE_UPDATE, READY, PRE_UPDATE, READY]\<rparr>" 2 "''300.0''"]
  by (simp add: eval_nat_numeral)

end
