(* ===== verification/Engine_Properties.thy ===== *)
theory Engine_Properties
  imports Checkpoint_Engine Client_Properties
begin

text \<open>
  The properties of the checkpoint engine: the weights a worker yields are the weights the trainer
  sent, a bucket that is too small is refused before anything is published, the topology, and what
  preparing and shutting down do.
\<close>

section \<open>A concrete trainer and worker\<close>

definition sim_fp16 :: dtype where
  "sim_fp16 = \<lparr>dtype_name = ''float16'', itemsize = 2\<rparr>"

definition sim_u8 :: dtype where
  "sim_u8 = \<lparr>dtype_name = ''uint8'', itemsize = 1\<rparr>"

definition sim_eenv :: "bytes \<Rightarrow> (sim_gpu, sim_gpu driver) eenv" where
  "sim_eenv mem =
     \<lparr>client_env = sim_cenv, ray_node_ip = ''10.0.0.1'', free_port = 4000, is_valid_ipv6_address = (\<lambda>_. False),
      WPI_NODE_IP = None, WPI_USE_GCE_METADATA = None, gce_node_ip = Inl (OSError []), LOCAL_RANK = None,
      CUDA_VISIBLE_DEVICES = None, mapped_bytes = (\<lambda>_ n. replicate n (CHR 0x00)), device_memory = mem,
      flat_bytes = (\<lambda>w. Inr (t_bytes w)),
      view_as = (\<lambda>d sh off b. if 0 < itemsize d \<and> itemsize d dvd off
                               then Inr \<lparr>t_shape = sh, t_dtype = d, t_bytes = b\<rparr>
                               else Inl (RuntimeError ''offset is not aligned''))\<rparr>"

definition sim_weights :: "(string \<times> tensor) list" where
  "sim_weights =
     [(''a'', \<lparr>t_shape = [2], t_dtype = sim_fp16, t_bytes = ''abcd''\<rparr>),
      (''b'', \<lparr>t_shape = [1], t_dtype = sim_fp16, t_bytes = ''ef''\<rparr>)]"

definition sim_trainer :: "(sim_gpu, sim_gpu driver) engine" where
  "sim_trainer =
     (WPICheckpointEngine_init (sim_eenv []) 8 ''verl-weights'' [] SOCKET_DIR 50051 True
        (sim_init 1099511627776 2097152) sim_start)
     \<lparr>rank := Some 0, vram_buffer := Some ''........'', target_ids := Some [''10.0.0.2'']\<rparr>"

definition sim_worker :: "bucket_metadata list \<Rightarrow> (sim_gpu, sim_gpu driver) engine" where
  "sim_worker q =
     (WPICheckpointEngine_init (sim_eenv []) 8 ''verl-weights'' [] SOCKET_DIR 50051 False
        (sim_init 1099511627776 2097152) sim_start)
     \<lparr>rank := Some 1, vram_buffer := Some ''........'', zmq_socket := Some (ZmqSub []), zmq_inbox := q,
      wpi_client := sim_client\<lparr>notify_socket := Some [READY]\<rparr>\<rparr>"

lemma sim_views: "views_aligned (sim_eenv mem)"
  by (simp add: views_aligned_def sim_eenv_def)

lemma sim_flattens: "flattens (sim_eenv mem) sim_weights" "distinct (map fst sim_weights)" "aligned 0 sim_weights"
  by (simp_all add: flattens_def sim_eenv_def sim_weights_def nbytes_def numel_def sim_fp16_def)

lemma sim_trainer_state:
  "rank sim_trainer = Some 0" "vram_buffer sim_trainer = Some ''........''" "bucket_size sim_trainer = 8"
  "target_ids sim_trainer = Some [''10.0.0.2'']" "published sim_trainer = []"
  "zmq_socket sim_trainer \<noteq> None" "buffer_id sim_trainer = ''verl-weights''"
  by (simp_all add: sim_trainer_def WPICheckpointEngine_init_def start_zmq_server_def modifyM_def Let_def)

lemma sim_send:
  "\<exists>t. send_weights (sim_eenv mem) sim_weights sim_trainer = (Inr (), t) \<and> vram_buffer t = Some ''abcdef..''"
proof -
  have fits: "0 + packed_size sim_weights \<le> bucket_size sim_trainer"
    by (simp add: sim_trainer_state packed_size_def sim_weights_def nbytes_def numel_def sim_fp16_def)
  have "vram.put_all 0 (blocks sim_weights) ''........'' = ''abcdef..''"
    by (simp add: sim_weights_def write_at_def)
  then show ?thesis
    using pack_weights_fits [OF sim_flattens(1) sim_trainer_state(2) fits, of mem "[]"]
    by (simp add: send_weights_def sim_trainer_state bindE_def getM_def seqE_def modifyM_def on_client_def
        propagate_def get_grpc_stub_def on_remote_def may_raise_def ret_def Let_def sim_eenv_def sim_cenv_def
        split: option.splits)
qed

section \<open>From the trainer to the workers\<close>

lemma on_client_returns:
  "on_client m s = (r, t) \<longleftrightarrow> (\<exists>c. m (wpi_client s) = (r, c) \<and> t = s\<lparr>wpi_client := c\<rparr>)"
  by (auto simp: on_client_def Let_def split: prod.splits)

lemma send_weights_run:
  assumes "send_weights E ws s = (Inr (), t)" "rank s = Some 0"
  obtains md u targets where "pack_weights E 0 [] ws s = (Inr md, u)" "vram_buffer s \<noteq> None"
    "published t = published u @ [md]" "vram_buffer t = vram_buffer u" "zmq_socket s \<noteq> None"
    "target_ids s = Some targets"
    "propagate (client_env E) (buffer_id s) targets 0 [] (wpi_client u) = (Inr (), wpi_client t)"
proof -
  from assms obtain targets where targets: "target_ids s = Some targets" "vram_buffer s \<noteq> None"
    by (auto simp: send_weights_def bindE_def getM_def raise_exn_def split: if_splits option.splits)
  with assms obtain md u where u: "pack_weights E 0 [] ws s = (Inr md, u)"
    by (auto simp: send_weights_def bindE_def [of "getM _"] getM_def elim!: bindE_returns)
  with assms targets have "zmq_socket s \<noteq> None"
    by (cases "zmq_socket s") (auto simp: send_weights_def bindE_def getM_def seqE_def raise_exn_def)
  moreover from assms targets u this obtain c where
    "t = u\<lparr>published := published u @ [md], wpi_client := c\<rparr>"
    "propagate (client_env E) (buffer_id s) targets 0 [] (wpi_client u) = (Inr (), c)"
    by (auto simp: send_weights_def bindE_def getM_def seqE_def modifyM_def on_client_returns)
  ultimately show thesis using that [OF u targets(2)] targets(1) by simp
qed

lemma pack_published: "published (snd (pack_weights E off table ws s)) = published s"
proof -
  have "keeps (\<lambda>v. published v = P) (pack_weights E off table ws)" for P
    by (induction ws arbitrary: off table) (auto simp: Let_def intro!: keeps_intro keeps_modifyM)
  from keepsD [OF this, of s "published s"] show ?thesis by simp
qed

lemma pack_client: "wpi_client (snd (pack_weights E off table ws s)) = wpi_client s"
proof -
  have "keeps (\<lambda>v. wpi_client v = c) (pack_weights E off table ws)" for c
    by (induction ws arbitrary: off table) (auto simp: Let_def intro!: keeps_intro keeps_modifyM)
  from keepsD [OF this, of s "wpi_client s"] show ?thesis by simp
qed

lemma engine_roundtrip:
  assumes send: "send_weights E ws s = (Inr (), t)" "rank s = Some 0"
    and buf: "vram_buffer s = Some buf" "length buf = bucket_size s"
    and tensors: "flattens E ws" "distinct (map fst ws)" "aligned 0 ws"
    and worker: "views_aligned E'" "rank w = Some r" "0 < r" "vram_buffer w \<noteq> None" "zmq_socket w \<noteq> None"
      "notify_socket (wpi_client w) = Some (m # ms)"
    and same: "vram_buffer t = Some (device_memory E')" "zmq_inbox w = drop (length (published s)) (published t)"
  shows "\<exists>w'. receive_weights E' w = Some (Inr (ws, None), w')"
proof -
  obtain md u where u: "pack_weights E 0 [] ws s = (Inr md, u)" "vram_buffer s \<noteq> None"
    "published t = published u @ [md]" "vram_buffer t = vram_buffer u"
    using send_weights_run [OF send] by blast
  have "published u = published s" using pack_published [of E 0 "[]" ws s] u(1) by simp
  then have inbox: "zmq_inbox w = [md]" using same(2) u(3) by simp
  from pack_unpack [OF tensors worker(1) buf u(1)] same(1) u(4)
  have "unpack_weights E' (device_memory E') (bucket_meta md) = (ws, None)" by auto
  moreover obtain b c where "wait_for_ready ''300.0'' (wpi_client w) = (Inr b, c)"
    using worker(6) by (auto simp: wait_for_ready_def py_simps split: prod.splits)
  ultimately show ?thesis
    using worker inbox by (auto simp: receive_weights_def on_client_def Let_def)
qed

text \<open>C15. End to end: the trainer's \<open>send_weights\<close> publishes one table, and a rollout worker
  that has received this table and whose memory is a copy of the trainer's buffer yields exactly
  the tensors that were sent, under their names and in their order, provided the names are distinct
  and every offset is a multiple of the tensor's element size.\<close>

theorem weights_roundtrip:
  assumes send: "send_weights E ws s = (Inr (), t)" "rank s = Some 0"
    and buf: "vram_buffer s = Some buf" "length buf = bucket_size s"
    and tensors: "flattens E ws" "distinct (map fst ws)" "aligned 0 ws"
    and worker: "views_aligned E'" "rank w = Some r" "0 < r" "vram_buffer w \<noteq> None" "zmq_socket w \<noteq> None"
      "notify_socket (wpi_client w) = Some (m # ms)"
    and same: "vram_buffer t = Some (device_memory E')" "zmq_inbox w = drop (length (published s)) (published t)"
  shows "\<exists>w'. receive_weights E' w = Some (Inr (ws, None), w')"
  by (rule engine_roundtrip [OF assms])

theorem weights_roundtrip_witness:
  "\<exists>t w'. send_weights (sim_eenv ''abcdef..'') sim_weights sim_trainer = (Inr (), t)
     \<and> receive_weights (sim_eenv ''abcdef..'') (sim_worker (published t)) = Some (Inr (sim_weights, None), w')"
proof -
  obtain t where t: "send_weights (sim_eenv ''abcdef..'') sim_weights sim_trainer = (Inr (), t)"
    "vram_buffer t = Some ''abcdef..''"
    using sim_send by blast
  have "\<exists>w'. receive_weights (sim_eenv ''abcdef..'') (sim_worker (published t)) = Some (Inr (sim_weights, None), w')"
  proof (rule weights_roundtrip [OF t(1) _ sim_trainer_state(2) _ sim_flattens sim_views, where r = 1])
    show "vram_buffer t = Some (device_memory (sim_eenv ''abcdef..''))" by (simp add: t sim_eenv_def)
  qed (simp_all add: sim_trainer_state sim_worker_def WPICheckpointEngine_init_def Let_def)
  with t(1) show ?thesis by blast
qed

text \<open>C31. A bucket that is too small is refused: the assertion names the first tensor that does
  not fit, nothing is published and the driver is not asked to propagate.\<close>

theorem overflow_refused:
  assumes "rank s = Some 0" "vram_buffer s \<noteq> None" "target_ids s \<noteq> None" "flattens E ws"
    and "bucket_size s < packed_size ws"
  shows "\<exists>ys name w zs. ws = ys @ (name, w) # zs
       \<and> packed_size ys \<le> bucket_size s \<and> bucket_size s < packed_size ys + nbytes w
       \<and> fst (send_weights E ws s) = Inl (would_exceed name)
       \<and> published (snd (send_weights E ws s)) = published s
       \<and> wpi_client (snd (send_weights E ws s)) = wpi_client s"
proof -
  have "bucket_size s < 0 + packed_size ws" using assms(5) by simp
  from pack_weights_overflow [OF assms(4) this, of "[]"] obtain ys name w zs where
    o: "ws = ys @ (name, w) # zs" "packed_size ys \<le> bucket_size s" "bucket_size s < packed_size ys + nbytes w"
      "fst (pack_weights E 0 [] ws s) = Inl (would_exceed name)"
    by auto
  from pack_client [of E 0 "[]" ws s]
  have "send_weights E ws s = (Inl (would_exceed name), snd (pack_weights E 0 [] ws s))"
    "wpi_client (snd (pack_weights E 0 [] ws s)) = wpi_client s"
    using assms o(4) by (auto simp: send_weights_def bindE_def getM_def split: prod.splits sum.splits)
  with o pack_published [of E 0 "[]" ws s] show ?thesis by auto
qed

theorem overflow_refused_witness:
  "published (snd (send_weights (sim_eenv []) (sim_weights @ sim_weights) sim_trainer)) = []"
proof -
  have "flattens (sim_eenv []) (sim_weights @ sim_weights)"
    using sim_flattens(1) [of "[]"] by (simp add: flattens_def)
  moreover have "bucket_size sim_trainer < packed_size (sim_weights @ sim_weights)"
    by (simp add: sim_trainer_state packed_size_def sim_weights_def nbytes_def numel_def sim_fp16_def)
  ultimately show ?thesis
    using overflow_refused [of sim_trainer "sim_eenv []" "sim_weights @ sim_weights"]
    by (auto simp: sim_trainer_state)
qed

text \<open>The layout of a table: slices end before \<open>used\<close> and do not overlap.\<close>

definition slice_end :: "TensorMeta \<Rightarrow> nat" where
  "slice_end m = meta_offset m + itemsize (meta_dtype m) * numel (meta_shape m)"

definition layout_ok :: "nat \<Rightarrow> TensorMeta dict \<Rightarrow> bool" where
  "layout_ok used table \<longleftrightarrow>
     (\<forall>n m. dget table n = Some m \<longrightarrow> slice_end m \<le> used)
   \<and> (\<forall>n m n' m'. dget table n = Some m \<longrightarrow> dget table n' = Some m' \<longrightarrow> n \<noteq> n' \<longrightarrow>
        slice_end m \<le> meta_offset m' \<or> slice_end m' \<le> meta_offset m)"

lemma layout_add:
  assumes "layout_ok off table"
  shows "layout_ok (off + nbytes w) (dput table name (weight_meta name w off))"
proof -
  have "slice_end (weight_meta name w off) = off + nbytes w" "meta_offset (weight_meta name w off) = off"
    by (simp_all add: slice_end_def weight_meta_def nbytes_def)
  with assms show ?thesis by (auto simp: layout_ok_def trans_le_add1 split: if_splits)
qed

lemma pack_layout:
  assumes "pack_weights E off table ws s = (Inr md, t)" "layout_ok off table" "off \<le> bucket_size s"
  shows "layout_ok (total_bytes md) (bucket_meta md) \<and> total_bytes md \<le> bucket_size s"
  using assms
proof (induction ws arbitrary: off table s)
  case Nil
  then show ?case by (auto simp: ret_def)
next
  case (Cons x ws)
  then obtain b where fits: "off + nbytes (snd x) \<le> bucket_size s" and
    "pack_weights E (off + nbytes (snd x)) (dput table (fst x) (weight_meta (fst x) (snd x) off)) ws
       (s\<lparr>vram_buffer := map_option (write_at off b) (vram_buffer s)\<rparr>) = (Inr md, t)"
    by (auto simp: Let_def bindE_def getM_def seqE_def modifyM_def lift_sum_def raise_exn_def split: if_splits sum.splits)
  from Cons.IH [OF this(2) layout_add [OF Cons.prems(2)]] fits show ?case by simp
qed

text \<open>C30. Whatever tensors a trainer sends, and also when propagating them fails, a table that it
  publishes describes slices that lie inside the bucket and do not overlap.\<close>

theorem published_layout:
  assumes "send_weights E ws s = (r, t)" "md \<in> set (published t) - set (published s)"
  shows "total_bytes md \<le> bucket_size s \<and> layout_ok (total_bytes md) (bucket_meta md)"
proof -
  have p: "published (snd (pack_weights E 0 [] ws s)) = published s" by (rule pack_published)
  have c: "on_client m v = (x, w) \<Longrightarrow> published w = published v" for m v x w
    by (auto simp: on_client_def split: prod.splits)
  obtain u where u: "pack_weights E 0 [] ws s = (Inr md, u)"
    using assms p
    by (auto dest!: c simp: send_weights_def bindE_def getM_def seqE_def modifyM_def raise_exn_def ret_def
        split: option.splits if_splits prod.splits sum.splits)
  from pack_layout [OF u] show ?thesis by (simp add: layout_ok_def)
qed

theorem published_layout_witness:
  "\<exists>md t. send_weights (sim_eenv []) sim_weights sim_trainer = (Inr (), t) \<and> published t = [md]
     \<and> total_bytes md \<le> 8 \<and> layout_ok (total_bytes md) (bucket_meta md)"
proof -
  obtain t where t: "send_weights (sim_eenv []) sim_weights sim_trainer = (Inr (), t)" using sim_send by blast
  obtain md u where md: "pack_weights (sim_eenv []) 0 [] sim_weights sim_trainer = (Inr md, u)"
    "published t = published u @ [md]" using send_weights_run [OF t sim_trainer_state(1)] by blast
  then have "published t = [md]" using pack_published [of "sim_eenv []" 0 "[]" sim_weights sim_trainer]
    by (simp add: sim_trainer_state)
  with published_layout [OF t, of md] t show ?thesis by (simp add: sim_trainer_state)
qed

text \<open>Torch's documented restriction on views of another element size.\<close>

definition refuses_unaligned :: "('g, 'd) eenv \<Rightarrow> bool" where
  "refuses_unaligned E \<longleftrightarrow> views_aligned E \<and>
     (\<forall>d sh off b. \<not> itemsize d dvd off \<longrightarrow> (\<exists>m. view_as E d sh off b = Inl (RuntimeError m)))"

text \<open>C34. Packing leaves no gaps, so the offset of a tensor need not suit its element size: when
  the first tensor has an odd number of bytes and the second has two-byte elements, the table that
  the trainer publishes makes a worker on a torch that refuses unaligned views yield the first
  tensor and fail on the second.\<close>

theorem mixed_dtypes_fail:
  assumes "flattens E [(n1, w1), (n2, w2)]" "n1 \<noteq> n2" "0 < itemsize (t_dtype w1)"
    and "odd (nbytes w1)" "itemsize (t_dtype w2) = 2"
    and "vram_buffer s = Some buf" "length buf = bucket_size s" "nbytes w1 + nbytes w2 \<le> bucket_size s"
    and "refuses_unaligned E'"
  shows "\<exists>md t buf' m. pack_weights E 0 [] [(n1, w1), (n2, w2)] s = (Inr md, t) \<and> vram_buffer t = Some buf'
       \<and> unpack_weights E' buf' (bucket_meta md) = ([(n1, w1)], Some (RuntimeError m))"
proof -
  let ?ws = "[(n1, w1), (n2, w2)]"
  let ?buf = "vram.put_all 0 (blocks ?ws) buf"
  have fits: "0 + packed_size ?ws \<le> bucket_size s" using assms(8) by (simp add: packed_size_def)
  have size: "0 + sum_list (map length (blocks ?ws)) \<le> length buf"
    using flattens_size [OF assms(1)] fits assms(7) by simp
  have len: "length (t_bytes w1) = nbytes w1" using assms(1) by (simp add: flattens_def)
  have "read_at 0 (nbytes w1) ?buf = t_bytes w1"
    using vram.get_block [OF size, of 0] len by simp
  moreover have "view_as E' (t_dtype w1) (t_shape w1) 0 (t_bytes w1) = Inr w1"
    using assms(3,9) len by (simp add: refuses_unaligned_def views_aligned_def nbytes_def)
  moreover obtain m where "view_as E' (t_dtype w2) (t_shape w2) (nbytes w1) b = Inl (RuntimeError (m b))" for b
    using assms(4,5,9) unfolding refuses_unaligned_def by (metis dvd_def even_iff_mod_2_eq_zero dvd_eq_mod_eq_0)
  ultimately have "unpack_weights E' ?buf (layout 0 ?ws)
      = ([(n1, w1)], Some (RuntimeError (m (read_at (nbytes w1) (nbytes w2) ?buf))))"
    using assms(5) by (simp add: Let_def weight_meta_def nbytes_def)
  with pack_weights_fits [OF assms(1,6) fits, of "[]"] pack_table_layout [of ?ws "[]" 0] assms(2)
  show ?thesis by auto
qed

theorem mixed_dtypes_fail_witness:
  "\<exists>md t buf' m. pack_weights (sim_eenv []) 0 []
        [(''m'', \<lparr>t_shape = [1], t_dtype = sim_u8, t_bytes = ''x''\<rparr>),
         (''w'', \<lparr>t_shape = [1], t_dtype = sim_fp16, t_bytes = ''yz''\<rparr>)] sim_trainer = (Inr md, t)
     \<and> vram_buffer t = Some buf'
     \<and> unpack_weights (sim_eenv []) buf' (bucket_meta md) =
         ([(''m'', \<lparr>t_shape = [1], t_dtype = sim_u8, t_bytes = ''x''\<rparr>)], Some (RuntimeError m))"
proof (rule mixed_dtypes_fail [OF _ _ _ _ _ sim_trainer_state(2)])
  show "refuses_unaligned (sim_eenv [])"
    using sim_views [of "[]"] by (simp add: refuses_unaligned_def sim_eenv_def)
qed (simp_all add: flattens_def sim_eenv_def nbytes_def numel_def sim_u8_def sim_fp16_def sim_trainer_state)

section \<open>Topology\<close>

lemma rollout_ips_returns:
  "rollout_ips ip ms = Inr ips \<Longrightarrow> set ips = {a. Some (NodeMeta a) \<in> set ms \<and> a \<noteq> ip}"
proof (induction ms arbitrary: ips)
  case Nil
  then show ?case by simp
next
  case (Cons m ms)
  consider "m = None" | a where "m = Some (MasterMeta a)" | a where "m = Some (NodeMeta a)"
    by (metis option.exhaust worker_metadata.exhaust)
  then show ?case
  proof cases
    case 3
    with Cons.prems obtain js where "rollout_ips ip ms = Inr js" "ips = (if a \<noteq> ip then a # js else js)"
      by (auto simp: bindS_def split: sum.splits)
    with Cons.IH [of js] 3 show ?thesis by auto
  qed (use Cons in auto)
qed

text \<open>C17. The topology: trainer rank 0 and the rollout workers 1 to N have distinct ranks within
  the world size N + 1, the other trainers have rank -1, every list has one entry per worker, and
  the driver is told to propagate to exactly the nodes of the rollout workers other than the
  trainer's own, each once.\<close>

theorem topology_correct:
  assumes "build_topology listing tw rw metadata = Inr (tk, rk)" "0 < tw"
    and "\<And>xs. distinct (listing xs) \<and> set (listing xs) = set xs"
  shows "\<exists>master rest. metadata = Some (MasterMeta master) # rest
       \<and> kw_rank tk = 0 # replicate (tw - 1) (-1) \<and> kw_rank rk = map int [1..<rw + 1]
       \<and> length (kw_rank tk) = tw \<and> length (kw_rank rk) = rw
       \<and> kw_world_size tk = replicate tw (int rw + 1) \<and> kw_world_size rk = replicate rw (int rw + 1)
       \<and> kw_master_metadata tk = replicate tw master \<and> kw_master_metadata rk = replicate rw master
       \<and> (\<exists>targets. kw_target_node_ids tk = replicate tw (Some targets) \<and> distinct targets
             \<and> set targets = {a. Some (NodeMeta a) \<in> set (drop tw metadata) \<and> a \<noteq> mm_node_ip master})
       \<and> kw_target_node_ids rk = replicate rw None"
proof -
  from assms(1) obtain master rest where md: "metadata = Some (MasterMeta master) # rest"
    by (auto simp: build_topology_def split: list.splits option.splits worker_metadata.splits)
  with assms(1) obtain ips where ips: "rollout_ips (mm_node_ip master) (drop tw metadata) = Inr ips"
    by (auto simp: build_topology_def bindS_def split: sum.splits)
  with assms(1) md have k: "tk = \<lparr>kw_rank = 0 # replicate (tw - 1) (-1), kw_world_size = replicate tw (int rw + 1),
      kw_master_metadata = replicate tw master, kw_target_node_ids = replicate tw (Some (listing ips))\<rparr>"
    "rk = \<lparr>kw_rank = map int [1..<rw + 1], kw_world_size = replicate rw (int rw + 1),
      kw_master_metadata = replicate rw master, kw_target_node_ids = replicate rw None\<rparr>"
    by (simp_all add: build_topology_def)
  have "distinct (listing ips)" "set (listing ips) =
      {a. Some (NodeMeta a) \<in> set (drop tw metadata) \<and> a \<noteq> mm_node_ip master}"
    using assms(3) rollout_ips_returns [OF ips] by auto
  with md k assms(2) show ?thesis by auto
qed

theorem topology_correct_witness:
  "\<exists>tk rk targets. build_topology remdups 1 2
       [Some (MasterMeta \<lparr>mm_zmq_ip = ''n1'', mm_zmq_port = 4000, mm_node_ip = ''n1''\<rparr>),
        Some (NodeMeta ''n1''), Some (NodeMeta ''n2'')] = Inr (tk, rk)
     \<and> kw_rank rk = [1, 2] \<and> kw_target_node_ids tk = [Some targets] \<and> set targets = {''n2''}"
proof -
  let ?md = "[Some (MasterMeta \<lparr>mm_zmq_ip = ''n1'', mm_zmq_port = 4000, mm_node_ip = ''n1''\<rparr>),
        Some (NodeMeta ''n1''), Some (NodeMeta ''n2'')]"
  obtain tk rk where run: "build_topology remdups 1 2 ?md = Inr (tk, rk)"
    by (simp add: build_topology_def)
  have "{a. Some (NodeMeta a) \<in> set (drop 1 ?md) \<and> a \<noteq> ''n1''} = {''n2''}" by auto
  then show ?thesis
    using topology_correct [OF run] run by (auto simp: upt_rec)
qed

section \<open>Preparing and shutting down\<close>

lemma keeps_on_client:
  assumes "keeps (\<lambda>c. remote c = d) m"
  shows "keeps (\<lambda>s. remote (wpi_client s) = d) (on_client m)"
proof (rule keepsI)
  fix s :: "('a, 'b) engine" assume "remote (wpi_client s) = d"
  with keepsD [OF assms, of "wpi_client s"] show "remote (wpi_client (snd (on_client m s))) = d"
    by (simp add: on_client_def Let_def split_beta)
qed

lemma remote_rules:
  "keeps (\<lambda>c. remote c = d) (cl_emit e)" "keeps (\<lambda>c. remote c = d) (cl_call f)"
  "keeps (\<lambda>c. remote c = d) (fails_with err what)"
  by (auto simp: cl_emit_def fails_with_def keeps_def cl_call_def Let_def modifyM_def raise_exn_def ret_def
      split: prod.splits)

lemma connect_loop_remote: "keeps (\<lambda>c. remote c = d) (connect_loop f a n)"
  by (induction f a n rule: connect_loop.induct) (auto intro!: keeps_intro remote_rules split: option.splits)

lemma wait_for_path_remote: "keeps (\<lambda>c. remote c = d) (wait_for_path E p n msg)"
  unfolding wait_for_path_def Let_def by (intro keeps_intro remote_rules)

lemma client_calls_remote:
  "keeps (\<lambda>c. remote c = d) (receive_fd_with md E b dev i n)"
  "keeps (\<lambda>c. remote c = d) (connect_notify_socket E b k i n)"
  "keeps (\<lambda>c. remote c = d) (import_cuda_memory E f sz dev)"
  unfolding receive_fd_with_def connect_notify_socket_def import_cuda_memory_def init_cuda_context_def
    pop_context_def Let_def
  by (auto intro!: keeps_intro remote_rules connect_loop_remote wait_for_path_remote keeps_modifyM
      split: option.splits prod.splits)

text \<open>Staging happens once: preparing an engine that has staged its buffer changes nothing at
  the driver, however the calls end.\<close>

theorem prepare_stages_once:
  assumes "staged s"
  shows "remote (wpi_client (snd (prepare E s))) = remote (wpi_client s)"
proof (cases "local_gpu E")
  case (Inl e)
  then show ?thesis by (simp add: prepare_def bindE_def lift_sum_def)
next
  case (Inr dev)
  let ?rest = "bindE (on_client (receive_fd (client_env E) (buffer_id s) dev (-1) 0)) (\<lambda>f.
     bindE (on_client (import_cuda_memory (client_env E) f (int (bucket_size s)) dev)) (\<lambda>ptr.
     seqE (modifyM (\<lambda>s'. s'\<lparr>vram_buffer := Some (mapped_bytes E ptr (bucket_size s))\<rparr>)) (
     if is_master s then
       ret (MasterMeta \<lparr>mm_zmq_ip = zmq_ip s, mm_zmq_port = zmq_port s, mm_node_ip = node_ip E\<rparr>)
     else
       seqE (on_client (connect_notify_socket (client_env E) (buffer_id s) 60 (-1) 0))
            (ret (NodeMeta (node_ip E))))))"
  have "prepare E s = ?rest s"
    using assms Inr unfolding prepare_def
    by (simp add: run_simps)
  moreover have "keeps (\<lambda>s'. remote (wpi_client s') = remote (wpi_client s)) ?rest"
    unfolding receive_fd_def
    by (intro keeps_intro keeps_on_client client_calls_remote keeps_modifyM) simp
  ultimately show ?thesis using keepsD by fastforce
qed

theorem prepare_stages_once_witness:
  "remote (wpi_client (snd (prepare (sim_eenv []) (sim_trainer\<lparr>staged := True\<rparr>)))) = sim_start"
  using prepare_stages_once [of "sim_trainer\<lparr>staged := True\<rparr>" "sim_eenv []"]
  by (simp add: sim_trainer_def WPICheckpointEngine_init_def start_zmq_server_def modifyM_def WPIClient_init_def
      Let_def)

text \<open>C32. Shutting down always returns and leaves nothing open: the buffer is no longer staged or
  mapped, both connections of the client and the ZMQ socket are gone; the claim was released at the
  driver exactly when it had been staged.\<close>

theorem shutdown_releases:
  "let t = snd (shutdown E s) in
   fst (shutdown E s) = Inr () \<and> \<not> staged t \<and> vram_buffer t = None \<and> zmq_socket t = None
   \<and> notify_socket (wpi_client t) = None \<and> grpc_channel (wpi_client t) = None
   \<and> (\<exists>tgt. remote (wpi_client t) =
        (if staged s then snd (rpc_unstage (client_env E) tgt (claim_id s) (remote (wpi_client s)))
         else remote (wpi_client s)))"
proof (cases "staged s")
  case True
  obtain tgt c where c: "get_grpc_stub (client_env E) (wpi_client s) = (Inr tgt, c)"
    "remote c = remote (wpi_client s)"
    using get_grpc_stub_remote by blast
  obtain r d where d: "rpc_unstage (client_env E) tgt (claim_id s) (remote (wpi_client s)) = (r, d)" by fastforce
  from True c d show ?thesis
    by (cases r) (auto simp: shutdown_def unstage_weight_def client_close_def on_client_def on_remote_def py_simps
        Let_def intro!: exI [of _ tgt])
next
  case False
  then show ?thesis by (auto simp: shutdown_def client_close_def on_client_def py_simps Let_def)
qed

end
