(* ===== verification/Consumer_Pytorch.thy ===== *)
theory Consumer_Pytorch
  imports WPI_Client
begin

text \<open>
  The stand-alone consumer \<open>consumer/consumer_pytorch.py\<close>: it polls the socket directory, takes
  the first socket it finds, receives a descriptor and maps a buffer of a fixed size. The state is
  the CUDA device; the directory, the connection, libcuda and torch are parameters, and what
  the directory holds depends on the number of the attempt. \<open>SOCKET_DIR\<close>, the CUDA constants and
  structures, \<open>receive_fd\<close>'s search of the ancillary data (\<open>find_fd\<close>) and
  \<open>RawCUDATensor\<close> are the ones of the driver and of the client library.
\<close>

record 'g pytorch_env =
  dir_exists :: "nat \<Rightarrow> bool"
  dir_list :: "nat \<Rightarrow> string list"
  torch_import :: "exn option"
  con_connect :: "string \<Rightarrow> exn option"
  con_recvmsg :: "(exn + (int \<times> int \<times> bytes) list) option"   \<comment> \<open>\<open>None\<close>: nothing ever arrives\<close>
  con_cdll :: "exn option"
  con_cuda :: "'g client_cuda"
  torch_wrap :: "RawCUDATensor \<Rightarrow> exn option"                \<comment> \<open>\<open>as_tensor\<close>, \<open>view\<close> and the statistics\<close>

text \<open>
  How the script ends: it logs an error and returns, it hangs in \<open>recvmsg\<close>, or it sleeps for ever
  with the buffer mapped.
\<close>

datatype consume_outcome = Returned | BlockedInRecv | KeepsAlive RawCUDATensor

definition endswith :: "string \<Rightarrow> string \<Rightarrow> bool" where
  "endswith s p \<longleftrightarrow> suffix p s"

definition get_socket_path :: "'g pytorch_env \<Rightarrow> nat \<Rightarrow> string option" where
  "get_socket_path E n =
     (if dir_exists E n then
        (case filter (\<lambda>f. endswith f ''.sock'') (dir_list E n) of
           f # _ \<Rightarrow> Some (path_join SOCKET_DIR f)
         | [] \<Rightarrow> None)
      else None)"

text \<open>The polling loop, from attempt \<open>n\<close> on; it sleeps between attempts and has no limit.\<close>

partial_function (option) poll_socket :: "'g pytorch_env \<Rightarrow> nat \<Rightarrow> string option" where
  "poll_socket E n =
     (case get_socket_path E n of Some p \<Rightarrow> Some p | None \<Rightarrow> poll_socket E (n + 1))"

definition con_call :: "('g \<Rightarrow> 'r \<times> 'g) \<Rightarrow> ('g, 'r) pyM" where
  "con_call f = (\<lambda>g. let (r, g') = f g in (Inr r, g'))"

definition cuda_setup :: "'g pytorch_env \<Rightarrow> ('g, c_int) pyM" where
  "cuda_setup E =
     (let L = libcuda.truncate (con_cuda E) in
      seqE (may_raise (con_cdll E)) (
      bindE (con_call (cuInit L 0)) (\<lambda>err.
      seqE (check_err err ''cuInit failed'') (
      bindE (con_call (cuDeviceGet L 0)) (\<lambda>(err, device).
      seqE (check_err err ''cuDeviceGet failed'') (
      bindE (con_call (cuCtxCreate_v2 L 0 device)) (\<lambda>(err, _).
      seqE (check_err err ''cuCtxCreate failed'') (ret device))))))))"

definition consumer_size :: int where
  "consumer_size = 10 * 1024 * 1024 * 1024"

definition map_weights :: "'g pytorch_env \<Rightarrow> int \<Rightarrow> c_int \<Rightarrow> ('g, RawCUDATensor) pyM" where
  "map_weights E f device =
     (let L = libcuda.truncate (con_cuda E); sz = word_of_int consumer_size in
      bindE (con_call (cuMemImportFromShareableHandle (con_cuda E) (word_of_int f)
                         CU_MEM_HANDLE_TYPE_POSIX_FILE_DESCRIPTOR)) (\<lambda>(err, h).
      seqE (check_err err (''cuMemImportFromShareableHandle failed with err '' @ str_int err)) (
      bindE (con_call (cuMemAddressReserve L sz 0)) (\<lambda>(err, ptr).
      seqE (check_err err ''cuMemAddressReserve failed'') (
      bindE (con_call (cuMemMap L ptr sz h)) (\<lambda>err.
      seqE (check_err err ''cuMemMap failed'') (
      bindE (con_call (cuMemSetAccess L ptr sz (device_access (sint device)))) (\<lambda>err.
      seqE (check_err err ''cuMemSetAccess failed'') (
      let t = wrap_as_buffer (uint ptr) consumer_size in
      seqE (may_raise (torch_wrap E t)) (ret t))))))))))"

text \<open>The descriptor in the ancillary data, as in the client library.\<close>

definition pytorch_receive_fd :: "exn + (int \<times> int \<times> bytes) list \<Rightarrow> ('g, int option) pyM" where
  "pytorch_receive_fd anc = bindE (lift_sum anc) (\<lambda>a. lift_sum (find_fd a))"

definition consume_from :: "'g pytorch_env \<Rightarrow> string \<Rightarrow> ('g, consume_outcome) pyM" where
  "consume_from E path =
     try_except (
       seqE (may_raise (torch_import E)) (
       seqE (may_raise (con_connect E path)) (
       case con_recvmsg E of
         None \<Rightarrow> ret BlockedInRecv
       | Some anc \<Rightarrow>
           bindE (pytorch_receive_fd anc) (\<lambda>o_fd. case o_fd of
             None \<Rightarrow> ret Returned
           | Some f \<Rightarrow>
               bindE (try_except (bindE (cuda_setup E) (\<lambda>d. ret (Some d))) (\<lambda>_. ret None)) (\<lambda>o_dev.
               case o_dev of
                 None \<Rightarrow> ret Returned
               | Some device \<Rightarrow>
                   try_except (bindE (map_weights E f device) (\<lambda>t. ret (KeepsAlive t)))
                     (\<lambda>_. ret Returned))))))
     (\<lambda>_. ret Returned)"

definition consume_weights :: "'g pytorch_env \<Rightarrow> 'g \<Rightarrow> ((exn + consume_outcome) \<times> 'g) option" where
  "consume_weights E g = map_option (\<lambda>p. consume_from E p g) (poll_socket E 0)"

section \<open>The polling loop\<close>

lemma poll_socket_found: "get_socket_path E (n + k) = Some p \<Longrightarrow> \<exists>q. poll_socket E n = Some q"
proof (induction k arbitrary: n)
  case 0
  then show ?case by (simp add: poll_socket.simps)
next
  case (Suc k)
  then have "\<exists>q. poll_socket E (n + 1) = Some q" by simp
  then show ?case by (auto simp: poll_socket.simps [of E n] split: option.split)
qed

lemma poll_socket_result: "poll_socket E n = Some p \<Longrightarrow> \<exists>m. get_socket_path E m = Some p"
  by (rule poll_socket.raw_induct [of "\<lambda>E n p. \<exists>m. get_socket_path E m = Some p"])
     (auto split: option.splits)

lemma get_socket_path_Some:
  "get_socket_path E n \<noteq> None \<longleftrightarrow> dir_exists E n \<and> (\<exists>f. f \<in> set (dir_list E n) \<and> endswith f ''.sock'')"
  using filter_empty_conv [of "\<lambda>f. endswith f ''.sock''" "dir_list E n"]
  by (auto simp: get_socket_path_def split: list.split)

section \<open>The mapped buffer\<close>

lemma con_call_returns [simp]:
  "con_call f g = (r, t) \<longleftrightarrow> (\<exists>x. f g = (x, t) \<and> r = Inr x)"
  by (auto simp: con_call_def Let_def split: prod.splits)

lemma may_raise_returns [simp]: "may_raise r s = (Inr u, t) \<longleftrightarrow> r = None \<and> t = s"
  by (cases r) (auto simp: may_raise_def)

lemma try_except_returns_iff:
  "try_except m h s = (Inr y, t) \<longleftrightarrow>
     m s = (Inr y, t) \<or> (\<exists>e u. m s = (Inl e, u) \<and> h e u = (Inr y, t))"
  by (auto simp: try_except_def split: prod.splits sum.splits)

lemma consume_from_keeps_alive:
  assumes "consume_from E path g = (Inr (KeepsAlive t), g')"
  obtains f d u where "cuda_setup E g = (Inr d, u)" "map_weights E f d u = (Inr t, g')"
  using assms unfolding consume_from_def pytorch_receive_fd_def
  by (auto simp: try_except_returns_iff seqE_returns_iff bindE_returns_iff bindE_ret_returns lift_sum_def
      split: option.splits)

end
