(* ===== verification/Consumer_Properties.thy ===== *)
theory Consumer_Properties
  imports Consumer_Pytorch Client_Properties
begin

text \<open>Properties of the stand-alone consumer.\<close>

section \<open>Finding a socket\<close>

text \<open>The script leaves its polling loop exactly when the socket directory shows, at some
  attempt, a file whose name ends in \<open>.sock\<close>; there is no limit on the attempts.\<close>

theorem poll_ends_iff_socket:
  "(\<exists>r. consume_weights E g = Some r) \<longleftrightarrow>
     (\<exists>n. dir_exists E n \<and> (\<exists>f. f \<in> set (dir_list E n) \<and> endswith f ''.sock''))"
proof
  assume "\<exists>r. consume_weights E g = Some r"
  then obtain p where "poll_socket E 0 = Some p" by (auto simp: consume_weights_def)
  from poll_socket_result [OF this] show
    "\<exists>n. dir_exists E n \<and> (\<exists>f. f \<in> set (dir_list E n) \<and> endswith f ''.sock'')"
    using get_socket_path_Some by fastforce
next
  assume "\<exists>n. dir_exists E n \<and> (\<exists>f. f \<in> set (dir_list E n) \<and> endswith f ''.sock'')"
  then obtain n p where "get_socket_path E (0 + n) = Some p" using get_socket_path_Some by fastforce
  from poll_socket_found [OF this] show "\<exists>r. consume_weights E g = Some r"
    by (auto simp: consume_weights_def)
qed

section \<open>The size that is mapped\<close>

lemma cuda_setup_maps:
  assumes "client_laws (con_cuda E) V" "cuda_setup E g = (Inr d, u)"
  shows "same_maps V g u"
proof -
  have vmm: "vmm_laws (libcuda.truncate (con_cuda E)) V" using assms(1) by (simp add: client_laws_def)
  from assms(2) obtain e1 g1 e2 g2 e3 where
    i: "cuInit (libcuda.truncate (con_cuda E)) 0 g = (e1, g1)"
    and q: "cuDeviceGet (libcuda.truncate (con_cuda E)) 0 g1 = (e2, g2)"
    and c: "cuCtxCreate_v2 (libcuda.truncate (con_cuda E)) 0 d g2 = (e3, u)"
    unfolding cuda_setup_def Let_def
    by (auto simp: seqE_returns_iff bindE_returns_iff split: prod.splits)
  have "same_maps V g (snd (cuInit (libcuda.truncate (con_cuda E)) 0 g))"
    using assms(1) unfolding client_laws_def by blast
  then have "same_maps V g g1" by (simp add: i)
  moreover have "same_maps V g1 g2" by (rule view_maps [OF neutral_rules(1) [OF vmm q]])
  moreover have "same_maps V g2 u" by (rule view_maps [OF neutral_rules(2) [OF vmm c]])
  ultimately show ?thesis by (simp add: same_maps_def)
qed

lemma map_weights_maps:
  assumes laws: "client_laws (con_cuda E) V" and run: "map_weights E f d u = (Inr t, g')"
  obtains h where "raw_shape t = consumer_size" "v_maps V u (word_of_int (raw_ptr t)) = None"
    "v_maps V g' = (v_maps V u)(word_of_int (raw_ptr t) \<mapsto> (word_of_int consumer_size, h))"
proof -
  let ?L = "libcuda.truncate (con_cuda E)" and ?sz = "word_of_int consumer_size :: u64"
  have vmm: "vmm_laws ?L V" using laws by (simp add: client_laws_def)
  from run obtain h g1 ptr g2 g3 where
    m: "cuMemImportFromShareableHandle (con_cuda E) (word_of_int f) CU_MEM_HANDLE_TYPE_POSIX_FILE_DESCRIPTOR u
       = ((0, h), g1)"
    and rs: "cuMemAddressReserve ?L ?sz 0 g1 = ((0, ptr), g2)"
    and mp: "cuMemMap ?L ptr ?sz h g2 = (0, g3)"
    and ac: "cuMemSetAccess ?L ptr ?sz (device_access (sint d)) g3 = (0, g')"
    and t: "t = wrap_as_buffer (uint ptr) consumer_size"
    unfolding map_weights_def Let_def by (auto simp: seqE_returns_iff bindE_returns_iff)
  have "same_maps V u g1" using laws m unfolding client_laws_def by (metis snd_conv)
  moreover have "same_maps V g3 g'" by (rule view_maps [OF neutral_rules(6) [OF vmm ac]])
  ultimately show thesis
    using that [of h] reserve_law [OF vmm rs] map_law [OF vmm mp] t
    by (simp add: same_maps_def wrap_as_buffer_def)
qed

text \<open>C29. When the script gets as far as keeping the pod alive it has added one mapping, of 10
  GiB and at a fresh address, and wrapped 10 GiB, whatever was staged: that is the size of the
  driver's allocation exactly when the staged size rounds up to 10 GiB.\<close>

theorem pytorch_maps_ten_gib:
  assumes laws: "client_laws (con_cuda E) V"
    and run: "consume_weights E g = Some (Inr (KeepsAlive t), g')"
    and drv: "vmm_laws L W" "reports_granularity L gran" "0 \<le> n" "round_up n (uint gran) < 2 ^ 64"
      "allocate_and_export L n d a = (Inr (f, h, p), a')"
  shows "\<exists>sz h'. raw_shape t = 10 * 1024 ^ 3 \<and> v_maps V g (word_of_int (raw_ptr t)) = None
       \<and> v_maps V g' = (v_maps V g)(word_of_int (raw_ptr t) \<mapsto> (sz, h'))
       \<and> (v_handles W (gpu a') (word_of_int h) = Some sz \<longleftrightarrow> round_up n (uint gran) = 10 * 1024 ^ 3)"
proof -
  let ?sz = "word_of_int consumer_size :: u64"
  from run obtain path where "consume_from E path g = (Inr (KeepsAlive t), g')"
    by (auto simp: consume_weights_def)
  then obtain k dev u where s: "cuda_setup E g = (Inr dev, u)" and m: "map_weights E k dev u = (Inr t, g')"
    by (rule consume_from_keeps_alive)
  obtain h' where h': "raw_shape t = consumer_size" "v_maps V u (word_of_int (raw_ptr t)) = None"
    "v_maps V g' = (v_maps V u)(word_of_int (raw_ptr t) \<mapsto> (?sz, h'))"
    by (rule map_weights_maps [OF laws m])
  have "0 < uint gran" using drv(2) by (simp add: reports_granularity_def)
  from round_up_ge [OF this, of n] drv(3,4)
  have "uint (word_of_int (round_up n (uint gran)) :: u64) = round_up n (uint gran)"
    by (simp add: unsigned_of_int take_bit_int_eq_self)
  then have "word_of_int (round_up n (uint gran)) = ?sz \<longleftrightarrow> round_up n (uint gran) = 10 * 1024 ^ 3"
    by (auto simp: consumer_size_def)
  moreover have "v_handles W (gpu a') (word_of_int h) = Some (word_of_int (round_up n (uint gran)))"
    using allocate_effect_gran(1) [OF drv(1,2,5) refl] by simp
  ultimately show ?thesis
    using h' cuda_setup_maps [OF laws s] by (auto simp: same_maps_def consumer_size_def)
qed

definition sim_pytorch :: "sim_gpu pytorch_env" where
  "sim_pytorch = \<lparr>dir_exists = (\<lambda>_. True), dir_list = (\<lambda>_. [''w.sock'']), torch_import = None,
     con_connect = (\<lambda>_. None), con_recvmsg = Some (Inr [(1, 1, [CHR 0x05, CHR 0x00, CHR 0x00, CHR 0x00])]),
     con_cdll = None, con_cuda = sim_client_cuda, torch_wrap = (\<lambda>_. None)\<rparr>"

lemma sim_pytorch_run:
  "\<exists>g'. consume_weights sim_pytorch (sim_init 0 2097152)
     = Some (Inr (KeepsAlive (wrap_as_buffer 4294967296 consumer_size)), g')"
proof -
  have "poll_socket sim_pytorch 0 = Some (path_join SOCKET_DIR ''w.sock'')"
    by (simp add: poll_socket.simps get_socket_path_def sim_pytorch_def endswith_def suffix_def)
  then show ?thesis
    by (simp add: consume_weights_def consume_from_def pytorch_receive_fd_def sim_pytorch_def cuda_setup_def map_weights_def py_simps
        Let_def con_call_def check_err_def sim_cuda_2M_def sim_cuda_def sim_ops sim_init_def SOL_SOCKET_def
        SCM_RIGHTS_def)
qed

theorem pytorch_maps_ten_gib_witness:
  "\<exists>t g' sz h'. consume_weights sim_pytorch (sim_init 0 2097152) = Some (Inr (KeepsAlive t), g')
     \<and> v_maps sim_view g' = (v_maps sim_view (sim_init 0 2097152))(word_of_int (raw_ptr t) \<mapsto> (sz, h'))
     \<and> v_handles sim_view (gpu (snd (allocate_and_export sim_cuda_2M 5 0 sim_allocator))) 1 \<noteq> Some sz"
proof -
  from sim_pytorch_run obtain g' where
    run: "consume_weights sim_pytorch (sim_init 0 2097152)
      = Some (Inr (KeepsAlive (wrap_as_buffer 4294967296 consumer_size)), g')" by blast
  have "con_cuda sim_pytorch = sim_client_cuda" by (simp add: sim_pytorch_def)
  with pytorch_maps_ten_gib [OF _ run sim_laws_2M sim_2M_granularity _ _ sim_alloc_example, of sim_view]
    sim_client_laws run sim_alloc_example
  show ?thesis by (auto simp: round_up_def)
qed

end
