(* ===== verification/Vllm_Trainers.thy ===== *)
theory Vllm_Trainers
  imports Checkpoint_Engine Complex_Main
begin

text \<open>
  The trainers that push weights into a running vLLM server: the HTTP and Ray examples
  (\<open>consumer/wpi_vllm/examples/trainer_http.py\<close>, \<open>trainer_ray.py\<close>) and the benchmark
  (\<open>consumer/wpi_vllm/benchmark/bench_weight_update.py\<close>). vLLM's own weight transfer engine,
  requests, Ray and transformers are not part of the repository: every call into them is an event,
  recorded when it is made, and the environment decides from the events before it whether it raises.
\<close>

section \<open>Events\<close>

record update_info =
  ui_names :: "string list"
  ui_dtype_names :: "string list"
  ui_shapes :: "nat list list"
  ui_offsets :: "nat list"
  ui_total_bytes :: nat

datatype vllm_event =
    RayInit
  | LoadModel string
  | GetActor string
  | InitEngine string nat "string option"
  | TrainerInit string nat "string option" "string list"
  | Perturb
  | Pause
  | SendWeights
  | PropagateTo "string list"
  | UpdateWeights update_info
  | Resume
  | RayShutdown

record trainer_env =
  outcome :: "vllm_event \<Rightarrow> vllm_event list \<Rightarrow> exn option"
  params :: "(string \<times> tensor) list"             \<comment> \<open>\<open>model.named_parameters()\<close>\<close>
  times_105 :: "nat \<Rightarrow> nat"                       \<comment> \<open>\<open>int(n * 1.05)\<close> in double precision\<close>

definition act :: "trainer_env \<Rightarrow> vllm_event \<Rightarrow> (vllm_event list, unit) pyM" where
  "act E e = (\<lambda>ev. seqE (modifyM (\<lambda>l. l @ [e])) (may_raise (outcome E e ev)) ev)"

text \<open>\<open>[n.strip() for n in s.split(",")]\<close>.\<close>

definition target_nodes :: "string \<Rightarrow> string list" where
  "target_nodes s = map strip (split_all (CHR '','') s)"

definition compute_buffer_size :: "trainer_env \<Rightarrow> nat" where
  "compute_buffer_size E = times_105 E (sum_list (map (\<lambda>x. nbytes (snd x)) (params E)))"

text \<open>Scaling a double by a power of two is exact, so the given size needs no rounding but \<open>int\<close>'s.\<close>

definition buffer_size :: "trainer_env \<Rightarrow> rat \<Rightarrow> nat" where
  "buffer_size E gb = (if 0 < gb then nat \<lfloor>gb * 1024 ^ 3\<rfloor> else compute_buffer_size E)"

section \<open>The two trainers\<close>

record trainer_args =
  arg_target_nodes :: string
  arg_model :: string
  arg_buffer_size_gb :: rat
  arg_num_steps :: int
  arg_socket_dir :: string
  arg_buffer_id :: string

definition train_step :: "trainer_env \<Rightarrow> (vllm_event list, unit) pyM" where
  "train_step E = seqE (act E Perturb) (seqE (act E Pause) (seqE (act E SendWeights) (act E Resume)))"

definition train_loop :: "trainer_env \<Rightarrow> int \<Rightarrow> (vllm_event list, unit) pyM" where
  "train_loop E n = for_each (\<lambda>_. train_step E) [0..<nat n]"

definition http_main :: "trainer_env \<Rightarrow> trainer_args \<Rightarrow> (vllm_event list, unit) pyM" where
  "http_main E a =
     (let targets = target_nodes (arg_target_nodes a); sz = buffer_size E (arg_buffer_size_gb a);
          dir = Some (arg_socket_dir a) in
      seqE (act E (LoadModel (arg_model a))) (
      seqE (act E (InitEngine (arg_buffer_id a) sz dir)) (
      seqE (act E (TrainerInit (arg_buffer_id a) sz dir targets))
           (train_loop E (arg_num_steps a)))))"

definition ray_main :: "trainer_env \<Rightarrow> trainer_args \<Rightarrow> (vllm_event list, unit) pyM" where
  "ray_main E a =
     (let targets = target_nodes (arg_target_nodes a); sz = buffer_size E (arg_buffer_size_gb a);
          dir = Some (arg_socket_dir a) in
      seqE (act E RayInit) (
      seqE (act E (LoadModel (arg_model a))) (
      seqE (act E (GetActor ''vllm_server'')) (
      seqE (act E (InitEngine (arg_buffer_id a) sz dir)) (
      seqE (act E (TrainerInit (arg_buffer_id a) sz dir targets)) (
      seqE (train_loop E (arg_num_steps a)) (act E RayShutdown)))))))"

section \<open>The benchmark\<close>

text \<open>
  \<open>ctx\<close> comes from vLLM's engine; \<open>ctx_buffer\<close> is its mapped buffer, \<open>bench_flat\<close> what
  \<open>detach().contiguous().view(-1).view(torch.uint8)\<close> gives, \<open>copy_into\<close> the content of a
  slice after \<open>slice.copy_(source)\<close>, and \<open>clock\<close> the successive values of
  \<open>time.perf_counter()\<close>.
\<close>

record bench_env = trainer_env +
  ctx_buffer :: "nat \<Rightarrow> bytes"
  ctx_targets :: "string list \<Rightarrow> string list"
  bench_flat :: "tensor \<Rightarrow> exn + bytes"
  copy_into :: "bytes \<Rightarrow> bytes \<Rightarrow> exn + bytes"
  clock :: "nat \<Rightarrow> rat"

record bench_state =
  bench_events :: "vllm_event list"
  bench_buffer :: bytes
  ticks :: nat
  pack_times :: "rat list"
  propagate_times :: "rat list"
  metadata_times :: "rat list"
  total_times :: "rat list"

definition bench_act :: "bench_env \<Rightarrow> vllm_event \<Rightarrow> (bench_state, unit) pyM" where
  "bench_act E e = (\<lambda>s. seqE (modifyM (\<lambda>s. s\<lparr>bench_events := bench_events s @ [e]\<rparr>))
                              (may_raise (outcome E e (bench_events s))) s)"

definition perf_counter :: "bench_env \<Rightarrow> (bench_state, rat) pyM" where
  "perf_counter E = (\<lambda>s. (Inr (clock E (ticks s)), s\<lparr>ticks := ticks s + 1\<rparr>))"

definition dtype_short :: "dtype \<Rightarrow> string" where
  "dtype_short d = last (split_all (CHR ''.'') (dtype_name d))"

definition add_param :: "string \<Rightarrow> tensor \<Rightarrow> nat \<Rightarrow> update_info \<Rightarrow> update_info" where
  "add_param name w off u =
     \<lparr>ui_names = ui_names u @ [name], ui_dtype_names = ui_dtype_names u @ [dtype_short (t_dtype w)],
      ui_shapes = ui_shapes u @ [t_shape w], ui_offsets = ui_offsets u @ [off],
      ui_total_bytes = off + nbytes w\<rparr>"

definition no_params :: update_info where
  "no_params = \<lparr>ui_names = [], ui_dtype_names = [], ui_shapes = [], ui_offsets = [], ui_total_bytes = 0\<rparr>"

text \<open>
  The packing loop. Unlike the checkpoint engine's it has no assertion: a slice beyond the end of
  the buffer is cut short, and it is left to \<open>copy_\<close> to object.
\<close>

primrec bench_pack :: "bench_env \<Rightarrow> nat \<Rightarrow> update_info \<Rightarrow> (string \<times> tensor) list \<Rightarrow> (bench_state, update_info) pyM" where
  "bench_pack E off u [] = ret u"
| "bench_pack E off u (x # xs) =
     (let name = fst x; w = snd x in
      bindE (lift_sum (bench_flat E w)) (\<lambda>b.
      bindE (getM bench_buffer) (\<lambda>buf.
      bindE (lift_sum (copy_into E (read_at off (nbytes w) buf) b)) (\<lambda>c.
      seqE (modifyM (\<lambda>s. s\<lparr>bench_buffer := write_at off c buf\<rparr>))
           (bench_pack E (off + nbytes w) (add_param name w off u) xs)))))"

definition record_times :: "rat \<Rightarrow> rat \<Rightarrow> rat \<Rightarrow> rat \<Rightarrow> bench_state \<Rightarrow> bench_state" where
  "record_times p q m t s =
     s\<lparr>pack_times := pack_times s @ [p], propagate_times := propagate_times s @ [q],
       metadata_times := metadata_times s @ [m], total_times := total_times s @ [t]\<rparr>"

definition bench_iter :: "bench_env \<Rightarrow> string list \<Rightarrow> nat \<Rightarrow> nat \<Rightarrow> (bench_state, unit) pyM" where
  "bench_iter E targets warmup i =
     seqE (bench_act E Pause) (
     bindE (perf_counter E) (\<lambda>total_start.
     bindE (perf_counter E) (\<lambda>pack_start.
     bindE (bench_pack E 0 no_params (params E)) (\<lambda>u.
     bindE (perf_counter E) (\<lambda>pack_end.
     bindE (perf_counter E) (\<lambda>prop_start.
     seqE (bench_act E (PropagateTo (ctx_targets E targets))) (
     bindE (perf_counter E) (\<lambda>prop_end.
     bindE (perf_counter E) (\<lambda>meta_start.
     seqE (bench_act E (UpdateWeights u)) (
     bindE (perf_counter E) (\<lambda>meta_end.
     bindE (perf_counter E) (\<lambda>total_end.
     seqE (bench_act E Resume)
          (if i < warmup then ret ()
           else modifyM (record_times (pack_end - pack_start) (prop_end - prop_start)
                           (meta_end - meta_start) (total_end - total_start)))))))))))))))"

record BenchmarkResult =
  br_model_name :: string
  br_num_params :: nat
  br_total_bytes :: nat
  br_num_iters :: int
  br_pack_times :: "rat list"
  br_propagate_times :: "rat list"
  br_metadata_times :: "rat list"
  br_total_times :: "rat list"

definition run_benchmark ::
  "bench_env \<Rightarrow> string list \<Rightarrow> string \<Rightarrow> rat \<Rightarrow> int \<Rightarrow> int \<Rightarrow> (bench_state, BenchmarkResult) pyM" where
  "run_benchmark E targets model gb num_iters warmup =
     (let sz = buffer_size (trainer_env.truncate E) gb in
      seqE (bench_act E (LoadModel model)) (
      seqE (bench_act E (InitEngine ''bench-weights'' sz None)) (
      seqE (bench_act E (TrainerInit ''bench-weights'' sz None targets)) (
      seqE (modifyM (\<lambda>s. s\<lparr>bench_buffer := ctx_buffer E sz, pack_times := [], propagate_times := [],
                             metadata_times := [], total_times := []\<rparr>)) (
      seqE (for_each (bench_iter E targets (nat warmup)) [0..<nat (warmup + num_iters)])
           (getM (\<lambda>s. \<lparr>br_model_name = model,
                       br_num_params = sum_list (map (\<lambda>x. numel (t_shape (snd x))) (params E)),
                       br_total_bytes = sum_list (map (\<lambda>x. nbytes (snd x)) (params E)),
                       br_num_iters = num_iters,
                       br_pack_times = pack_times s, br_propagate_times = propagate_times s,
                       br_metadata_times = metadata_times s, br_total_times = total_times s\<rparr>)))))))"

end
