(* ===== verification/Vllm_Properties.thy ===== *)
theory Vllm_Properties
  imports Vllm_Trainers Engine_Properties
begin

text \<open>
  Properties of the vLLM trainers: what they ask of the server and in which order, in which state
  they leave it when they fail, and that the benchmark packs as the checkpoint engine does.
\<close>

section \<open>Runs of events\<close>




lemma seqE_ret_unit [simp]: "seqE m (ret ()) = m" "seqE (ret u) k = k"
  by (auto simp: seqE_def bindE_def ret_def fun_eq_iff split: prod.splits sum.splits)



section \<open>The trainers\<close>




















section \<open>Packing in the benchmark\<close>

text \<open>What the benchmark relies on: a copy between equal lengths gives the source.\<close>

definition copies_exactly :: "bench_env \<Rightarrow> bool" where
  "copies_exactly B \<longleftrightarrow> (\<forall>a b. length a = length b \<longrightarrow> copy_into B a b = Inr b)"

definition bench_flattens :: "bench_env \<Rightarrow> (string \<times> tensor) list \<Rightarrow> bool" where
  "bench_flattens B ws \<longleftrightarrow>
     list_all (\<lambda>(name, w). bench_flat B w = Inr (t_bytes w) \<and> length (t_bytes w) = nbytes w) ws"

primrec pack_info :: "nat \<Rightarrow> update_info \<Rightarrow> (string \<times> tensor) list \<Rightarrow> update_info" where
  "pack_info off u [] = u"
| "pack_info off u (x # xs) = pack_info (off + nbytes (snd x)) (add_param (fst x) (snd x) off u) xs"

lemma pack_info_fields:
  "ui_names (pack_info off u ws) = ui_names u @ map fst (layout off ws)"
  "ui_shapes (pack_info off u ws) = ui_shapes u @ map (\<lambda>x. meta_shape (snd x)) (layout off ws)"
  "ui_offsets (pack_info off u ws) = ui_offsets u @ map (\<lambda>x. meta_offset (snd x)) (layout off ws)"
  "ui_dtype_names (pack_info off u ws) = ui_dtype_names u @ map (\<lambda>x. dtype_short (meta_dtype (snd x))) (layout off ws)"
  "ui_total_bytes u = off \<Longrightarrow> ui_total_bytes (pack_info off u ws) = off + packed_size ws"
  by (induction ws arbitrary: off u) (auto simp: add_param_def weight_meta_def packed_size_def add.assoc)

text \<open>Whatever the copies do, a packing that returns announces this table.\<close>

lemma bench_pack_returns:
  "bench_pack B off u ws s = (Inr v, t) \<Longrightarrow> v = pack_info off u ws"
  by (induction ws arbitrary: off u s) (auto simp: Let_def bindE_returns_iff seqE_returns_iff)

lemma bench_pack_step:
  assumes "bench_flat B (snd x) = Inr b" "copy_into B (read_at off (nbytes (snd x)) (bench_buffer s)) b = Inr c"
  shows "bench_pack B off u (x # ws) s =
     bench_pack B (off + nbytes (snd x)) (add_param (fst x) (snd x) off u) ws
       (s\<lparr>bench_buffer := write_at off c (bench_buffer s)\<rparr>)"
  using assms by (simp add: Let_def bindE_def lift_sum_def getM_def seqE_def modifyM_def)

lemma bench_pack_fits:
  assumes "copies_exactly B" "bench_flattens B ws" "off + packed_size ws \<le> length (bench_buffer s)"
  shows "bench_pack B off u ws s =
     (Inr (pack_info off u ws), s\<lparr>bench_buffer := vram.put_all off (blocks ws) (bench_buffer s)\<rparr>)"
  using assms(2,3)
proof (induction ws arbitrary: off u s)
  case Nil
  then show ?case by (simp add: ret_def)
next
  case (Cons x ws)
  define s' where "s' = s\<lparr>bench_buffer := write_at off (t_bytes (snd x)) (bench_buffer s)\<rparr>"
  have b: "bench_flat B (snd x) = Inr (t_bytes (snd x))" "length (t_bytes (snd x)) = nbytes (snd x)"
    "bench_flattens B ws"
    using Cons.prems(1) by (auto simp: bench_flattens_def split: prod.splits)
  have fits: "off + nbytes (snd x) + packed_size ws \<le> length (bench_buffer s)"
    using Cons.prems(2) by (simp add: packed_size_def)
  then have "length (read_at off (nbytes (snd x)) (bench_buffer s)) = length (t_bytes (snd x))"
    using b(2) by (simp add: read_at_def)
  with assms(1) have "copy_into B (read_at off (nbytes (snd x)) (bench_buffer s)) (t_bytes (snd x)) = Inr (t_bytes (snd x))"
    by (simp add: copies_exactly_def)
  from bench_pack_step [OF b(1) this] have
    "bench_pack B off u (x # ws) s = bench_pack B (off + nbytes (snd x)) (add_param (fst x) (snd x) off u) ws s'"
    by (simp add: s'_def)
  moreover have "length (bench_buffer s') = length (bench_buffer s)"
    using fits b(2) slice_write(1) [of off "t_bytes (snd x)" "bench_buffer s"] by (simp add: s'_def)
  ultimately show ?case
    using Cons.IH [OF b(3), of "off + nbytes (snd x)" s'] fits b(2) by (simp add: s'_def)
qed

text \<open>C27. The benchmark packs as the checkpoint engine does: on weights with distinct names that
  fit, both leave the same bytes in equal buffers and describe them by the same names, shapes,
  offsets and total.\<close>

theorem bench_packs_like_engine:
  assumes "flattens E ws" "bench_flattens B ws" "copies_exactly B" "distinct (map fst ws)"
    and "vram_buffer s = Some buf" "length buf = bucket_size s" "packed_size ws \<le> bucket_size s"
    and "bench_buffer b = buf"
  shows "\<exists>md t u b'. pack_weights E 0 [] ws s = (Inr md, t) \<and> bench_pack B 0 no_params ws b = (Inr u, b')
     \<and> vram_buffer t = Some (bench_buffer b')
     \<and> ui_names u = map fst (bucket_meta md) \<and> ui_shapes u = map (\<lambda>x. meta_shape (snd x)) (bucket_meta md)
     \<and> ui_offsets u = map (\<lambda>x. meta_offset (snd x)) (bucket_meta md) \<and> ui_total_bytes u = total_bytes md"
proof -
  have "0 + packed_size ws \<le> bucket_size s" "0 + packed_size ws \<le> length (bench_buffer b)"
    using assms(6-8) by simp_all
  from pack_weights_fits [OF assms(1,5) this(1), of "[]"] bench_pack_fits [OF assms(3,2) this(2), of no_params]
    pack_table_layout [OF assms(4), of "[]" 0] assms(8)
  show ?thesis by (simp add: pack_info_fields no_params_def)
qed

definition sim_bench :: bench_env where
  "sim_bench = \<lparr>outcome = (\<lambda>_ _. None), params = sim_weights, times_105 = (\<lambda>n. n + n div 20),
     ctx_buffer = (\<lambda>n. replicate n (CHR 0x00)), ctx_targets = id, bench_flat = (\<lambda>w. Inr (t_bytes w)),
     copy_into = (\<lambda>a b. if length a = length b then Inr b else Inl (RuntimeError ''size mismatch'')),
     clock = of_nat\<rparr>"

lemma sim_bench_laws: "copies_exactly sim_bench" "bench_flattens sim_bench sim_weights"
  using sim_flattens(1) [of "[]"] by (simp_all add: copies_exactly_def bench_flattens_def flattens_def sim_bench_def sim_eenv_def)

definition sim_bench_state :: "bytes \<Rightarrow> bench_state" where
  "sim_bench_state buf = \<lparr>bench_events = [], bench_buffer = buf, ticks = 0, pack_times = [],
     propagate_times = [], metadata_times = [], total_times = []\<rparr>"

theorem bench_packs_like_engine_witness:
  "\<exists>md t u b'. pack_weights (sim_eenv []) 0 [] sim_weights sim_trainer = (Inr md, t)
     \<and> bench_pack sim_bench 0 no_params sim_weights (sim_bench_state ''........'') = (Inr u, b')
     \<and> ui_offsets u = map (\<lambda>x. meta_offset (snd x)) (bucket_meta md)"
proof -
  have "packed_size sim_weights \<le> bucket_size sim_trainer" "length ''........'' = bucket_size sim_trainer"
    by (simp_all add: sim_trainer_state packed_size_def sim_weights_def nbytes_def numel_def sim_fp16_def)
  with bench_packs_like_engine [OF sim_flattens(1) sim_bench_laws(2,1) sim_flattens(2) sim_trainer_state(2),
      of "sim_bench_state ''........''" "[]"]
  show ?thesis by (auto simp: sim_bench_state_def)
qed

section \<open>Runs of the benchmark\<close>

text \<open>The recorded timings as one list of samples: packing, propagation, metadata, total.\<close>

definition timed :: "bench_state \<Rightarrow> (rat \<times> rat \<times> rat \<times> rat) list \<Rightarrow> bool" where
  "timed s xs \<longleftrightarrow> pack_times s = map (\<lambda>(p, q, m, t). p) xs \<and> propagate_times s = map (\<lambda>(p, q, m, t). q) xs
     \<and> metadata_times s = map (\<lambda>(p, q, m, t). m) xs \<and> total_times s = map (\<lambda>(p, q, m, t). t) xs"

definition consistent :: "rat \<times> rat \<times> rat \<times> rat \<Rightarrow> bool" where
  "consistent = (\<lambda>(p, q, m, t). 0 \<le> p \<and> 0 \<le> q \<and> 0 \<le> m \<and> p + q + m \<le> t)"

definition iter_events :: "bench_env \<Rightarrow> string list \<Rightarrow> vllm_event list" where
  "iter_events E targets =
     [Pause, PropagateTo (ctx_targets E targets), UpdateWeights (pack_info 0 no_params (params E)), Resume]"

lemma bench_act_returns [simp]:
  "bench_act E e s = (Inr u, t) \<longleftrightarrow>
     outcome E e (bench_events s) = None \<and> t = s\<lparr>bench_events := bench_events s @ [e]\<rparr>"
  by (auto simp: bench_act_def seqE_returns_iff) (cases "outcome E e (bench_events s)"; simp add: may_raise_def)+

lemma perf_counter_returns [simp]:
  "perf_counter E s = (r, t) \<longleftrightarrow> r = Inr (clock E (ticks s)) \<and> t = s\<lparr>ticks := ticks s + 1\<rparr>"
  by (auto simp: perf_counter_def)

text \<open>Packing touches the buffer only.\<close>

lemma bench_pack_keeps:
  "bench_events (snd (bench_pack B off u ws s)) = bench_events s \<and> ticks (snd (bench_pack B off u ws s)) = ticks s
   \<and> timed (snd (bench_pack B off u ws s)) xs = timed s xs"
proof -
  let ?P = "\<lambda>s'. bench_events s' = bench_events s \<and> ticks s' = ticks s \<and> timed s' xs = timed s xs"
  have "keeps ?P (bench_pack B off u ws)"
  proof (induction ws arbitrary: off u)
    case (Cons x ws)
    show ?case
      unfolding bench_pack.simps Let_def
      by (intro keeps_intro keeps_modifyM Cons.IH) (simp add: timed_def)
  qed (simp add: keeps_ret)
  from keepsD [OF this, of s] show ?thesis by simp
qed

lemma bench_iter_returns:
  assumes "bench_iter E targets warmup i s = (Inr (), t)" "timed s xs" "mono (clock E)"
  obtains ys where "bench_events t = bench_events s @ iter_events E targets" "timed t (xs @ ys)"
    "length ys = (if i < warmup then 0 else 1)" "list_all consistent ys"
proof -
  let ?c = "\<lambda>k. clock E (ticks s + k)"
  let ?y = "(?c 2 - ?c 1, ?c 4 - ?c 3, ?c 6 - ?c 5, ?c 7 - ?c 0)"
  from assms(1) obtain u v where
    pack: "bench_pack E 0 no_params (params E)
             (s\<lparr>bench_events := bench_events s @ [Pause], ticks := Suc (Suc (ticks s))\<rparr>) = (Inr u, v)"
    and t: "t = (if i < warmup then id else
         record_times (clock E (ticks v) - ?c 1) (clock E (ticks v + 2) - clock E (ticks v + 1))
           (clock E (ticks v + 4) - clock E (ticks v + 3)) (clock E (ticks v + 5) - ?c 0))
         (v\<lparr>ticks := ticks v + 6,
            bench_events := bench_events v @ [PropagateTo (ctx_targets E targets), UpdateWeights u, Resume]\<rparr>)"
    unfolding bench_iter_def
    by (cases "i < warmup") (auto simp: seqE_returns_iff bindE_returns_iff eval_nat_numeral)
  have rest: "bench_events t = bench_events v @ [PropagateTo (ctx_targets E targets), UpdateWeights u, Resume]"
    "timed v xs \<Longrightarrow> timed t (xs @ (if i < warmup then [] else
       [(clock E (ticks v) - ?c 1, clock E (ticks v + 2) - clock E (ticks v + 1),
         clock E (ticks v + 4) - clock E (ticks v + 3), clock E (ticks v + 5) - ?c 0)]))"
    by (simp_all add: t record_times_def timed_def)
  have v: "bench_events v = bench_events s @ [Pause]" "ticks v = ticks s + 2" "timed v xs"
    using bench_pack_keeps [of E 0 no_params "params E"
        "s\<lparr>bench_events := bench_events s @ [Pause], ticks := Suc (Suc (ticks s))\<rparr>" xs] assms(2)
    by (simp_all add: pack timed_def)
  have le: "?c j \<le> ?c k" if "j \<le> k" for j k using assms(3) that by (simp add: monoD)
  have "consistent ?y"
    using le [of 0 1] le [of 1 2] le [of 2 3] le [of 3 4] le [of 4 5] le [of 5 6] le [of 6 7]
    by (simp add: consistent_def)
  moreover have "timed t (xs @ (if i < warmup then [] else [?y]))"
    using rest(2) [OF v(3)] by (cases "i < warmup") (simp_all add: v(2) eval_nat_numeral)
  moreover have "bench_events t = bench_events s @ iter_events E targets"
    using rest(1) v(1) bench_pack_returns [OF pack] by (simp add: iter_events_def)
  ultimately show thesis using that [of "if i < warmup then [] else [?y]"] by auto
qed

lemma bench_loop_returns:
  assumes "for_each (bench_iter E targets warmup) [i..<i + k] s = (Inr (), t)" "timed s xs" "mono (clock E)"
  shows "\<exists>ys. bench_events t = bench_events s @ concat (replicate k (iter_events E targets))
     \<and> timed t (xs @ ys) \<and> length ys = (i + k) - max i warmup \<and> list_all consistent ys"
  using assms(1,2)
proof (induction k arbitrary: i s xs)
  case 0
  then show ?case by (auto intro!: exI [of _ "[]"])
next
  case (Suc k)
  have "[i..<i + Suc k] = i # [Suc i..<Suc i + k]" by (simp add: upt_rec)
  with Suc.prems(1) obtain u where u: "bench_iter E targets warmup i s = (Inr (), u)"
    "for_each (bench_iter E targets warmup) [Suc i..<Suc i + k] u = (Inr (), t)"
    by (auto simp: seqE_returns_iff simp del: upt_Suc)
  obtain ys where ys: "bench_events u = bench_events s @ iter_events E targets" "timed u (xs @ ys)"
    "length ys = (if i < warmup then 0 else 1)" "list_all consistent ys"
    by (rule bench_iter_returns [OF u(1) Suc.prems(2) assms(3)])
  from Suc.IH [OF u(2) ys(2)] obtain zs where
    "bench_events t = bench_events u @ concat (replicate k (iter_events E targets))" "timed t (xs @ ys @ zs)"
    "length zs = (Suc i + k) - max (Suc i) warmup" "list_all consistent zs"
    by auto
  with ys show ?case by (intro exI [of _ "ys @ zs"]) auto
qed

text \<open>A benchmark that returns has paused, propagated, sent the table and resumed once per
  iteration, warm-up included, has one sample per measured iteration, and the parts of a sample
  are non-negative and sum to no more than its total; every table it sent announces the number of
  bytes it reports.\<close>

theorem bench_samples:
  assumes run: "run_benchmark E targets model gb iters warmup s = (Inr r, t)"
    and "0 \<le> iters" "0 \<le> warmup" "mono (clock E)"
  shows "\<exists>u xs. ui_total_bytes u = br_total_bytes r
     \<and> drop (length (bench_events s) + 3) (bench_events t)
         = concat (replicate (nat (warmup + iters)) [Pause, PropagateTo (ctx_targets E targets), UpdateWeights u, Resume])
     \<and> length xs = nat iters
     \<and> br_pack_times r = map (\<lambda>(p, q, m, t). p) xs \<and> br_propagate_times r = map (\<lambda>(p, q, m, t). q) xs
     \<and> br_metadata_times r = map (\<lambda>(p, q, m, t). m) xs \<and> br_total_times r = map (\<lambda>(p, q, m, t). t) xs
     \<and> list_all (\<lambda>(p, q, m, t). 0 \<le> p \<and> 0 \<le> q \<and> 0 \<le> m \<and> p + q + m \<le> t) xs"
proof -
  let ?u = "pack_info 0 no_params (params E)"
  from run obtain s0 where s0: "for_each (bench_iter E targets (nat warmup)) [0..<nat (warmup + iters)] s0 = (Inr (), t)"
    "length (bench_events s0) = length (bench_events s) + 3" "timed s0 []"
    and r: "br_total_bytes r = packed_size (params E)" "br_pack_times r = pack_times t"
      "br_propagate_times r = propagate_times t" "br_metadata_times r = metadata_times t"
      "br_total_times r = total_times t"
    unfolding run_benchmark_def Let_def
    by (auto simp: seqE_returns_iff timed_def packed_size_def)
  have "for_each (bench_iter E targets (nat warmup)) [0..<0 + nat (warmup + iters)] s0 = (Inr (), t)"
    using s0(1) by simp
  from bench_loop_returns [OF this s0(3) assms(4)] obtain ys where
    ys: "bench_events t = bench_events s0 @ concat (replicate (nat (warmup + iters)) (iter_events E targets))"
    "timed t ys" "length ys = nat (warmup + iters) - nat warmup" "list_all consistent ys"
    by auto
  have "ui_total_bytes ?u = packed_size (params E)" by (simp add: pack_info_fields(5) no_params_def)
  moreover have "length ys = nat iters" using ys(3) assms(2,3) by (simp add: nat_add_distrib)
  ultimately show ?thesis
    using ys(1,2,4) s0(2) r
    by (intro exI [of _ ?u] exI [of _ ys]) (simp add: iter_events_def timed_def consistent_def)
qed

lemma bench_run_simps:
  "outcome E e (bench_events s) = None \<Longrightarrow> seqE (bench_act E e) k s = k (s\<lparr>bench_events := bench_events s @ [e]\<rparr>)"
  "bindE (perf_counter E) f s = f (clock E (ticks s)) (s\<lparr>ticks := ticks s + 1\<rparr>)"
  by (simp_all add: bench_act_def perf_counter_def seqE_def bindE_def modifyM_def may_raise_def ret_def)

lemma sim_bench_iter:
  assumes "6 \<le> length (bench_buffer s)"
  shows "\<exists>t. bench_iter sim_bench targets w i s = (Inr (), t) \<and> 6 \<le> length (bench_buffer t)"
proof -
  have size: "0 + packed_size sim_weights = 6"
    by (simp add: packed_size_def sim_weights_def nbytes_def numel_def sim_fp16_def)
  have ok: "outcome sim_bench e ev = None" "params sim_bench = sim_weights" for e ev
    by (simp_all add: sim_bench_def)
  define u where "u = s\<lparr>bench_events := bench_events s @ [Pause], ticks := ticks s + 1 + 1\<rparr>"
  have "0 + packed_size sim_weights \<le> length (bench_buffer u)" using assms size by (simp add: u_def)
  note pack = bench_pack_fits [OF sim_bench_laws this, of no_params]
  have "length (vram.put_all 0 (blocks sim_weights) (bench_buffer u)) = length (bench_buffer u)"
    using flattens_size [OF sim_flattens(1)] assms size by (intro vram.cap_put_all) (simp add: u_def)
  then show ?thesis
    using assms pack
    by (simp add: bench_iter_def bench_run_simps ok run_simps u_def record_times_def
        bindE_def [of "bench_pack _ _ _ _"])
qed

theorem bench_samples_witness:
  "\<exists>r t. run_benchmark sim_bench [''10.0.0.2''] ''m'' 0 1 1 (sim_bench_state []) = (Inr r, t)
     \<and> length (br_total_times r) = 1"
proof -
  let ?sz = "buffer_size (trainer_env.truncate sim_bench) 0"
  define s0 where "s0 = sim_bench_state (ctx_buffer sim_bench ?sz)\<lparr>bench_events :=
    [LoadModel ''m'', InitEngine ''bench-weights'' ?sz None, TrainerInit ''bench-weights'' ?sz None [''10.0.0.2'']]\<rparr>"
  have "6 \<le> length (bench_buffer s0)"
    by (simp add: s0_def sim_bench_state_def sim_bench_def buffer_size_def compute_buffer_size_def trainer_env.defs
        sim_weights_def nbytes_def numel_def sim_fp16_def)
  from sim_bench_iter [OF this] obtain s1 where
    1: "bench_iter sim_bench [''10.0.0.2''] 1 0 s0 = (Inr (), s1)" "6 \<le> length (bench_buffer s1)" by blast
  from sim_bench_iter [OF 1(2)] obtain s2 where
    2: "bench_iter sim_bench [''10.0.0.2''] 1 1 s1 = (Inr (), s2)" by blast
  have ok: "outcome sim_bench e ev = None" for e ev by (simp add: sim_bench_def)
  have "for_each (bench_iter sim_bench [''10.0.0.2''] 1) [0..<2] s0 = (Inr (), s2)"
    using 1 2 by (simp add: upt_rec seqE_def bindE_def ret_def)
  then have "\<exists>r. run_benchmark sim_bench [''10.0.0.2''] ''m'' 0 1 1 (sim_bench_state []) = (Inr r, s2)"
    by (simp add: run_benchmark_def Let_def bench_run_simps ok run_simps s0_def sim_bench_state_def
        seqE_def [of "for_each _ _"] bindE_def [of "for_each _ _"] getM_def)
  then obtain r where run: "run_benchmark sim_bench [''10.0.0.2''] ''m'' 0 1 1 (sim_bench_state []) = (Inr r, s2)" ..
  have "mono (clock sim_bench)" by (simp add: sim_bench_def mono_def)
  from bench_samples [OF run _ _ this] run show ?thesis by auto
qed

section \<open>A buffer that is too small\<close>

text \<open>Torch refuses to copy between different lengths, but for a single byte, which it spreads.\<close>

definition refuses_mismatch :: "bench_env \<Rightarrow> bool" where
  "refuses_mismatch B \<longleftrightarrow> (\<forall>a b. length a \<noteq> length b \<and> length b \<noteq> 1 \<longrightarrow> (\<exists>e. copy_into B a b = Inl e))"

lemma bench_pack_overflow:
  assumes "copies_exactly B" "refuses_mismatch B"
    and "bench_flattens B ws" "\<forall>x\<in>set ws. nbytes (snd x) \<noteq> 1"
    and "off \<le> length (bench_buffer s)" "length (bench_buffer s) < off + packed_size ws"
  shows "\<exists>e t. bench_pack B off u ws s = (Inl e, t)"
  using assms(3-)
proof (induction ws arbitrary: off u s)
  case Nil
  then show ?case by (simp add: packed_size_def)
next
  case (Cons x ws)
  let ?n = "nbytes (snd x)" and ?buf = "bench_buffer s"
  have b: "bench_flat B (snd x) = Inr (t_bytes (snd x))" "length (t_bytes (snd x)) = ?n" "bench_flattens B ws"
    using Cons.prems(1) by (auto simp: bench_flattens_def split: prod.splits)
  show ?case
  proof (cases "off + ?n \<le> length ?buf")
    case True
    then have "length (read_at off ?n ?buf) = length (t_bytes (snd x))" using b(2) by (simp add: read_at_def)
    with assms(1) have "copy_into B (read_at off ?n ?buf) (t_bytes (snd x)) = Inr (t_bytes (snd x))"
      by (simp add: copies_exactly_def)
    note step = bench_pack_step [OF b(1) this]
    have "length (write_at off (t_bytes (snd x)) ?buf) = length ?buf" using True b(2) by (intro slice_write(1)) simp
    with Cons.IH [OF b(3), of "off + ?n"] Cons.prems True show ?thesis
      unfolding step by (simp add: packed_size_def)
  next
    case False
    then have "length (read_at off ?n ?buf) \<noteq> length (t_bytes (snd x))"
      using b(2) Cons.prems(3) by (simp add: read_at_def)
    then obtain e where "copy_into B (read_at off ?n ?buf) (t_bytes (snd x)) = Inl e"
      using assms(2) Cons.prems(2) b(2) unfolding refuses_mismatch_def by (metis list.set_intros(1))
    then show ?thesis using b(1) by (simp add: Let_def bindE_def lift_sum_def getM_def)
  qed
qed

text \<open>
  The benchmark has no size check of its own: an iteration on a buffer that is too small stops after
  vLLM was paused, and nothing resumes it.
\<close>

lemma bench_overflow_leaves_paused:
  assumes "copies_exactly B" "refuses_mismatch B" "bench_flattens B (params B)"
    and "\<forall>x\<in>set (params B). nbytes (snd x) \<noteq> 1" "length (bench_buffer s) < packed_size (params B)"
    and "outcome B Pause (bench_events s) = None"
  shows "\<exists>e t. bench_iter B targets w i s = (Inl e, t) \<and> bench_events t = bench_events s @ [Pause]"
proof -
  define u where "u = s\<lparr>bench_events := bench_events s @ [Pause], ticks := ticks s + 1 + 1\<rparr>"
  have "length (bench_buffer u) < 0 + packed_size (params B)" using assms(5) by (simp add: u_def)
  from bench_pack_overflow [OF assms(1-4) _ this, of no_params] obtain e t where
    run: "bench_pack B 0 no_params (params B) u = (Inl e, t)" by auto
  have "bench_events t = bench_events u"
    using bench_pack_keeps [of B 0 no_params "params B" u "[]"] run by simp
  with run assms(6) show ?thesis
    by (simp add: bench_iter_def bench_run_simps u_def bindE_def [of "bench_pack _ _ _ _"])
qed

end
