(* ===== verification/Verl_Client.thy ===== *)
theory Verl_Client
  imports WPI_Client
begin

text \<open>
  The copy of the client library in the verl plugin (\<open>consumer/wpi_verl_plugin/client.py\<close>). Its
  text is that of \<open>consumer/wpi_client/client.py\<close> but for the package of the generated stubs, whose
  tables are equal (theory \<open>Grpc_Properties\<close>), and for \<open>receive_fd\<close>, which asks for device 0
  (\<open>receive_fd_verl\<close> of theory \<open>WPI_Client\<close>). The other methods are therefore the library's.
\<close>

definition verl_find_libcuda ::
  "('g, 'd) cenv \<Rightarrow> exn + string" where
  "verl_find_libcuda = find_libcuda"

definition verl_WPIClient_init ::
  "string \<Rightarrow> string \<Rightarrow> int \<Rightarrow> 'g \<Rightarrow> 'd \<Rightarrow> ('g, 'd) client" where
  "verl_WPIClient_init = WPIClient_init"

definition verl_get_grpc_stub ::
  "('g, 'd) cenv \<Rightarrow> (('g, 'd) client, string) pyM" where
  "verl_get_grpc_stub = get_grpc_stub"

definition verl_stage_weight ::
  "('g, 'd) cenv \<Rightarrow> string \<Rightarrow> int \<Rightarrow> string \<Rightarrow> string \<Rightarrow> int \<Rightarrow> int \<Rightarrow> (('g, 'd) client, unit) pyM" where
  "verl_stage_weight = stage_weight"

definition verl_propagate ::
  "('g, 'd) cenv \<Rightarrow> string \<Rightarrow> string list \<Rightarrow> int \<Rightarrow> ShardAssignment list \<Rightarrow> (('g, 'd) client, unit) pyM" where
  "verl_propagate = propagate"

definition verl_unstage_weight ::
  "('g, 'd) cenv \<Rightarrow> string \<Rightarrow> (('g, 'd) client, unit) pyM" where
  "verl_unstage_weight = unstage_weight"

definition verl_client_buffer_id ::
  "string \<Rightarrow> int \<Rightarrow> int \<Rightarrow> string" where
  "verl_client_buffer_id = client_buffer_id"

definition verl_init_cuda_context ::
  "('g, 'd) cenv \<Rightarrow> int \<Rightarrow> (('g, 'd) client, unit) pyM" where
  "verl_init_cuda_context = init_cuda_context"

definition verl_import_cuda_memory ::
  "('g, 'd) cenv \<Rightarrow> int \<Rightarrow> int \<Rightarrow> int \<Rightarrow> (('g, 'd) client, int) pyM" where
  "verl_import_cuda_memory = import_cuda_memory"

definition verl_wrap_as_buffer ::
  "int \<Rightarrow> int \<Rightarrow> RawCUDATensor" where
  "verl_wrap_as_buffer = wrap_as_buffer"

definition verl_RawCUDATensor :: "int \<Rightarrow> int \<Rightarrow> RawCUDATensor" where
  "verl_RawCUDATensor ptr n = \<lparr>raw_shape = n, raw_typestr = ''|u1'', raw_ptr = ptr, raw_read_only = False, raw_version = 3\<rparr>"

lemma verl_wraps: "verl_wrap_as_buffer ptr n = verl_RawCUDATensor ptr n"
  by (simp add: verl_wrap_as_buffer_def wrap_as_buffer_def verl_RawCUDATensor_def)

definition verl_connect_notify_socket ::
  "('g, 'd) cenv \<Rightarrow> string \<Rightarrow> nat \<Rightarrow> int \<Rightarrow> int \<Rightarrow> (('g, 'd) client, unit) pyM" where
  "verl_connect_notify_socket = connect_notify_socket"

definition verl_wait_for_ready ::
  "string \<Rightarrow> (('g, 'd) client, bool) pyM" where
  "verl_wait_for_ready = wait_for_ready"

definition verl_client_close ::
  "(('g, 'd) client, unit) pyM" where
  "verl_client_close = client_close"

end
