(* ===== verification/Grpc_Properties.thy ===== *)
theory Grpc_Properties
  imports Client_Properties Verl_Client
begin

text \<open>
  From a method of a client to the driver's handler: every method of the node and identity stubs has
  a handler for the same messages, the client's calls run the driver's handlers, and the
  controller service has no handlers at all.
\<close>

section \<open>What the generated code relies on\<close>

definition full_path :: "string \<Rightarrow> string \<Rightarrow> string" where
  "full_path service method = ''/'' @ service @ ''/'' @ method"

definition full_paths :: "string \<Rightarrow> 'g method_handler dict \<Rightarrow> 'g method_handler dict" where
  "full_paths service hs = map (\<lambda>x. (full_path service (fst x), snd x)) hs"

text \<open>
  A new server knows no path; adding the handlers of a service adds the paths
  \<open>/service/method\<close>; a message read as the type it was written as is unchanged.
\<close>

definition grpc_laws :: "('g, 'srv) grpc_lib \<Rightarrow> bool" where
  "grpc_laws L \<longleftrightarrow>
     (\<forall>p. find_handler L (new_server L) p = None)
   \<and> (\<forall>service hs srv p. find_handler L srv p = None \<longrightarrow>
        find_handler L (add_service L service hs srv) p = dget (full_paths service hs) p)
   \<and> (\<forall>service hs srv p. dget (full_paths service hs) p = None \<longrightarrow>
        find_handler L (add_service L service hs srv) p = find_handler L srv p)
   \<and> (\<forall>ty r. request_type r = ty \<longrightarrow> transcode L ty ty r = Inr r)"

lemma grpc_rules:
  assumes "grpc_laws L"
  shows "find_handler L (new_server L) p = None"
    and "find_handler L srv p = None \<Longrightarrow> find_handler L (add_service L svc hs srv) p = dget (full_paths svc hs) p"
    and "dget (full_paths svc hs) p = None \<Longrightarrow> find_handler L (add_service L svc hs srv) p = find_handler L srv p"
    and "request_type r = ty \<Longrightarrow> transcode L ty ty r = Inr r"
  using assms unfolding grpc_laws_def by blast+

section \<open>The registered handlers\<close>

lemma dget_full_paths: "dget (full_paths svc hs) (full_path svc name) = dget hs name"
  by (induction hs) (auto simp: full_paths_def full_path_def)

lemma full_paths_other:
  assumes "\<And>n. p \<noteq> full_path svc n"
  shows "dget (full_paths svc hs) p = None"
  using assms by (induction hs) (auto simp: full_paths_def)

lemma dget_map_entries:
  "dget (map (\<lambda>(n, m). (n, f n m)) xs) name = map_option (f name) (dget xs name)"
  by (induction xs) auto

definition node_handlers :: "'g env \<Rightarrow> 'g method_handler dict" where
  "node_handlers E = map (\<lambda>(name, m). (name, \<lparr>mh_behaviour = the (dget (NodeService_methods E) name),
     mh_request = sm_request m, mh_response = sm_response m\<rparr>)) NodeServiceStub"

definition identity_handlers :: "'g method_handler dict" where
  "identity_handlers = map (\<lambda>(name, m). (name, \<lparr>mh_behaviour = the (dget IdentityService_methods name),
     mh_request = sm_request m, mh_response = sm_response m\<rparr>)) IdentityServiceStub"

lemma register_services_returns:
  "register_services L E = Inr (add_service L ''wpi.v1alpha1.IdentityService'' identity_handlers
     (add_service L ''wpi.v1alpha1.NodeService'' (node_handlers E) (new_server L)))"
  by (simp add: register_services_def add_NodeServiceServicer_to_server_def derives_def NodeService_methods_def
      add_IdentityServiceServicer_to_server_def IdentityService_methods_def node_handlers_def NodeServiceStub_def
      identity_handlers_def IdentityServiceStub_def)

lemma services_differ:
  "full_path ''wpi.v1alpha1.IdentityService'' n \<noteq> full_path ''wpi.v1alpha1.NodeService'' m"
  "full_path ''wpi.v1alpha1.ControllerService'' n \<noteq> full_path ''wpi.v1alpha1.NodeService'' m"
  "full_path ''wpi.v1alpha1.ControllerService'' n \<noteq> full_path ''wpi.v1alpha1.IdentityService'' m"
  by (simp_all add: full_path_def)

lemma served_path:
  fixes L :: "('g, 'srv) grpc_lib"
  assumes "grpc_laws L" "register_services L E = Inr srv"
  shows "find_handler L srv p =
     (case dget (full_paths ''wpi.v1alpha1.NodeService'' (node_handlers E)) p of
        Some h \<Rightarrow> Some h
      | None \<Rightarrow> dget (full_paths ''wpi.v1alpha1.IdentityService'' identity_handlers) p)"
proof -
  let ?n = "full_paths ''wpi.v1alpha1.NodeService'' (node_handlers E)"
    and ?i = "full_paths ''wpi.v1alpha1.IdentityService'' (identity_handlers :: 'g method_handler dict)"
  let ?s = "add_service L ''wpi.v1alpha1.NodeService'' (node_handlers E) (new_server L)"
  have srv: "srv = add_service L ''wpi.v1alpha1.IdentityService'' identity_handlers ?s"
    using assms(2) by (simp add: register_services_returns)
  have s: "find_handler L ?s p = dget ?n p"
    by (rule grpc_rules(2) [OF assms(1) grpc_rules(1) [OF assms(1)]])
  show ?thesis
  proof (cases "dget ?n p")
    case None
    with grpc_rules(2) [OF assms(1)] s show ?thesis by (simp add: srv)
  next
    case (Some h)
    then obtain n where p: "p = full_path ''wpi.v1alpha1.NodeService'' n"
      by (auto simp: full_paths_def dest!: map_of_SomeD)
    have "dget ?i p = None" unfolding p by (rule full_paths_other) (metis services_differ(1))
    with grpc_rules(3) [OF assms(1)] s Some show ?thesis by (simp add: srv)
  qed
qed

text \<open>The three packages declare the same services, and so do their static call interfaces.\<close>

lemma same_stubs:
  "client_NodeServiceStub = NodeServiceStub" "verl_NodeServiceStub = NodeServiceStub"
  "client_IdentityServiceStub = IdentityServiceStub" "verl_IdentityServiceStub = IdentityServiceStub"
  "client_ControllerServiceStub = ControllerServiceStub" "verl_ControllerServiceStub = ControllerServiceStub"
  "NodeService_api = NodeServiceStub" "IdentityService_api = IdentityServiceStub"
  "ControllerService_api = ControllerServiceStub"
  by (simp_all add: client_NodeServiceStub_def verl_NodeServiceStub_def NodeServiceStub_def
      client_IdentityServiceStub_def verl_IdentityServiceStub_def IdentityServiceStub_def
      client_ControllerServiceStub_def verl_ControllerServiceStub_def ControllerServiceStub_def
      NodeService_api_def IdentityService_api_def ControllerService_api_def)

lemma stub_lookup:
  "(name, m) \<in> set NodeServiceStub \<Longrightarrow> dget NodeServiceStub name = Some m"
  "(name, m) \<in> set IdentityServiceStub \<Longrightarrow> dget IdentityServiceStub name = Some m"
proof -
  have "distinct (map fst NodeServiceStub)" "distinct (map fst IdentityServiceStub)"
    by (simp_all add: NodeServiceStub_def IdentityServiceStub_def)
  then show "(name, m) \<in> set NodeServiceStub \<Longrightarrow> dget NodeServiceStub name = Some m"
    "(name, m) \<in> set IdentityServiceStub \<Longrightarrow> dget IdentityServiceStub name = Some m"
    by simp_all
qed

lemma stub_paths:
  "(name, m) \<in> set NodeServiceStub \<Longrightarrow> sm_path m = full_path ''wpi.v1alpha1.NodeService'' name"
  "(name, m) \<in> set IdentityServiceStub \<Longrightarrow> sm_path m = full_path ''wpi.v1alpha1.IdentityService'' name"
  "(name, m) \<in> set ControllerServiceStub \<Longrightarrow> sm_path m = full_path ''wpi.v1alpha1.ControllerService'' name"
  by (auto simp: NodeServiceStub_def IdentityServiceStub_def ControllerServiceStub_def full_path_def)

lemma found_node:
  assumes "grpc_laws L" "register_services L E = Inr srv" "(name, m) \<in> set NodeServiceStub"
  shows "find_handler L srv (sm_path m) = Some \<lparr>mh_behaviour = the (dget (NodeService_methods E) name),
           mh_request = sm_request m, mh_response = sm_response m\<rparr>"
proof -
  have "dget (node_handlers E) name = Some \<lparr>mh_behaviour = the (dget (NodeService_methods E) name),
           mh_request = sm_request m, mh_response = sm_response m\<rparr>"
    using stub_lookup(1) [OF assms(3)] by (simp add: node_handlers_def dget_map_entries)
  with served_path [OF assms(1,2)] stub_paths(1) [OF assms(3)]
    dget_full_paths [of "''wpi.v1alpha1.NodeService''" "node_handlers E" name]
  show ?thesis by simp
qed

lemma found_identity:
  fixes L :: "('g, 'srv) grpc_lib"
  assumes "grpc_laws L" "register_services L E = Inr srv" "(name, m) \<in> set IdentityServiceStub"
  shows "find_handler L srv (sm_path m) = Some \<lparr>mh_behaviour = the (dget IdentityService_methods name),
           mh_request = sm_request m, mh_response = sm_response m\<rparr>"
proof -
  have "dget (identity_handlers :: 'g method_handler dict) name = Some \<lparr>mh_behaviour = the (dget IdentityService_methods name),
           mh_request = sm_request m, mh_response = sm_response m\<rparr>"
    using stub_lookup(2) [OF assms(3)] by (simp add: identity_handlers_def dget_map_entries)
  moreover have "dget (full_paths ''wpi.v1alpha1.NodeService'' (node_handlers E)) (sm_path m) = None"
    by (rule full_paths_other) (simp add: stub_paths(2) [OF assms(3)] services_differ)
  ultimately show ?thesis
    using served_path [OF assms(1,2)] stub_paths(2) [OF assms(3)]
      dget_full_paths [of "''wpi.v1alpha1.IdentityService''" "identity_handlers :: 'g method_handler dict" name] by simp
qed

text \<open>The driver's methods answer a request of their type with a response of theirs.\<close>

lemma node_method_typed:
  assumes "(name, m) \<in> set NodeServiceStub" "request_type r = sm_request m"
    and "the (dget (NodeService_methods E) name) r s = (Inr y, t)"
  shows "response_type y = sm_response m"
  using assms by (auto simp: NodeServiceStub_def NodeService_methods_def bindE_ret_returns no_field_def
      split: wpi_request.splits)

lemma identity_method_typed:
  assumes "(name, m) \<in> set IdentityServiceStub" "the (dget IdentityService_methods name) r s = (Inr y, t)"
  shows "response_type y = sm_response m"
  using assms by (auto simp: IdentityServiceStub_def IdentityService_methods_def)

text \<open>C19. The services are well typed: on a server that \<open>serve\<close> has set up, every method of the
  node and identity stubs, of all three generated packages and of the static call interface, has
  a handler that reads and writes the message types the stub writes and reads, and what the driver
  returns for a request of that type is a response of that type.\<close>

theorem rpc_types_agree:
  assumes "grpc_laws L" "register_services L E = Inr srv"
    and "stub \<in> {NodeServiceStub, client_NodeServiceStub, verl_NodeServiceStub, NodeService_api,
                  IdentityServiceStub, client_IdentityServiceStub, verl_IdentityServiceStub, IdentityService_api}"
    and "(name, m) \<in> set stub"
  shows "\<exists>h. find_handler L srv (sm_path m) = Some h \<and> mh_request h = sm_request m \<and> mh_response h = sm_response m
     \<and> (\<forall>r s y t. request_type r = sm_request m \<longrightarrow> mh_behaviour h r s = (Inr y, t) \<longrightarrow>
           response_type y = sm_response m)"
proof -
  consider "(name, m) \<in> set NodeServiceStub" | "(name, m) \<in> set IdentityServiceStub"
    using assms(3,4) by (auto simp: same_stubs)
  then show ?thesis
  proof cases
    case 1
    from found_node [OF assms(1,2) 1] node_method_typed [OF 1] show ?thesis by simp blast
  next
    case 2
    from found_identity [OF assms(1,2) 2] identity_method_typed [OF 2] show ?thesis by simp blast
  qed
qed

section \<open>A concrete server\<close>

definition sim_grpc :: "('g, 'g method_handler dict) grpc_lib" where
  "sim_grpc = \<lparr>new_server = [], add_generic_rpc_handlers = (\<lambda>_ _ s. s),
     add_registered_method_handlers = (\<lambda>service hs s. s @ full_paths service hs), find_handler = dget,
     transcode = (\<lambda>_ _ r. Inr r), error_details = exn_str\<rparr>"

lemma sim_grpc_laws: "grpc_laws sim_grpc"
  by (auto simp: grpc_laws_def sim_grpc_def add_service_def map_add_def split: option.splits)

theorem rpc_types_agree_witness:
  "\<exists>srv h. register_services sim_grpc sim_env = Inr srv
     \<and> find_handler sim_grpc srv ''/wpi.v1alpha1.NodeService/NodePropagate'' = Some h
     \<and> mh_request h = ''NodePropagateRequest'' \<and> mh_response h = ''NodePropagateResponse''"
proof -
  obtain srv where srv: "register_services sim_grpc sim_env = Inr srv"
    by (simp add: register_services_returns)
  let ?m = "\<lparr>sm_path = ''/wpi.v1alpha1.NodeService/NodePropagate'', sm_request = ''NodePropagateRequest'',
             sm_response = ''NodePropagateResponse''\<rparr>"
  have "(''NodePropagate'', ?m) \<in> set client_NodeServiceStub" by (simp add: client_NodeServiceStub_def)
  from rpc_types_agree [OF sim_grpc_laws srv _ this] srv show ?thesis by auto
qed

section \<open>Calls of the client\<close>

lemma stub_call_node:
  assumes "grpc_laws L" "register_services L E = Inr srv" "(name, m) \<in> set NodeServiceStub"
    and "request_type r = sm_request m"
  shows "stub_call L srv client_NodeServiceStub name r = run_handler L (the (dget (NodeService_methods E) name)) r"
proof -
  have "transcode L (sm_request m) (sm_request m) r = Inr r" by (rule grpc_rules(4) [OF assms(1,4)])
  then show ?thesis
    using found_node [OF assms(1-3)] assms(4) stub_lookup(1) [OF assms(3)]
    by (simp add: stub_call_def same_stubs bindE_def lift_sum_def fun_eq_iff)
qed

text \<open>The three methods the client calls, in an environment wired to a server.\<close>

definition rpc_outcome :: "(exn + wpi_response) \<times> 'd \<Rightarrow> exn option \<times> 'd" where
  "rpc_outcome x = (case x of (Inl e, d) \<Rightarrow> (Some e, d) | (Inr _, d) \<Rightarrow> (None, d))"

definition wired :: "('g, 'srv) grpc_lib \<Rightarrow> 'srv \<Rightarrow> ('c, 'g driver) cenv \<Rightarrow> ('c, 'g driver) cenv" where
  "wired L srv E =
     E\<lparr>rpc_stage := \<lambda>_ q d. rpc_outcome (stub_call L srv client_NodeServiceStub ''NodeStageWeight'' (StageRq q) d),
       rpc_propagate := \<lambda>_ q d. rpc_outcome (stub_call L srv client_NodeServiceStub ''NodePropagate'' (PropagateRq q) d),
       rpc_unstage := \<lambda>_ c d. rpc_outcome (stub_call L srv client_NodeServiceStub ''NodeUnstageWeight'' (UnstageRq c) d)\<rparr>"

text \<open>The status log of the driver only grows, so that a failing handler's status is its own.\<close>

definition logged :: "(status \<times> string) list \<Rightarrow> 'g driver \<Rightarrow> bool" where
  "logged A s \<longleftrightarrow> prefix A (aborts s)"

lemma logged_rules:
  "keeps (logged A) (on_alloc m)" "keeps (logged A) (emit ev)" "keeps (logged A) (sendall E c b)"
  "keeps (logged A) (nccl E op)" "keeps (logged A) (use_gpu E g)" "keeps (logged A) (put_buffer k i)"
  "keeps (logged A) (pop_buffer k)" "keeps (logged A) (abort E st msg)"
  by (auto simp: logged_def put_buffer_def pop_buffer_def abort_def
      intro!: keeps_on_alloc keeps_emit keeps_sendall keeps_nccl keeps_use_gpu keeps_modifyM keeps_intro)

lemma logged_notify: "keeps (logged A) (notify_consumers E k msg)"
  by (rule keepsI) (auto simp: notify_consumers_effect logged_def Let_def split: option.splits)

lemma logged_connect_all: "keeps (logged A) (connect_all E msg r xs)"
  by (induction xs arbitrary: r) (auto simp: connect_target_def intro!: keeps_intro logged_rules)

lemma logged_nccl_destroy: "keeps (logged A) (nccl_destroy E)"
  unfolding nccl_destroy_def
proof (rule keeps_try)
  show "keeps (logged A) (case e of AttributeError _ \<Rightarrow> ret () | _ \<Rightarrow> raise_exn e)" for e
    by (cases e) (simp_all add: keeps_ret keeps_raise)
qed (rule logged_rules)

lemma logged_propagate: "keeps (logged A) (propagate_body E req)"
  unfolding propagate_body_def propagate_work_def send_pre_update_signal_def
  by (auto intro!: keeps_intro logged_rules logged_notify logged_connect_all logged_nccl_destroy
      split: option.splits)

lemma logged_release: "keeps (logged A) (release_claim E b info)"
  unfolding release_claim_def free_one_def Let_def
  by (auto intro!: keeps_intro logged_rules split: option.splits prod.splits)

lemma logged_copy: "keeps (logged A) (copy_tensors E base off ts)"
  by (induction ts arbitrary: off) (auto simp: Let_def intro!: keeps_intro logged_rules)

lemma logged_stage_new: "keeps (logged A) (stage_new E req)"
  unfolding stage_new_def stage_load_def load_safetensors_def start_servers_def Let_def
  by (auto intro!: keeps_intro logged_rules logged_copy split: option.splits)

text \<open>A handler whose outermost \<open>except\<close> aborts with INTERNAL fails with INTERNAL.\<close>

lemma fails_internal:
  assumes "keeps (logged (aborts s)) m" "try_except m (\<lambda>e. abort E INTERNAL (f e)) s = (Inl x, t)"
  shows "aborts t \<noteq> aborts s \<and> fst (last (aborts t)) = INTERNAL"
proof -
  from assms(2) obtain e u where u: "m s = (Inl e, u)" "aborts t = aborts u @ [(INTERNAL, f e)]"
    by (auto simp: try_except_def abort_def seqE_def bindE_def modifyM_def raise_exn_def
        split: prod.splits sum.splits)
  from keepsD [OF assms(1), of s] u(1) have "prefix (aborts s) (aborts u)" by (simp add: logged_def)
  then show ?thesis using u(2) by (auto simp: prefix_def)
qed

lemma logged_claims: "keeps (logged A) (modifyM (\<lambda>s. s\<lparr>KNOWN_CLAIMS := f s\<rparr>))"
  by (rule keeps_modifyM) (simp add: logged_def)

lemma handlers_fail_internal:
  "NodeStageWeight E q s = (Inl x, t) \<Longrightarrow> aborts t \<noteq> aborts s \<and> fst (last (aborts t)) = INTERNAL"
  "NodePropagate E p s = (Inl x, t) \<Longrightarrow> aborts t \<noteq> aborts s \<and> fst (last (aborts t)) = INTERNAL"
  "NodeUnstageWeight E c s = (Inl x, t) \<Longrightarrow> aborts t \<noteq> aborts s \<and> fst (last (aborts t)) = INTERNAL"
  subgoal
    unfolding NodeStageWeight_def stage_again_def
    by (erule fails_internal [rotated])
       (auto intro!: keeps_intro logged_rules logged_stage_new logged_claims split: option.splits)
  subgoal
    unfolding NodePropagate_def by (erule fails_internal [rotated]) (rule logged_propagate)
  subgoal
    unfolding NodeUnstageWeight_def
    by (erule fails_internal [rotated])
       (auto intro!: keeps_intro logged_rules logged_release logged_claims split: option.splits)
  done

lemma rpc_runs_handler:
  assumes "\<And>x t. h s = (Inl x, t) \<Longrightarrow> aborts t \<noteq> aborts s \<and> fst (last (aborts t)) = INTERNAL"
  shows "\<exists>m. rpc_outcome (run_handler L (\<lambda>_. bindE h (\<lambda>_. ret y)) r s) =
     (case fst (h s) of Inl _ \<Rightarrow> Some (RpcError ''INTERNAL'' m) | Inr _ \<Rightarrow> None, snd (h s))"
  using assms
  by (cases "h s"; cases "fst (h s)")
     (auto simp: rpc_outcome_def run_handler_def bindE_def ret_def)

lemma node_methods:
  "the (dget (NodeService_methods E) ''NodeStageWeight'') (StageRq q) = bindE (NodeStageWeight E q) (\<lambda>_. ret StageRs)"
  "the (dget (NodeService_methods E) ''NodePropagate'') (PropagateRq p) = bindE (NodePropagate E p) (\<lambda>_. ret PropagateRs)"
  "the (dget (NodeService_methods E) ''NodeUnstageWeight'') (UnstageRq c) = bindE (NodeUnstageWeight E c) (\<lambda>_. ret UnstageRs)"
  by (simp_all add: NodeService_methods_def)

lemma stub_call_runs:
  assumes "grpc_laws L" "register_services L D = Inr srv" "dget NodeServiceStub name = Some m"
    and "request_type r = sm_request m" "the (dget (NodeService_methods D) name) r = k"
  shows "stub_call L srv client_NodeServiceStub name r = run_handler L (\<lambda>_. k) r"
  using stub_call_node [OF assms(1,2) map_of_SomeD [OF assms(3)] assms(4)] assms(5)
  by (simp add: run_handler_def)

lemma wired_calls:
  assumes "grpc_laws L" "register_services L D = Inr srv"
  shows "\<exists>m. rpc_stage (wired L srv E) tgt q d =
     (case fst (NodeStageWeight D q d) of Inl _ \<Rightarrow> Some (RpcError ''INTERNAL'' m) | Inr _ \<Rightarrow> None, snd (NodeStageWeight D q d))"
    and "\<exists>m. rpc_propagate (wired L srv E) tgt p d =
     (case fst (NodePropagate D p d) of Inl _ \<Rightarrow> Some (RpcError ''INTERNAL'' m) | Inr _ \<Rightarrow> None, snd (NodePropagate D p d))"
    and "\<exists>m. rpc_unstage (wired L srv E) tgt c d =
     (case fst (NodeUnstageWeight D c d) of Inl _ \<Rightarrow> Some (RpcError ''INTERNAL'' m) | Inr _ \<Rightarrow> None, snd (NodeUnstageWeight D c d))"
proof -
  have "stub_call L srv client_NodeServiceStub ''NodeStageWeight'' (StageRq q)
      = run_handler L (\<lambda>_. bindE (NodeStageWeight D q) (\<lambda>_. ret StageRs)) (StageRq q)"
    by (rule stub_call_runs [OF assms _ _ node_methods(1)], simp add: NodeServiceStub_def, simp)
  then show "\<exists>m. rpc_stage (wired L srv E) tgt q d =
     (case fst (NodeStageWeight D q d) of Inl _ \<Rightarrow> Some (RpcError ''INTERNAL'' m) | Inr _ \<Rightarrow> None, snd (NodeStageWeight D q d))"
    using rpc_runs_handler [OF handlers_fail_internal(1)] by (simp add: wired_def)
  have "stub_call L srv client_NodeServiceStub ''NodePropagate'' (PropagateRq p)
      = run_handler L (\<lambda>_. bindE (NodePropagate D p) (\<lambda>_. ret PropagateRs)) (PropagateRq p)"
    by (rule stub_call_runs [OF assms _ _ node_methods(2)], simp add: NodeServiceStub_def, simp)
  then show "\<exists>m. rpc_propagate (wired L srv E) tgt p d =
     (case fst (NodePropagate D p d) of Inl _ \<Rightarrow> Some (RpcError ''INTERNAL'' m) | Inr _ \<Rightarrow> None, snd (NodePropagate D p d))"
    using rpc_runs_handler [OF handlers_fail_internal(2)] by (simp add: wired_def)
  have "stub_call L srv client_NodeServiceStub ''NodeUnstageWeight'' (UnstageRq c)
      = run_handler L (\<lambda>_. bindE (NodeUnstageWeight D c) (\<lambda>_. ret UnstageRs)) (UnstageRq c)"
    by (rule stub_call_runs [OF assms _ _ node_methods(3)], simp add: NodeServiceStub_def, simp)
  then show "\<exists>m. rpc_unstage (wired L srv E) tgt c d =
     (case fst (NodeUnstageWeight D c d) of Inl _ \<Rightarrow> Some (RpcError ''INTERNAL'' m) | Inr _ \<Rightarrow> None, snd (NodeUnstageWeight D c d))"
    using rpc_runs_handler [OF handlers_fail_internal(3)] by (simp add: wired_def)
qed

lemma remote_call:
  assumes "f (remote s) = (case o_err of Inl _ \<Rightarrow> Some x | Inr _ \<Rightarrow> None, d)" "remote u = remote s"
  shows "remote (snd (on_remote f u)) = d"
    and "fst (on_remote f u) = (case o_err of Inl _ \<Rightarrow> Inl x | Inr _ \<Rightarrow> Inr ())"
  using assms by (auto simp: on_remote_def py_simps split: sum.splits)

lemma wired_propagate:
  fixes s :: "('c, 'g driver) client"
  assumes "grpc_laws L" "register_services L D = Inr srv"
  shows "\<exists>m. propagate (wired L srv E) b targets mode assignments s =
     (case NodePropagate D \<lparr>prop_buffer_id = b, target_node_ids = targets, prop_mode = mode, shard_assignments = assignments\<rparr> (remote s) of
        (Inl _, d) \<Rightarrow> (Inl (RpcError ''INTERNAL'' m), snd (propagate (wired L srv E) b targets mode assignments s))
      | (Inr _, d) \<Rightarrow> (Inr (), snd (propagate (wired L srv E) b targets mode assignments s)))
   \<and> remote (snd (propagate (wired L srv E) b targets mode assignments s))
       = snd (NodePropagate D \<lparr>prop_buffer_id = b, target_node_ids = targets, prop_mode = mode, shard_assignments = assignments\<rparr> (remote s))"
proof -
  let ?p = "\<lparr>prop_buffer_id = b, target_node_ids = targets, prop_mode = mode, shard_assignments = assignments\<rparr>"
  obtain tgt u where u: "get_grpc_stub (wired L srv E) s = (Inr tgt, u)" "remote u = remote s"
    using get_grpc_stub_remote [of "wired L srv E" s] by blast
  obtain m where m: "rpc_propagate (wired L srv E) tgt ?p (remote s) =
      (case fst (NodePropagate D ?p (remote s)) of Inl _ \<Rightarrow> Some (RpcError ''INTERNAL'' m) | Inr _ \<Rightarrow> None,
       snd (NodePropagate D ?p (remote s)))" using wired_calls(2) [OF assms] by blast
  have "propagate (wired L srv E) b targets mode assignments s = on_remote (rpc_propagate (wired L srv E) tgt ?p) u"
    using u(1) by (simp add: propagate_def bindE_def)
  with remote_call [of "rpc_propagate (wired L srv E) tgt ?p", OF m u(2)] show ?thesis
    by (intro exI [of _ m]) (auto simp: prod_eq_iff split: prod.splits sum.splits)
qed

text \<open>C18. A client on a driver that \<open>serve\<close> has set up: staging, propagating and releasing
  through the client run exactly the driver's handler on the driver's state. The last two
  raise INTERNAL precisely when the handler failed and return otherwise; staging is the
  composition that the caller of \<open>stage_weight\<close> cannot see fail.\<close>

theorem client_calls_reach_driver:
  fixes s :: "('c, 'g driver) client"
  assumes "grpc_laws L" "register_services L D = Inr srv" "C = wired L srv E"
    and "p = \<lparr>prop_buffer_id = b, target_node_ids = targets, prop_mode = mode, shard_assignments = assignments\<rparr>"
  shows "serves_stage C D
     \<and> remote (snd (propagate C b targets mode assignments s)) = snd (NodePropagate D p (remote s))
     \<and> (\<exists>m. fst (propagate C b targets mode assignments s) =
          (case fst (NodePropagate D p (remote s)) of Inl _ \<Rightarrow> Inl (RpcError ''INTERNAL'' m) | Inr _ \<Rightarrow> Inr ()))
     \<and> remote (snd (unstage_weight C claim s)) = snd (NodeUnstageWeight D claim (remote s))
     \<and> (\<exists>m. fst (unstage_weight C claim s) =
          (case fst (NodeUnstageWeight D claim (remote s)) of Inl _ \<Rightarrow> Inl (RpcError ''INTERNAL'' m) | Inr _ \<Rightarrow> Inr ()))"
proof -
  note calls = wired_calls [OF assms(1,2), of E, folded assms(3)]
  obtain tgt u where u: "get_grpc_stub C s = (Inr tgt, u)" "remote u = remote s"
    using get_grpc_stub_remote [of C s] by blast
  have "serves_stage C D"
    unfolding serves_stage_def
  proof (intro allI)
    fix tgt q d
    obtain m where "rpc_stage C tgt q d = (case fst (NodeStageWeight D q d) of Inl _ \<Rightarrow> Some (RpcError ''INTERNAL'' m)
        | Inr _ \<Rightarrow> None, snd (NodeStageWeight D q d))" using calls(1) by blast
    with handlers_fail_internal(1) [of D q d] show "snd (rpc_stage C tgt q d) = snd (NodeStageWeight D q d)
        \<and> (case fst (NodeStageWeight D q d) of
             Inr _ \<Rightarrow> fst (rpc_stage C tgt q d) = None
           | Inl _ \<Rightarrow> (\<exists>m. fst (rpc_stage C tgt q d) =
               Some (RpcError (status_name (fst (last (aborts (snd (NodeStageWeight D q d)))))) m)))"
      by (cases "NodeStageWeight D q d") (auto split: sum.splits)
  qed
  moreover obtain m where m: "rpc_propagate C tgt p (remote s) =
      (case fst (NodePropagate D p (remote s)) of Inl _ \<Rightarrow> Some (RpcError ''INTERNAL'' m) | Inr _ \<Rightarrow> None,
       snd (NodePropagate D p (remote s)))" using calls(2) by blast
  moreover obtain m' where m': "rpc_unstage C tgt claim (remote s) =
      (case fst (NodeUnstageWeight D claim (remote s)) of Inl _ \<Rightarrow> Some (RpcError ''INTERNAL'' m') | Inr _ \<Rightarrow> None,
       snd (NodeUnstageWeight D claim (remote s)))" using calls(3) by blast
  have "propagate C b targets mode assignments s = on_remote (rpc_propagate C tgt p) u"
    "unstage_weight C claim s = on_remote (rpc_unstage C tgt claim) u"
    using u(1) by (simp_all add: propagate_def unstage_weight_def bindE_def assms(4))
  ultimately show ?thesis
    using remote_call [of "rpc_propagate C tgt p", OF m u(2)] remote_call [of "rpc_unstage C tgt claim", OF m' u(2)]
    by auto
qed

theorem client_calls_reach_driver_witness:
  "\<exists>srv. register_services sim_grpc sim_env = Inr srv
     \<and> remote (snd (unstage_weight (wired sim_grpc srv sim_cenv) ''c1'' sim_client))
         = snd (NodeUnstageWeight sim_env ''c1'' (remote sim_client))"
proof -
  obtain srv where srv: "register_services sim_grpc sim_env = Inr srv"
    by (simp add: register_services_returns)
  from client_calls_reach_driver [OF sim_grpc_laws srv refl refl] srv show ?thesis by blast
qed

text \<open>The controller service is declared but not served: every method of its stubs is
  answered with UNIMPLEMENTED and leaves the driver as it was.\<close>

theorem controller_unimplemented:
  assumes "grpc_laws L" "register_services L E = Inr srv"
    and "stub \<in> {ControllerServiceStub, client_ControllerServiceStub, verl_ControllerServiceStub, ControllerService_api}"
    and "(name, m) \<in> set stub" "request_type r = sm_request m"
  shows "stub_call L srv stub name r s = (Inl (RpcError ''UNIMPLEMENTED'' ''Method not found!''), s)"
proof -
  have st: "stub = ControllerServiceStub" using assms(3) by (auto simp: same_stubs)
  with assms(4) have m: "(name, m) \<in> set ControllerServiceStub" by simp
  have "distinct (map fst ControllerServiceStub)" by (simp add: ControllerServiceStub_def)
  with m have "dget ControllerServiceStub name = Some m" by simp
  moreover have "find_handler L srv (sm_path m) = None"
    unfolding served_path [OF assms(1,2)] stub_paths(3) [OF m]
    by (simp add: full_paths_other services_differ)
  ultimately show ?thesis
    using assms(5) by (simp add: stub_call_def st raise_exn_def)
qed

theorem controller_unimplemented_witness:
  "\<exists>srv. register_services sim_grpc sim_env = Inr srv
     \<and> stub_call sim_grpc srv client_ControllerServiceStub ''QueryTopology'' QueryTopologyRq sim_start
         = (Inl (RpcError ''UNIMPLEMENTED'' ''Method not found!''), sim_start)"
proof -
  obtain srv where srv: "register_services sim_grpc sim_env = Inr srv"
    by (simp add: register_services_returns)
  let ?m = "\<lparr>sm_path = ''/wpi.v1alpha1.ControllerService/QueryTopology'', sm_request = ''QueryTopologyRequest'',
             sm_response = ''QueryTopologyResponse''\<rparr>"
  have "(''QueryTopology'', ?m) \<in> set client_ControllerServiceStub" by (simp add: client_ControllerServiceStub_def)
  from controller_unimplemented [OF sim_grpc_laws srv _ this, of QueryTopologyRq sim_start] srv
  show ?thesis by auto
qed

end
