(* ===== verification/Nccl_Benchmarks.thy ===== *)
theory Nccl_Benchmarks
  imports Driver_State Complex_Main
begin

text \<open>
  The point-to-point benchmarks of the driver: \<open>driver/bench_src.py\<close> and \<open>bench_tgt.py\<close>, two
  processes that agree on the NCCL identifier through a text file, and
  \<open>driver/benchmark_nccl_20gb.py\<close>, which starts both sides itself. A script is a computation on the
  list of its steps, any of which may raise; the NCCL operations among them are given as lists, which
  is what the two sides have to agree on.
\<close>

section \<open>The identifier file\<close>

text \<open>\<open>','.join(...)\<close>.\<close>

fun join_with :: "char \<Rightarrow> string list \<Rightarrow> string" where
  "join_with c [] = []"
| "join_with c [x] = x"
| "join_with c (x # y # ys) = x @ c # join_with c (y # ys)"

definition write_id_file :: "int list \<Rightarrow> string" where
  "write_id_file ids = join_with (CHR '','') (map str_int ids)"

text \<open>\<open>bytes(int(x) for x in parts)\<close>: the first part that is no number, or no byte, raises.\<close>

fun bytes_of_parts :: "string list \<Rightarrow> exn + bytes" where
  "bytes_of_parts [] = Inr []"
| "bytes_of_parts (p # ps) =
     bindS (py_int p) (\<lambda>i.
       if 0 \<le> i \<and> i < 256 then bindS (bytes_of_parts ps) (\<lambda>bs. Inr (char_of (nat i) # bs))
       else Inl (ValueError ''bytes must be in range(0, 256)''))"

definition read_id_file :: "string \<Rightarrow> exn + bytes" where
  "read_id_file txt = bytes_of_parts (split_all (CHR '','') (strip txt))"

section \<open>The operations\<close>

definition bench_bytes :: int where
  "bench_bytes = 20 * 1024 * 1024 * 1024"

definition bench_src :: "bytes \<Rightarrow> int \<Rightarrow> nccl_op list" where
  "bench_src nid ptr = [NcclInit 2 nid 0, NcclSend ptr 1 1, NcclSend ptr (bench_bytes div 2) 1]"

definition bench_tgt :: "string \<Rightarrow> int \<Rightarrow> exn + nccl_op list" where
  "bench_tgt txt ptr = bindS (read_id_file txt) (\<lambda>nid.
     Inr [NcclInit 2 nid 1, NcclRecv ptr 1 0, NcclRecv ptr (bench_bytes div 2) 0])"

definition local_bytes :: int where
  "local_bytes = 18 * 1024 * 1024 * 1024"

definition run_source :: "bytes \<Rightarrow> int \<Rightarrow> nccl_op list" where
  "run_source nid ptr = [NcclInit 2 nid 0, NcclSend ptr 1 1, NcclSend ptr (local_bytes div 2) 1]"

definition run_target :: "bytes \<Rightarrow> int \<Rightarrow> nccl_op list" where
  "run_target nid ptr = [NcclInit 2 nid 1, NcclRecv ptr 1 0, NcclRecv ptr (local_bytes div 2) 0]"

text \<open>
  The two scripts: the target first waits for the identifier file, whose content may depend on the
  moment of the read, and \<open>benchmark_nccl_20gb.py\<close> starts its target before its source.
\<close>

definition bench_tgt_main :: "(nat \<Rightarrow> bool) \<Rightarrow> (nat \<Rightarrow> string) \<Rightarrow> int \<Rightarrow> (exn + nccl_op list) option" where
  "bench_tgt_main exists content ptr = map_option (\<lambda>n. bench_tgt (content n) ptr) (poll_until exists 0)"

datatype bench_process = RunTarget bytes | RunSource bytes

datatype process_event = Started bench_process | Joined bench_process

definition bench_main :: "bytes \<Rightarrow> process_event list" where
  "bench_main nid = [Started (RunTarget nid), Started (RunSource nid), Joined (RunTarget nid), Joined (RunSource nid)]"

definition process_ops :: "int \<Rightarrow> bench_process \<Rightarrow> nccl_op list" where
  "process_ops ptr p = (case p of RunTarget nid \<Rightarrow> run_target nid ptr | RunSource nid \<Rightarrow> run_source nid ptr)"

section \<open>The scripts with all their steps\<close>

text \<open>
  The device, the array and the timing around the operations. \<open>step_err\<close> tells from the steps
  before whether a step raises, \<open>wall_clock\<close> the value of \<open>time.time()\<close> by the number of steps
  made, \<open>array_ptr\<close> the address of the allocated array.
\<close>

datatype bench_step =
    UseDevice nat | GetUniqueId | WriteId string | AllocZeros int | Nccl nccl_op | Synchronize nat | Report rat rat

record nccl_env =
  step_err :: "bench_step \<Rightarrow> bench_step list \<Rightarrow> exn option"
  wall_clock :: "nat \<Rightarrow> rat"
  array_ptr :: int

definition bstep :: "nccl_env \<Rightarrow> bench_step \<Rightarrow> (bench_step list, unit) pyM" where
  "bstep E e = (\<lambda>l. seqE (modifyM (\<lambda>l. l @ [e])) (may_raise (step_err E e l)) l)"

text \<open>\<open>bandwidth = (size_bytes / (1024**3)) / duration\<close>, which raises when no time has passed.\<close>

definition report_bandwidth :: "nccl_env \<Rightarrow> int \<Rightarrow> rat \<Rightarrow> (bench_step list, unit) pyM" where
  "report_bandwidth E sz duration =
     (if duration = 0 then raise_exn (ZeroDivisionError ''float division by zero'')
      else bstep E (Report duration (of_int sz / 1024 ^ 3 / duration)))"

text \<open>What every side does: open the communicator, allocate, warm up, transfer and report.\<close>

definition timed_side :: "nccl_env \<Rightarrow> nat \<Rightarrow> int \<Rightarrow> nccl_op \<Rightarrow> nccl_op \<Rightarrow> nccl_op \<Rightarrow> (bench_step list, unit) pyM" where
  "timed_side E dev sz init warmup transfer =
     seqE (bstep E (Nccl init)) (
     seqE (bstep E (AllocZeros (sz div 2))) (
     seqE (bstep E (Nccl warmup)) (
     seqE (bstep E (Synchronize dev)) (
     bindE (getM (\<lambda>l. wall_clock E (length l))) (\<lambda>start_time.
     seqE (bstep E (Nccl transfer)) (
     seqE (bstep E (Synchronize dev)) (
     bindE (getM (\<lambda>l. wall_clock E (length l))) (\<lambda>end_time.
     report_bandwidth E sz (end_time - start_time)))))))))"

definition bench_src_script :: "nccl_env \<Rightarrow> int list \<Rightarrow> bytes \<Rightarrow> (bench_step list, unit) pyM" where
  "bench_src_script E ids nid =
     seqE (bstep E (UseDevice 0)) (
     seqE (bstep E GetUniqueId) (
     seqE (bstep E (WriteId (write_id_file ids)))
          (timed_side E 0 bench_bytes (NcclInit 2 nid 0) (NcclSend (array_ptr E) 1 1)
             (NcclSend (array_ptr E) (bench_bytes div 2) 1))))"

definition bench_tgt_script :: "nccl_env \<Rightarrow> string \<Rightarrow> (bench_step list, unit) pyM" where
  "bench_tgt_script E txt =
     seqE (bstep E (UseDevice 1)) (
     bindE (lift_sum (read_id_file txt)) (\<lambda>nid.
       timed_side E 1 bench_bytes (NcclInit 2 nid 1) (NcclRecv (array_ptr E) 1 0)
         (NcclRecv (array_ptr E) (bench_bytes div 2) 0)))"

definition run_source_script :: "nccl_env \<Rightarrow> bytes \<Rightarrow> (bench_step list, unit) pyM" where
  "run_source_script E nid =
     seqE (bstep E (UseDevice 0))
          (timed_side E 0 local_bytes (NcclInit 2 nid 0) (NcclSend (array_ptr E) 1 1)
             (NcclSend (array_ptr E) (local_bytes div 2) 1))"

definition run_target_script :: "nccl_env \<Rightarrow> bytes \<Rightarrow> (bench_step list, unit) pyM" where
  "run_target_script E nid =
     seqE (bstep E (UseDevice 0))
          (timed_side E 0 local_bytes (NcclInit 2 nid 1) (NcclRecv (array_ptr E) 1 0)
             (NcclRecv (array_ptr E) (local_bytes div 2) 0))"

fun nccl_ops :: "bench_step list \<Rightarrow> nccl_op list" where
  "nccl_ops [] = []"
| "nccl_ops (Nccl op # l) = op # nccl_ops l"
| "nccl_ops (_ # l) = nccl_ops l"

lemma nccl_ops_append [simp]: "nccl_ops (a @ b) = nccl_ops a @ nccl_ops b"
  by (induction a rule: nccl_ops.induct) simp_all

lemma bstep_returns [simp]: "bstep E e l = (Inr u, m) \<longleftrightarrow> step_err E e l = None \<and> m = l @ [e]"
  by (auto simp: bstep_def seqE_def bindE_def modifyM_def may_raise_def ret_def raise_exn_def split: option.splits)

lemma report_returns:
  "report_bandwidth E sz d l = (Inr u, m) \<longleftrightarrow>
     d \<noteq> 0 \<and> step_err E (Report d (of_int sz / 1024 ^ 3 / d)) l = None \<and> m = l @ [Report d (of_int sz / 1024 ^ 3 / d)]"
  by (simp add: report_bandwidth_def)

text \<open>
  A side that returns has made its three operations in order, each transfer followed by a
  synchronization, and reports the bandwidth of a positive or negative, never of no duration.
\<close>

lemma timed_side_returns:
  assumes "timed_side E dev sz init warmup transfer l = (Inr u, m)"
  obtains d where "d \<noteq> 0" "m = l @ [Nccl init, AllocZeros (sz div 2), Nccl warmup, Synchronize dev, Nccl transfer,
      Synchronize dev, Report d (of_int sz / 1024 ^ 3 / d)]"
    "d = wall_clock E (length l + 6) - wall_clock E (length l + 4)"
proof -
  let ?l = "l @ [Nccl init, AllocZeros (sz div 2), Nccl warmup, Synchronize dev, Nccl transfer, Synchronize dev]"
  let ?d = "wall_clock E (length l + 6) - wall_clock E (length l + 4)"
  have "report_bandwidth E sz ?d ?l = (Inr u, m)"
    using assms by (simp add: timed_side_def seqE_returns_iff bindE_returns_iff eval_nat_numeral)
  then have "?d \<noteq> 0" "m = ?l @ [Report ?d (of_int sz / 1024 ^ 3 / ?d)]"
    by (auto simp only: report_returns)
  then show thesis by (intro that [of ?d]) simp_all
qed

lemma scripts_make_ops:
  "bench_src_script E ids nid [] = (Inr u, l) \<Longrightarrow> nccl_ops l = bench_src nid (array_ptr E)"
  "bench_tgt_script E txt [] = (Inr u, l) \<Longrightarrow> bench_tgt txt (array_ptr E) = Inr (nccl_ops l)"
  "run_source_script E nid [] = (Inr u, l) \<Longrightarrow> nccl_ops l = run_source nid (array_ptr E)"
  "run_target_script E nid [] = (Inr u, l) \<Longrightarrow> nccl_ops l = run_target nid (array_ptr E)"
  by (auto simp: bench_src_script_def bench_tgt_script_def run_source_script_def run_target_script_def seqE_returns_iff
      bindE_returns_iff lift_sum_def bench_src_def bench_tgt_def run_source_def run_target_def elim!: timed_side_returns)

section \<open>The two sides meet\<close>

text \<open>What rank 0 and rank 1 of a communicator of two have to do at the same time.\<close>

fun meets :: "nccl_op \<Rightarrow> nccl_op \<Rightarrow> bool" where
  "meets (NcclInit w nid r) (NcclInit w' nid' r') \<longleftrightarrow> w = w' \<and> nid = nid' \<and> r = 0 \<and> r' = 1"
| "meets (NcclSend p n peer) (NcclRecv q m peer') \<longleftrightarrow> n = m \<and> peer = 1 \<and> peer' = 0"
| "meets _ _ \<longleftrightarrow> False"

lemma split_max_join:
  "xs \<noteq> [] \<Longrightarrow> \<forall>x\<in>set xs. c \<notin> set x \<Longrightarrow> length xs \<le> Suc n \<Longrightarrow> split_max c n (join_with c xs) = xs"
proof (induction c xs arbitrary: n rule: join_with.induct)
  case (2 c x)
  then show ?case by (simp add: split_max_whole)
next
  case (3 c x y ys)
  then obtain k where "n = Suc k" by (cases n) auto
  with 3 show ?case by (simp add: split_max_cut del: split_max.simps)
qed simp

lemma length_join: "length xs \<le> Suc (length (join_with c xs))"
  by (induction c xs rule: join_with.induct) auto

lemma split_join:
  "xs \<noteq> [] \<Longrightarrow> \<forall>x\<in>set xs. c \<notin> set x \<Longrightarrow> split_all c (join_with c xs) = xs"
  by (simp add: split_all_def split_max_join length_join)

lemma join_no_space:
  "\<not> is_space c \<Longrightarrow> \<forall>x\<in>set xs. list_all (\<lambda>a. \<not> is_space a) x \<Longrightarrow> list_all (\<lambda>a. \<not> is_space a) (join_with c xs)"
  by (induction c xs rule: join_with.induct) auto

lemma bytes_of_numbers:
  "\<forall>i\<in>set ids. 0 \<le> i \<and> i < 256 \<Longrightarrow> bytes_of_parts (map str_int ids) = Inr (map (\<lambda>i. char_of (nat i)) ids)"
  by (induction ids) auto

lemma id_parts:
  assumes "ids \<noteq> []"
  shows "read_id_file (write_id_file ids) = bytes_of_parts (map str_int ids)"
proof -
  have comma: "\<not> is_space (CHR '','')" "CHR '','' \<notin> set (str_int i)" for i
    by (auto simp: is_space_def code_def is_digit_def dest!: str_int_chars)
  have "strip (write_id_file ids) = write_id_file ids"
    unfolding write_id_file_def using comma str_int_no_space by (intro strip_no_space join_no_space) auto
  then show ?thesis
    using assms comma split_join [of "map str_int ids" "CHR '',''"] by (simp add: read_id_file_def write_id_file_def)
qed

text \<open>
  An identifier given as bytes survives the file, and then the two scripts meet in every
  operation; so do the two sides of the local benchmark.
\<close>

lemma id_file_roundtrip:
  assumes "ids \<noteq> []" "\<forall>i\<in>set ids. 0 \<le> i \<and> i < 256"
  shows "\<exists>ops. bench_tgt (write_id_file ids) q = Inr ops \<and> list_all2 meets (bench_src (map (\<lambda>i. char_of (nat i)) ids) p) ops"
  using assms by (simp add: bench_tgt_def bench_src_def id_parts bytes_of_numbers)

lemma local_benchmark_meets:
  "Started (RunSource a) \<in> set (bench_main nid) \<Longrightarrow> Started (RunTarget b) \<in> set (bench_main nid) \<Longrightarrow>
   list_all2 meets (process_ops p (RunSource a)) (process_ops q (RunTarget b))"
  by (simp add: bench_main_def process_ops_def run_source_def run_target_def)

text \<open>
  The target script starts when the file appears, and waits for ever otherwise. It meets the source
  when it reads the whole identifier; one that it reads while the file is still empty is refused.
\<close>

lemma bench_tgt_starts_iff: "(\<exists>r. bench_tgt_main exists content ptr = Some r) \<longleftrightarrow> (\<exists>n. exists n)"
  using poll_until_ends_iff [of exists 0] by (auto simp: bench_tgt_main_def)

lemma bench_tgt_meets:
  assumes "ids \<noteq> []" "\<forall>i\<in>set ids. 0 \<le> i \<and> i < 256" "exists n" "\<And>m. exists m \<Longrightarrow> content m = write_id_file ids"
  shows "\<exists>ops. bench_tgt_main exists content q = Some (Inr ops)
       \<and> list_all2 meets (bench_src (map (\<lambda>i. char_of (nat i)) ids) p) ops"
proof -
  obtain m where m: "poll_until exists 0 = Some m" "exists m"
    using poll_until_ends_iff [of exists 0] poll_until_result [of exists 0] assms(3) by blast
  with id_file_roundtrip [OF assms(1,2), of q p] assms(4) show ?thesis by (auto simp: bench_tgt_main_def)
qed

lemma empty_id_refused: "read_id_file [] = Inl (ValueError ''invalid literal for int()'')"
  by code_simp

text \<open>An identifier with a negative element, as signed characters have, cannot be read back.\<close>

lemma signed_id_refused:
  assumes "ids = as @ i # bs" "\<forall>a\<in>set as. 0 \<le> a \<and> a < 256" "i < 0"
  shows "read_id_file (write_id_file ids) = Inl (ValueError ''bytes must be in range(0, 256)'')"
proof -
  have "bytes_of_parts (map str_int (as @ i # bs)) = Inl (ValueError ''bytes must be in range(0, 256)'')"
    using assms(2,3) by (induction as) auto
  with assms(1) show ?thesis by (simp add: id_parts)
qed

end
