(* ===== verification/Interleaved_Processes.thy ===== *)
theory Interleaved_Processes
  imports WPI_Prelude
begin

text \<open>
  Threads that share a state. A process is finished, or does one segment of its work and continues;
  segments of several processes interleave in any order. \<open>promises\<close> is a rely-guarantee reading
  of a process: whatever the others do to the state outside the part that the process owns, it
  changes nothing outside its part, keeps an invariant of its part and ends in its postcondition.
  Locale \<open>owned_state\<close> states what ownership has to satisfy so that promises survive any interleaving.
\<close>

section \<open>Processes\<close>

datatype (dead 's) proc = Finished "exn + unit" | Segment "'s \<Rightarrow> 's \<times> 's proc"

text \<open>One segment, what follows when it returns and what follows when it raises.\<close>

definition seg :: "('s, 'a) pyM \<Rightarrow> ('a \<Rightarrow> 's proc) \<Rightarrow> (exn \<Rightarrow> 's proc) \<Rightarrow> 's proc" where
  "seg m k h = Segment (\<lambda>s. case m s of (Inr x, t) \<Rightarrow> (t, k x) | (Inl e, t) \<Rightarrow> (t, h e))"

primrec run_proc :: "'s proc \<Rightarrow> ('s, unit) pyM" where
  "run_proc (Finished r) = (\<lambda>s. (r, s))"
| "run_proc (Segment f) = (\<lambda>s. case (map_prod id run_proc \<circ> f) s of (t, k) \<Rightarrow> k t)"

lemma run_seg: "run_proc (seg m k h) s = (case m s of (Inr x, t) \<Rightarrow> run_proc (k x) t | (Inl e, t) \<Rightarrow> run_proc (h e) t)"
  by (simp add: seg_def split: prod.splits sum.splits)

text \<open>A segment after which the rest of a \<open>try\<close> block follows.\<close>

lemma run_seg_try:
  assumes "\<And>x t. run_proc (k x) t = try_except (m' x) h t" "\<And>e t. run_proc (h' e) t = h e t"
  shows "run_proc (seg m k h') s = try_except (bindE m m') h s"
  by (simp add: run_seg try_except_def bindE_def assms split: prod.splits sum.splits)

section \<open>Interleaving\<close>

inductive conc_step :: "'s \<times> 's proc list \<Rightarrow> 's \<times> 's proc list \<Rightarrow> bool" where
  "i < length ps \<Longrightarrow> ps ! i = Segment f \<Longrightarrow> f s = (t, p) \<Longrightarrow> conc_step (s, ps) (t, ps[i := p])"

inductive_cases conc_stepE: "conc_step (s, ps) (t, qs)"

lemma conc_seg:
  assumes "i < length ps" "ps ! i = seg m k h" "m s = (r, t)"
  shows "conc_step (s, ps) (t, ps[i := (case r of Inr x \<Rightarrow> k x | Inl e \<Rightarrow> h e)])"
  using assms by (auto simp: seg_def intro!: conc_step.intros split: sum.splits)

lemma conc_returns: "i < length ps \<Longrightarrow> ps ! i = seg m k h \<Longrightarrow> m s = (Inr x, t) \<Longrightarrow> conc_step (s, ps) (t, ps[i := k x])"
  using conc_seg [of i ps m k h s "Inr x" t] by simp

text \<open>A process that is never interrupted.\<close>

lemma run_alone:
  assumes "i < length ps"
  shows "conc_step\<^sup>*\<^sup>* (s, ps[i := p]) (snd (run_proc p s), ps[i := Finished (fst (run_proc p s))])"
proof (induction p arbitrary: s)
  case (Finished r)
  show ?case by simp
next
  case (Segment f)
  obtain t q where q: "f s = (t, q)" by (cases "f s")
  have "conc_step (s, ps[i := Segment f]) (t, ps[i := q])"
    using conc_step.intros [of i "ps[i := Segment f]" f s t q] assms q by simp
  moreover have "conc_step\<^sup>*\<^sup>* (t, ps[i := q]) (snd (run_proc q t), ps[i := Finished (fst (run_proc q t))])"
    using Segment.IH [of "f s" q] rangeI [of f s] by (simp add: q)
  ultimately show ?case by (simp add: q)
qed

section \<open>Promises\<close>

primrec promises ::
  "'s proc \<Rightarrow> ('s \<Rightarrow> 'v) \<Rightarrow> ('s \<Rightarrow> 's \<Rightarrow> bool) \<Rightarrow> ('v \<Rightarrow> bool) \<Rightarrow> (exn + unit \<Rightarrow> 'v \<Rightarrow> bool) \<Rightarrow> 'v \<Rightarrow> bool" where
  "promises (Finished r) view frame I Q v = (I v \<and> Q r v)"
| "promises (Segment f) view frame I Q v =
     (I v \<and> (\<forall>s. view s = v \<longrightarrow> (case (map_prod id promises \<circ> f) s of (t, k) \<Rightarrow> frame s t \<and> k view frame I Q (view t))))"

lemma promises_step:
  "promises (Segment f) view frame I Q (view s) \<Longrightarrow> f s = (t, p) \<Longrightarrow> frame s t \<and> promises p view frame I Q (view t)"
  by (auto split: prod.splits)

lemma promises_inv: "promises p view frame I Q v \<Longrightarrow> I v"
  by (cases p) simp_all

lemma promises_seg:
  assumes "I v"
    and "\<And>s x t. view s = v \<Longrightarrow> m s = (Inr x, t) \<Longrightarrow> frame s t \<and> promises (k x) view frame I Q (view t)"
    and "\<And>s e t. view s = v \<Longrightarrow> m s = (Inl e, t) \<Longrightarrow> frame s t \<and> promises (h e) view frame I Q (view t)"
  shows "promises (seg m k h) view frame I Q v"
  using assms by (auto simp: seg_def split: prod.splits sum.splits)

text \<open>A segment that leaves the owned part and everything else alone.\<close>

lemma promises_quiet:
  assumes "I v" "\<And>s. view s = v \<Longrightarrow> view (snd (m s)) = v \<and> frame s (snd (m s))"
    and "\<And>s x t. view s = v \<Longrightarrow> m s = (Inr x, t) \<Longrightarrow> promises (k x) view frame I Q v"
    and "\<And>s e t. view s = v \<Longrightarrow> m s = (Inl e, t) \<Longrightarrow> promises (h e) view frame I Q v"
  shows "promises (seg m k h) view frame I Q v"
proof (rule promises_seg)
  fix s x t assume s: "view s = v" "m s = (Inr x, t)"
  with assms(2) [of s] assms(3) [of s x t] show "frame s t \<and> promises (k x) view frame I Q (view t)" by simp
next
  fix s e t assume s: "view s = v" "m s = (Inl e, t)"
  with assms(2) [of s] assms(4) [of s e t] show "frame s t \<and> promises (h e) view frame I Q (view t)" by simp
qed (rule assms(1))

text \<open>
  Owners \<open>o\<close> of parts of the state: a change that \<open>frame a\<close> allows is invisible to every owner
  apart from \<open>a\<close>.
\<close>

locale owned_state =
  fixes view :: "'o \<Rightarrow> 's \<Rightarrow> 'v" and frame :: "'o \<Rightarrow> 's \<Rightarrow> 's \<Rightarrow> bool" and apart :: "'o \<Rightarrow> 'o \<Rightarrow> bool"
  assumes unseen: "apart a b \<Longrightarrow> frame a s t \<Longrightarrow> view b t = view b s"
begin

definition all_promise :: "'o list \<Rightarrow> (nat \<Rightarrow> 'v \<Rightarrow> bool) \<Rightarrow> (nat \<Rightarrow> exn + unit \<Rightarrow> 'v \<Rightarrow> bool) \<Rightarrow> 's \<times> 's proc list \<Rightarrow> bool" where
  "all_promise os I Q c \<longleftrightarrow> length (snd c) = length os
     \<and> (\<forall>i<length os. promises (snd c ! i) (view (os ! i)) (frame (os ! i)) (I i) (Q i) (view (os ! i) (fst c)))"

lemma all_promise_step:
  assumes "conc_step c d" "all_promise os I Q c"
    and "\<And>i j. i < length os \<Longrightarrow> j < length os \<Longrightarrow> i \<noteq> j \<Longrightarrow> apart (os ! i) (os ! j)"
  shows "all_promise os I Q d \<and> (\<exists>i<length os. frame (os ! i) (fst c) (fst d))"
proof -
  obtain s ps t qs where c: "c = (s, ps)" "d = (t, qs)" by (cases c, cases d)
  with assms(1) have "conc_step (s, ps) (t, qs)" by simp
  then obtain i f q where i: "i < length ps" "ps ! i = Segment f" "f s = (t, q)" "qs = ps[i := q]"
    by (rule conc_stepE) (rule that)
  have len: "length ps = length os" using assms(2) by (simp add: all_promise_def c)
  with i assms(2) have "promises (Segment f) (view (os ! i)) (frame (os ! i)) (I i) (Q i) (view (os ! i) s)"
    unfolding all_promise_def c by (metis fst_conv snd_conv)
  from promises_step [OF this i(3)]
  have own: "frame (os ! i) s t" "promises q (view (os ! i)) (frame (os ! i)) (I i) (Q i) (view (os ! i) t)" by simp_all
  have "promises (qs ! j) (view (os ! j)) (frame (os ! j)) (I j) (Q j) (view (os ! j) t)" if j: "j < length os" for j
  proof (cases "j = i")
    case True
    with own(2) i(1,4) show ?thesis by simp
  next
    case False
    with unseen [OF _ own(1), of "os ! j"] assms(3) [of i j] i(1) len j have "view (os ! j) t = view (os ! j) s" by simp
    with False i(4) j assms(2) show ?thesis by (auto simp: all_promise_def c)
  qed
  with own(1) i(1,4) len show ?thesis by (auto simp: all_promise_def c)
qed

text \<open>Promises hold at every point of every interleaving, and what nobody owns stays as it is.\<close>

lemma interleaving:
  assumes "conc_step\<^sup>*\<^sup>* c d" "all_promise os I Q c"
    and "\<And>i j. i < length os \<Longrightarrow> j < length os \<Longrightarrow> i \<noteq> j \<Longrightarrow> apart (os ! i) (os ! j)"
  shows "all_promise os I Q d \<and> (\<forall>b. (\<forall>i<length os. apart (os ! i) b) \<longrightarrow> view b (fst d) = view b (fst c))"
  using assms(1)
proof (induction rule: rtranclp_induct)
  case base
  show ?case using assms(2) by simp
next
  case (step x y)
  then have "all_promise os I Q x" by simp
  from all_promise_step [OF step(2) this assms(3)] obtain i where
    "all_promise os I Q y" "i < length os" "frame (os ! i) (fst x) (fst y)" by blast
  with step.IH unseen show ?case by fastforce
qed

end

end
