(* ===== verification/Concurrent_Driver.thy ===== *)
theory Concurrent_Driver
  imports Sim_Driver Interleaved_Processes
begin

text \<open>
  Handlers that overlap. The gRPC server of \<open>serve\<close> runs handlers on ten threads and no lock
  guards the two dictionaries. A handler is cut into segments at the calls where another thread
  may run: between a test of a dictionary and the action that relies on it, around the CUDA
  calls, after every logged line that separates two accesses. Run without interruption, the segments are
  the handlers of the other theories; the segments of several may interleave in any order. Within
  a segment there is no interleaving.
\<close>

section \<open>The handlers in segments\<close>

abbreviation finish :: "'a \<Rightarrow> 's proc" where
  "finish \<equiv> (\<lambda>_. Finished (Inr ()))"

text \<open>\<open>except Exception as e: context.abort(INTERNAL, str(e))\<close>.\<close>

definition fail_internal :: "'g env \<Rightarrow> exn \<Rightarrow> 'g driver proc" where
  "fail_internal E e = seg (abort E INTERNAL (exn_str e)) (\<lambda>_ :: unit. Finished (Inr ())) (\<lambda>e. Finished (Inl e))"

subsection \<open>Staging\<close>

definition record_claim :: "NodeStageWeightRequest \<Rightarrow> 'g driver \<Rightarrow> 'g driver" where
  "record_claim req s = s\<lparr>KNOWN_CLAIMS := dput (KNOWN_CLAIMS s) (req_claim_id req) (stage_id req)\<rparr>"

definition stage_alloc :: "'g env \<Rightarrow> NodeStageWeightRequest \<Rightarrow> ('g driver, int \<times> int \<times> int) pyM" where
  "stage_alloc E req =
     seqE (may_raise (socket_dir_err E)) (
     bindE (getM cuda_ready) (\<lambda>ready.
     if ready then
       let g = stage_gpu E req in
       seqE (use_gpu E g) (on_alloc (allocate_and_export (libcuda_of E) (stage_size req) g))
     else abort E UNAVAILABLE ''CUDA allocator failed to initialize. Cannot allocate VRAM.''))"

definition set_notify_path :: "string \<Rightarrow> ('g driver, unit) pyM" where
  "set_notify_path k =
     bindE (get_buffer k) (\<lambda>b. case b of
       None \<Rightarrow> raise_exn (KeyError k)
     | Some info \<Rightarrow> put_buffer k (info\<lparr>notify_sock_path := Some (notify_path k)\<rparr>))"

definition servers_proc :: "'g env \<Rightarrow> string \<Rightarrow> 'g driver proc" where
  "servers_proc E k =
     seg (emit (EvStart (PassFd (fd_sock_path k) k))) (\<lambda>_.
     seg (set_notify_path k) (\<lambda>_.
     seg (emit (EvStart (NotifyServer (notify_path k) k))) finish (fail_internal E)) (fail_internal E)) (fail_internal E)"

definition stage_new_proc :: "'g env \<Rightarrow> NodeStageWeightRequest \<Rightarrow> 'g driver proc" where
  "stage_new_proc E req =
     seg (stage_alloc E req) (\<lambda>r.
     seg (put_buffer (stage_id req) (new_buffer req (stage_gpu E req) r)) (\<lambda>_.
     seg (stage_load E (snd (snd r)) (req_source_path req)) (\<lambda>_.
     servers_proc E (stage_id req)) (fail_internal E)) (fail_internal E)) (fail_internal E)"

definition stage_again_proc :: "'g env \<Rightarrow> NodeStageWeightRequest \<Rightarrow> 'g driver proc" where
  "stage_again_proc E req =
     seg (bindE (get_buffer (stage_id req)) (\<lambda>b. case b of
            None \<Rightarrow> raise_exn (KeyError (stage_id req))
          | Some info \<Rightarrow> stage_again (stage_id req) info)) finish (fail_internal E)"

definition stage_test :: "'g env \<Rightarrow> NodeStageWeightRequest \<Rightarrow> 'g driver proc" where
  "stage_test E req =
     seg (getM (\<lambda>s. dget (ALLOCATED_BUFFERS s) (stage_id req) \<noteq> None))
       (\<lambda>known. if known then stage_again_proc E req else stage_new_proc E req) (fail_internal E)"

definition stage_proc :: "'g env \<Rightarrow> NodeStageWeightRequest \<Rightarrow> 'g driver proc" where
  "stage_proc E req = seg (modifyM (record_claim req)) (\<lambda>_. stage_test E req) (fail_internal E)"

subsection \<open>Unstaging\<close>

definition pop_claim :: "string \<Rightarrow> ('g driver, string) pyM" where
  "pop_claim claim =
     bindE (getM (\<lambda>s. dget (KNOWN_CLAIMS s) claim)) (\<lambda>c. case c of
       None \<Rightarrow> raise_exn (KeyError claim)
     | Some b \<Rightarrow> seqE (modifyM (\<lambda>s. s\<lparr>KNOWN_CLAIMS := ddel (KNOWN_CLAIMS s) claim\<rparr>)) (ret b))"

definition release_dec :: "string \<Rightarrow> ('g driver, buf_info option) pyM" where
  "release_dec b =
     bindE (get_buffer b) (\<lambda>i. case i of
       None \<Rightarrow> ret None
     | Some info \<Rightarrow> (case ref_count info of
         None \<Rightarrow> raise_exn (KeyError ''ref_count'')
       | Some n \<Rightarrow> let info' = info\<lparr>ref_count := Some (n - 1)\<rparr> in seqE (put_buffer b info') (ret (Some info'))))"

text \<open>
  The second look at the count, after the logged line: \<open>info\<close> is the entry itself, so the count
  read is that of the table. An entry that another release has removed meanwhile had a count of
  zero or less, which nothing raises again.
\<close>

definition release_test :: "string \<Rightarrow> buf_info \<Rightarrow> ('g driver, (string \<times> buf_info) list option) pyM" where
  "release_test b info =
     bindE (getM ALLOCATED_BUFFERS) (\<lambda>d. case dget d b of
       None \<Rightarrow> ret (Some (all_to_free b info d))
     | Some i \<Rightarrow> (case ref_count i of
         None \<Rightarrow> raise_exn (KeyError ''ref_count'')
       | Some n \<Rightarrow> ret (if n \<le> 0 then Some (all_to_free b i d) else None)))"

primrec free_proc :: "'g env \<Rightarrow> string \<Rightarrow> (string \<times> buf_info) list \<Rightarrow> 'g driver proc" where
  "free_proc E b [] = seg (pop_buffer b) finish (fail_internal E)"
| "free_proc E b (x # xs) = seg (free_one E b x) (\<lambda>_. free_proc E b xs) (fail_internal E)"

definition release_go :: "'g env \<Rightarrow> string \<Rightarrow> buf_info \<Rightarrow> 'g driver proc" where
  "release_go E b info =
     seg (release_test b info) (\<lambda>r. case r of None \<Rightarrow> Finished (Inr ()) | Some xs \<Rightarrow> free_proc E b xs) (fail_internal E)"

definition release_proc :: "'g env \<Rightarrow> string \<Rightarrow> 'g driver proc" where
  "release_proc E b =
     seg (release_dec b) (\<lambda>i. case i of None \<Rightarrow> Finished (Inr ()) | Some info \<Rightarrow> release_go E b info) (fail_internal E)"

definition unstage_proc :: "'g env \<Rightarrow> string \<Rightarrow> 'g driver proc" where
  "unstage_proc E claim =
     seg (getM (\<lambda>s. dget (KNOWN_CLAIMS s) claim \<noteq> None)) (\<lambda>known.
       if known then seg (pop_claim claim) (release_proc E) (fail_internal E)
       else Finished (Inr ())) (fail_internal E)"

subsection \<open>Propagating\<close>

definition propagate_lookup :: "NodePropagateRequest \<Rightarrow> ('g driver, buf_info) pyM" where
  "propagate_lookup req =
     bindE (get_buffer (prop_buffer_id req)) (\<lambda>b. case b of
       None \<Rightarrow> raise_exn (Exception (''Buffer '' @ prop_buffer_id req @ '' not found in local tracking.''))
     | Some info \<Rightarrow> ret info)"

definition propagate_prepare :: "'g env \<Rightarrow> NodePropagateRequest \<Rightarrow> ('g driver, unit) pyM" where
  "propagate_prepare E req =
     seqE (may_raise (if cupy_available E then None
                      else Some (Exception ''cupy is not available. Cannot perform NCCL transfer.'')))
          (send_pre_update_signal E (prop_buffer_id req))"

definition propagate_transfer :: "'g env \<Rightarrow> NodePropagateRequest \<Rightarrow> buf_info \<Rightarrow> ('g driver, unit) pyM" where
  "propagate_transfer E req info =
     bindE (lift_sum (nccl_unique_id E)) (\<lambda>nid.
     bindE (connect_all E (target_message req nid) 1 (propagate_targets req)) (\<lambda>socks.
     seqE (nccl E (NcclInit (world_size req) nid 0)) (
     seqE (for_each (nccl E) (source_ops req info)) (
     seqE (nccl_destroy E) (for_each (\<lambda>c. emit (EvClose c)) socks)))))"

definition propagate_go :: "'g env \<Rightarrow> NodePropagateRequest \<Rightarrow> buf_info \<Rightarrow> 'g driver proc" where
  "propagate_go E req info =
     seg (propagate_prepare E req) (\<lambda>_ :: unit.
     seg (propagate_transfer E req info) (\<lambda>_ :: unit.
     seg (notify_consumers E (prop_buffer_id req) READY) finish (fail_internal E)) (fail_internal E)) (fail_internal E)"

definition propagate_proc :: "'g env \<Rightarrow> NodePropagateRequest \<Rightarrow> 'g driver proc" where
  "propagate_proc E req = seg (propagate_lookup req) (propagate_go E req) (fail_internal E)"

section \<open>Run without interruption, the segments are the handlers\<close>

lemma run_fail: "run_proc (fail_internal E e) s = abort E INTERNAL (exn_str e) s"
  by (simp add: fail_internal_def run_seg abort_def py_simps)

lemma run_finish: "run_proc (finish x) s = try_except (ret ()) h s"
  by (simp add: try_except_def ret_def)

lemma bindE_ret_unit: "bindE m (\<lambda>_ :: unit. ret ()) = m"
  by (auto simp: bindE_def ret_def fun_eq_iff split: prod.splits sum.splits)

lemma run_last: "run_proc (seg (m :: ('g driver, unit) pyM) finish (fail_internal E)) s = try_except m (\<lambda>e. abort E INTERNAL (exn_str e)) s"
  by (simp add: run_seg run_fail try_except_def split: prod.splits sum.splits)

lemmas run_rules = run_seg_try [OF _ run_fail]

lemma servers_proc_run: "run_proc (servers_proc E k) s = try_except (start_servers k) (\<lambda>e. abort E INTERNAL (exn_str e)) s"
  by (auto simp: servers_proc_def run_seg run_fail start_servers_def set_notify_path_def py_simps split: option.splits)

lemma stage_new_proc_run: "run_proc (stage_new_proc E req) s = try_except (stage_new E req) (\<lambda>e. abort E INTERNAL (exn_str e)) s"
proof -
  have "run_proc (stage_new_proc E req) s = try_except (bindE (stage_alloc E req) (\<lambda>r.
      bindE (put_buffer (stage_id req) (new_buffer req (stage_gpu E req) r)) (\<lambda>_.
      bindE (stage_load E (snd (snd r)) (req_source_path req)) (\<lambda>_. start_servers (stage_id req)))))
      (\<lambda>e. abort E INTERNAL (exn_str e)) s"
    unfolding stage_new_proc_def by (intro run_rules servers_proc_run)
  also have "\<dots> = try_except (stage_new E req) (\<lambda>e. abort E INTERNAL (exn_str e)) s"
    unfolding try_except_def
    by (cases "cuda_ready s"; cases "socket_dir_err E")
       (simp_all add: stage_new_def stage_alloc_def seqE_def Let_def bindE_def getM_def may_raise_def ret_def raise_exn_def
          abort_def modifyM_def del: on_alloc_returns split: prod.splits sum.splits)
  finally show ?thesis .
qed

lemma stage_proc_handler: "run_proc (stage_proc E req) s = NodeStageWeight E req s"
proof -
  define u where "u = record_claim req s"
  let ?h = "\<lambda>e. abort E INTERNAL (exn_str e)"
  have "run_proc (stage_proc E req) s = run_proc (stage_test E req) u"
    by (simp add: stage_proc_def run_seg modifyM_def u_def)
  also have "\<dots> = try_except (bindE (get_buffer (stage_id req)) (\<lambda>b. case b of
         Some info \<Rightarrow> stage_again (stage_id req) info
       | None \<Rightarrow> stage_new E req)) ?h u"
    by (cases "dget (ALLOCATED_BUFFERS u) (stage_id req)")
       (simp_all add: stage_test_def run_seg getM_def stage_again_proc_def run_last [unfolded run_seg] run_fail
          stage_new_proc_run try_except_def bindE_def get_buffer_def split: prod.splits sum.splits)
  also have "\<dots> = NodeStageWeight E req s"
    by (simp add: NodeStageWeight_def try_except_def seqE_def bindE_def modifyM_def u_def record_claim_def)
  finally show ?thesis .
qed

lemma free_proc_run:
  "run_proc (free_proc E b xs) s = try_except (seqE (for_each (free_one E b) xs) (pop_buffer b)) (\<lambda>e. abort E INTERNAL (exn_str e)) s"
  by (induction xs arbitrary: s)
     (simp_all add: run_seg run_fail try_except_def seqE_def bindE_def ret_def split: prod.splits sum.splits)

lemma release_proc_run:
  "run_proc (release_proc E b) s = try_except (bindE (get_buffer b) (\<lambda>i. case i of None \<Rightarrow> ret () | Some info \<Rightarrow> release_claim E b info))
     (\<lambda>e. abort E INTERNAL (exn_str e)) s"
proof (cases "dget (ALLOCATED_BUFFERS s) b")
  case None
  then show ?thesis by (simp add: release_proc_def run_seg release_dec_def py_simps)
next
  case (Some i)
  show ?thesis
  proof (cases "ref_count i")
    case None
    with Some show ?thesis
      by (simp add: release_proc_def run_seg run_fail release_dec_def release_claim_def try_except_def bindE_def get_buffer_def getM_def raise_exn_def)
  next
    case (Some n)
    with \<open>dget (ALLOCATED_BUFFERS s) b = Some i\<close> show ?thesis
      by (simp add: release_proc_def run_seg release_dec_def release_go_def release_test_def release_claim_def Let_def
          free_proc_run try_except_def bindE_def seqE_def get_buffer_def getM_def put_buffer_def modifyM_def ret_def)
  qed
qed

lemma unstage_proc_handler: "run_proc (unstage_proc E claim) s = NodeUnstageWeight E claim s"
  by (cases "dget (KNOWN_CLAIMS s) claim")
     (simp_all add: unstage_proc_def NodeUnstageWeight_def run_seg run_fail pop_claim_def release_proc_run
        try_except_def bindE_def seqE_def getM_def modifyM_def run_simps(7))

lemma propagate_go_run:
  "run_proc (propagate_go E req info) s =
     try_except (seqE (propagate_work E req info) (notify_consumers E (prop_buffer_id req) READY)) (\<lambda>e. abort E INTERNAL (exn_str e)) s"
proof -
  have "run_proc (propagate_go E req info) s = try_except (bindE (propagate_prepare E req) (\<lambda>_ :: unit.
      bindE (propagate_transfer E req info) (\<lambda>_ :: unit. notify_consumers E (prop_buffer_id req) READY)))
      (\<lambda>e. abort E INTERNAL (exn_str e)) s"
    unfolding propagate_go_def by (intro run_rules run_last)
  also have "bindE (propagate_prepare E req) (\<lambda>_ :: unit.
      bindE (propagate_transfer E req info) (\<lambda>_ :: unit. notify_consumers E (prop_buffer_id req) READY))
    = seqE (propagate_work E req info) (notify_consumers E (prop_buffer_id req) READY)"
    by (simp add: propagate_prepare_def propagate_transfer_def propagate_work_def seqE_def bindE_assoc)
  finally show ?thesis .
qed

lemma propagate_proc_handler: "run_proc (propagate_proc E req) s = NodePropagate E req s"
  by (cases "dget (ALLOCATED_BUFFERS s) (prop_buffer_id req)")
     (simp_all add: propagate_proc_def propagate_lookup_def NodePropagate_def propagate_body_def run_seg run_fail
        propagate_go_run try_except_def bindE_def get_buffer_def getM_def ret_def raise_exn_def)

end
