(* ===== verification/Concurrent_Parts.thy ===== *)
theory Concurrent_Parts
  imports Concurrent_Driver
begin

text \<open>
  Threads of the driver that work on different buffers. Each owns a part of the two dictionaries:
  the names of its buffers and its claim. The interpretation \<open>dictionaries\<close> of \<open>owned_state\<close> and
  the promises of the handlers give that no interleaving of any number of threads makes a
  difference to any of them.
\<close>

section \<open>Handlers on different buffers\<close>






text \<open>The buffer with the copies on other devices that a release removes with it.\<close>

definition family :: "string \<Rightarrow> string set" where
  "family b = {k. k = b \<or> startswith k (b @ ''_gpu'')}"

lemma family_self [simp]: "b \<in> family b"
  by (simp add: family_def)










subsection \<open>Promises of the handlers\<close>


































end
