(* ===== verification/Concurrent_Races.thy ===== *)
theory Concurrent_Races
  imports Concurrent_Driver
begin

text \<open>
  Threads of the driver that work on the same buffer: interleavings in which a count is lost, a
  buffer is freed twice, or a transfer reads a buffer that has been freed.
\<close>

section \<open>Overlapping stagings\<close>

lemma record_claim_simps [simp]:
  "ALLOCATED_BUFFERS (record_claim r s) = ALLOCATED_BUFFERS s"
  "KNOWN_CLAIMS (record_claim r s) = dput (KNOWN_CLAIMS s) (req_claim_id r) (stage_id r)"
  by (simp_all add: record_claim_def)

text \<open>The segments of a staging, taken by process \<open>i\<close>.\<close>

lemma stage_moves:
  assumes "i < length ps"
  shows "ps ! i = stage_proc E r \<Longrightarrow> conc_step (s, ps) (record_claim r s, ps[i := stage_test E r])"
    and "ps ! i = stage_test E r \<Longrightarrow> dget (ALLOCATED_BUFFERS s) (stage_id r) = None \<Longrightarrow>
         conc_step (s, ps) (s, ps[i := stage_new_proc E r])"
  using conc_returns [OF assms, of "modifyM (record_claim r)" "\<lambda>_. stage_test E r" "fail_internal E" s]
    conc_returns [OF assms, of "getM (\<lambda>s. dget (ALLOCATED_BUFFERS s) (stage_id r) \<noteq> None)"
      "\<lambda>known. if known then stage_again_proc E r else stage_new_proc E r" "fail_internal E" s]
  by (force simp: stage_proc_def stage_test_def)+

lemma stage_new_alone:
  assumes "i < length ps" "ps ! i = stage_new_proc E r" "stage_new E r s = (Inr (), t)"
  shows "conc_step\<^sup>*\<^sup>* (s, ps) (t, ps[i := Finished (Inr ())])"
proof -
  have "run_proc (stage_new_proc E r) s = (Inr (), t)" by (simp add: stage_new_proc_run try_except_def assms(3))
  with run_alone [OF assms(1), of s "stage_new_proc E r"] assms(2) list_update_id [of ps i] show ?thesis by simp
qed

lemma stage_new_entry:
  assumes "stage_new E r s = (Inr (), t)"
  shows "\<exists>x. ALLOCATED_BUFFERS t = dput (ALLOCATED_BUFFERS s) (stage_id r) (staged_entry r (stage_gpu E r) x)
       \<and> KNOWN_CLAIMS t = KNOWN_CLAIMS s"
  using stage_new_effect [OF assms] by (auto simp: tables_def)

text \<open>C36. Two stagings of the same new buffer that overlap both pass the test and both allocate:
  the second entry replaces the first, so both claims are recorded, the count is one, and
  releasing either claim alone removes the buffer that the other holds.\<close>

theorem overlapping_stages_lose_count:
  assumes "stage_id r = b" "stage_id r' = b" "req_claim_id r \<noteq> req_claim_id r'"
    and "dget (ALLOCATED_BUFFERS s) b = None"
    and new: "stage_new E r (record_claim r' (record_claim r s)) = (Inr (), u)" "stage_new E' r' u = (Inr (), v)"
  shows "conc_step\<^sup>*\<^sup>* (s, [stage_proc E r, stage_proc E' r']) (v, [Finished (Inr ()), Finished (Inr ())])
     \<and> dget (KNOWN_CLAIMS v) (req_claim_id r) = Some b \<and> dget (KNOWN_CLAIMS v) (req_claim_id r') = Some b
     \<and> (\<exists>i. dget (ALLOCATED_BUFFERS v) b = Some i \<and> ref_count i = Some 1)
     \<and> dget (ALLOCATED_BUFFERS (snd (NodeUnstageWeight D (req_claim_id r) v))) b = None
     \<and> dget (KNOWN_CLAIMS (snd (NodeUnstageWeight D (req_claim_id r) v))) (req_claim_id r') = Some b"
proof -
  let ?c = "record_claim r s" and ?d = "record_claim r' (record_claim r s)" and ?F = "Finished (Inr ())"
  let ?n = "stage_new_proc E r" and ?n' = "stage_new_proc E' r'"
  have "conc_step (s, [stage_proc E r, stage_proc E' r']) (?c, [stage_test E r, stage_proc E' r'])"
    using stage_moves(1) [of 0 "[stage_proc E r, stage_proc E' r']" E r s] by simp
  moreover have "conc_step (?c, [stage_test E r, stage_proc E' r']) (?c, [?n, stage_proc E' r'])"
    using stage_moves(2) [of 0 "[stage_test E r, stage_proc E' r']" E r ?c] assms(1,4) by simp
  moreover have "conc_step (?c, [?n, stage_proc E' r']) (?d, [?n, stage_test E' r'])"
    using stage_moves(1) [of 1 "[?n, stage_proc E' r']" E' r' ?c] by simp
  moreover have "conc_step (?d, [?n, stage_test E' r']) (?d, [?n, ?n'])"
    using stage_moves(2) [of 1 "[?n, stage_test E' r']" E' r' ?d] assms(2,4) by simp
  ultimately have "conc_step\<^sup>*\<^sup>* (s, [stage_proc E r, stage_proc E' r']) (?d, [?n, ?n'])"
    by (meson converse_rtranclp_into_rtranclp rtranclp.rtrancl_refl)
  moreover have "conc_step\<^sup>*\<^sup>* (?d, [?n, ?n']) (u, [?F, ?n'])" "conc_step\<^sup>*\<^sup>* (u, [?F, ?n']) (v, [?F, ?F])"
    using stage_new_alone [of 0 "[?n, ?n']" E r ?d u] stage_new_alone [of 1 "[?F, ?n']" E' r' u v] new by simp_all
  ultimately have run: "conc_step\<^sup>*\<^sup>* (s, [stage_proc E r, stage_proc E' r']) (v, [?F, ?F])"
    by (meson rtranclp_trans)
  obtain x where x: "ALLOCATED_BUFFERS v = dput (ALLOCATED_BUFFERS u) b (staged_entry r' (stage_gpu E' r') x)"
    "KNOWN_CLAIMS v = KNOWN_CLAIMS u" using stage_new_entry [OF new(2)] assms(2) by auto
  have claims: "KNOWN_CLAIMS v = KNOWN_CLAIMS ?d" using stage_new_entry [OF new(1)] x(2) by auto
  let ?t = "snd (NodeUnstageWeight D (req_claim_id r) v)"
  have "tables ?t = unstage_tables (req_claim_id r) (tables v)" by (rule unstage_tables_snd)
  then have "dget (ALLOCATED_BUFFERS ?t) b = None" "dget (KNOWN_CLAIMS ?t) (req_claim_id r') = Some b"
    using x(1) claims assms(1-3)
    by (auto simp: tables_def unstage_tables_def)
  with run x(1) claims assms(1-3) show ?thesis by simp
qed

lemma sim_overlap:
  "\<exists>u v. stage_new sim_env (sim_req ''c1'' ''w'' [])
       (record_claim (sim_req ''c2'' ''w'' []) (record_claim (sim_req ''c1'' ''w'' []) sim_start)) = (Inr (), u)
     \<and> stage_new sim_env (sim_req ''c2'' ''w'' []) u = (Inr (), v)"
  by (simp add: stage_new_def stage_load_def start_servers_def new_buffer_def Let_def record_claim_def
      sim_start_state sim_init_def sim_eval)

theorem overlapping_stages_lose_count_witness:
  "\<exists>v i. conc_step\<^sup>*\<^sup>* (sim_start, [stage_proc sim_env (sim_req ''c1'' ''w'' []), stage_proc sim_env (sim_req ''c2'' ''w'' [])])
      (v, [Finished (Inr ()), Finished (Inr ())])
     \<and> dget (ALLOCATED_BUFFERS v) ''w'' = Some i \<and> ref_count i = Some 1"
proof -
  obtain u v where uv: "stage_new sim_env (sim_req ''c1'' ''w'' [])
       (record_claim (sim_req ''c2'' ''w'' []) (record_claim (sim_req ''c1'' ''w'' []) sim_start)) = (Inr (), u)"
    "stage_new sim_env (sim_req ''c2'' ''w'' []) u = (Inr (), v)" using sim_overlap by blast
  from overlapping_stages_lose_count [OF _ _ _ _ uv, of "''w''" sim_env] show ?thesis
    by (auto simp: sim_start_state)
qed

section \<open>Overlapping releases\<close>

text \<open>A release up to its second look at the count, taken by process \<open>i\<close>, and the second look.\<close>

definition after_dec :: "string \<Rightarrow> string \<Rightarrow> buf_info \<Rightarrow> 'g driver \<Rightarrow> 'g driver" where
  "after_dec c b info s = s\<lparr>KNOWN_CLAIMS := ddel (KNOWN_CLAIMS s) c, ALLOCATED_BUFFERS := dput (ALLOCATED_BUFFERS s) b info\<rparr>"

lemma after_dec_simps [simp]:
  "ALLOCATED_BUFFERS (after_dec c b info s) = dput (ALLOCATED_BUFFERS s) b info" "events (after_dec c b info s) = events s"
  "KNOWN_CLAIMS (after_dec c b info s) = ddel (KNOWN_CLAIMS s) c" "cuda_ready (after_dec c b info s) = cuda_ready s"
  by (simp_all add: after_dec_def)








section \<open>Propagating what is being released\<close>




end
