(* ===== verification/Cluster_Transfer.thy ===== *)
theory Cluster_Transfer
  imports Driver_Properties
begin

text \<open>
  A propagation between the drivers of several nodes. In the theories on one driver the peers are
  parameters; here the peer of the source is the driver of the target node: what the source
  receives after the handshake is what \<open>handle_target_connection\<close> sends on that connection. The
  properties say when a propagation between drivers succeeds, and that all ranks of a broadcast
  meet in one communicator.
\<close>

section \<open>What a target answers\<close>

definition sent_on :: "sock \<Rightarrow> event list \<Rightarrow> bytes" where
  "sent_on c evs = concat (map (\<lambda>e. case e of EvSend d m \<Rightarrow> if d = c then m else [] | _ \<Rightarrow> []) evs)"

lemma sent_on_simps [simp]:
  "sent_on c [] = []" "sent_on c (xs @ ys) = sent_on c xs @ sent_on c ys"
  "sent_on c (EvSend d m # es) = (if d = c then m else []) @ sent_on c es"
  "sent_on c (EvNccl x # es) = sent_on c es" "sent_on c (EvClose d # es) = sent_on c es"
  by (simp_all add: sent_on_def)

lemma sent_on_others: "c \<notin> set ds \<Longrightarrow> sent_on c (map (\<lambda>d. EvSend d m) ds) = []"
  by (induction ds) auto

lemma sent_on_nccl [simp]: "sent_on c (map EvNccl ops) = []"
  by (induction ops) auto

definition target_answer :: "'g env \<Rightarrow> sock \<Rightarrow> bytes \<Rightarrow> 'g driver \<Rightarrow> bytes option" where
  "target_answer F c msg s =
     map_option (\<lambda>t. sent_on c (drop (length (events s)) (events t))) (handle_target_connection F c [msg] s)"

text \<open>After its OK a target sends nothing more to the source, whatever NCCL answers.\<close>

definition quiet :: "sock \<Rightarrow> string \<Rightarrow> event list \<Rightarrow> 'g driver \<Rightarrow> bool" where
  "quiet c k base s \<longleftrightarrow> (\<exists>ev. events s = base @ ev \<and> sent_on c ev = [])
     \<and> (\<forall>i. dget (ALLOCATED_BUFFERS s) k = Some i \<longrightarrow> c \<notin> set (notify_sockets i))"

lemma quiet_refl: "dget (ALLOCATED_BUFFERS s) k = Some i \<Longrightarrow> c \<notin> set (notify_sockets i) \<Longrightarrow> quiet c k (events s) s"
  by (simp add: quiet_def)

lemma quiet_add: "quiet c k base s \<Longrightarrow> sent_on c es = [] \<Longrightarrow> quiet c k base (s\<lparr>events := events s @ es\<rparr>)"
  by (auto simp: quiet_def)

lemma keeps_quiet:
  "keeps (quiet c k base) (nccl E op)" "keeps (quiet c k base) (nccl_destroy E)"
  "keeps (quiet c k base) (notify_consumers E k msg)"
proof -
  show n: "keeps (quiet c k base) (nccl E op)" for op
    by (rule keepsI) (auto simp: py_simps quiet_add split: option.splits)
  have "keeps (quiet c k base) (case e of AttributeError _ \<Rightarrow> ret () | _ \<Rightarrow> raise_exn e)" for e
    by (cases e) (simp_all add: keeps_ret keeps_raise)
  then show "keeps (quiet c k base) (nccl_destroy E)"
    unfolding nccl_destroy_def by (intro keeps_try n)
  show "keeps (quiet c k base) (notify_consumers E k msg)"
    by (rule keepsI)
       (auto simp: notify_consumers_effect quiet_def Let_def sent_on_others split: option.splits)
qed

lemma transfer_sends:
  assumes "dget (ALLOCATED_BUFFERS s) (tm_buffer_id m) = Some i" "c \<notin> set (notify_sockets i)"
    "send_err F c OK_line = None"
  shows "\<exists>ev. events (snd (target_transfer F c m nid s)) = events s @ ev \<and> sent_on c ev = OK_line"
proof -
  let ?k = "tm_buffer_id m"
  define told where "told = heard F PRE_UPDATE (notify_sockets i)"
  define v where "v = s\<lparr>events := events s @ map (\<lambda>c. EvSend c PRE_UPDATE) told,
      ALLOCATED_BUFFERS := dput (ALLOCATED_BUFFERS s) ?k (i\<lparr>notify_sockets := told\<rparr>)\<rparr>"
  define w where "w = v\<lparr>events := events v @ [EvSend c OK_line]\<rparr>"
  have told: "c \<notin> set told" using assms(2) by (auto simp: told_def heard_def)
  let ?rest = "bindE (getM cuda_ready) (\<lambda>ready.
         if cupy_available F \<and> ready then
           seqE (nccl F (NcclInit (tm_world_size m) nid (tm_rank m))) (
           seqE (nccl F (target_op m i)) (
           seqE (nccl_destroy F)
                (notify_consumers F ?k READY)))
         else ret ())"
  have "send_pre_update_signal F ?k s = (Inr (), v)"
    using assms(1) by (simp add: send_pre_update_signal_def notify_returns v_def told_def)
  moreover have "sendall F c OK_line v = (Inr (), w)" using assms(3) by (simp add: sendall_returns w_def)
  moreover have "get_buffer ?k s = (Inr (Some i), s)" using assms(1) by (simp add: get_buffer_def getM_def)
  ultimately have "target_transfer F c m nid s = ?rest w"
    by (simp add: target_transfer_def bindE_def [of "get_buffer ?k"] seqE_Inr)
  moreover have "quiet c ?k (events w) w"
    by (rule quiet_refl [of _ _ "i\<lparr>notify_sockets := told\<rparr>"]) (simp_all add: w_def v_def told)
  moreover have "keeps (quiet c ?k (events w)) ?rest" by (intro keeps_intro keeps_quiet)
  ultimately have "quiet c ?k (events w) (snd (target_transfer F c m nid s))" by (simp add: keepsD)
  then obtain ev where "events (snd (target_transfer F c m nid s)) = events w @ ev" "sent_on c ev = []"
    by (auto simp: quiet_def)
  then show ?thesis by (simp add: w_def v_def sent_on_others told)
qed

lemma transfer_refuses:
  assumes "dget (ALLOCATED_BUFFERS s) (tm_buffer_id m) = None" "send_err F c ERROR_line = None"
  shows "\<exists>ev. events (snd (target_transfer F c m nid s)) = events s @ ev \<and> sent_on c ev = ERROR_line"
  using assms by (simp add: target_transfer_def py_simps)

lemma target_answer_exact:
  assumes "newline \<notin> set b" "utf8_valid b" "length nid = 128"
    and "length (handshake b ws rank mode (scatter_meta off len) []) \<le> 1024"
    and "\<And>msg. send_err F c msg = None" "\<And>i. dget (ALLOCATED_BUFFERS u) b = Some i \<Longrightarrow> c \<notin> set (notify_sockets i)"
  shows "target_answer F c (handshake b ws rank mode (scatter_meta off len) nid) u
       = Some (if dget (ALLOCATED_BUFFERS u) b \<noteq> None then OK_line else ERROR_line)"
proof -
  let ?h = "handshake b ws rank mode (scatter_meta off len)"
  let ?m = "\<lparr>tm_buffer_id = b, tm_world_size = ws, tm_rank = rank, tm_mode = mode,
        scatter_offset = (if mode = 1 then off else 0), scatter_length = (if mode = 1 then len else 0)\<rparr>"
  have "length (?h []) \<le> min 1024 (length (?h nid))" using assms(4) by (simp add: handshake_def)
  from handshake_run [OF assms(1-3) _ this, of "[]" F c u]
  have run: "handle_target_connection F c [?h nid] u = Some (finished c (snd (target_transfer F c ?m nid u)))" by simp
  have "\<exists>ev. events (snd (target_transfer F c ?m nid u)) = events u @ ev
      \<and> sent_on c ev = (if dget (ALLOCATED_BUFFERS u) b \<noteq> None then OK_line else ERROR_line)"
  proof (cases "dget (ALLOCATED_BUFFERS u) b")
    case None
    with transfer_refuses [of u ?m F c nid] assms(5) show ?thesis by simp
  next
    case (Some i)
    with transfer_sends [of u ?m i c F nid] assms(5,6) show ?thesis by simp
  qed
  with run show ?thesis by (auto simp: target_answer_def finished_def)
qed

section \<open>The drivers of a cluster\<close>

text \<open>The driver of every node that can be reached, with the environment it runs in.\<close>

type_synonym 'g cluster = "string \<Rightarrow> ('g env \<times> 'g driver) option"

definition tracks :: "'g cluster \<Rightarrow> string \<times> string \<times> string \<Rightarrow> bool" where
  "tracks cl x = (case cl (fst x) of None \<Rightarrow> False | Some (F, u) \<Rightarrow> dget (ALLOCATED_BUFFERS u) (fst (snd x)) \<noteq> None)"

text \<open>
  The peers of the source are these drivers: a node that is not there cannot be connected to, and
  the source receives what the handler of the node sends.
\<close>

definition networked :: "'g env \<Rightarrow> 'g cluster \<Rightarrow> sock \<Rightarrow> NodePropagateRequest \<Rightarrow> bytes \<Rightarrow> bool" where
  "networked E cl c req nid \<longleftrightarrow>
     (\<forall>k < length (propagate_targets req).
        let x = propagate_targets req ! k; msg = target_message req nid (k + 1) x in
        case cl (fst x) of
          None \<Rightarrow> connect_err E (fst x) \<noteq> None
        | Some (F, u) \<Rightarrow> connect_err E (fst x) = None
            \<and> (\<forall>a. target_answer F c msg u = Some a \<longrightarrow> target_reply E (fst x) msg = Inr a))"

text \<open>
  Buffer names that fit in a header line, targets whose sends succeed, and a connection that is not
  one of their consumers.
\<close>

definition header_fits :: "NodePropagateRequest \<Rightarrow> nat \<Rightarrow> bool" where
  "header_fits req k \<longleftrightarrow>
     (case propagate_targets req ! k of (node, b, meta) \<Rightarrow>
        newline \<notin> set b \<and> utf8_valid b
        \<and> length (handshake b (world_size req) (int (k + 1)) (prop_mode req) meta []) \<le> 1024)"

definition sends_work :: "'g cluster \<Rightarrow> sock \<Rightarrow> string \<times> string \<times> string \<Rightarrow> bool" where
  "sends_work cl c x \<longleftrightarrow>
     (\<forall>F u. cl (fst x) = Some (F, u) \<longrightarrow> (\<forall>msg. send_err F c msg = None)
        \<and> (\<forall>i. dget (ALLOCATED_BUFFERS u) (fst (snd x)) = Some i \<longrightarrow> c \<notin> set (notify_sockets i)))"

lemma no_scatter_meta: "''0,0'' = scatter_meta 0 0"
  by code_simp

lemma target_shape:
  assumes "k < length (propagate_targets req)"
  shows "\<exists>node b off len. propagate_targets req ! k = (node, b, scatter_meta off len)"
  using assms by (auto simp: propagate_targets_def no_scatter_meta split: if_splits)

lemma answer_at:
  assumes "k < length (propagate_targets req)" "header_fits req k" "length nid = 128"
    and "cl (fst (propagate_targets req ! k)) = Some (F, u)" "sends_work cl c (propagate_targets req ! k)"
  shows "target_answer F c (target_message req nid (k + 1) (propagate_targets req ! k)) u
       = Some (if tracks cl (propagate_targets req ! k) then OK_line else ERROR_line)"
proof -
  obtain node b off len where x: "propagate_targets req ! k = (node, b, scatter_meta off len)"
    using target_shape [OF assms(1)] by blast
  show ?thesis
    using assms target_answer_exact [of b nid "world_size req" "int (k + 1)" "prop_mode req" off len F c u]
    by (simp add: x header_fits_def sends_work_def tracks_def target_message_def)
qed

lemma all_accept_nth:
  "all_accept E msg r xs \<longleftrightarrow> (\<forall>k < length xs. accepts E (r + k) (msg (r + k) (xs ! k)) (fst (xs ! k)))"
  by (induction xs arbitrary: r) (auto simp: All_less_Suc2)

lemma accepts_iff_tracks:
  assumes "networked E cl c req nid" "k < length (propagate_targets req)" "header_fits req k" "length nid = 128"
    and "sends_work cl c (propagate_targets req ! k)" "\<And>d msg. send_err E d msg = None"
  shows "accepts E (1 + k) (target_message req nid (1 + k) (propagate_targets req ! k)) (fst (propagate_targets req ! k))
     \<longleftrightarrow> tracks cl (propagate_targets req ! k)"
proof (cases "cl (fst (propagate_targets req ! k))")
  note at = assms(1) [unfolded networked_def, rule_format, OF assms(2)]
  case None
  with at show ?thesis by (auto simp: accepts_def tracks_def Let_def)
next
  case (Some Fu)
  obtain F u where "cl (fst (propagate_targets req ! k)) = Some (F, u)" using Some by (cases Fu) simp
  note Fu = this
  have "connect_err E (fst (propagate_targets req ! k)) = None"
    "target_reply E (fst (propagate_targets req ! k)) (target_message req nid (k + 1) (propagate_targets req ! k))
       = Inr (if tracks cl (propagate_targets req ! k) then OK_line else ERROR_line)"
    using assms(1) [unfolded networked_def, rule_format, OF assms(2)] answer_at [OF assms(2-4) Fu assms(5)]
    by (simp_all add: Let_def Fu)
  moreover have "contains ''OK'' OK_line" "\<not> contains ''OK'' ERROR_line"
    by (simp_all add: OK_line_def ERROR_line_def contains_def newline_def)
  ultimately show ?thesis using assms(6) by (simp add: accepts_def)
qed

section \<open>Propagation between drivers\<close>

lemma propagation_iff:
  assumes "dget (ALLOCATED_BUFFERS s) (prop_buffer_id req) = Some info" "cupy_available E"
    and "nccl_unique_id E = Inr nid" "length nid = 128" "\<And>op. nccl_err E op = None" "\<And>d msg. send_err E d msg = None"
    and "networked E cl c req nid"
    and "\<And>k. k < length (propagate_targets req) \<Longrightarrow> header_fits req k \<and> sends_work cl c (propagate_targets req ! k)"
  shows "(\<exists>t. NodePropagate E req s = (Inr (), t)) \<longleftrightarrow> (\<forall>x\<in>set (propagate_targets req). tracks cl x)"
proof -
  have "all_accept E (target_message req nid) 1 (propagate_targets req)
      \<longleftrightarrow> (\<forall>k < length (propagate_targets req). tracks cl (propagate_targets req ! k))"
    using accepts_iff_tracks [OF assms(7) _ _ assms(4) _ assms(6)] assms(8) by (auto simp: all_accept_nth)
  then have "propagate_ok E req info nid' \<longleftrightarrow> nid' = nid \<and> (\<forall>x\<in>set (propagate_targets req). tracks cl x)" for nid'
    using assms(2,3,5) by (auto simp: propagate_ok_def destroy_ok_def list_all_iff all_set_conv_all_nth)
  then show ?thesis using assms(1) by (auto simp: propagate_returns_body propagate_body_returns)
qed

text \<open>C11. Between drivers whose network and NCCL work, a propagation succeeds exactly when every
  target node is there and tracks the buffer, or the shard, that it is to receive.\<close>

theorem propagation_succeeds_iff:
  assumes "dget (ALLOCATED_BUFFERS s) (prop_buffer_id req) = Some info" "cupy_available E"
    and "nccl_unique_id E = Inr nid" "length nid = 128" "\<And>op. nccl_err E op = None" "\<And>d msg. send_err E d msg = None"
    and "networked E cl c req nid"
    and "\<And>k. k < length (propagate_targets req) \<Longrightarrow> header_fits req k \<and> sends_work cl c (propagate_targets req ! k)"
  shows "(\<exists>t. NodePropagate E req s = (Inr (), t)) \<longleftrightarrow> (\<forall>x\<in>set (propagate_targets req). tracks cl x)"
  using assms by (rule propagation_iff)

text \<open>Two nodes: \<open>n2\<close> holds the buffer, \<open>n3\<close> does not.\<close>

definition sim_cluster :: "sim_gpu cluster" where
  "sim_cluster node =
     (if node = ''n2'' then Some (sim_env, sim_staged ''c7'' ''w'')
      else if node = ''n3'' then Some (sim_env, sim_start) else None)"

definition sim_net_of :: "sim_gpu cluster \<Rightarrow> sim_gpu env" where
  "sim_net_of cl = sim_env\<lparr>connect_err := (\<lambda>node. if cl node = None then Some (OSError []) else None),
     target_reply := (\<lambda>node msg. case cl node of
        None \<Rightarrow> Inl (OSError [])
      | Some (F, u) \<Rightarrow> (case target_answer F (Conn 0) msg u of None \<Rightarrow> Inl (TimeoutError []) | Some a \<Rightarrow> Inr a))\<rparr>"

abbreviation sim_net :: "sim_gpu env" where
  "sim_net \<equiv> sim_net_of sim_cluster"

definition sim_bcast :: "string \<Rightarrow> NodePropagateRequest" where
  "sim_bcast node = \<lparr>prop_buffer_id = ''w'', target_node_ids = [node], prop_mode = 0, shard_assignments = []\<rparr>"

lemma sim_bcast_targets:
  "propagate_targets (sim_bcast node) = [(node, ''w'', ''0,0'')]" "\<not> is_scatter (sim_bcast node)"
  "target_node_ids (sim_bcast node) = [node]" "prop_buffer_id (sim_bcast node) = ''w''"
  by (simp_all add: propagate_targets_def is_scatter_def sim_bcast_def)

lemma sim_networked: "networked (sim_net_of cl) cl (Conn 0) req nid"
  by (auto simp: networked_def Let_def sim_net_of_def split: option.splits)

lemma sim_fits: "header_fits (sim_bcast node) 0" "sends_work sim_cluster (Conn 0) (node, ''w'', ''0,0'')"
proof -
  have "length (str_int 2) = 1" "length (str_int 1) = 1" "length (str_int 0) = 1" by code_simp+
  then show "header_fits (sim_bcast node) 0"
    by (simp add: header_fits_def sim_bcast_targets world_size_def handshake_def newline_def code_def)
      (simp add: sim_bcast_def)
  show "sends_work sim_cluster (Conn 0) (node, ''w'', ''0,0'')"
    by (simp add: sends_work_def sim_cluster_def sim_env_def sim_start_state sim_staged_def sim_entry_def)
qed

lemma sim_source:
  "dget (ALLOCATED_BUFFERS (sim_staged ''c1'' ''w'')) ''w'' = Some (sim_entry ''w'' [])" "cupy_available (sim_net_of cl)"
  "nccl_unique_id (sim_net_of cl) = Inr (replicate 128 (CHR 0x07))" "nccl_err (sim_net_of cl) x = None"
  "send_err (sim_net_of cl) d msg = None"
  by (simp_all add: sim_staged_def sim_net_of_def sim_env_def)

lemma sim_propagates:
  assumes "prop_buffer_id req = ''w''"
    and "\<And>k. k < length (propagate_targets req) \<Longrightarrow> header_fits req k \<and> fst (snd (propagate_targets req ! k)) = ''w''
           \<and> fst (propagate_targets req ! k) = ''n2''"
  obtains t where "NodePropagate sim_net req (sim_staged ''c1'' ''w'') = (Inr (), t)"
proof -
  have "sends_work sim_cluster (Conn 0) (propagate_targets req ! k)" "tracks sim_cluster (propagate_targets req ! k)"
    if "k < length (propagate_targets req)" for k
    using assms(2) [OF that]
    by (simp_all add: sends_work_def tracks_def sim_cluster_def sim_env_def sim_staged_def sim_entry_def)
  then have "\<forall>x\<in>set (propagate_targets req). tracks sim_cluster x"
    "\<And>k. k < length (propagate_targets req) \<Longrightarrow> header_fits req k \<and> sends_work sim_cluster (Conn 0) (propagate_targets req ! k)"
    using assms(2) by (simp_all add: all_set_conv_all_nth)
  with propagation_iff [of "sim_staged ''c1'' ''w''" req _ sim_net _ sim_cluster "Conn 0", unfolded assms(1),
      OF sim_source(1-3) _ sim_source(4,5) sim_networked] that show thesis by auto
qed

theorem propagation_succeeds_iff_witness:
  "(\<exists>t. NodePropagate sim_net (sim_bcast ''n2'') (sim_staged ''c1'' ''w'') = (Inr (), t))
 \<and> \<not> (\<exists>t. NodePropagate sim_net (sim_bcast ''n3'') (sim_staged ''c1'' ''w'') = (Inr (), t))"
proof -
  have "(\<exists>t. NodePropagate sim_net (sim_bcast node) (sim_staged ''c1'' ''w'') = (Inr (), t))
      \<longleftrightarrow> tracks sim_cluster (node, ''w'', ''0,0'')" for node
    using propagation_succeeds_iff [of "sim_staged ''c1'' ''w''" "sim_bcast node" _ sim_net _ sim_cluster "Conn 0",
        unfolded sim_bcast_targets, OF sim_source(1-3) _ sim_source(4,5) sim_networked] sim_fits [of node]
    by (simp add: sim_bcast_targets)
  then show ?thesis by (simp add: tracks_def sim_cluster_def sim_staged_def sim_start_state)
qed

text \<open>The NCCL calls among some events.\<close>

definition nccl_ops :: "event list \<Rightarrow> nccl_op list" where
  "nccl_ops evs = concat (map (\<lambda>e. case e of EvNccl x \<Rightarrow> [x] | _ \<Rightarrow> []) evs)"

lemma nccl_ops_simps [simp]:
  "nccl_ops [] = []" "nccl_ops (xs @ ys) = nccl_ops xs @ nccl_ops ys" "nccl_ops (EvNccl x # es) = x # nccl_ops es"
  "nccl_ops (EvSend d m # es) = nccl_ops es" "nccl_ops (EvConnect d n # es) = nccl_ops es"
  "nccl_ops (EvClose d # es) = nccl_ops es"
  by (simp_all add: nccl_ops_def)

lemma nccl_ops_maps [simp]:
  "nccl_ops (map EvNccl xs) = xs" "nccl_ops (map (\<lambda>d. EvSend d m) ds) = []" "nccl_ops (map (\<lambda>r. EvClose (f r)) rs) = []"
  by (induction xs, simp_all) (induction ds, simp_all, induction rs, simp_all)

lemma nccl_ops_connections [simp]: "nccl_ops (connection_events msg r xs) = []"
  by (induction xs arbitrary: r) auto

text \<open>The target's side of a transfer, from the handshake to the end.\<close>

lemma target_session:
  assumes "newline \<notin> set b" "utf8_valid b" "length nid = 128" "length (handshake b ws r mode (scatter_meta off len) []) \<le> 1024"
    and "dget (ALLOCATED_BUFFERS u) b = Some i" "cupy_available F" "cuda_ready u"
    and nccl: "\<And>op. nccl_err F op = None" and "send_err F c OK_line = None"
    and "m = \<lparr>tm_buffer_id = b, tm_world_size = ws, tm_rank = r, tm_mode = mode,
              scatter_offset = (if mode = 1 then off else 0), scatter_length = (if mode = 1 then len else 0)\<rparr>"
  shows "\<exists>u' ev before after. handle_target_connection F c [handshake b ws r mode (scatter_meta off len) nid] u = Some u'
     \<and> events u' = events u @ ev \<and> ev = before @ [EvNccl NcclDestroy] @ after
     \<and> nccl_ops ev = [NcclInit ws nid r, target_op m i, NcclDestroy]
     \<and> (\<forall>d\<in>set (notify_sockets i). send_err F d PRE_UPDATE = None \<longrightarrow> send_err F d READY = None \<longrightarrow> EvSend d READY \<in> set after)"
proof -
  let ?h = "handshake b ws r mode (scatter_meta off len)"
  have "length (?h []) \<le> min 1024 (length (?h nid))" using assms(4) by (simp add: handshake_def)
  from handshake_run [OF assms(1-3) _ this, of "[]" F c u]
  have run: "handle_target_connection F c [?h nid] u = Some (finished c (snd (target_transfer F c m nid u)))"
    by (simp add: assms(10))
  have "target_ok F c m i nid" using nccl assms(9) by (simp add: target_ok_def destroy_ok_def)
  then obtain v where v: "target_transfer F c m nid u = (Inr (), v)" "events v = events u @ target_events F c m i nid"
    using target_transfer_returns [of u m i F c nid "()"] assms(5-7) by (simp add: assms(10))
  define told where "told = heard F PRE_UPDATE (notify_sockets i)"
  let ?before = "map (\<lambda>d. EvSend d PRE_UPDATE) told
     @ [EvSend c OK_line, EvNccl (NcclInit ws nid r), EvNccl (target_op m i)]"
  let ?after = "map (\<lambda>d. EvSend d READY) (heard F READY told) @ [EvClose c]"
  have "events (finished c v) = events u @ ?before @ [EvNccl NcclDestroy] @ ?after"
    using v(2) nccl by (simp add: finished_def target_events_def Let_def told_def destroy_events_def assms(10))
  moreover have "EvSend d READY \<in> set ?after"
    if "d \<in> set (notify_sockets i)" "send_err F d PRE_UPDATE = None" "send_err F d READY = None" for d
    using that by (simp add: told_def heard_def)
  ultimately show ?thesis
    using run v(1) by (intro exI [of _ "finished c v"] exI [of _ "?before @ [EvNccl NcclDestroy] @ ?after"]
        exI [of _ ?before] exI [of _ ?after]) simp
qed

text \<open>In a broadcast that returns, all ranks meet: the source is rank 0 and the target at
  position k is rank k + 1 of one communicator of all of them, with one identifier, and each
  enters one broadcast from rank 0 of the same number of elements on its own buffer; the target
  tells READY to the consumers it can reach after it has left the communicator.\<close>

theorem broadcast_ranks_meet:
  assumes "\<not> is_scatter req" "NodePropagate E req s = (Inr (), t)" "nccl_unique_id E = Inr nid" "length nid = 128"
    and "dget (ALLOCATED_BUFFERS s) (prop_buffer_id req) = Some info" "nccl_err E NcclDestroy = None"
    and "k < length (target_node_ids req)" "header_fits req k"
    and "dget (ALLOCATED_BUFFERS u) (prop_buffer_id req) = Some i" "size_bytes i = size_bytes info"
    and "cupy_available F" "cuda_ready u" "\<And>op. nccl_err F op = None" "send_err F c OK_line = None"
  shows "\<exists>u' ev ev' before after. let n = int (length (target_node_ids req)) + 1; m = size_bytes info div 2 in
     handle_target_connection F c [target_message req nid (k + 1) (propagate_targets req ! k)] u = Some u'
     \<and> events t = events s @ ev \<and> nccl_ops ev = [NcclInit n nid 0, NcclBcast (device_ptr info) m 0, NcclDestroy]
     \<and> events u' = events u @ ev' \<and> ev' = before @ [EvNccl NcclDestroy] @ after
     \<and> nccl_ops ev' = [NcclInit n nid (int (k + 1)), NcclBcast (device_ptr i) m 0, NcclDestroy]
     \<and> (\<forall>d\<in>set (notify_sockets i). send_err F d PRE_UPDATE = None \<longrightarrow> send_err F d READY = None \<longrightarrow> EvSend d READY \<in> set after)"
proof -
  let ?b = "prop_buffer_id req" and ?n = "int (length (target_node_ids req)) + 1"
  have tg: "propagate_targets req = map (\<lambda>ip. (ip, ?b, scatter_meta 0 0)) (target_node_ids req)"
    using assms(1) by (simp add: propagate_targets_def no_scatter_meta)
  then have ws: "world_size req = ?n" by (simp add: world_size_def)
  have msg: "target_message req nid (k + 1) (propagate_targets req ! k)
      = handshake ?b ?n (int (k + 1)) (prop_mode req) (scatter_meta 0 0) nid"
    using assms(7) by (simp add: tg target_message_def ws)
  have fits: "newline \<notin> set ?b" "utf8_valid ?b" "length (handshake ?b ?n (int (k + 1)) (prop_mode req) (scatter_meta 0 0) []) \<le> 1024"
    using assms(7,8) by (simp_all add: header_fits_def tg ws)
  have src: "events t = events s @ propagate_events E req info nid"
    using assms(2,3,5) by (auto simp: propagate_returns_body propagate_body_returns propagate_ok_def)
  have "nccl_ops (propagate_events E req info nid)
      = [NcclInit ?n nid 0, NcclBcast (device_ptr info) (size_bytes info div 2) 0, NcclDestroy]"
    using assms(1,6) by (simp add: propagate_events_def Let_def source_ops_def destroy_events_def ws)
  with src target_session [OF fits(1,2) assms(4) fits(3) assms(9,11-14) refl] show ?thesis
    unfolding Let_def msg assms(10) [symmetric] target_op_def by simp
qed

theorem broadcast_ranks_meet_witness:
  "\<exists>t u' ev ev'. NodePropagate sim_net (sim_bcast ''n2'') (sim_staged ''c1'' ''w'') = (Inr (), t)
     \<and> handle_target_connection sim_env (Conn 0) [target_message (sim_bcast ''n2'') (replicate 128 (CHR 0x07)) (0 + 1)
          (propagate_targets (sim_bcast ''n2'') ! 0)] (sim_staged ''c7'' ''w'') = Some u'
     \<and> events t = events (sim_staged ''c1'' ''w'') @ ev \<and> events u' = events (sim_staged ''c7'' ''w'') @ ev'
     \<and> nccl_ops ev = [NcclInit 2 (replicate 128 (CHR 0x07)) 0, NcclBcast 8589934592 1048576 0, NcclDestroy]
     \<and> nccl_ops ev' = [NcclInit 2 (replicate 128 (CHR 0x07)) 1, NcclBcast 8589934592 1048576 0, NcclDestroy]"
proof -
  let ?s = "sim_staged ''c1'' ''w''" and ?u = "sim_staged ''c7'' ''w''" and ?req = "sim_bcast ''n2''"
  obtain t where t: "NodePropagate sim_net ?req ?s = (Inr (), t)"
    by (rule sim_propagates [of ?req]) (simp_all add: sim_bcast_targets sim_fits)
  have u: "dget (ALLOCATED_BUFFERS ?u) ''w'' = Some (sim_entry ''w'' [])" "cupy_available sim_env" "cuda_ready ?u"
    "nccl_err sim_env x = None" "send_err sim_env (Conn 0) OK_line = None" for x
    by (simp_all add: sim_staged_def sim_env_def)
  have ops: "int (length (target_node_ids ?req)) + 1 = 2" "size_bytes (sim_entry ''w'' []) div 2 = 1048576"
    "device_ptr (sim_entry ''w'' []) = 8589934592" "int (0 + 1) = 1"
    by (simp_all add: sim_bcast_targets sim_entry_def)
  have src: "dget (ALLOCATED_BUFFERS ?s) (prop_buffer_id ?req) = Some (sim_entry ''w'' [])"
    "dget (ALLOCATED_BUFFERS ?u) (prop_buffer_id ?req) = Some (sim_entry ''w'' [])" "0 < length (target_node_ids ?req)"
    "length (replicate 128 (CHR 0x07)) = 128"
    using sim_source(1) u(1) by (simp_all add: sim_bcast_targets)
  from broadcast_ranks_meet [OF sim_bcast_targets(2) t sim_source(3) src(4,1) sim_source(4) src(3) sim_fits(1)
      src(2) refl u(2-5), unfolded Let_def ops] t
  show ?thesis by blast
qed

end
