(* ===== verification/Cluster_Memory.thy ===== *)
theory Cluster_Memory
  imports Cluster_Transfer
begin

text \<open>
  What a propagation does to device memory. NCCL is not part of the repository: what the calls of
  all ranks together do to the memory of each rank is a parameter, and \<open>nccl_moves\<close> states its
  documented behaviour for the two patterns the driver uses, a broadcast by all ranks and
  sends of rank 0 that the other ranks receive. The calls themselves are those that the
  source's \<open>NodePropagate\<close> and the targets' \<open>handle_target_connection\<close> make.
\<close>

section \<open>NCCL\<close>

type_synonym memory = "int \<Rightarrow> char"
type_synonym nccl_job = "nat \<Rightarrow> nccl_op list"

text \<open>One broadcast from rank 0 by every rank of a world of \<open>n\<close>, of elements of two bytes.\<close>

definition bcast_job :: "nat \<Rightarrow> bytes \<Rightarrow> (nat \<Rightarrow> int) \<Rightarrow> int \<Rightarrow> nccl_job \<Rightarrow> bool" where
  "bcast_job n nid p cnt ops \<longleftrightarrow>
     (\<forall>r < n. ops r = [NcclInit (int n) nid (int r), NcclBcast (p r) cnt 0, NcclDestroy])"

text \<open>One send of rank 0 to each other rank, with address and number of elements, and its receive.\<close>

definition scatter_job :: "bytes \<Rightarrow> (int \<times> int) list \<Rightarrow> (nat \<Rightarrow> int) \<Rightarrow> nccl_job \<Rightarrow> bool" where
  "scatter_job nid xs q ops \<longleftrightarrow>
     ops 0 = NcclInit (int (length xs + 1)) nid 0
               # map (\<lambda>(k, x). NcclSend (fst x) (snd x) (int k + 1)) (enumerate 0 xs) @ [NcclDestroy]
   \<and> (\<forall>k < length xs. ops (k + 1) =
        [NcclInit (int (length xs + 1)) nid (int (k + 1)), NcclRecv (q k) (snd (xs ! k)) 0, NcclDestroy])"

definition nccl_moves :: "(nccl_job \<Rightarrow> (nat \<Rightarrow> memory) \<Rightarrow> nat \<Rightarrow> memory) \<Rightarrow> bool" where
  "nccl_moves N \<longleftrightarrow>
     (\<forall>n nid p cnt ops M r j. bcast_job n nid p cnt ops \<longrightarrow> r < n \<longrightarrow> 0 \<le> j \<longrightarrow> j < 2 * cnt \<longrightarrow>
        N ops M r (p r + j) = M 0 (p 0 + j))
   \<and> (\<forall>nid xs q ops M k j. scatter_job nid xs q ops \<longrightarrow> k < length xs \<longrightarrow> 0 \<le> j \<longrightarrow> j < 2 * snd (xs ! k) \<longrightarrow>
        N ops M (k + 1) (q k + j) = M 0 (fst (xs ! k) + j))"

lemma nccl_rules:
  assumes "nccl_moves N"
  shows "bcast_job n nid p cnt ops \<Longrightarrow> r < n \<Longrightarrow> 0 \<le> j \<Longrightarrow> j < 2 * cnt \<Longrightarrow> N ops M r (p r + j) = M 0 (p 0 + j)"
    and "scatter_job nid xs q ops \<Longrightarrow> k < length xs \<Longrightarrow> 0 \<le> j \<Longrightarrow> j < 2 * snd (xs ! k) \<Longrightarrow>
         N ops M (k + 1) (q k + j) = M 0 (fst (xs ! k) + j)"
  using assms unfolding nccl_moves_def by blast+

section \<open>The calls of a propagation\<close>

definition target_calls :: "'g env \<Rightarrow> sock \<Rightarrow> bytes \<Rightarrow> 'g driver \<Rightarrow> nccl_op list" where
  "target_calls F c msg u =
     (case handle_target_connection F c [msg] u of
        None \<Rightarrow> []
      | Some u' \<Rightarrow> nccl_ops (drop (length (events u)) (events u')))"

text \<open>
  The calls of every rank: those of the source between its states \<open>s\<close> and \<open>t\<close>, and those of
  the handlers that its handshakes start.
\<close>

definition session ::
  "'g cluster \<Rightarrow> sock \<Rightarrow> NodePropagateRequest \<Rightarrow> bytes \<Rightarrow> 'g driver \<Rightarrow> 'g driver \<Rightarrow> nccl_job" where
  "session cl c req nid s t r =
     (case r of
        0 \<Rightarrow> nccl_ops (drop (length (events s)) (events t))
      | Suc k \<Rightarrow>
          (case cl (fst (propagate_targets req ! k)) of
             None \<Rightarrow> []
           | Some (F, u) \<Rightarrow> target_calls F c (target_message req nid (k + 1) (propagate_targets req ! k)) u))"

text \<open>A target that tracks its buffer as \<open>i\<close> and on which CUDA and NCCL work.\<close>

definition target_ready :: "'g cluster \<Rightarrow> sock \<Rightarrow> string \<times> string \<times> string \<Rightarrow> buf_info \<Rightarrow> bool" where
  "target_ready cl c x i \<longleftrightarrow>
     (\<exists>F u. cl (fst x) = Some (F, u) \<and> dget (ALLOCATED_BUFFERS u) (fst (snd x)) = Some i
        \<and> cupy_available F \<and> cuda_ready u \<and> (\<forall>op. nccl_err F op = None) \<and> send_err F c OK_line = None)"

lemma target_rank_calls:
  assumes x: "propagate_targets req ! k = (node, b, scatter_meta off len)" and "header_fits req k" "length nid = 128"
    and "target_ready cl c (propagate_targets req ! k) i"
  shows "session cl c req nid s t (k + 1) = [NcclInit (world_size req) nid (int (k + 1)),
          target_op \<lparr>tm_buffer_id = b, tm_world_size = world_size req,
            tm_rank = int (k + 1), tm_mode = prop_mode req, scatter_offset = (if prop_mode req = 1 then off else 0),
            scatter_length = (if prop_mode req = 1 then len else 0)\<rparr> i, NcclDestroy]"
proof -
  obtain F u where F: "cl node = Some (F, u)" "dget (ALLOCATED_BUFFERS u) b = Some i" "cupy_available F" "cuda_ready u"
    "\<And>op. nccl_err F op = None" "send_err F c OK_line = None"
    using assms(4) by (auto simp: target_ready_def x)
  have fits: "newline \<notin> set b" "utf8_valid b"
    "length (handshake b (world_size req) (int (k + 1)) (prop_mode req) (scatter_meta off len) []) \<le> 1024"
    using assms(2) by (simp_all add: header_fits_def x)
  obtain u' ev where "handle_target_connection F c [handshake b (world_size req) (int (k + 1)) (prop_mode req) (scatter_meta off len) nid] u = Some u'"
    "events u' = events u @ ev"
    "nccl_ops ev = [NcclInit (world_size req) nid (int (k + 1)), target_op \<lparr>tm_buffer_id = b, tm_world_size = world_size req,
            tm_rank = int (k + 1), tm_mode = prop_mode req, scatter_offset = (if prop_mode req = 1 then off else 0),
            scatter_length = (if prop_mode req = 1 then len else 0)\<rparr> i, NcclDestroy]"
    using target_session [OF fits(1,2) assms(3) fits(3) F(2-6) refl] by metis
  with F(1) show ?thesis by (simp add: session_def target_calls_def target_message_def x)
qed

lemma source_rank_calls:
  assumes "NodePropagate E req s = (Inr (), t)" "nccl_unique_id E = Inr nid" "nccl_err E NcclDestroy = None"
    and "dget (ALLOCATED_BUFFERS s) (prop_buffer_id req) = Some info"
  shows "session cl c req nid s t 0 = NcclInit (world_size req) nid 0 # source_ops req info @ [NcclDestroy]"
proof -
  have "events t = events s @ propagate_events E req info nid"
    using assms by (auto simp: propagate_returns_body propagate_body_returns propagate_ok_def)
  then show ?thesis
    using assms(3) by (simp add: session_def propagate_events_def Let_def destroy_events_def)
qed

section \<open>What arrives\<close>

lemma broadcast_session:
  assumes "\<not> is_scatter req" "NodePropagate E req s = (Inr (), t)" "nccl_unique_id E = Inr nid" "length nid = 128"
    and "nccl_err E NcclDestroy = None" "dget (ALLOCATED_BUFFERS s) (prop_buffer_id req) = Some info"
    and "\<And>k. k < length (target_node_ids req) \<Longrightarrow> header_fits req k
           \<and> target_ready cl c (propagate_targets req ! k) (entry k) \<and> size_bytes (entry k) = size_bytes info"
  shows "bcast_job (length (target_node_ids req) + 1) nid (\<lambda>r. case r of 0 \<Rightarrow> device_ptr info | Suc k \<Rightarrow> device_ptr (entry k))
           (size_bytes info div 2) (session cl c req nid s t)"
  unfolding bcast_job_def
proof (intro allI impI)
  fix r assume r: "r < length (target_node_ids req) + 1"
  have tg: "propagate_targets req = map (\<lambda>ip. (ip, prop_buffer_id req, scatter_meta 0 0)) (target_node_ids req)"
    using assms(1) by (simp add: propagate_targets_def no_scatter_meta)
  then have ws: "world_size req = int (length (target_node_ids req) + 1)" by (simp add: world_size_def)
  show "session cl c req nid s t r = [NcclInit (int (length (target_node_ids req) + 1)) nid (int r),
     NcclBcast (case r of 0 \<Rightarrow> device_ptr info | Suc k \<Rightarrow> device_ptr (entry k)) (size_bytes info div 2) 0, NcclDestroy]"
  proof (cases r)
    case 0
    with source_rank_calls [OF assms(2,3,5,6)] assms(1) ws show ?thesis by (simp add: source_ops_def)
  next
    case (Suc k)
    then have "k < length (target_node_ids req)" using r by simp
    with target_rank_calls [of req k _ "prop_buffer_id req" 0 0 nid cl c "entry k" s t] assms(4) assms(7) [of k] Suc ws
    show ?thesis by (simp add: tg target_op_def)
  qed
qed

text \<open>C13. A broadcast delivers: when the source's call returns and the targets' buffers are as
  large as the source's, every target's buffer holds the source's bytes at the end, up to an odd
  last one, which is not transferred.\<close>

theorem broadcast_delivers:
  assumes "nccl_moves N" "\<not> is_scatter req" "NodePropagate E req s = (Inr (), t)" "nccl_unique_id E = Inr nid" "length nid = 128"
    and "nccl_err E NcclDestroy = None" "dget (ALLOCATED_BUFFERS s) (prop_buffer_id req) = Some info"
    and "\<And>k. k < length (target_node_ids req) \<Longrightarrow> header_fits req k
           \<and> target_ready cl c (propagate_targets req ! k) (entry k) \<and> size_bytes (entry k) = size_bytes info"
    and "k < length (target_node_ids req)" "0 \<le> j" "j < 2 * (size_bytes info div 2)"
  shows "N (session cl c req nid s t) M (k + 1) (device_ptr (entry k) + j) = M 0 (device_ptr info + j)"
  using nccl_rules(1) [OF assms(1) broadcast_session [OF assms(2-8)], of "k + 1" j M] assms(9-11) by simp



section \<open>A concrete NCCL\<close>

definition sim_nccl :: "nccl_job \<Rightarrow> (nat \<Rightarrow> memory) \<Rightarrow> nat \<Rightarrow> memory" where
  "sim_nccl ops M r a =
     (case (ops r, ops 0) of
        ([_, NcclBcast p n _, _], [_, NcclBcast p0 _ _, _]) \<Rightarrow> if p \<le> a \<and> a < p + 2 * n then M 0 (p0 + (a - p)) else M r a
      | ([_, NcclRecv q n _, _], ops0) \<Rightarrow>
          (case ops0 ! r of
             NcclSend p _ _ \<Rightarrow> if q \<le> a \<and> a < q + 2 * n then M 0 (p + (a - q)) else M r a
           | _ \<Rightarrow> M r a)
      | _ \<Rightarrow> M r a)"

lemma sim_nccl_moves: "nccl_moves sim_nccl"
  unfolding nccl_moves_def
proof (intro conjI allI impI)
  fix n nid p cnt ops M r and j :: int
  assume job: "bcast_job n nid p cnt ops" and j: "r < n" "0 \<le> j" "j < 2 * cnt"
  then have "ops r = [NcclInit (int n) nid (int r), NcclBcast (p r) cnt 0, NcclDestroy]"
    "ops 0 = [NcclInit (int n) nid 0, NcclBcast (p 0) cnt 0, NcclDestroy]"
    by (auto simp: bcast_job_def)
  with j show "sim_nccl ops M r (p r + j) = M 0 (p 0 + j)" by (simp add: sim_nccl_def)
next
  fix nid xs q ops M k and j :: int
  assume job: "scatter_job nid xs q ops" and j: "k < length xs" "0 \<le> j" "j < 2 * snd (xs ! k)"
  then have "ops 0 ! (k + 1) = NcclSend (fst (xs ! k)) (snd (xs ! k)) (int k + 1)"
    "ops (k + 1) = [NcclInit (int (length xs + 1)) nid (int (k + 1)), NcclRecv (q k) (snd (xs ! k)) 0, NcclDestroy]"
    by (simp_all add: scatter_job_def nth_append nth_enumerate_eq)
  with j show "sim_nccl ops M (k + 1) (q k + j) = M 0 (fst (xs ! k) + j)" by (simp add: sim_nccl_def)
qed

lemma sim_target_ready: "target_ready sim_cluster (Conn 0) (''n2'', ''w'', meta) (sim_entry ''w'' [])"
  unfolding target_ready_def
  by (intro exI [of _ sim_env] exI [of _ "sim_staged ''c7'' ''w''"])
     (simp add: sim_cluster_def sim_env_def sim_staged_def)

theorem broadcast_delivers_witness:
  "\<exists>t. NodePropagate sim_net (sim_bcast ''n2'') (sim_staged ''c1'' ''w'') = (Inr (), t)
     \<and> sim_nccl (session sim_cluster (Conn 0) (sim_bcast ''n2'') (replicate 128 (CHR 0x07)) (sim_staged ''c1'' ''w'') t)
         (\<lambda>r a. if r = 0 then CHR ''x'' else CHR ''.'') 1 (8589934592 + 5) = CHR ''x''"
proof -
  let ?req = "sim_bcast ''n2''" and ?s = "sim_staged ''c1'' ''w''"
  obtain t where t: "NodePropagate sim_net ?req ?s = (Inr (), t)"
    by (rule sim_propagates [of ?req]) (simp_all add: sim_bcast_targets sim_fits)
  have "header_fits ?req k \<and> target_ready sim_cluster (Conn 0) (propagate_targets ?req ! k) (sim_entry ''w'' [])
      \<and> size_bytes (sim_entry ''w'' []) = size_bytes (sim_entry ''w'' [])" if "k < length (target_node_ids ?req)" for k
    using that sim_fits(1) sim_target_ready by (simp add: sim_bcast_targets)
  note ready = this
  have e: "device_ptr (sim_entry ''w'' []) = 8589934592" "size_bytes (sim_entry ''w'' []) = 2097152" by (simp_all add: sim_entry_def)
  have "dget (ALLOCATED_BUFFERS ?s) (prop_buffer_id ?req) = Some (sim_entry ''w'' [])"
    using sim_source(1) by (simp add: sim_bcast_targets)
  from broadcast_delivers [OF sim_nccl_moves sim_bcast_targets(2) t sim_source(3) _ sim_source(4) this ready, of 0 5] t
  show ?thesis by (simp add: e sim_bcast_targets)
qed




end
