(* ===== verification/End_To_End.thy ===== *)
theory End_To_End
  imports Cluster_Memory Engine_Properties Grpc_Properties
begin

text \<open>
  The whole path of a weight update: the trainer's checkpoint engine packs its tensors and calls
  the driver of its node through the generated gRPC code, the driver broadcasts the buffer to the
  drivers of the rollout nodes, and the engine of a worker there cuts the tensors out of its
  own driver's buffer.
\<close>

section \<open>From the engine to the driver\<close>




section \<open>From the trainer to a worker on another node\<close>




section \<open>A concrete update\<close>












end
