(* ===== verification/Grpc_Copies.thy ===== *)
theory Grpc_Copies
  imports Grpc_Properties
begin

text \<open>
  The generated modules of the two client packages (\<open>consumer/wpi_client/proto/wpi_pb2_grpc.py\<close> and
  \<open>consumer/wpi_verl_plugin/proto/wpi_pb2_grpc.py\<close>) beyond the stubs: the version check, the base
  servicers, the registration functions and the static call interfaces. They were generated at
  different times and with different compilers, so that nothing but their content makes them fit
  each other: a server that any of the three modules has set up answers the stubs of any other.
\<close>

section \<open>The module of the client library\<close>

definition client_version_check :: "(string \<Rightarrow> string \<Rightarrow> bool) option \<Rightarrow> string \<Rightarrow> exn option" where
  "client_version_check lower installed = version_check lower installed client_GRPC_GENERATED_VERSION"

definition client_IdentityServiceServicer :: "'g servicer" where
  "client_IdentityServiceServicer = map (\<lambda>m. (m, unimplemented)) [''GetPluginInfo'', ''GetPluginCapabilities'']"

definition client_add_IdentityServiceServicer_to_server ::
  "('g, 'srv) grpc_lib \<Rightarrow> 'g servicer \<Rightarrow> 'srv \<Rightarrow> exn + 'srv" where
  "client_add_IdentityServiceServicer_to_server L servicer server =
     bindS (rpc_method_handlers servicer [(''GetPluginInfo'', ''GetPluginInfo'', ''GetPluginInfoRequest'', ''GetPluginInfoResponse''),
       (''GetPluginCapabilities'', ''GetPluginCapabilities'', ''GetPluginCapabilitiesRequest'', ''GetPluginCapabilitiesResponse'')]) (\<lambda>hs.
     Inr (add_service L ''wpi.v1alpha1.IdentityService'' hs server))"

definition client_IdentityService_api :: "stub_method dict" where
  "client_IdentityService_api =
    [(''GetPluginInfo'', \<lparr>sm_path = ''/wpi.v1alpha1.IdentityService/GetPluginInfo'',
        sm_request = ''GetPluginInfoRequest'', sm_response = ''GetPluginInfoResponse''\<rparr>),
     (''GetPluginCapabilities'', \<lparr>sm_path = ''/wpi.v1alpha1.IdentityService/GetPluginCapabilities'',
        sm_request = ''GetPluginCapabilitiesRequest'', sm_response = ''GetPluginCapabilitiesResponse''\<rparr>)]"

definition client_ControllerServiceServicer :: "'g servicer" where
  "client_ControllerServiceServicer = map (\<lambda>m. (m, unimplemented)) [''CreateWeightBuffer'', ''AuthorizeTransfer'', ''QueryTopology'']"

definition client_add_ControllerServiceServicer_to_server ::
  "('g, 'srv) grpc_lib \<Rightarrow> 'g servicer \<Rightarrow> 'srv \<Rightarrow> exn + 'srv" where
  "client_add_ControllerServiceServicer_to_server L servicer server =
     bindS (rpc_method_handlers servicer [(''CreateWeightBuffer'', ''CreateWeightBuffer'', ''CreateWeightBufferRequest'', ''CreateWeightBufferResponse''),
       (''AuthorizeTransfer'', ''AuthorizeTransfer'', ''AuthorizeTransferRequest'', ''AuthorizeTransferResponse''),
       (''QueryTopology'', ''QueryTopology'', ''QueryTopologyRequest'', ''QueryTopologyResponse'')]) (\<lambda>hs.
     Inr (add_service L ''wpi.v1alpha1.ControllerService'' hs server))"

definition client_ControllerService_api :: "stub_method dict" where
  "client_ControllerService_api =
    [(''CreateWeightBuffer'', \<lparr>sm_path = ''/wpi.v1alpha1.ControllerService/CreateWeightBuffer'',
        sm_request = ''CreateWeightBufferRequest'', sm_response = ''CreateWeightBufferResponse''\<rparr>),
     (''AuthorizeTransfer'', \<lparr>sm_path = ''/wpi.v1alpha1.ControllerService/AuthorizeTransfer'',
        sm_request = ''AuthorizeTransferRequest'', sm_response = ''AuthorizeTransferResponse''\<rparr>),
     (''QueryTopology'', \<lparr>sm_path = ''/wpi.v1alpha1.ControllerService/QueryTopology'',
        sm_request = ''QueryTopologyRequest'', sm_response = ''QueryTopologyResponse''\<rparr>)]"

definition client_NodeServiceServicer :: "'g servicer" where
  "client_NodeServiceServicer = map (\<lambda>m. (m, unimplemented)) [''NodeRegisterWeight'', ''NodeStageWeight'', ''NodeUnstageWeight'', ''NodePropagate'', ''NodeTranslateAndMap'']"

definition client_add_NodeServiceServicer_to_server ::
  "('g, 'srv) grpc_lib \<Rightarrow> 'g servicer \<Rightarrow> 'srv \<Rightarrow> exn + 'srv" where
  "client_add_NodeServiceServicer_to_server L servicer server =
     bindS (rpc_method_handlers servicer [(''NodeRegisterWeight'', ''NodeRegisterWeight'', ''NodeRegisterWeightRequest'', ''NodeRegisterWeightResponse''),
       (''NodeStageWeight'', ''NodeStageWeight'', ''NodeStageWeightRequest'', ''NodeStageWeightResponse''),
       (''NodeUnstageWeight'', ''NodeUnstageWeight'', ''NodeUnstageWeightRequest'', ''NodeUnstageWeightResponse''),
       (''NodePropagate'', ''NodePropagate'', ''NodePropagateRequest'', ''NodePropagateResponse''),
       (''NodeTranslateAndMap'', ''NodeTranslateAndMap'', ''NodeTranslateAndMapRequest'', ''NodeTranslateAndMapResponse'')]) (\<lambda>hs.
     Inr (add_service L ''wpi.v1alpha1.NodeService'' hs server))"

definition client_NodeService_api :: "stub_method dict" where
  "client_NodeService_api =
    [(''NodeRegisterWeight'', \<lparr>sm_path = ''/wpi.v1alpha1.NodeService/NodeRegisterWeight'',
        sm_request = ''NodeRegisterWeightRequest'', sm_response = ''NodeRegisterWeightResponse''\<rparr>),
     (''NodeStageWeight'', \<lparr>sm_path = ''/wpi.v1alpha1.NodeService/NodeStageWeight'',
        sm_request = ''NodeStageWeightRequest'', sm_response = ''NodeStageWeightResponse''\<rparr>),
     (''NodeUnstageWeight'', \<lparr>sm_path = ''/wpi.v1alpha1.NodeService/NodeUnstageWeight'',
        sm_request = ''NodeUnstageWeightRequest'', sm_response = ''NodeUnstageWeightResponse''\<rparr>),
     (''NodePropagate'', \<lparr>sm_path = ''/wpi.v1alpha1.NodeService/NodePropagate'',
        sm_request = ''NodePropagateRequest'', sm_response = ''NodePropagateResponse''\<rparr>),
     (''NodeTranslateAndMap'', \<lparr>sm_path = ''/wpi.v1alpha1.NodeService/NodeTranslateAndMap'',
        sm_request = ''NodeTranslateAndMapRequest'', sm_response = ''NodeTranslateAndMapResponse''\<rparr>)]"

section \<open>The module of the verl plugin\<close>

definition verl_version_check :: "(string \<Rightarrow> string \<Rightarrow> bool) option \<Rightarrow> string \<Rightarrow> exn option" where
  "verl_version_check lower installed = version_check lower installed verl_GRPC_GENERATED_VERSION"

definition verl_IdentityServiceServicer :: "'g servicer" where
  "verl_IdentityServiceServicer = map (\<lambda>m. (m, unimplemented)) [''GetPluginInfo'', ''GetPluginCapabilities'']"

definition verl_add_IdentityServiceServicer_to_server ::
  "('g, 'srv) grpc_lib \<Rightarrow> 'g servicer \<Rightarrow> 'srv \<Rightarrow> exn + 'srv" where
  "verl_add_IdentityServiceServicer_to_server L servicer server =
     bindS (rpc_method_handlers servicer [(''GetPluginInfo'', ''GetPluginInfo'', ''GetPluginInfoRequest'', ''GetPluginInfoResponse''),
       (''GetPluginCapabilities'', ''GetPluginCapabilities'', ''GetPluginCapabilitiesRequest'', ''GetPluginCapabilitiesResponse'')]) (\<lambda>hs.
     Inr (add_service L ''wpi.v1alpha1.IdentityService'' hs server))"

definition verl_IdentityService_api :: "stub_method dict" where
  "verl_IdentityService_api =
    [(''GetPluginInfo'', \<lparr>sm_path = ''/wpi.v1alpha1.IdentityService/GetPluginInfo'',
        sm_request = ''GetPluginInfoRequest'', sm_response = ''GetPluginInfoResponse''\<rparr>),
     (''GetPluginCapabilities'', \<lparr>sm_path = ''/wpi.v1alpha1.IdentityService/GetPluginCapabilities'',
        sm_request = ''GetPluginCapabilitiesRequest'', sm_response = ''GetPluginCapabilitiesResponse''\<rparr>)]"

definition verl_ControllerServiceServicer :: "'g servicer" where
  "verl_ControllerServiceServicer = map (\<lambda>m. (m, unimplemented)) [''CreateWeightBuffer'', ''AuthorizeTransfer'', ''QueryTopology'']"

definition verl_add_ControllerServiceServicer_to_server ::
  "('g, 'srv) grpc_lib \<Rightarrow> 'g servicer \<Rightarrow> 'srv \<Rightarrow> exn + 'srv" where
  "verl_add_ControllerServiceServicer_to_server L servicer server =
     bindS (rpc_method_handlers servicer [(''CreateWeightBuffer'', ''CreateWeightBuffer'', ''CreateWeightBufferRequest'', ''CreateWeightBufferResponse''),
       (''AuthorizeTransfer'', ''AuthorizeTransfer'', ''AuthorizeTransferRequest'', ''AuthorizeTransferResponse''),
       (''QueryTopology'', ''QueryTopology'', ''QueryTopologyRequest'', ''QueryTopologyResponse'')]) (\<lambda>hs.
     Inr (add_service L ''wpi.v1alpha1.ControllerService'' hs server))"

definition verl_ControllerService_api :: "stub_method dict" where
  "verl_ControllerService_api =
    [(''CreateWeightBuffer'', \<lparr>sm_path = ''/wpi.v1alpha1.ControllerService/CreateWeightBuffer'',
        sm_request = ''CreateWeightBufferRequest'', sm_response = ''CreateWeightBufferResponse''\<rparr>),
     (''AuthorizeTransfer'', \<lparr>sm_path = ''/wpi.v1alpha1.ControllerService/AuthorizeTransfer'',
        sm_request = ''AuthorizeTransferRequest'', sm_response = ''AuthorizeTransferResponse''\<rparr>),
     (''QueryTopology'', \<lparr>sm_path = ''/wpi.v1alpha1.ControllerService/QueryTopology'',
        sm_request = ''QueryTopologyRequest'', sm_response = ''QueryTopologyResponse''\<rparr>)]"

definition verl_NodeServiceServicer :: "'g servicer" where
  "verl_NodeServiceServicer = map (\<lambda>m. (m, unimplemented)) [''NodeRegisterWeight'', ''NodeStageWeight'', ''NodeUnstageWeight'', ''NodePropagate'', ''NodeTranslateAndMap'']"

definition verl_add_NodeServiceServicer_to_server ::
  "('g, 'srv) grpc_lib \<Rightarrow> 'g servicer \<Rightarrow> 'srv \<Rightarrow> exn + 'srv" where
  "verl_add_NodeServiceServicer_to_server L servicer server =
     bindS (rpc_method_handlers servicer [(''NodeRegisterWeight'', ''NodeRegisterWeight'', ''NodeRegisterWeightRequest'', ''NodeRegisterWeightResponse''),
       (''NodeStageWeight'', ''NodeStageWeight'', ''NodeStageWeightRequest'', ''NodeStageWeightResponse''),
       (''NodeUnstageWeight'', ''NodeUnstageWeight'', ''NodeUnstageWeightRequest'', ''NodeUnstageWeightResponse''),
       (''NodePropagate'', ''NodePropagate'', ''NodePropagateRequest'', ''NodePropagateResponse''),
       (''NodeTranslateAndMap'', ''NodeTranslateAndMap'', ''NodeTranslateAndMapRequest'', ''NodeTranslateAndMapResponse'')]) (\<lambda>hs.
     Inr (add_service L ''wpi.v1alpha1.NodeService'' hs server))"

definition verl_NodeService_api :: "stub_method dict" where
  "verl_NodeService_api =
    [(''NodeRegisterWeight'', \<lparr>sm_path = ''/wpi.v1alpha1.NodeService/NodeRegisterWeight'',
        sm_request = ''NodeRegisterWeightRequest'', sm_response = ''NodeRegisterWeightResponse''\<rparr>),
     (''NodeStageWeight'', \<lparr>sm_path = ''/wpi.v1alpha1.NodeService/NodeStageWeight'',
        sm_request = ''NodeStageWeightRequest'', sm_response = ''NodeStageWeightResponse''\<rparr>),
     (''NodeUnstageWeight'', \<lparr>sm_path = ''/wpi.v1alpha1.NodeService/NodeUnstageWeight'',
        sm_request = ''NodeUnstageWeightRequest'', sm_response = ''NodeUnstageWeightResponse''\<rparr>),
     (''NodePropagate'', \<lparr>sm_path = ''/wpi.v1alpha1.NodeService/NodePropagate'',
        sm_request = ''NodePropagateRequest'', sm_response = ''NodePropagateResponse''\<rparr>),
     (''NodeTranslateAndMap'', \<lparr>sm_path = ''/wpi.v1alpha1.NodeService/NodeTranslateAndMap'',
        sm_request = ''NodeTranslateAndMapRequest'', sm_response = ''NodeTranslateAndMapResponse''\<rparr>)]"

section \<open>The modules fit each other\<close>

text \<open>The handlers of a servicer for the methods of a stub.\<close>

definition handlers_for :: "stub_method dict \<Rightarrow> 'g servicer \<Rightarrow> 'g method_handler dict" where
  "handlers_for stub servicer = map (\<lambda>(n, m). (n, \<lparr>mh_behaviour = the (dget servicer n),
     mh_request = sm_request m, mh_response = sm_response m\<rparr>)) stub"

text \<open>
  What a generated service promises: its paths are those of the service, its methods have
  different names, and registering a servicer that has them adds exactly their handlers.
\<close>

locale generated_service =
  fixes svc :: string and stub :: "stub_method dict"
    and add :: "('g, 'srv) grpc_lib \<Rightarrow> 'g servicer \<Rightarrow> 'srv \<Rightarrow> exn + 'srv"
  assumes paths: "(name, m) \<in> set stub \<Longrightarrow> sm_path m = full_path svc name"
    and names: "distinct (map fst stub)"
    and registers: "(\<And>n. n \<in> fst ` set stub \<Longrightarrow> dget servicer n \<noteq> None) \<Longrightarrow>
          add L servicer server = Inr (add_service L svc (handlers_for stub servicer) server)"
begin

lemma serves:
  assumes "grpc_laws L" "\<And>n. n \<in> fst ` set stub \<Longrightarrow> dget servicer n \<noteq> None"
  shows "\<exists>srv. add L servicer (new_server L) = Inr srv
     \<and> (\<forall>name m. (name, m) \<in> set stub \<longrightarrow>
          find_handler L srv (sm_path m) = Some \<lparr>mh_behaviour = the (dget servicer name),
             mh_request = sm_request m, mh_response = sm_response m\<rparr>)"
proof -
  let ?srv = "add_service L svc (handlers_for stub servicer) (new_server L)"
  have "find_handler L ?srv (sm_path m) = Some \<lparr>mh_behaviour = the (dget servicer name),
      mh_request = sm_request m, mh_response = sm_response m\<rparr>" if "(name, m) \<in> set stub" for name m
  proof -
    have "find_handler L ?srv (sm_path m) = dget (handlers_for stub servicer) name"
      using grpc_rules(2) [OF assms(1) grpc_rules(1) [OF assms(1)]] paths [OF that] by (simp add: dget_full_paths)
    also have "dget stub name = Some m" using that names by simp
    then have "dget (handlers_for stub servicer) name = Some \<lparr>mh_behaviour = the (dget servicer name),
        mh_request = sm_request m, mh_response = sm_response m\<rparr>" by (simp add: handlers_for_def dget_map_entries)
    finally show ?thesis .
  qed
  with registers [of servicer L "new_server L"] assms(2) show ?thesis by blast
qed

end

lemmas driver_module_defs = NodeServiceStub_def IdentityServiceStub_def ControllerServiceStub_def handlers_for_def
  add_NodeServiceServicer_to_server_def add_IdentityServiceServicer_to_server_def add_ControllerServiceServicer_to_server_def

interpretation node: generated_service "''wpi.v1alpha1.NodeService''" NodeServiceStub add_NodeServiceServicer_to_server
proof
  show "add_NodeServiceServicer_to_server L servicer server =
      Inr (add_service L ''wpi.v1alpha1.NodeService'' (handlers_for NodeServiceStub servicer) server)"
    if "\<And>n. n \<in> fst ` set NodeServiceStub \<Longrightarrow> dget servicer n \<noteq> None" for servicer L server
    using that [of "''NodeRegisterWeight''"] that [of "''NodeStageWeight''"] that [of "''NodeUnstageWeight''"]
      that [of "''NodePropagate''"] that [of "''NodeTranslateAndMap''"]
    by (auto simp: driver_module_defs)
qed (auto intro: stub_paths simp: NodeServiceStub_def)

interpretation identity: generated_service "''wpi.v1alpha1.IdentityService''" IdentityServiceStub add_IdentityServiceServicer_to_server
proof
  show "add_IdentityServiceServicer_to_server L servicer server =
      Inr (add_service L ''wpi.v1alpha1.IdentityService'' (handlers_for IdentityServiceStub servicer) server)"
    if "\<And>n. n \<in> fst ` set IdentityServiceStub \<Longrightarrow> dget servicer n \<noteq> None" for servicer L server
    using that [of "''GetPluginInfo''"] that [of "''GetPluginCapabilities''"] by (auto simp: driver_module_defs)
qed (auto intro: stub_paths simp: IdentityServiceStub_def)

interpretation controller: generated_service "''wpi.v1alpha1.ControllerService''" ControllerServiceStub add_ControllerServiceServicer_to_server
proof
  show "add_ControllerServiceServicer_to_server L servicer server =
      Inr (add_service L ''wpi.v1alpha1.ControllerService'' (handlers_for ControllerServiceStub servicer) server)"
    if "\<And>n. n \<in> fst ` set ControllerServiceStub \<Longrightarrow> dget servicer n \<noteq> None" for servicer L server
    using that [of "''CreateWeightBuffer''"] that [of "''AuthorizeTransfer''"] that [of "''QueryTopology''"]
    by (auto simp: driver_module_defs)
qed (auto intro: stub_paths simp: ControllerServiceStub_def)

lemma same_modules:
  "client_add_NodeServiceServicer_to_server = add_NodeServiceServicer_to_server"
  "verl_add_NodeServiceServicer_to_server = add_NodeServiceServicer_to_server"
  "client_add_IdentityServiceServicer_to_server = add_IdentityServiceServicer_to_server"
  "verl_add_IdentityServiceServicer_to_server = add_IdentityServiceServicer_to_server"
  "client_add_ControllerServiceServicer_to_server = add_ControllerServiceServicer_to_server"
  "verl_add_ControllerServiceServicer_to_server = add_ControllerServiceServicer_to_server"
  "client_NodeService_api = NodeServiceStub" "verl_NodeService_api = NodeServiceStub"
  "client_IdentityService_api = IdentityServiceStub" "verl_IdentityService_api = IdentityServiceStub"
  "client_ControllerService_api = ControllerServiceStub" "verl_ControllerService_api = ControllerServiceStub"
  by (simp_all add: fun_eq_iff driver_module_defs
      client_add_NodeServiceServicer_to_server_def verl_add_NodeServiceServicer_to_server_def
      client_add_IdentityServiceServicer_to_server_def verl_add_IdentityServiceServicer_to_server_def
      client_add_ControllerServiceServicer_to_server_def verl_add_ControllerServiceServicer_to_server_def
      client_NodeService_api_def verl_NodeService_api_def client_IdentityService_api_def verl_IdentityService_api_def
      client_ControllerService_api_def verl_ControllerService_api_def)

text \<open>C20. The three generated modules fit each other: a servicer that has the methods of a
  service, registered through any of the modules, is registered without error, and every stub and
  every static call interface of that service, of any module, reaches its own method of the
  servicer with the message types it writes and reads.\<close>

theorem modules_interoperate:
  assumes "grpc_laws L"
    and "(stub, add) \<in>
       {NodeServiceStub, client_NodeServiceStub, verl_NodeServiceStub, NodeService_api, client_NodeService_api, verl_NodeService_api}
         \<times> {add_NodeServiceServicer_to_server, client_add_NodeServiceServicer_to_server, verl_add_NodeServiceServicer_to_server}
     \<union> {IdentityServiceStub, client_IdentityServiceStub, verl_IdentityServiceStub, IdentityService_api, client_IdentityService_api, verl_IdentityService_api}
         \<times> {add_IdentityServiceServicer_to_server, client_add_IdentityServiceServicer_to_server, verl_add_IdentityServiceServicer_to_server}
     \<union> {ControllerServiceStub, client_ControllerServiceStub, verl_ControllerServiceStub, ControllerService_api, client_ControllerService_api, verl_ControllerService_api}
         \<times> {add_ControllerServiceServicer_to_server, client_add_ControllerServiceServicer_to_server, verl_add_ControllerServiceServicer_to_server}"
    and "\<And>n. n \<in> fst ` set stub \<Longrightarrow> dget servicer n = Some (behaviour n)"
  shows "\<exists>srv. add L servicer (new_server L) = Inr srv
     \<and> (\<forall>name m. (name, m) \<in> set stub \<longrightarrow> find_handler L srv (sm_path m) =
          Some \<lparr>mh_behaviour = behaviour name, mh_request = sm_request m, mh_response = sm_response m\<rparr>)"
proof -
  consider (node) "stub = NodeServiceStub" "add = add_NodeServiceServicer_to_server"
    | (identity) "stub = IdentityServiceStub" "add = add_IdentityServiceServicer_to_server"
    | (controller) "stub = ControllerServiceStub" "add = add_ControllerServiceServicer_to_server"
    using assms(2) unfolding same_stubs same_modules by blast
  then have "\<exists>srv. add L servicer (new_server L) = Inr srv
     \<and> (\<forall>name m. (name, m) \<in> set stub \<longrightarrow> find_handler L srv (sm_path m) =
          Some \<lparr>mh_behaviour = the (dget servicer name), mh_request = sm_request m, mh_response = sm_response m\<rparr>)"
    by cases (use node.serves [OF assms(1), of servicer] identity.serves [OF assms(1), of servicer]
        controller.serves [OF assms(1), of servicer] assms(3) in simp_all)
  moreover have "the (dget servicer name) = behaviour name" if "(name, m) \<in> set stub" for name m
    using assms(3) [of name] that by force
  ultimately show ?thesis by auto
qed

theorem modules_interoperate_witness:
  "\<exists>srv. client_add_NodeServiceServicer_to_server (sim_grpc :: (sim_gpu, sim_gpu method_handler dict) grpc_lib)
           verl_NodeServiceServicer (new_server sim_grpc) = Inr srv
     \<and> find_handler sim_grpc srv ''/wpi.v1alpha1.NodeService/NodePropagate'' =
         Some \<lparr>mh_behaviour = unimplemented, mh_request = ''NodePropagateRequest'', mh_response = ''NodePropagateResponse''\<rparr>"
proof -
  let ?L = "sim_grpc :: (sim_gpu, sim_gpu method_handler dict) grpc_lib"
  let ?m = "\<lparr>sm_path = ''/wpi.v1alpha1.NodeService/NodePropagate'', sm_request = ''NodePropagateRequest'',
             sm_response = ''NodePropagateResponse''\<rparr>"
  have laws: "grpc_laws ?L" by (rule sim_grpc_laws)
  have "dget (verl_NodeServiceServicer :: sim_gpu servicer) n = Some unimplemented" if "n \<in> fst ` set NodeService_api" for n
    using that by (auto simp: verl_NodeServiceServicer_def NodeService_api_def)
  from modules_interoperate [OF laws _ this, where add = client_add_NodeServiceServicer_to_server]
  have "\<exists>srv. client_add_NodeServiceServicer_to_server ?L verl_NodeServiceServicer (new_server ?L) = Inr srv
     \<and> (\<forall>name m. (name, m) \<in> set NodeService_api \<longrightarrow> find_handler ?L srv (sm_path m) =
          Some \<lparr>mh_behaviour = unimplemented, mh_request = sm_request m, mh_response = sm_response m\<rparr>)"
    by blast
  then obtain srv where srv: "client_add_NodeServiceServicer_to_server ?L verl_NodeServiceServicer (new_server ?L) = Inr srv"
    "\<forall>name m. (name, m) \<in> set NodeService_api \<longrightarrow> find_handler ?L srv (sm_path m) =
          Some \<lparr>mh_behaviour = unimplemented, mh_request = sm_request m, mh_response = sm_response m\<rparr>" by blast
  have "(''NodePropagate'', ?m) \<in> set NodeService_api" by (simp add: NodeService_api_def)
  with srv(2) have "find_handler ?L srv (sm_path ?m) =
      Some \<lparr>mh_behaviour = unimplemented, mh_request = sm_request ?m, mh_response = sm_response ?m\<rparr>" by blast
  with srv(1) show ?thesis by simp
qed

end
