(* ===== verification/Driver_Scripts.thy ===== *)
theory Driver_Scripts
  imports Grpc_Properties Concurrent_Driver
begin

text \<open>
  Two scripts from an earlier design, in which the driver published the weights as a file:
  \<open>consumer/consumer.py\<close> maps that file, and \<open>driver/verify_driver.py\<close> stages a buffer and
  looks for it. The file system is a parameter; what a script prints or logs is its result.
\<close>

section \<open>The file consumer\<close>

definition FILE_PATH :: string where
  "FILE_PATH = ''/dev/wpi/weights/layer82''"

record file_env =
  file_exists :: "nat \<Rightarrow> bool"            \<comment> \<open>by the number of the attempt\<close>
  file_open :: "exn + bytes"               \<comment> \<open>what opening and mapping it finds\<close>

datatype file_outcome =
    FileError exn                           \<comment> \<open>logged, and the script ends\<close>
  | FileMapped nat                          \<comment> \<open>number of float16 elements; the script sleeps for ever\<close>

text \<open>\<open>mmap\<close> refuses an empty file and \<open>frombuffer\<close> a size that is no multiple of an element.\<close>

definition map_file :: "bytes \<Rightarrow> exn + nat" where
  "map_file b =
     (if b = [] then Inl (ValueError ''cannot mmap an empty file'')
      else if odd (length b) then Inl (ValueError ''buffer size must be a multiple of element size'')
      else Inr (length b div 2))"

definition file_consume_weights :: "file_env \<Rightarrow> file_outcome option" where
  "file_consume_weights E =
     map_option (\<lambda>_. case bindS (file_open E) map_file of Inl e \<Rightarrow> FileError e | Inr n \<Rightarrow> FileMapped n)
       (poll_until (file_exists E) 0)"

lemma file_consumer_ends_waiting: "file_consume_weights E \<noteq> None \<longleftrightarrow> (\<exists>n. file_exists E n)"
  using poll_until_ends_iff [of "file_exists E" 0] by (auto simp: file_consume_weights_def)

lemma file_consumer_maps:
  assumes "file_exists E n"
  shows "file_consume_weights E = Some (FileMapped k) \<longleftrightarrow>
     (\<exists>b. file_open E = Inr b \<and> 0 < length b \<and> length b = 2 * k)"
proof -
  obtain m where "poll_until (file_exists E) 0 = Some m"
    using assms poll_until_ends_iff [of "file_exists E" 0] by blast
  then show ?thesis
    by (cases "file_open E") (auto simp: file_consume_weights_def map_file_def)
qed

section \<open>The check of the driver\<close>

definition verify_request :: NodeStageWeightRequest where
  "verify_request = \<lparr>req_claim_id = ''test-claim-id'', req_buffer_id = ''test-buffer-id'', req_source_path = [],
     req_size_bytes = 0, req_shard_index = 0, req_total_shards = 0\<rparr>"

text \<open>The size of the file, or the exception of \<open>getsize\<close>; \<open>gib\<close> prints a size in GiB.\<close>

definition file_lines :: "(int \<Rightarrow> string) \<Rightarrow> bool \<Rightarrow> exn + int \<Rightarrow> string list \<times> exn option" where
  "file_lines gib exists sz =
     (if exists then
        (case sz of
           Inl e \<Rightarrow> ([], Some e)
         | Inr n \<Rightarrow>
             ([''File '' @ FILE_PATH @ '' exists. Size: '' @ gib n @ '' GiB'',
               if n = 2 * 1024 * 1024 * 1024 then ''Size matches 2 GiB exactly!''
               else ''Size mismatch! Expected 2GiB, got '' @ str_int n @ '' bytes''], None))
      else ([''File '' @ FILE_PATH @ '' NOT found!''], None))"

definition test_stage_weight ::
  "('g, 'srv) grpc_lib \<Rightarrow> 'srv \<Rightarrow> (int \<Rightarrow> string) \<Rightarrow> bool \<Rightarrow> exn + int \<Rightarrow> 'g driver \<Rightarrow> (string list \<times> exn option) \<times> 'g driver" where
  "test_stage_weight L srv gib exists sz s =
     (case stub_call L srv NodeServiceStub ''NodeStageWeight'' (StageRq verify_request) s of
        (Inr _, t) \<Rightarrow>
          (case file_lines gib exists sz of (ls, e) \<Rightarrow>
             ((''Calling NodeStageWeight...'' # ''NodeStageWeight call successful!'' # ls, e), t))
      | (Inl (RpcError c d), t) \<Rightarrow>
          (([''Calling NodeStageWeight...'', ''gRPC Error: StatusCode.'' @ c @ '' - '' @ d], None), t)
      | (Inl e, t) \<Rightarrow> (([''Calling NodeStageWeight...''], Some e), t))"

text \<open>
  What the script leaves behind at a driver that does not track its buffer and serves it: a claim
  and a buffer of the fallback size, 10 GiB, while it expects a file of 2 GiB.
\<close>

lemma verify_driver_stages:
  assumes "grpc_laws L" "register_services L E = Inr srv" "dget (ALLOCATED_BUFFERS s) ''test-buffer-id'' = None"
    and "test_stage_weight L srv gib exists sz s = ((ls, e), t)" "''NodeStageWeight call successful!'' \<in> set ls"
  shows "dget (KNOWN_CLAIMS t) ''test-claim-id'' = Some ''test-buffer-id''
     \<and> (\<exists>i. dget (ALLOCATED_BUFFERS t) ''test-buffer-id'' = Some i \<and> ref_count i = Some 1 \<and> size_bytes i = 10 * 1024 ^ 3)"
proof -
  have id: "stage_id verify_request = ''test-buffer-id''" "stage_size verify_request = 10 * 1024 ^ 3"
    "req_claim_id verify_request = ''test-claim-id''"
    by (simp_all add: verify_request_def stage_size_def effective_buffer_id_def is_sharded_def)
  have call: "stub_call L srv NodeServiceStub ''NodeStageWeight'' (StageRq verify_request)
      = run_handler L (\<lambda>_. bindE (NodeStageWeight E verify_request) (\<lambda>_. ret StageRs)) (StageRq verify_request)"
    using stub_call_runs [OF assms(1,2) _ _ node_methods(1), of _ verify_request]
    by (simp add: same_stubs NodeServiceStub_def)
  obtain r u where u: "NodeStageWeight E verify_request s = (r, u)" by (cases "NodeStageWeight E verify_request s")
  have run: "r = Inr () \<and> t = u"
    using assms(4,5) u
    by (cases r) (auto simp: test_stage_weight_def call run_handler_def bindE_def ret_def split: if_splits prod.splits)
  from stage_effect [OF u] run id assms(3) show ?thesis
    by (auto simp: stage_outcome_def staged_entry_def new_buffer_def split: prod.splits)
qed

end
