(* ===== verification/Ctypes_Layout.thy ===== *)
theory Ctypes_Layout
  imports Main
begin

text \<open>
  The ctypes structures that driver, client library, verl plugin and stand-alone consumer pass to
  libcuda. Each file declares its own; the library reads them by their layout in memory, so
  the declarations have to give the same offsets and sizes. The layout is the native one that ctypes
  uses: a field starts at the next multiple of its alignment, and a structure is as aligned as its
  most aligned field and padded to a multiple of that.
\<close>

section \<open>Types and layout\<close>

datatype ctype =
    C_Int
  | C_UByte
  | C_UShort
  | C_VoidP
  | C_Array ctype nat
  | C_Struct "(string \<times> ctype) list"

definition pad :: "nat \<Rightarrow> nat \<Rightarrow> nat" where
  "pad n a = (n + a - 1) div a * a"

fun align_of :: "ctype \<Rightarrow> nat" and align_fields :: "(string \<times> ctype) list \<Rightarrow> nat" where
  "align_of C_Int = 4"
| "align_of C_UByte = 1"
| "align_of C_UShort = 2"
| "align_of C_VoidP = 8"
| "align_of (C_Array t n) = align_of t"
| "align_of (C_Struct fs) = align_fields fs"
| "align_fields [] = 1"
| "align_fields ((_, t) # fs) = max (align_of t) (align_fields fs)"

fun size_of :: "ctype \<Rightarrow> nat" and end_of :: "nat \<Rightarrow> (string \<times> ctype) list \<Rightarrow> nat" where
  "size_of C_Int = 4"
| "size_of C_UByte = 1"
| "size_of C_UShort = 2"
| "size_of C_VoidP = 8"
| "size_of (C_Array t n) = n * size_of t"
| "size_of (C_Struct fs) = pad (end_of 0 fs) (align_fields fs)"
| "end_of off [] = off"
| "end_of off ((_, t) # fs) = end_of (pad off (align_of t) + size_of t) fs"

text \<open>Name, offset and size of every field.\<close>

fun fields_at :: "nat \<Rightarrow> (string \<times> ctype) list \<Rightarrow> (string \<times> nat \<times> nat) list" where
  "fields_at off [] = []"
| "fields_at off ((n, t) # fs) =
     (n, pad off (align_of t), size_of t) # fields_at (pad off (align_of t) + size_of t) fs"

section \<open>The declarations\<close>

definition driver_CUmemLocation :: ctype where
  "driver_CUmemLocation = C_Struct [(''type'', C_Int), (''id'', C_Int)]"

definition driver_CUmemAccessDesc :: ctype where
  "driver_CUmemAccessDesc = C_Struct [(''location'', driver_CUmemLocation), (''flags'', C_Int)]"

definition driver_AllocFlags :: ctype where
  "driver_AllocFlags = C_Struct [(''compressionType'', C_UByte), (''gpuDirectRDMACapable'', C_UByte),
     (''usage'', C_UShort), (''reserved'', C_Array C_UByte 4)]"

definition driver_CUmemAllocationProp :: ctype where
  "driver_CUmemAllocationProp = C_Struct [(''type'', C_Int), (''requestedHandleTypes'', C_Int),
     (''location'', driver_CUmemLocation), (''win32HandleMetaData'', C_VoidP), (''allocFlags'', driver_AllocFlags)]"

definition client_CUmemLocation :: ctype where
  "client_CUmemLocation = C_Struct [(''type'', C_Int), (''id'', C_Int)]"

definition client_CUmemAccessDesc :: ctype where
  "client_CUmemAccessDesc = C_Struct [(''location'', client_CUmemLocation), (''flags'', C_Int)]"

definition client_AllocFlags :: ctype where
  "client_AllocFlags = C_Struct [(''compressionType'', C_UByte), (''gpuDirectRDMACapable'', C_UByte),
     (''usage'', C_UShort), (''reserved'', C_Array C_UByte 4)]"

definition client_CUmemAllocationProp :: ctype where
  "client_CUmemAllocationProp = C_Struct [(''type'', C_Int), (''requestedHandleTypes'', C_Int),
     (''location'', client_CUmemLocation), (''win32HandleMetaData'', C_VoidP), (''allocFlags'', client_AllocFlags)]"

definition verl_CUmemLocation :: ctype where
  "verl_CUmemLocation = C_Struct [(''type'', C_Int), (''id'', C_Int)]"

definition verl_CUmemAccessDesc :: ctype where
  "verl_CUmemAccessDesc = C_Struct [(''location'', verl_CUmemLocation), (''flags'', C_Int)]"

definition verl_AllocFlags :: ctype where
  "verl_AllocFlags = C_Struct [(''compressionType'', C_UByte), (''gpuDirectRDMACapable'', C_UByte),
     (''usage'', C_UShort), (''reserved'', C_Array C_UByte 4)]"

definition verl_CUmemAllocationProp :: ctype where
  "verl_CUmemAllocationProp = C_Struct [(''type'', C_Int), (''requestedHandleTypes'', C_Int),
     (''location'', verl_CUmemLocation), (''win32HandleMetaData'', C_VoidP), (''allocFlags'', verl_AllocFlags)]"

definition pytorch_CUmemLocation :: ctype where
  "pytorch_CUmemLocation = C_Struct [(''type'', C_Int), (''id'', C_Int)]"

definition pytorch_CUmemAccessDesc :: ctype where
  "pytorch_CUmemAccessDesc = C_Struct [(''location'', pytorch_CUmemLocation), (''flags'', C_Int)]"

section \<open>Layouts are sound\<close>

lemma pad_ge: "0 < a \<Longrightarrow> n \<le> pad n a"
proof -
  assume a: "0 < a"
  have "n + a - 1 = (n + a - 1) div a * a + (n + a - 1) mod a" by simp
  moreover have "(n + a - 1) mod a < a" using a by simp
  ultimately show ?thesis unfolding pad_def by linarith
qed

lemma pad_dvd: "a dvd pad n a"
  by (simp add: pad_def)

lemma align_pos: "0 < align_of t" "0 < align_fields fs"
  by (induction t and fs rule: align_of_align_fields.induct) auto

lemma end_of_ge: "off \<le> end_of off fs"
proof (induction fs arbitrary: off)
  case (Cons f fs)
  obtain n t where f: "f = (n, t)" by (cases f)
  have "off \<le> pad off (align_of t) + size_of t" using pad_ge [OF align_pos(1), of off t] by simp
  also have "\<dots> \<le> end_of (pad off (align_of t) + size_of t) fs" by (rule Cons.IH)
  finally show ?case by (simp add: f)
qed simp

text \<open>
  Every field is aligned and lies between the start and the end, and the fields before it end where
  it starts or earlier.
\<close>

lemma fields_inside:
  "(n, a, z) \<in> set (fields_at off fs) \<Longrightarrow> off \<le> a \<and> a + z \<le> end_of off fs \<and> (\<exists>t. (n, t) \<in> set fs \<and> align_of t dvd a \<and> z = size_of t)"
proof (induction fs arbitrary: off)
  case (Cons f fs)
  obtain m t where f: "f = (m, t)" by (cases f)
  let ?off = "pad off (align_of t) + size_of t"
  have ge: "off \<le> pad off (align_of t)" by (rule pad_ge [OF align_pos(1)])
  from Cons.prems consider "n = m" "a = pad off (align_of t)" "z = size_of t" | "(n, a, z) \<in> set (fields_at ?off fs)"
    by (auto simp: f)
  then show ?case
  proof cases
    case 1
    with ge end_of_ge [of ?off fs] pad_dvd [of "align_of t" off] show ?thesis by (auto simp: f)
  next
    case 2
    from Cons.IH [OF this] ge show ?thesis by (auto simp: f)
  qed
qed simp

lemma fields_disjoint: "sorted_wrt (\<lambda>(_, a, z) (_, a', _). a + z \<le> a') (fields_at off fs)"
  by (induction fs arbitrary: off) (auto dest: fields_inside)

section \<open>The declarations agree\<close>

lemmas struct_defs =
  driver_CUmemLocation_def driver_CUmemAccessDesc_def driver_AllocFlags_def driver_CUmemAllocationProp_def
  client_CUmemLocation_def client_CUmemAccessDesc_def client_AllocFlags_def client_CUmemAllocationProp_def
  verl_CUmemLocation_def verl_CUmemAccessDesc_def verl_AllocFlags_def verl_CUmemAllocationProp_def
  pytorch_CUmemLocation_def pytorch_CUmemAccessDesc_def

lemma declarations_agree:
  "client_CUmemAccessDesc = driver_CUmemAccessDesc" "verl_CUmemAccessDesc = driver_CUmemAccessDesc"
  "pytorch_CUmemAccessDesc = driver_CUmemAccessDesc"
  "client_CUmemAllocationProp = driver_CUmemAllocationProp" "verl_CUmemAllocationProp = driver_CUmemAllocationProp"
  by (simp_all add: struct_defs)

text \<open>The block is laid out without padding: 32 bytes, and 12 for the access descriptor.\<close>

lemma prop_layout:
  "size_of driver_CUmemAllocationProp = 32" "size_of driver_CUmemAccessDesc = 12"
  "(case driver_CUmemAllocationProp of C_Struct fs \<Rightarrow> fields_at 0 fs | _ \<Rightarrow> []) =
     [(''type'', 0, 4), (''requestedHandleTypes'', 4, 4), (''location'', 8, 8), (''win32HandleMetaData'', 16, 8), (''allocFlags'', 24, 8)]"
  by code_simp+

end
