(* ===== verification/Bench_Summary.thy ===== *)
theory Bench_Summary
  imports Vllm_Properties
begin

text \<open>
  The report of \<open>consumer/wpi_vllm/benchmark/bench_weight_update.py\<close>: \<open>BenchmarkResult.summary\<close>
  and \<open>main\<close>. Times are exact numbers here; the rounding of double precision is left out. The
  lemmas: the statistics are ordered, the 95th percentile is an element that bounds at least 95 of
  100 samples, and when a finished benchmark yields a report.
\<close>

section \<open>Python's statistics\<close>

text \<open>\<open>statistics.mean\<close>, \<open>median\<close> and \<open>stdev\<close>; \<open>StatisticsError\<close> is a \<open>ValueError\<close>.\<close>

definition py_mean :: "real list \<Rightarrow> exn + real" where
  "py_mean xs = (if xs = [] then Inl (ValueError ''mean requires at least one data point'')
                 else Inr (sum_list xs / real (length xs)))"

definition py_median :: "real list \<Rightarrow> exn + real" where
  "py_median xs = (let n = length xs; ys = sort xs in
     if n = 0 then Inl (ValueError ''no median for empty data'')
     else if odd n then Inr (ys ! (n div 2))
     else Inr ((ys ! (n div 2 - 1) + ys ! (n div 2)) / 2))"

definition py_stdev :: "real list \<Rightarrow> exn + real" where
  "py_stdev xs = (let n = length xs; m = sum_list xs / real n in
     if n < 2 then Inl (ValueError ''stdev requires at least two data points'')
     else Inr (sqrt (sum_list (map (\<lambda>x. (x - m) ^ 2) xs) / real (n - 1))))"

definition py_min :: "real list \<Rightarrow> exn + real" where
  "py_min xs = (if xs = [] then Inl (ValueError ''min() arg is an empty sequence'') else Inr (fold min xs (hd xs)))"

definition py_max :: "real list \<Rightarrow> exn + real" where
  "py_max xs = (if xs = [] then Inl (ValueError ''max() arg is an empty sequence'') else Inr (fold max xs (hd xs)))"

definition py_nth :: "real list \<Rightarrow> nat \<Rightarrow> exn + real" where
  "py_nth xs k = (if k < length xs then Inr (xs ! k) else Inl (IndexError ''list index out of range''))"

text \<open>
  \<open>f"{x:.df}"\<close> for a number that is not negative: rounded to \<open>d\<close> decimals, a tie to the even digit.
\<close>

definition round_even :: "rat \<Rightarrow> nat" where
  "round_even x = (let f = nat \<lfloor>x\<rfloor>; r = x - of_nat f in
     if r < 1 / 2 \<or> (r = 1 / 2 \<and> even f) then f else f + 1)"

definition fixed :: "nat \<Rightarrow> rat \<Rightarrow> string" where
  "fixed d x = (let n = round_even (x * 10 ^ d); frac = str_nat (n mod 10 ^ d) in
     str_nat (n div 10 ^ d) @ ''.'' @ replicate (d - length frac) (CHR ''0'') @ frac)"

section \<open>The summary\<close>

record stats =
  st_mean :: real
  st_median :: real
  st_p50 :: real
  st_p95 :: real
  st_min :: real
  st_max :: real
  st_stddev :: real

text \<open>
  \<open>int(len(values) * 0.95)\<close> is the quotient of \<open>19 * len(values)\<close> by 20: the double next to
  0.95 is nearer to it than half a unit in the last place of the product.
\<close>

definition stats_of :: "real list \<Rightarrow> ('s, stats) pyM" where
  "stats_of values =
     bindE (lift_sum (py_mean values)) (\<lambda>mean.
     bindE (lift_sum (py_median values)) (\<lambda>median.
     bindE (lift_sum (py_median values)) (\<lambda>p50.
     bindE (lift_sum (if 20 \<le> length values then py_nth (sort values) (length values * 19 div 20)
                      else py_max values)) (\<lambda>p95.
     bindE (lift_sum (py_min values)) (\<lambda>mn.
     bindE (lift_sum (py_max values)) (\<lambda>mx.
     bindE (if 1 < length values then lift_sum (py_stdev values) else ret 0) (\<lambda>sd.
     ret \<lparr>st_mean = mean, st_median = median, st_p50 = p50, st_p95 = p95,
          st_min = mn, st_max = mx, st_stddev = sd\<rparr>)))))))"

definition in_ms :: "stats \<Rightarrow> stats" where
  "in_ms r = \<lparr>st_mean = st_mean r * 1000, st_median = st_median r * 1000, st_p50 = st_p50 r * 1000,
              st_p95 = st_p95 r * 1000, st_min = st_min r * 1000, st_max = st_max r * 1000,
              st_stddev = st_stddev r * 1000\<rparr>"

record bench_summary =
  su_model :: string
  su_params :: string
  su_weight_size_gb :: string
  su_iters :: int
  su_pack_ms :: stats
  su_propagate_ms :: stats
  su_metadata_ms :: stats
  su_total_ms :: stats
  su_bandwidth_gbs :: stats

definition bw_values :: "BenchmarkResult \<Rightarrow> rat list" where
  "bw_values r = (let size_gb = of_nat (br_total_bytes r) / 1024 ^ 3 in
     map (\<lambda>t. size_gb / t) (filter (\<lambda>t. 0 < t) (br_total_times r)))"

definition seconds :: "rat list \<Rightarrow> real list" where
  "seconds = map of_rat"

definition summary :: "BenchmarkResult \<Rightarrow> ('s, bench_summary) pyM" where
  "summary r =
     bindE (stats_of (seconds (br_pack_times r))) (\<lambda>pack.
     bindE (stats_of (seconds (br_propagate_times r))) (\<lambda>prop.
     bindE (stats_of (seconds (br_metadata_times r))) (\<lambda>meta.
     bindE (stats_of (seconds (br_total_times r))) (\<lambda>total.
     bindE (stats_of (seconds (bw_values r))) (\<lambda>bw.
     ret \<lparr>su_model = br_model_name r,
          su_params = fixed 1 (of_nat (br_num_params r) / 1000000) @ ''M'',
          su_weight_size_gb = fixed 3 (of_nat (br_total_bytes r) / 1024 ^ 3),
          su_iters = br_num_iters r,
          su_pack_ms = in_ms pack, su_propagate_ms = in_ms prop, su_metadata_ms = in_ms meta,
          su_total_ms = in_ms total, su_bandwidth_gbs = bw\<rparr>)))))"

section \<open>The main function\<close>

record bench_args =
  ba_target_nodes :: string
  ba_model :: string
  ba_buffer_size_gb :: rat
  ba_num_iters :: int
  ba_warmup_iters :: int
  ba_output :: string

datatype report = Printed bench_summary | Saved string bench_summary

text \<open>\<open>opens\<close> tells whether the output file can be opened.\<close>

definition bench_weight_main ::
  "bench_env \<Rightarrow> (string \<Rightarrow> exn option) \<Rightarrow> bench_args \<Rightarrow> bench_state \<Rightarrow> (exn + unit) \<times> bench_state \<times> report list" where
  "bench_weight_main E opens a s =
     (case bindE (run_benchmark E (target_nodes (ba_target_nodes a)) (ba_model a) (ba_buffer_size_gb a)
                    (ba_num_iters a) (ba_warmup_iters a)) summary s of
        (Inl e, t) \<Rightarrow> (Inl e, t, [])
      | (Inr su, t) \<Rightarrow>
          if ba_output a = [] then (Inr (), t, [Printed su])
          else (case opens (ba_output a) of
                  Some e \<Rightarrow> (Inl e, t, [Printed su])
                | None \<Rightarrow> (Inr (), t, [Printed su, Saved (ba_output a) su])))"

section \<open>What the statistics promise\<close>

lemma fold_max_Max: "xs \<noteq> [] \<Longrightarrow> fold max xs (hd xs) = Max (set xs)" for xs :: "real list"
  by (simp add: Max.set_eq_fold [symmetric] insert_absorb)

lemma fold_min_Min: "xs \<noteq> [] \<Longrightarrow> fold min xs (hd xs) = Min (set xs)" for xs :: "real list"
  by (simp add: Min.set_eq_fold [symmetric] insert_absorb)

lemma nth_sort_bounds:
  "k < length xs \<Longrightarrow> Min (set xs) \<le> sort xs ! k \<and> sort xs ! k \<le> Max (set xs)" for xs :: "real list"
  using nth_mem [of k "sort xs"] by simp

lemma nth_sort_mono: "i \<le> j \<Longrightarrow> j < length xs \<Longrightarrow> sort xs ! i \<le> sort xs ! j" for xs :: "real list"
  by (simp add: sorted_nth_mono)

lemma count_up_to_nth_sort:
  fixes xs :: "real list"
  assumes "k < length xs"
  shows "Suc k \<le> length (filter (\<lambda>x. x \<le> sort xs ! k) xs)"
proof -
  have "length (filter (\<lambda>x. x \<le> sort xs ! k) xs) = length (filter (\<lambda>x. x \<le> sort xs ! k) (sort xs))"
    by (simp add: filter_sort)
  also have "\<dots> \<ge> length (filter (\<lambda>x. x \<le> sort xs ! k) (take (Suc k) (sort xs)))"
    by (metis append_take_drop_id filter_append length_append le_add1)
  also have "filter (\<lambda>x. x \<le> sort xs ! k) (take (Suc k) (sort xs)) = take (Suc k) (sort xs)"
    using assms by (intro filter_True) (auto simp: in_set_conv_nth intro!: nth_sort_mono)
  finally show ?thesis using assms by simp
qed

lemma sum_list_bounds:
  fixes xs :: "real list"
  assumes "\<And>x. x \<in> set xs \<Longrightarrow> a \<le> x \<and> x \<le> b"
  shows "a * length xs \<le> sum_list xs" "sum_list xs \<le> b * length xs"
  using assms by (induction xs) (force simp: algebra_simps)+

definition percentile :: "real list \<Rightarrow> real" where
  "percentile xs = (if 20 \<le> length xs then sort xs ! (length xs * 19 div 20) else Max (set xs))"

definition middle :: "real list \<Rightarrow> real" where
  "middle xs = (let n = length xs in if odd n then sort xs ! (n div 2) else (sort xs ! (n div 2 - 1) + sort xs ! (n div 2)) / 2)"

lemma percentile_bounds:
  assumes "xs \<noteq> []"
  shows "percentile xs \<in> set xs" "19 * length xs \<le> 20 * length (filter (\<lambda>x. x \<le> percentile xs) xs)"
proof -
  have k: "length xs * 19 div 20 < length xs" using assms by (simp add: div_less_iff_less_mult)
  then show "percentile xs \<in> set xs"
    using assms nth_mem [of "length xs * 19 div 20" "sort xs"] by (simp add: percentile_def)
  show "19 * length xs \<le> 20 * length (filter (\<lambda>x. x \<le> percentile xs) xs)"
    using count_up_to_nth_sort [OF k] by (auto simp: percentile_def filter_True)
qed

lemma middle_bounds:
  assumes "xs \<noteq> []"
  shows "Min (set xs) \<le> middle xs" "middle xs \<le> percentile xs"
proof -
  let ?n = "length xs"
  have n: "0 < ?n" "?n div 2 < ?n" "?n div 2 - 1 < ?n" using assms by (cases xs; simp)+
  from nth_sort_bounds [OF n(2)] nth_sort_bounds [OF n(3)] show "Min (set xs) \<le> middle xs"
    by (auto simp: middle_def Let_def)
  have "sort xs ! (?n div 2) \<le> percentile xs"
    using nth_sort_bounds [OF n(2)] n(1) by (auto simp: percentile_def intro!: nth_sort_mono)
  moreover have "sort xs ! (?n div 2 - 1) \<le> sort xs ! (?n div 2)" using n by (intro nth_sort_mono) auto
  ultimately show "middle xs \<le> percentile xs" by (auto simp: middle_def Let_def)
qed

definition stats_value :: "real list \<Rightarrow> stats" where
  "stats_value xs = (let n = real (length xs); m = sum_list xs / n in
     \<lparr>st_mean = m, st_median = middle xs, st_p50 = middle xs, st_p95 = percentile xs,
      st_min = Min (set xs), st_max = Max (set xs),
      st_stddev = (if length xs \<le> 1 then 0 else sqrt (sum_list (map (\<lambda>x. (x - m) ^ 2) xs) / real (length xs - 1)))\<rparr>)"

lemma stats_of_empty: "stats_of [] s = (Inl (ValueError ''mean requires at least one data point''), s)"
  by (simp add: stats_of_def py_mean_def lift_sum_def bindE_def)

lemma stats_of_run:
  assumes "xs \<noteq> []"
  shows "stats_of xs s = (Inr (stats_value xs), s)"
proof -
  have "length xs * 19 div 20 < length xs" using assms by (simp add: div_less_iff_less_mult)
  with assms show ?thesis
    by (simp add: stats_of_def py_mean_def py_median_def py_min_def py_max_def py_nth_def py_stdev_def Let_def
        fold_min_Min fold_max_Max middle_def percentile_def stats_value_def lift_sum_def bindE_def ret_def)
qed

text \<open>
  The statistics of samples: they exist as soon as there is one sample, they change no state, and
  they are ordered as their names say; the percentile is a sample that bounds at least 95 of 100.
\<close>

theorem stats_ordered:
  assumes "xs \<noteq> []"
  obtains r where "stats_of xs s = (Inr r, s)"
    "st_min r = Min (set xs)" "st_max r = Max (set xs)" "st_p50 r = st_median r"
    "st_min r \<le> st_median r" "st_median r \<le> st_p95 r" "st_p95 r \<le> st_max r"
    "st_min r \<le> st_mean r" "st_mean r \<le> st_max r" "0 \<le> st_stddev r"
    "st_p95 r \<in> set xs" "19 * length xs \<le> 20 * length (filter (\<lambda>x. x \<le> st_p95 r) xs)"
proof
  let ?r = "stats_value xs"
  have b: "\<And>x. x \<in> set xs \<Longrightarrow> Min (set xs) \<le> x \<and> x \<le> Max (set xs)" by simp
  have "0 < real (length xs)" using assms by simp
  then show "st_min ?r \<le> st_mean ?r" "st_mean ?r \<le> st_max ?r"
    using sum_list_bounds [OF b] by (simp_all add: stats_value_def Let_def field_simps)
  show "0 \<le> st_stddev ?r"
    by (auto simp: stats_value_def Let_def intro!: divide_nonneg_nonneg sum_list_nonneg)
qed (use assms percentile_bounds middle_bounds in \<open>simp_all add: stats_of_run stats_value_def Let_def\<close>)

text \<open>A summary exists exactly when there are samples of every part and one total is positive.\<close>

lemma summary_cases:
  "if br_pack_times r \<noteq> [] \<and> br_propagate_times r \<noteq> [] \<and> br_metadata_times r \<noteq> [] \<and> (\<exists>t\<in>set (br_total_times r). 0 < t)
   then \<exists>su. summary r s = (Inr su, s) \<and> su_model su = br_model_name r \<and> su_iters su = br_num_iters r
   else summary r s = (Inl (ValueError ''mean requires at least one data point''), s)"
proof -
  have bw: "bw_values r = [] \<longleftrightarrow> \<not> (\<exists>t\<in>set (br_total_times r). 0 < t)"
    by (auto simp: bw_values_def Let_def filter_empty_conv)
  have ne: "seconds xs = [] \<longleftrightarrow> xs = []" for xs by (simp add: seconds_def)
  have step: "bindE (stats_of xs) k s = (if xs = [] then (Inl (ValueError ''mean requires at least one data point''), s)
     else k (stats_value xs) s)" for xs s and k :: "stats \<Rightarrow> ('b, bench_summary) pyM"
    by (simp add: stats_of_empty stats_of_run bindE_def)
  show ?thesis by (auto simp: summary_def step ne bw ret_def)
qed

text \<open>
  A benchmark that has run reports exactly when it measured at least one iteration of positive
  duration; otherwise \<open>main\<close> ends with a \<open>StatisticsError\<close> after the weights were pushed.
\<close>

theorem bench_reports:
  assumes run: "run_benchmark E (target_nodes (ba_target_nodes a)) (ba_model a) (ba_buffer_size_gb a)
                  (ba_num_iters a) (ba_warmup_iters a) s = (Inr r, t)"
    and "0 \<le> ba_num_iters a" "0 \<le> ba_warmup_iters a" "mono (clock E)"
  shows "if \<exists>x\<in>set (br_total_times r). 0 < x
     then \<exists>su. su_iters su = ba_num_iters a \<and> su_model su = ba_model a \<and>
        bench_weight_main E opens a s =
          (if ba_output a = [] then (Inr (), t, [Printed su])
           else case opens (ba_output a) of Some e \<Rightarrow> (Inl e, t, [Printed su])
                | None \<Rightarrow> (Inr (), t, [Printed su, Saved (ba_output a) su]))
     else bench_weight_main E opens a s = (Inl (ValueError ''mean requires at least one data point''), t, [])"
proof -
  from bench_samples [OF assms] obtain xs where
    "br_pack_times r = map (\<lambda>(p, q, m, t). p) xs" "br_propagate_times r = map (\<lambda>(p, q, m, t). q) xs"
    "br_metadata_times r = map (\<lambda>(p, q, m, t). m) xs" "br_total_times r = map (\<lambda>(p, q, m, t). t) xs"
    by blast
  then have "(\<exists>x\<in>set (br_total_times r). 0 < x) \<Longrightarrow> br_pack_times r \<noteq> [] \<and> br_propagate_times r \<noteq> [] \<and> br_metadata_times r \<noteq> []"
    by auto
  moreover have "br_model_name r = ba_model a \<and> br_num_iters r = ba_num_iters a"
    using run by (auto simp: run_benchmark_def Let_def seqE_returns_iff)
  ultimately consider
      (report) su where "\<exists>x\<in>set (br_total_times r). 0 < x" "summary r t = (Inr su, t)"
        "su_model su = ba_model a" "su_iters su = ba_num_iters a"
    | (none) "\<not> (\<exists>x\<in>set (br_total_times r). 0 < x)"
        "summary r t = (Inl (ValueError ''mean requires at least one data point''), t)"
    using summary_cases [of r t] by (auto split: if_splits)
  then show ?thesis
  proof cases
    case report
    then show ?thesis using run by (auto simp: bench_weight_main_def bindE_def intro!: exI [of _ su])
  next
    case none
    then show ?thesis using run by (auto simp: bench_weight_main_def bindE_def)
  qed
qed

lemma no_iterations_no_report:
  assumes "run_benchmark E (target_nodes (ba_target_nodes a)) (ba_model a) (ba_buffer_size_gb a)
             0 (ba_warmup_iters a) s = (Inr r, t)"
    and "ba_num_iters a = 0" "0 \<le> ba_warmup_iters a" "mono (clock E)"
  shows "bench_weight_main E opens a s = (Inl (ValueError ''mean requires at least one data point''), t, [])"
  using bench_samples [OF assms(1)] bench_reports [of E a s r t opens] assms by auto

end
