(* ===== verification/Spec2Isabelle.thy ===== *)
theory Spec2Isabelle
  imports Driver_Properties Engine_Properties Consumer_Properties Vllm_Properties Grpc_Properties Nccl_Benchmarks
    Concurrent_Parts Concurrent_Races Cluster_Memory End_To_End Grpc_Copies Driver_Scripts Ctypes_Layout
    Bench_Summary
begin

text \<open>
  Verification of the Weight Propagation Interface: the node driver and its consumers.

  \<^bold>\<open>The program.\<close> A driver runs on every node (\<open>driver/main.py\<close>). It allocates GPU memory for a
  named weight buffer, counts the claims that hold the buffer, hands the memory to local
  consumers by passing a file descriptor over a UNIX socket, copies the content to the drivers of
  other nodes through NCCL, and tells consumers over a second socket when weights are about to
  change and when they have changed. Consumers use a client library, of which the repository has
  two copies; on it rest the checkpoint engine for verl and the trainers for vLLM. Client and driver
  talk gRPC through modules generated from \<open>proto/wpi.proto\<close>.

  \<^bold>\<open>Shared vocabulary.\<close> \<open>WPI_Prelude\<close> has Python's exceptions as values (\<open>exn\<close>), a state
  and exception monad (\<open>pyM\<close>, with \<open>try_except\<close> for \<open>try\<close>), strings and bytes with the
  functions the code calls (\<open>split\<close>, \<open>startswith\<close>, \<open>int\<close>, \<open>str\<close>, UTF-8 decoding),
  dictionaries as association lists with distinct keys, sockets as lists of received pieces, and
  runs of labelled transition systems. C integers that cross the CUDA interface are words of their
  width; Python's integers are \<open>int\<close>.

  \<^bold>\<open>The driver.\<close>

  \<^item> \<open>Cuda_Allocator\<close>: \<open>class CudaAllocator\<close> with its ctypes structures, contexts,
    \<open>allocate_and_export\<close> and \<open>free\<close>. The library libcuda is a record of functions on a device
    state; \<open>vmm_laws\<close> states the documented behaviour of its virtual memory calls. Lemmas: the
    size is rounded up to the granularity, what allocation and release do to handles, ranges and
    mappings, and what a failing call leaves behind.
  \<^item> \<open>Driver_State\<close>, \<open>Driver_Staging\<close>: \<open>ALLOCATED_BUFFERS\<close>, \<open>KNOWN_CLAIMS\<close> and the handlers
    \<open>NodeStageWeight\<close>, \<open>NodeUnstageWeight\<close>, \<open>NodeRegisterWeight\<close>, \<open>NodeTranslateAndMap\<close> and those of
    \<open>IdentityService\<close>. The lemmas give the effect of each on both dictionaries, for every answer
    of the libraries.
  \<^item> \<open>Driver_Sockets\<close>: \<open>notify_server\<close>, \<open>pass_fd_server\<close> with the copy of a buffer to another
    device of the node, \<open>send_pre_update_signal\<close> and the READY loops.
  \<^item> \<open>Driver_Transfer\<close>: \<open>NodePropagate\<close> and \<open>handle_target_connection\<close> with the header line,
    the 128-byte identifier and the scatter assignments. What the process does to the outside
    (sends, connections, NCCL operations, threads, closed descriptors) is a list of events, so
    that the properties state order.
  \<^item> \<open>Driver_System\<close>: loading the module, \<open>start_nccl_target_server\<close>, and the handlers as one
    step relation \<open>driver_step\<close>. Locale \<open>invariant_system\<close> (in the prelude) is interpreted on it
    (\<open>driver_tables\<close>): the invariant of the dictionaries holds in every reachable state.
  \<^item> \<open>Driver_Claims\<close>: the contract towards the orchestrator, locale \<open>claim_registry\<close>: a buffer
    lives exactly as long as a claim holds it. The interpretation \<open>driver_claims\<close> shows that the
    driver implements it on the runs that use fresh claims, plain names and successful stagings.
  \<^item> \<open>Interleaved_Processes\<close>: threads on a shared state in general: processes made of segments, their
    interleaving \<open>conc_step\<close>, promises in the style of rely and guarantee, and locale
    \<open>owned_state\<close> with the theorem that promises survive every interleaving.
  \<^item> \<open>Concurrent_Driver\<close>: the server has ten threads and no lock. The handlers are cut into
    segments at the calls where another thread may run; uninterrupted, the segments are the handlers.
  \<^item> \<open>Concurrent_Parts\<close>: threads on different buffers. The interpretation \<open>dictionaries\<close> of
    \<open>owned_state\<close> and the promise of every handler: no interleaving makes a difference to them.
  \<^item> \<open>Concurrent_Races\<close>: threads on the same buffer. Overlapping stagings lose a count, overlapping
    releases free twice, and a release during a propagation frees what is being sent.
  \<^item> \<open>Cluster_Transfer\<close>: the drivers of several nodes. What the source receives after a handshake
    is what the handler of the target node sends; a propagation succeeds exactly when every target
    tracks its buffer, and in a broadcast all ranks meet in one communicator.
  \<^item> \<open>Cluster_Memory\<close>: the memory of several drivers. NCCL is a parameter with the documented
    movement of bytes as hypothesis (\<open>nccl_moves\<close>); after a broadcast every target holds the
    bytes of the source, after a scatter each target its shard.
  \<^item> \<open>Driver_Properties\<close>: the properties of the driver, and where the code departs from the
    contract.

  \<^bold>\<open>Calls.\<close> \<open>Grpc_Services\<close> has the stubs, servicers and registration functions of
  \<open>wpi_pb2_grpc.py\<close>, the driver's servicers and the registration in \<open>serve\<close>; \<open>Grpc_Properties\<close>
  shows that the methods of the client library run the driver's handlers and with which messages.
  \<open>Grpc_Copies\<close> has the two copies of the generated module that the clients import. Locale
  \<open>generated_service\<close> states what a generated service needs so that a stub of one copy reaches a
  servicer of another; its interpretations \<open>node\<close>, \<open>identity\<close> and \<open>controller\<close> are the three
  services. The grpc package is a parameter with the routing of a call by its path as hypothesis.

  \<^bold>\<open>Consumers.\<close>

  \<^item> \<open>WPI_Client\<close>, \<open>Verl_Client\<close>: every method of \<open>WPIClient\<close> in \<open>wpi_client/client.py\<close> and in
    the copy of the verl plugin. \<open>Client_Properties\<close> sets them against the driver: names and
    paths, the device request, the imported mapping, what staging through the client guarantees.
  \<^item> \<open>Checkpoint_Engine\<close>: \<open>WPICheckpointEngine\<close> of \<open>wpi_verl_plugin/engine.py\<close>. Locale
    \<open>flat_store\<close> states what packing needs of a flat buffer, and is interpreted on the bytes of
    device memory (\<open>vram\<close>). \<open>Engine_Properties\<close>: what the trainer sends is what a worker
    yields, the topology, overflow, preparing and shutting down.
  \<^item> \<open>Consumer_Pytorch\<close>, \<open>Consumer_Properties\<close>: the script \<open>consumer_pytorch.py\<close>.
  \<^item> \<open>Vllm_Trainers\<close>, \<open>Vllm_Properties\<close>: \<open>trainer_http.py\<close>, \<open>trainer_ray.py\<close> and
    \<open>bench_weight_update.py\<close>: order of the calls, failures, packing. \<open>Bench_Summary\<close>:
    the benchmark's report and its statistics.
  \<^item> \<open>Nccl_Benchmarks\<close>: \<open>bench_src.py\<close>, \<open>bench_tgt.py\<close> and \<open>benchmark_nccl_20gb.py\<close>: the
    identifier file, the steps of the scripts and the NCCL operations of the two sides.
  \<^item> \<open>Driver_Scripts\<close>: \<open>consumer.py\<close> and \<open>verify_driver.py\<close>.
  \<^item> \<open>Ctypes_Layout\<close>: the ctypes structures that four files declare, their sizes and offsets.

  \<^bold>\<open>The whole path.\<close> \<open>End_To_End\<close> composes the checkpoint engine of a trainer, the calls, the
  drivers of two nodes, NCCL and the engine of a worker: the tensors that the trainer sends on one
  node are the tensors that the worker yields on the other.

  \<open>Sim_Cuda\<close> and \<open>Sim_Driver\<close> model no code: they are the concrete device and environment at
  which the properties that have hypotheses are evaluated.

  \<^bold>\<open>Loops and bounds.\<close> A loop over a list is structural recursion. The client's polling loops
  recurse on the number of rounds the code gives them: 60 for a descriptor socket, the seconds of
  the timeout for a notify socket, 30 attempts to connect. The loops that may
  run for ever are \<open>partial_function (option)\<close>: the one that completes the identifier
  (\<open>read_id\<close>), shown to end exactly when the stream holds 128 bytes, the one that waits for a
  socket file (\<open>poll_socket\<close>), and \<open>poll_until\<close> in the prelude, on which the waits for files in
  \<open>bench_tgt.py\<close> and \<open>consumer.py\<close> rest, shown to end exactly when the awaited file appears. The accept
  loops take the list of connections that arrive.

  \<^bold>\<open>Parameters.\<close> libcuda, cupy and NCCL, safetensors, torch, ray, ZeroMQ, requests, vLLM, grpc, the
  file system and the peers of a socket are arguments of the definitions, mostly gathered in
  records of functions. Every step of the driver has its own, so that answers may
  change from call to call.

  \<^bold>\<open>Not modelled.\<close> Logging, argument parsing and the rounding of double precision in printed figures;
  the serialized descriptors \<open>wpi_pb2.py\<close> (the messages are records); the registration of the engine
  with verl, which is an import and a decorator of that package; threads that interleave inside a
  segment; the tests; the operator and the resource plugin in Go, the manifests and the shell
  scripts. What remains of the Python files are imports, comments and documentation.
\<close>

end
